(* ===== verification/Prelude.thy ===== *)
theory Prelude
  imports Complex_Main "HOL-Library.Multiset" "HOL-Library.AList" "HOL-Library.Char_ord" "HOL-Library.List_Lexorder"
begin

text \<open>
  The Python substrate every component theory stands on: exceptions as values of a sum type,
  the \<open>_require\<close> guard and the statement sequence (\<open>chk\<close>, \<open>bnd\<close>), the loop that stops at the
  first exception (\<open>each\<close>, \<open>foldm\<close>), and the dynamically typed values that the program reads
  from and writes to JSON (\<open>val\<close>), with the built-in operations the sources apply to them:
  \<open>isinstance\<close>, truth value, subscript, \<open>.get\<close>, \<open>==\<close>, \<open>set\<close>, \<open>sorted\<close>, \<open>str\<close>.

  A Python \<open>str\<close> is the list of the bytes of its UTF-8 encoding, so comparison by code point is
  the lexicographic order on bytes and \<open>len\<close> counts the bytes that start a code point
  (\<open>py_len_str\<close>). A \<open>dict\<close> is the association list of its items in insertion order. A finite
  \<open>float\<close> is the rational number it denotes. Exception messages are the sources' messages in
  English.
\<close>

named_theorems py_simps \<open>evaluation of the Python operations\<close>
named_theorems exn_elims \<open>inversion of successful runs\<close>

section \<open>Exceptions\<close>

datatype exn_class =
    KeyError | TypeError | AttributeError | IndexError | ZeroDivisionError | OverflowError
  | StopIteration | OSError | AssertionError | ValueError | JSONDecodeError
  | RelationshipError | EvidenceIdentityError | EvidenceError | LifecycleError
  | BindingError | FrontierError | ProductExecutionError | MaterialError | CommunityExecutionError
  | HostError | AdapterError | MCPError | IndexKeyError

text \<open>\<open>IndexKeyError\<close> is the \<open>KeyError\<close> of an integer key, whose text is the number; the text of a
  \<open>KeyError\<close> in the model is the missing key, which \<open>str\<close> shows quoted.\<close>

datatype exn = Exn (exn_cls: exn_class) (exn_msg: string)

text \<open>\<open>issubclass(c, ValueError)\<close>: the error classes of the suite all derive from it, and so does
  \<open>json.JSONDecodeError\<close>.\<close>

fun is_value_error :: "exn \<Rightarrow> bool" where
  "is_value_error (Exn c _) =
     (c \<in> {ValueError, JSONDecodeError, RelationshipError, EvidenceIdentityError, EvidenceError,
           LifecycleError, BindingError, FrontierError, ProductExecutionError, MaterialError,
           CommunityExecutionError})"

type_synonym 'a res = "exn + 'a"

definition bnd :: "'e + 'a \<Rightarrow> ('a \<Rightarrow> 'e + 'b) \<Rightarrow> 'e + 'b" where
  "bnd m f = (case m of Inl e \<Rightarrow> Inl e | Inr x \<Rightarrow> f x)"

text \<open>\<open>_require(condition, message)\<close> followed by the rest of the body.\<close>

definition chk :: "bool \<Rightarrow> 'e \<Rightarrow> 'e + 'a \<Rightarrow> 'e + 'a" where
  "chk c e k = (if c then k else Inl e)"

text \<open>\<open>try: m except C as error: raise C'(str(error))\<close> for a predicate on the exceptions caught.\<close>

definition catch :: "'e + 'a \<Rightarrow> ('e \<Rightarrow> bool) \<Rightarrow> ('e \<Rightarrow> 'e + 'a) \<Rightarrow> 'e + 'a" where
  "catch m p h = (case m of Inl e \<Rightarrow> if p e then h e else Inl e | Inr x \<Rightarrow> Inr x)"

lemma bnd_simps [simp]: "bnd (Inl e) f = Inl e" "bnd (Inr x) f = f x"
  by (simp_all add: bnd_def)

lemma bnd_assoc: "bnd (bnd m f) g = bnd m (\<lambda>x. bnd (f x) g)"
  by (cases m) simp_all

lemma bnd_Inr_right [simp]: "bnd m Inr = m"
  by (cases m) simp_all

lemma bnd_cong [fundef_cong]:
  "m = m' \<Longrightarrow> (\<And>x. m' = Inr x \<Longrightarrow> f x = g x) \<Longrightarrow> bnd m f = bnd m' g"
  by (cases m') simp_all

lemma bnd_eq_Inr [exn_elims]: "bnd m f = Inr y \<longleftrightarrow> (\<exists>x. m = Inr x \<and> f x = Inr y)"
  by (cases m) simp_all

lemma bnd_eq_Inl: "bnd m f = Inl e \<longleftrightarrow> m = Inl e \<or> (\<exists>x. m = Inr x \<and> f x = Inl e)"
  by (cases m) simp_all

lemma chk_simps [simp]: "chk True e k = k" "chk False e k = Inl e"
  by (simp_all add: chk_def)

lemma chk_cong [fundef_cong]:
  "c = c' \<Longrightarrow> e = e' \<Longrightarrow> (c' \<Longrightarrow> k = k') \<Longrightarrow> chk c e k = chk c' e' k'"
  by (simp add: chk_def)

lemma chk_eq_Inr [exn_elims]: "chk c e k = Inr y \<longleftrightarrow> c \<and> k = Inr y"
  by (simp add: chk_def)

lemma chk_eq_Inl: "chk c e k = Inl x \<longleftrightarrow> (\<not> c \<and> x = e) \<or> (c \<and> k = Inl x)"
  by (auto simp: chk_def)

lemma bnd_chk [simp]: "bnd (chk c e k) f = chk c e (bnd k f)"
  by (simp add: chk_def)

lemma catch_simps [simp]: "catch (Inr x) p h = Inr x"
  "catch (Inl e) p h = (if p e then h e else Inl e)"
  by (simp_all add: catch_def)

lemma catch_eq_Inr [exn_elims]:
  "catch m p h = Inr y \<longleftrightarrow> m = Inr y \<or> (\<exists>e. m = Inl e \<and> p e \<and> h e = Inr y)"
  by (cases m) auto

text \<open>\<open>except C as error: raise D(str(error)) from error\<close>.\<close>

definition reraise :: "exn_class \<Rightarrow> exn_class \<Rightarrow> 'a res \<Rightarrow> 'a res" where
  "reraise c d m = catch m (\<lambda>e. exn_cls e = c) (\<lambda>e. Inl (Exn d (exn_msg e)))"

lemma reraise_eq_Inr [exn_elims]: "reraise c d m = Inr y \<longleftrightarrow> m = Inr y"
  by (cases m) (simp_all add: reraise_def)

lemma reraise_Inr [simp]: "reraise c d (Inr y) = Inr y"
  by (simp add: reraise_def)

subsection \<open>Loops that stop at the first exception\<close>

fun each :: "('a \<Rightarrow> 'e + unit) \<Rightarrow> 'a list \<Rightarrow> 'e + unit" where
  "each f [] = Inr ()"
| "each f (x # xs) = bnd (f x) (\<lambda>_. each f xs)"

fun mapm :: "('a \<Rightarrow> 'e + 'b) \<Rightarrow> 'a list \<Rightarrow> 'e + 'b list" where
  "mapm f [] = Inr []"
| "mapm f (x # xs) = bnd (f x) (\<lambda>y. bnd (mapm f xs) (\<lambda>ys. Inr (y # ys)))"

fun foldm :: "('s \<Rightarrow> 'a \<Rightarrow> 'e + 's) \<Rightarrow> 's \<Rightarrow> 'a list \<Rightarrow> 'e + 's" where
  "foldm f s [] = Inr s"
| "foldm f s (x # xs) = bnd (f s x) (\<lambda>s'. foldm f s' xs)"

text \<open>\<open>[x for x in xs if p(x)]\<close> and \<open>any(p(x) for x in xs)\<close> for a condition that may raise.\<close>

fun filterm :: "('a \<Rightarrow> 'e + bool) \<Rightarrow> 'a list \<Rightarrow> 'e + 'a list" where
  "filterm p [] = Inr []"
| "filterm p (x # xs) = bnd (p x) (\<lambda>b. bnd (filterm p xs) (\<lambda>ys. Inr (if b then x # ys else ys)))"

fun anym :: "('a \<Rightarrow> 'e + bool) \<Rightarrow> 'a list \<Rightarrow> 'e + bool" where
  "anym p [] = Inr False"
| "anym p (x # xs) = bnd (p x) (\<lambda>b. if b then Inr True else anym p xs)"

lemma filterm_eq_Inr [exn_elims]:
  "filterm p xs = Inr ys \<longleftrightarrow> (\<forall>x \<in> set xs. \<exists>b. p x = Inr b) \<and> ys = filter (\<lambda>x. p x = Inr True) xs"
proof (induction xs arbitrary: ys)
  case (Cons x xs)
  show ?case
  proof (cases "p x")
    case (Inr b)
    then show ?thesis using Cons.IH by (cases b) (simp_all add: bnd_eq_Inr, blast+)
  qed simp
qed auto

lemma anym_Inr_True: "anym p xs = Inr True \<Longrightarrow> \<exists>x \<in> set xs. p x = Inr True"
  by (induction xs) (auto simp: bnd_eq_Inr split: if_splits)

lemma anym_Inr_False: "anym p xs = Inr False \<longleftrightarrow> (\<forall>x \<in> set xs. p x = Inr False)"
  by (induction xs) (auto simp: bnd_eq_Inr split: if_splits)

lemma each_eq_Inr [exn_elims]: "each f xs = Inr u \<longleftrightarrow> (\<forall>x \<in> set xs. f x = Inr ())"
  by (induction xs) (auto simp: bnd_eq_Inr)

lemma each_cong [fundef_cong]:
  "xs = ys \<Longrightarrow> (\<And>x. x \<in> set ys \<Longrightarrow> f x = g x) \<Longrightarrow> each f xs = each g ys"
  by (induction xs arbitrary: ys) auto

lemma mapm_eq_Inr: "mapm f xs = Inr ys \<longleftrightarrow> list_all2 (\<lambda>x y. f x = Inr y) xs ys"
  by (induction xs arbitrary: ys) (auto simp: bnd_eq_Inr list_all2_Cons1)

lemma mapm_member: "mapm f xs = Inr ys \<Longrightarrow> y \<in> set ys \<Longrightarrow> \<exists>x \<in> set xs. f x = Inr y"
  by (fastforce simp: mapm_eq_Inr list_all2_conv_all_nth in_set_conv_nth)

lemma mapm_Inr [simp]: "mapm (\<lambda>x. Inr (f x)) xs = Inr (map f xs)"
  by (induction xs) auto

lemma mapm_cong [fundef_cong]:
  "xs = ys \<Longrightarrow> (\<And>x. x \<in> set ys \<Longrightarrow> f x = g x) \<Longrightarrow> mapm f xs = mapm g ys"
  by (induction xs arbitrary: ys) auto

lemma foldm_append: "foldm f s (xs @ ys) = bnd (foldm f s xs) (\<lambda>t. foldm f t ys)"
  by (induction xs arbitrary: s) (simp_all add: bnd_assoc)

lemma foldm_invariant:
  assumes "foldm f s xs = Inr t" and "P s"
    and "\<And>s x s'. x \<in> set xs \<Longrightarrow> f s x = Inr s' \<Longrightarrow> P s \<Longrightarrow> P s'"
  shows "P t"
  using assms
proof (induction xs arbitrary: s)
  case Nil
  then show ?case by simp
next
  case (Cons x xs)
  from Cons.prems(1) obtain s' where s': "f s x = Inr s'" "foldm f s' xs = Inr t"
    by (auto simp: bnd_eq_Inr)
  show ?case
  proof (rule Cons.IH [OF s'(2)])
    show "P s'" using Cons.prems(3) [OF _ s'(1)] Cons.prems(2) by simp
    show "\<And>s x s'. x \<in> set xs \<Longrightarrow> f s x = Inr s' \<Longrightarrow> P s \<Longrightarrow> P s'"
      using Cons.prems(3) by (meson list.set_intros(2))
  qed
qed

section \<open>Values\<close>

datatype pyfloat = Fin rat | PInf | NInf | NaN

datatype val =
    VNone
  | VBool bool
  | VInt int
  | VFloat pyfloat
  | VStr string
  | VList "val list"
  | VDict "(string \<times> val) list"

type_synonym dict = "(string \<times> val) list"

lemma val_size_list [termination_simp]: "x \<in> set xs \<Longrightarrow> size x < Suc (size_list size xs)"
  by (induction xs) auto

lemma val_size_dict [termination_simp]:
  "(k, v) \<in> set d \<Longrightarrow> size v < Suc (size_list (size_prod (\<lambda>_. 0) size) d)"
  by (induction d) auto

subsection \<open>\<open>isinstance\<close> and truth value\<close>

fun is_dict :: "val \<Rightarrow> bool" where
  "is_dict (VDict _) = True" | "is_dict _ = False"

fun is_list :: "val \<Rightarrow> bool" where
  "is_list (VList _) = True" | "is_list _ = False"

fun is_str :: "val \<Rightarrow> bool" where
  "is_str (VStr _) = True" | "is_str _ = False"

fun is_bool :: "val \<Rightarrow> bool" where
  "is_bool (VBool _) = True" | "is_bool _ = False"

text \<open>\<open>isinstance(v, int)\<close> holds of \<open>bool\<close> too.\<close>

fun is_int :: "val \<Rightarrow> bool" where
  "is_int (VInt _) = True" | "is_int (VBool _) = True" | "is_int _ = False"

text \<open>\<open>isinstance(v, (int, float))\<close>.\<close>

fun is_num :: "val \<Rightarrow> bool" where
  "is_num (VInt _) = True" | "is_num (VBool _) = True" | "is_num (VFloat _) = True" | "is_num _ = False"

fun truthy :: "val \<Rightarrow> bool" where
  "truthy VNone = False"
| "truthy (VBool b) = b"
| "truthy (VInt i) = (i \<noteq> 0)"
| "truthy (VFloat x) = (x \<noteq> Fin 0)"
| "truthy (VStr s) = (s \<noteq> [])"
| "truthy (VList xs) = (xs \<noteq> [])"
| "truthy (VDict d) = (d \<noteq> [])"

text \<open>The text of a value known to be a \<open>str\<close>.\<close>

fun str_val :: "val \<Rightarrow> string" where
  "str_val (VStr s) = s" | "str_val _ = []"

lemma is_dict_iff: "is_dict v \<longleftrightarrow> (\<exists>d. v = VDict d)"
  by (cases v) auto

lemma is_list_iff: "is_list v \<longleftrightarrow> (\<exists>xs. v = VList xs)"
  by (cases v) auto

lemma is_str_iff: "is_str v \<longleftrightarrow> (\<exists>s. v = VStr s)"
  by (cases v) auto

lemma is_bool_iff: "is_bool v \<longleftrightarrow> (\<exists>b. v = VBool b)"
  by (cases v) auto

lemmas isinstance_iff = is_dict_iff is_list_iff is_str_iff is_bool_iff

subsection \<open>Numbers\<close>

text \<open>\<open>float(v)\<close> of a number, as the number it denotes; \<open>bool\<close> counts as 0 or 1.\<close>

fun num_of :: "val \<Rightarrow> pyfloat option" where
  "num_of (VBool b) = Some (Fin (if b then 1 else 0))"
| "num_of (VInt i) = Some (Fin (of_int i))"
| "num_of (VFloat x) = Some x"
| "num_of _ = None"

fun fl_eq :: "pyfloat \<Rightarrow> pyfloat \<Rightarrow> bool" where
  "fl_eq (Fin x) (Fin y) = (x = y)"
| "fl_eq PInf PInf = True"
| "fl_eq NInf NInf = True"
| "fl_eq _ _ = False"

fun fl_less :: "pyfloat \<Rightarrow> pyfloat \<Rightarrow> bool" where
  "fl_less (Fin x) (Fin y) = (x < y)"
| "fl_less (Fin x) PInf = True"
| "fl_less NInf (Fin y) = True"
| "fl_less NInf PInf = True"
| "fl_less _ _ = False"

definition fl_le :: "pyfloat \<Rightarrow> pyfloat \<Rightarrow> bool" where
  "fl_le x y = (fl_less x y \<or> fl_eq x y)"

lemma fl_le_Fin [simp]: "fl_le (Fin x) (Fin y) = (x \<le> y)"
  by (auto simp: fl_le_def)

lemma num_of_is_num: "(\<exists>x. num_of v = Some x) \<longleftrightarrow> is_num v"
  by (cases v) auto

subsection \<open>Strings\<close>

text \<open>\<open>len(s)\<close>: the bytes of the UTF-8 encoding that are not continuation bytes.\<close>

definition utf8_cont :: "char \<Rightarrow> bool" where
  "utf8_cont c = (128 \<le> (of_char c :: nat) \<and> (of_char c :: nat) < 192)"

definition py_len_str :: "string \<Rightarrow> nat" where
  "py_len_str s = length (filter (\<lambda>c. \<not> utf8_cont c) s)"

text \<open>Iteration over a string: its code points, each as a string.\<close>

declare length_dropWhile_le [THEN le_imp_less_Suc, termination_simp]

fun code_points :: "string \<Rightarrow> string list" where
  "code_points [] = []"
| "code_points (c # cs) =
     (let rest = dropWhile utf8_cont cs in (c # takeWhile utf8_cont cs) # code_points rest)"

text \<open>\<open>str.isspace\<close> of a code point: the ASCII and the Unicode white space, by their UTF-8 bytes.\<close>

definition space_points :: "nat list list" where
  "space_points =
     map (\<lambda>n. [n]) [9, 10, 11, 12, 13, 28, 29, 30, 31, 32] @ [[194, 133], [194, 160], [225, 154, 128]] @
     map (\<lambda>n. [226, 128, n]) [128, 129, 130, 131, 132, 133, 134, 135, 136, 137, 138, 168, 169, 175] @
     [[226, 129, 159], [227, 128, 128]]"

definition is_space :: "string \<Rightarrow> bool" where
  "is_space cp = (map of_char cp \<in> set space_points)"

definition py_strip :: "string \<Rightarrow> string" where
  "py_strip s = concat (rev (dropWhile is_space (rev (dropWhile is_space (code_points s)))))"

text \<open>\<open>s.lower()\<close> on the ASCII letters.\<close>

definition py_lower :: "string \<Rightarrow> string" where
  "py_lower s = map (\<lambda>c. let n = of_char c :: nat in if 65 \<le> n \<and> n \<le> 90 then char_of (n + 32) else c) s"

definition join :: "string \<Rightarrow> string list \<Rightarrow> string" where
  "join sep xs = (case xs of [] \<Rightarrow> [] | y # ys \<Rightarrow> y @ concat (map (\<lambda>z. sep @ z) ys))"

lemma join_simps [simp]: "join sep [] = []" "join sep [x] = x"
  "join sep (x # y # xs) = x @ sep @ join sep (y # xs)"
  by (simp_all add: join_def)

fun dec_nat :: "nat \<Rightarrow> string" where
  "dec_nat n = (if n < 10 then [char_of (48 + n)] else dec_nat (n div 10) @ [char_of (48 + n mod 10)])"

declare dec_nat.simps [simp del]

definition dec_int :: "int \<Rightarrow> string" where
  "dec_int i = (if i < 0 then ''-'' @ dec_nat (nat (- i)) else dec_nat (nat i))"

definition hex_digits :: string where
  "hex_digits = ''0123456789abcdef''"

subsection \<open>Dictionaries\<close>

text \<open>\<open>v[k]\<close>, \<open>v.get(k)\<close> and \<open>v.get(k, d)\<close> with the exceptions they raise on a value that is no
  \<open>dict\<close>; \<open>fld\<close> is \<open>v.get(k)\<close> where \<open>v\<close> is known to be a \<open>dict\<close>.\<close>

fun type_name :: "val \<Rightarrow> string" where
  "type_name VNone = ''NoneType''"
| "type_name (VBool _) = ''bool''"
| "type_name (VInt _) = ''int''"
| "type_name (VFloat _) = ''float''"
| "type_name (VStr _) = ''str''"
| "type_name (VList _) = ''list''"
| "type_name (VDict _) = ''dict''"

definition quoted :: "string \<Rightarrow> string" where
  "quoted s = [char_of (39 :: nat)] @ s @ [char_of (39 :: nat)]"

fun no_subscript :: "val \<Rightarrow> exn" where
  "no_subscript (VList _) = Exn TypeError ''list indices must be integers or slices, not str''"
| "no_subscript (VStr _) = Exn TypeError (''string indices must be integers, not '' @ quoted ''str'')"
| "no_subscript v = Exn TypeError (quoted (type_name v) @ '' object is not subscriptable'')"

definition no_attribute :: "val \<Rightarrow> string \<Rightarrow> exn" where
  "no_attribute v a = Exn AttributeError (quoted (type_name v) @ '' object has no attribute '' @ quoted a)"

fun vsub :: "val \<Rightarrow> string \<Rightarrow> val res" where
  "vsub (VDict d) k = (case map_of d k of Some x \<Rightarrow> Inr x | None \<Rightarrow> Inl (Exn KeyError k))"
| "vsub v k = Inl (no_subscript v)"

fun vgetd :: "val \<Rightarrow> string \<Rightarrow> val \<Rightarrow> val res" where
  "vgetd (VDict d) k x = Inr (case map_of d k of Some y \<Rightarrow> y | None \<Rightarrow> x)"
| "vgetd v k x = Inl (no_attribute v ''get'')"

abbreviation vget :: "val \<Rightarrow> string \<Rightarrow> val res" where
  "vget v k \<equiv> vgetd v k VNone"

fun fldd :: "val \<Rightarrow> string \<Rightarrow> val \<Rightarrow> val" where
  "fldd (VDict d) k x = (case map_of d k of Some y \<Rightarrow> y | None \<Rightarrow> x)"
| "fldd _ k x = x"

abbreviation fld :: "val \<Rightarrow> string \<Rightarrow> val" where
  "fld v k \<equiv> fldd v k VNone"

fun items :: "val \<Rightarrow> dict" where
  "items (VDict d) = d" | "items _ = []"

definition keys :: "val \<Rightarrow> string list" where
  "keys v = map fst (items v)"

definition vvalues :: "val \<Rightarrow> val list" where
  "vvalues v = map snd (items v)"

definition has :: "val \<Rightarrow> string \<Rightarrow> bool" where
  "has v k = (k \<in> set (keys v))"

definition keyset_is :: "val \<Rightarrow> string list \<Rightarrow> bool" where
  "keyset_is v ks = (set (keys v) = set ks)"

text \<open>\<open>d[k] = x\<close>, \<open>del d[k]\<close>, \<open>d.pop(k, None)\<close>, \<open>d.update(e)\<close> and \<open>{**d, **e}\<close> on a \<open>dict\<close>.\<close>

fun vset :: "string \<Rightarrow> val \<Rightarrow> val \<Rightarrow> val" where
  "vset k x (VDict d) = VDict (AList.update k x d)" | "vset k x v = v"

fun vdel :: "string \<Rightarrow> val \<Rightarrow> val" where
  "vdel k (VDict d) = VDict (AList.delete k d)" | "vdel k v = v"

definition dupdate :: "dict \<Rightarrow> dict \<Rightarrow> dict" where
  "dupdate d e = fold (\<lambda>(k, x). AList.update k x) e d"

text \<open>\<open>dict(sorted(d.items()))\<close>.\<close>

definition dsorted :: "dict \<Rightarrow> dict" where
  "dsorted d = sort_key fst d"

declare vsub.simps(1) [simp del] vgetd.simps(1) [simp del] fldd.simps(1) [simp del]

lemma fldd_VDict [simp]: "fldd (VDict []) j x = x"
  "fldd (VDict ((k, v) # d)) j x = (if j = k then v else fldd (VDict d) j x)"
  by (simp_all add: fldd.simps(1))

lemma keys_VDict [simp]: "keys (VDict d) = map fst d"
  by (simp add: keys_def)

lemma vvalues_VDict [simp]: "vvalues (VDict d) = map snd d"
  by (simp add: vvalues_def)

lemma has_VDict [simp]: "has (VDict d) k = (k \<in> fst ` set d)"
  by (simp add: has_def)

lemma has_iff_map_of: "has (VDict d) k \<longleftrightarrow> (\<exists>x. map_of d k = Some x)"
  by (metis has_VDict map_of_eq_None_iff not_None_eq)

lemma has_simps [simp]: "\<not> has VNone k" "\<not> has (VBool b) k" "\<not> has (VInt i) k" "\<not> has (VFloat x) k"
  "\<not> has (VStr s) k" "\<not> has (VList xs) k"
  by (simp_all add: has_def keys_def)

lemma has_is_dict: "has v k \<Longrightarrow> is_dict v"
  by (cases v) auto

lemma fldd_has: "has v k \<Longrightarrow> fldd v k x = fld v k"
  by (cases v) (auto simp: fldd.simps(1) has_iff_map_of simp del: has_VDict split: option.splits)

lemma map_of_in_set: "(k, b) \<in> set d \<Longrightarrow> \<exists>y. map_of d k = Some y"
  by (metis domIff dom_map_of_conv_image_fst fst_conv image_eqI not_None_eq)

lemma vgetd_eq_Inr [exn_elims]: "vgetd v k x = Inr y \<longleftrightarrow> is_dict v \<and> y = fldd v k x"
  by (cases v) (auto simp: vgetd.simps(1) fldd.simps(1))

lemma vgetd_dict [simp]: "is_dict v \<Longrightarrow> vgetd v k x = Inr (fldd v k x)"
  by (cases v) (auto simp: vgetd.simps(1) fldd.simps(1))

lemma vsub_eq_Inr [exn_elims]: "vsub v k = Inr y \<longleftrightarrow> is_dict v \<and> has v k \<and> y = fld v k"
  by (cases v) (auto simp: vsub.simps(1) fldd.simps(1) split: option.splits simp: has_iff_map_of simp del: has_VDict)

lemma vsub_has [simp]: "has v k \<Longrightarrow> vsub v k = Inr (fld v k)"
  by (simp add: vsub_eq_Inr has_is_dict)

lemma vsub_missing: "is_dict v \<Longrightarrow> \<not> has v k \<Longrightarrow> vsub v k = Inl (Exn KeyError k)"
  by (cases v) (auto simp: vsub.simps(1) split: option.splits intro: map_of_eq_None_iff [THEN iffD2])

lemma fld_in_set: "fld v k = x \<Longrightarrow> has v k \<Longrightarrow> (k, x) \<in> set (items v)"
  by (cases v) (auto simp: fldd.simps(1) has_iff_map_of simp del: has_VDict split: option.splits dest: map_of_SomeD)

lemma fld_nonNone_has: "fld v k = x \<Longrightarrow> x \<noteq> VNone \<Longrightarrow> has v k"
  by (cases v) (auto simp: fldd.simps(1) has_iff_map_of simp del: has_VDict split: option.splits if_splits)

lemma fldd_vset_same [simp]: "is_dict v \<Longrightarrow> fldd (vset k x v) k d = x"
  by (cases v) (auto simp: fldd.simps(1) update_conv')

lemma fldd_vset_other [simp]: "k \<noteq> j \<Longrightarrow> fldd (vset k x v) j d = fldd v j d"
  by (cases v) (auto simp: fldd.simps(1) update_conv')

lemma fldd_vdel_same [simp]: "fldd (vdel k v) k d = d"
  by (cases v) (auto simp: fldd.simps(1) delete_conv')

lemma fldd_vdel_other [simp]: "k \<noteq> j \<Longrightarrow> fldd (vdel k v) j d = fldd v j d"
  by (cases v) (auto simp: fldd.simps(1) delete_conv')

lemma is_dict_vset [simp]: "is_dict (vset k x v) = is_dict v"
  by (cases v) auto

lemma is_dict_vdel [simp]: "is_dict (vdel k v) = is_dict v"
  by (cases v) auto

lemma set_keys_vset [simp]: "is_dict v \<Longrightarrow> set (keys (vset k x v)) = insert k (set (keys v))"
  by (cases v) (auto simp: dom_update)

lemma set_keys_vdel [simp]: "set (keys (vdel k v)) = set (keys v) - {k}"
  by (cases v) (auto simp: AList.delete_keys, auto simp: keys_def)

lemma has_vset [simp]: "is_dict v \<Longrightarrow> has (vset k x v) j = (j = k \<or> has v j)"
  by (auto simp: has_def)

lemma has_vdel [simp]: "has (vdel k v) j = (j \<noteq> k \<and> has v j)"
  by (auto simp: has_def)

lemma mset_dsorted: "set (dsorted d) = set d"
  by (simp add: dsorted_def)

subsection \<open>Equality\<close>

text \<open>\<open>==\<close>: numbers compare by value across \<open>bool\<close>, \<open>int\<close> and \<open>float\<close>, a \<open>dict\<close> compares
  without regard to the order of its items.\<close>

fun py_eq :: "val \<Rightarrow> val \<Rightarrow> bool" where
  "py_eq (VList xs) (VList ys) = list_all2 (\<lambda>x y. py_eq x y) xs ys"
| "py_eq (VDict d) (VDict e) =
     (length d = length e \<and>
      list_all (\<lambda>(k, x). case map_of e k of None \<Rightarrow> False | Some y \<Rightarrow> py_eq x y) d)"
| "py_eq (VStr s) (VStr t) = (s = t)"
| "py_eq VNone VNone = True"
| "py_eq v w = (case (num_of v, num_of w) of (Some x, Some y) \<Rightarrow> fl_eq x y | _ \<Rightarrow> False)"

lemma py_eq_VStr [simp]: "py_eq v (VStr s) \<longleftrightarrow> v = VStr s"
  by (cases v) auto

lemma py_eq_VStr_left [simp]: "py_eq (VStr s) v \<longleftrightarrow> v = VStr s"
  by (cases v) auto

lemma py_eq_VNone [simp]: "py_eq v VNone \<longleftrightarrow> v = VNone" "py_eq VNone v \<longleftrightarrow> v = VNone"
  by (cases v, auto)+

lemma py_eq_VDict_right: "py_eq v (VDict e) \<Longrightarrow> is_dict v"
  by (cases v) auto

text \<open>Well-formed values: no key twice in a \<open>dict\<close>, no \<open>NaN\<close>.\<close>

fun wf_val :: "val \<Rightarrow> bool" where
  "wf_val (VList xs) = list_all wf_val xs"
| "wf_val (VDict d) = (distinct (map fst d) \<and> list_all (\<lambda>(k, x). wf_val x) d)"
| "wf_val (VFloat x) = (x \<noteq> NaN)"
| "wf_val _ = True"

lemma py_eq_refl: "wf_val v \<Longrightarrow> py_eq v v"
proof (induction v rule: wf_val.induct)
  case (1 xs)
  then show ?case by (auto simp: list_all_iff list_all2_conv_all_nth)
next
  case (2 d)
  have "py_eq x x" if "(k, x) \<in> set d" for k x
    using 2 that by (auto simp: list_all_iff)
  moreover have "map_of d k = Some x" if "(k, x) \<in> set d" for k x
    using that 2(2) by simp
  ultimately show ?case by (auto simp: list_all_iff)
next
  case (3 x)
  then show ?case by (cases x) auto
qed auto

lemma py_eq_VDictD:
  assumes "py_eq (VDict d) (VDict e)"
  shows "length d = length e"
    and "\<And>k x. (k, x) \<in> set d \<Longrightarrow> \<exists>y. map_of e k = Some y \<and> py_eq x y"
  using assms by (auto simp: list_all_iff split: option.splits)

lemma py_eq_keys:
  assumes "py_eq v (VDict e)" and "wf_val v"
  shows "set (keys v) = fst ` set e" and "distinct (map fst e)"
proof -
  from assms(1) obtain d where v: "v = VDict d" using py_eq_VDict_right is_dict_iff by blast
  from assms(2) v have dd: "distinct (map fst d)" by simp
  have sub: "set (map fst d) \<subseteq> set (map fst e)"
    using py_eq_VDictD(2) [OF assms(1) [unfolded v]] by (force dest: map_of_SomeD)
  have len: "length (map fst d) = length (map fst e)"
    using py_eq_VDictD(1) [OF assms(1) [unfolded v]] by simp
  have "card (set (map fst d)) = length (map fst e)"
    using dd len distinct_card by fastforce
  then have eq: "set (map fst d) = set (map fst e)" and de: "distinct (map fst e)"
    using sub by (metis card_length card_seteq finite_set, metis sub card_distinct card_length
        card_mono finite_set le_antisym)
  show "set (keys v) = fst ` set e" using eq v by simp
  show "distinct (map fst e)" by (rule de)
qed

text \<open>The fields of a value equal to a \<open>dict\<close> are equal to its fields.\<close>

lemma py_eq_fldd:
  assumes "py_eq v (VDict e)" and "wf_val v" and "k \<in> fst ` set e"
  shows "py_eq (fldd v k x) (fldd (VDict e) k x)"
proof -
  from assms(1) obtain d where v: "v = VDict d" using py_eq_VDict_right is_dict_iff by blast
  have "k \<in> fst ` set d" using py_eq_keys(1) [OF assms(1,2)] assms(3) v by simp
  then obtain y where y: "(k, y) \<in> set d" by force
  with assms(2) v have "map_of d k = Some y" by simp
  moreover obtain z where "map_of e k = Some z" "py_eq y z"
    using py_eq_VDictD(2) [OF assms(1) [unfolded v] y] by blast
  ultimately show ?thesis by (simp add: v fldd.simps(1))
qed

lemma wf_val_fldd: "wf_val v \<Longrightarrow> wf_val x \<Longrightarrow> wf_val (fldd v k x)"
  by (cases v) (auto simp: fldd.simps(1) split: option.splits simp: list_all_iff dest!: map_of_SomeD)

lemma wf_val_vset: "wf_val v \<Longrightarrow> wf_val x \<Longrightarrow> wf_val (vset k x v)"
proof (cases v)
  case (VDict d)
  assume w: "wf_val v" "wf_val x"
  have "wf_val y" if "(j, y) \<in> set (AList.update k x d)" for j y
  proof -
    have "map_of (AList.update k x d) j = Some y"
      using that w VDict by (simp add: distinct_update)
    with w VDict show ?thesis
      by (auto simp: update_conv' list_all_iff split: if_splits dest!: map_of_SomeD)
  qed
  with w VDict show ?thesis by (auto simp: list_all_iff distinct_update)
qed auto

lemma wf_val_vdel: "wf_val v \<Longrightarrow> wf_val (vdel k v)"
  by (cases v) (auto simp: list_all_iff AList.delete_eq distinct_map_filter)

subsection \<open>Sets of values\<close>

fun hashable :: "val \<Rightarrow> bool" where
  "hashable (VList _) = False" | "hashable (VDict _) = False" | "hashable _ = True"

lemma is_str_hashable [simp]: "is_str v \<Longrightarrow> hashable v"
  by (cases v) auto

definition vmem :: "val \<Rightarrow> val list \<Rightarrow> bool" where
  "vmem x xs = list_ex (py_eq x) xs"

fun dedup :: "val list \<Rightarrow> val list" where
  "dedup [] = []"
| "dedup (x # xs) = (let ys = dedup xs in if vmem x ys then ys else x # ys)"

text \<open>\<open>iter(v)\<close> and \<open>set(v)\<close>.\<close>

fun py_iter :: "val \<Rightarrow> val list res" where
  "py_iter (VList xs) = Inr xs"
| "py_iter (VDict d) = Inr (map (\<lambda>(k, _). VStr k) d)"
| "py_iter (VStr s) = Inr (map VStr (code_points s))"
| "py_iter v = Inl (Exn TypeError (quoted (type_name v) @ '' object is not iterable''))"

definition py_set :: "val \<Rightarrow> val list res" where
  "py_set v = bnd (py_iter v) (\<lambda>xs.
     chk (list_all hashable xs) (Exn TypeError ''unhashable type'') (Inr (dedup xs)))"

definition set_le :: "val list \<Rightarrow> val list \<Rightarrow> bool" where
  "set_le xs ys = list_all (\<lambda>x. vmem x ys) xs"

definition set_eq :: "val list \<Rightarrow> val list \<Rightarrow> bool" where
  "set_eq xs ys = (set_le xs ys \<and> set_le ys xs)"

fun py_len :: "val \<Rightarrow> nat res" where
  "py_len (VList xs) = Inr (length xs)"
| "py_len (VDict d) = Inr (length d)"
| "py_len (VStr s) = Inr (py_len_str s)"
| "py_len v = Inl (Exn TypeError (''object of type '' @ quoted (type_name v) @ '' has no len()''))"

text \<open>Dictionaries that are keyed by values: \<open>d[k] = v\<close> and \<open>d[k]\<close> compare the keys with \<open>==\<close>.\<close>

type_synonym vdict = "(val \<times> val) list"

fun vd_put :: "val \<Rightarrow> val \<Rightarrow> vdict \<Rightarrow> vdict" where
  "vd_put k v [] = [(k, v)]"
| "vd_put k v ((j, w) # d) = (if py_eq j k then (j, v) # d else (j, w) # vd_put k v d)"

definition vd_get :: "val \<Rightarrow> vdict \<Rightarrow> val option" where
  "vd_get k d = (case find (\<lambda>(j, _). py_eq j k) d of None \<Rightarrow> None | Some (_, v) \<Rightarrow> Some v)"

definition hash_key :: "val \<Rightarrow> val res" where
  "hash_key v = chk (hashable v) (Exn TypeError (''unhashable type: '' @ quoted (type_name v))) (Inr v)"

abbreviation strs :: "string list \<Rightarrow> val list" where
  "strs ss \<equiv> map VStr ss"

lemma vmem_strs [simp]: "vmem (VStr s) (strs ss) \<longleftrightarrow> s \<in> set ss"
  by (auto simp: vmem_def list_ex_iff)

lemma vmem_strs_iff: "vmem v (strs ss) \<longleftrightarrow> (\<exists>s \<in> set ss. v = VStr s)"
  by (auto simp: vmem_def list_ex_iff)

lemma set_le_strs [simp]: "set_le (strs xs) (strs ys) \<longleftrightarrow> set xs \<subseteq> set ys"
  by (auto simp: set_le_def list_all_iff)

lemma set_eq_strs [simp]: "set_eq (strs xs) (strs ys) \<longleftrightarrow> set xs = set ys"
  by (auto simp: set_eq_def)

lemma dedup_strs: "\<exists>ys. dedup (strs xs) = strs ys \<and> set ys = set xs \<and> distinct ys \<and> length ys \<le> length xs"
proof (induction xs)
  case (Cons x xs)
  then obtain ys where ys: "dedup (strs xs) = strs ys" "set ys = set xs" "distinct ys" "length ys \<le> length xs"
    by blast
  show ?case
  proof (cases "x \<in> set ys")
    case True
    with ys show ?thesis by (intro exI [of _ ys]) (auto simp: Let_def)
  next
    case False
    with ys show ?thesis by (intro exI [of _ "x # ys"]) (auto simp: Let_def)
  qed
qed simp

lemma length_dedup_strs: "length (dedup (strs xs)) = card (set xs)"
proof -
  obtain ys where "dedup (strs xs) = strs ys" "set ys = set xs" "distinct ys"
    using dedup_strs [of xs] by blast
  then show ?thesis using distinct_card [of ys] by simp
qed

lemma set_eq_dedup_strs [simp]: "set_eq (dedup (strs xs)) (strs ys) \<longleftrightarrow> set xs = set ys"
  using dedup_strs [of xs] by (metis set_eq_strs)

lemma set_le_dedup_strs [simp]: "set_le (dedup (strs xs)) (strs ys) \<longleftrightarrow> set xs \<subseteq> set ys"
  using dedup_strs [of xs] by (metis set_le_strs)

lemma all_str_strs: "list_all is_str xs \<longleftrightarrow> (\<exists>ss. xs = strs ss)"
proof (induction xs)
  case (Cons x xs)
  then show ?case by (cases x) (auto simp: Cons_eq_map_conv)
qed simp

lemma py_set_strs: "py_set (VList (strs xs)) = Inr (dedup (strs xs))"
  by (simp add: py_set_def list_all_iff)

lemma py_set_dict: "py_set (VDict d) = Inr (dedup (strs (map fst d)))"
proof -
  have "map (\<lambda>(k, _). VStr k) d = strs (map fst d)" by auto
  then show ?thesis by (simp add: py_set_def list_all_iff del: map_map)
qed

end
