(* ===== verification/Py_Text.thy ===== *)
theory Py_Text
  imports Prelude
begin

text \<open>
  Text forms of the Python values: rounding to a double and the shortest text of a double
  (\<open>float.__repr__\<close>), \<open>repr\<close> and \<open>str\<close>, \<open>json.dumps\<close> with \<open>ensure_ascii=False\<close> (compact, default
  and indented layout) and \<open>json.loads\<close>.
\<close>

section \<open>Doubles\<close>

fun bitlen_nat :: "nat \<Rightarrow> nat" where
  "bitlen_nat n = (if n = 0 then 0 else Suc (bitlen_nat (n div 2)))"

declare bitlen_nat.simps [simp del]

definition rpow :: "rat \<Rightarrow> int \<Rightarrow> rat" where
  "rpow b e = (if 0 \<le> e then b ^ nat e else inverse (b ^ nat (- e)))"

definition round_half_even :: "rat \<Rightarrow> int" where
  "round_half_even x =
     (let f = \<lfloor>x\<rfloor>; d = x - of_int f
      in if d < 1 / 2 then f else if 1 / 2 < d then f + 1 else if even f then f else f + 1)"

text \<open>The exponent \<open>e\<close> with \<open>2 ^ e \<le> x < 2 ^ (e + 1)\<close>, for \<open>0 < x\<close>.\<close>

definition ilog2 :: "rat \<Rightarrow> int" where
  "ilog2 x =
     (let (n, d) = quotient_of x; e = int (bitlen_nat (nat n)) - int (bitlen_nat (nat d))
      in if rpow 2 e \<le> x then e else e - 1)"

text \<open>Round to nearest, ties to even, with the 53 bits, the subnormals and the overflow of IEEE 754.\<close>

definition round_pos :: "rat \<Rightarrow> pyfloat" where
  "round_pos x =
     (let q = max (ilog2 x - 52) (- 1074); m = round_half_even (x / rpow 2 q); y = of_int m * rpow 2 q
      in if rpow 2 1024 \<le> y then PInf else Fin y)"

fun fl_neg :: "pyfloat \<Rightarrow> pyfloat" where
  "fl_neg (Fin x) = Fin (- x)" | "fl_neg PInf = NInf" | "fl_neg NInf = PInf" | "fl_neg NaN = NaN"

definition round_double :: "rat \<Rightarrow> pyfloat" where
  "round_double x = (if x = 0 then Fin 0 else if x < 0 then fl_neg (round_pos (- x)) else round_pos x)"

subsection \<open>The shortest text that reads back\<close>

fun ilog10_up :: "nat \<Rightarrow> rat \<Rightarrow> int \<Rightarrow> int" where
  "ilog10_up 0 x k = k"
| "ilog10_up (Suc n) x k = (if x < rpow 10 (k - 1) then ilog10_up n x (k - 1)
                            else if rpow 10 k \<le> x then ilog10_up n x (k + 1) else k)"

text \<open>The \<open>k\<close> with \<open>10 ^ (k - 1) \<le> x < 10 ^ k\<close>, started from an estimate that is off by a few.\<close>

definition dec_exp :: "rat \<Rightarrow> int" where
  "dec_exp x = ilog10_up 400 x (ilog2 x * 3 div 10)"

text \<open>Digits and decimal point: the first number of digits for which a decimal neighbour of \<open>x\<close>
  rounds back to \<open>x\<close>; of two such neighbours the nearer one, of two equally near ones the even one.\<close>

definition pick_digits :: "rat \<Rightarrow> int \<Rightarrow> nat \<Rightarrow> int option" where
  "pick_digits x k n =
     (let y = x / rpow 10 (k - int n); lo = \<lfloor>y\<rfloor>;
          ok = (\<lambda>d::int. round_double (of_int d * rpow 10 (k - int n)) = Fin x);
          near = round_half_even y; far = (if near = lo then lo + 1 else lo)
      in if ok near then Some near else if ok far then Some far else None)"

fun shortest :: "rat \<Rightarrow> int \<Rightarrow> nat \<Rightarrow> nat \<Rightarrow> int" where
  "shortest x k n 0 = round_half_even (x / rpow 10 (k - int n))"
| "shortest x k n (Suc m) =
     (case pick_digits x k n of Some d \<Rightarrow> d | None \<Rightarrow> shortest x k (Suc n) m)"

definition strip_zeros :: "string \<Rightarrow> string" where
  "strip_zeros s = (let t = rev (dropWhile (\<lambda>c. c = CHR ''0'') (rev s)) in if t = [] then ''0'' else t)"

definition zeros :: "nat \<Rightarrow> string" where
  "zeros n = replicate n (CHR ''0'')"

text \<open>\<open>repr\<close> switches to an exponent when the decimal point is left of the fourth zero or right of
  the sixteenth digit.\<close>

definition float_layout :: "string \<Rightarrow> int \<Rightarrow> string" where
  "float_layout ds p =
     (if - 4 < p \<and> p \<le> 16 then
        (if p \<le> 0 then ''0.'' @ zeros (nat (- p)) @ ds
         else if int (length ds) \<le> p then ds @ zeros (nat p - length ds) @ ''.0''
         else take (nat p) ds @ ''.'' @ drop (nat p) ds)
      else
        (let e = p - 1; m = nat \<bar>e\<bar>
         in take 1 ds @ (if length ds = 1 then [] else ''.'' @ drop 1 ds) @ ''e'' @
            (if e < 0 then ''-'' else ''+'') @ (if m < 10 then ''0'' else []) @ dec_nat m))"

definition repr_pos :: "rat \<Rightarrow> string" where
  "repr_pos x =
     (let k = dec_exp x; d = shortest x k 1 17; ds = dec_nat (nat d);
          n = length (takeWhile (\<lambda>m. pick_digits x k m = None) [1..<18]) + 1
      in float_layout (strip_zeros ds) (k + int (length ds) - int n))"

fun float_repr :: "pyfloat \<Rightarrow> string" where
  "float_repr PInf = ''inf''"
| "float_repr NInf = ''-inf''"
| "float_repr NaN = ''nan''"
| "float_repr (Fin x) = (if x = 0 then ''0.0'' else if x < 0 then ''-'' @ repr_pos (- x) else repr_pos x)"

section \<open>\<open>repr\<close> and \<open>str\<close>\<close>

definition hex2 :: "nat \<Rightarrow> string" where
  "hex2 n = [hex_digits ! (n div 16 mod 16), hex_digits ! (n mod 16)]"

definition repr_char :: "char \<Rightarrow> char \<Rightarrow> string" where
  "repr_char q c =
     (let n = of_char c :: nat in
      if c = q \<or> n = 92 then [char_of (92 :: nat), c]
      else if n = 9 then [char_of (92 :: nat), CHR ''t'']
      else if n = 10 then [char_of (92 :: nat), CHR ''n'']
      else if n = 13 then [char_of (92 :: nat), CHR ''r'']
      else if n < 32 \<or> n = 127 then [char_of (92 :: nat), CHR ''x''] @ hex2 n
      else [c])"

definition quote1 :: char where "quote1 = char_of (39 :: nat)"
definition quote2 :: char where "quote2 = char_of (34 :: nat)"

definition repr_str :: "string \<Rightarrow> string" where
  "repr_str s =
     (let q = (if quote1 \<in> set s \<and> quote2 \<notin> set s then quote2 else quote1)
      in [q] @ concat (map (repr_char q) s) @ [q])"

fun py_repr :: "val \<Rightarrow> string" where
  "py_repr VNone = ''None''"
| "py_repr (VBool b) = (if b then ''True'' else ''False'')"
| "py_repr (VInt i) = dec_int i"
| "py_repr (VFloat x) = float_repr x"
| "py_repr (VStr s) = repr_str s"
| "py_repr (VList xs) = ''['' @ join '', '' (map py_repr xs) @ '']''"
| "py_repr (VDict d) = ''{'' @ join '', '' (map (\<lambda>(k, x). repr_str k @ '': '' @ py_repr x) d) @ ''}''"

fun py_str :: "val \<Rightarrow> string" where
  "py_str (VStr s) = s"
| "py_str v = py_repr v"

section \<open>\<open>json.dumps\<close>\<close>

definition json_char :: "char \<Rightarrow> string" where
  "json_char c =
     (let n = of_char c :: nat; bs = char_of (92 :: nat) in
      if n = 34 \<or> n = 92 then [bs, c]
      else if n = 8 then [bs, CHR ''b'']
      else if n = 9 then [bs, CHR ''t'']
      else if n = 10 then [bs, CHR ''n'']
      else if n = 12 then [bs, CHR ''f'']
      else if n = 13 then [bs, CHR ''r'']
      else if n < 32 then [bs] @ ''u00'' @ hex2 n
      else [c])"

definition json_str :: "string \<Rightarrow> string" where
  "json_str s = [quote2] @ concat (map json_char s) @ [quote2]"

fun json_float :: "pyfloat \<Rightarrow> string" where
  "json_float PInf = ''Infinity''"
| "json_float NInf = ''-Infinity''"
| "json_float NaN = ''NaN''"
| "json_float x = float_repr x"

fun json_scalar :: "val \<Rightarrow> string" where
  "json_scalar VNone = ''null''"
| "json_scalar (VBool b) = (if b then ''true'' else ''false'')"
| "json_scalar (VInt i) = dec_int i"
| "json_scalar (VFloat x) = json_float x"
| "json_scalar (VStr s) = json_str s"
| "json_scalar _ = []"

text \<open>\<open>json.dumps(v, sort_keys=srt, separators=(si, sk))\<close>.\<close>

definition key_order :: "bool \<Rightarrow> (string \<times> 'a) list \<Rightarrow> (string \<times> 'a) list" where
  "key_order srt d = (if srt then sort_key fst d else d)"

fun dumps :: "string \<Rightarrow> string \<Rightarrow> bool \<Rightarrow> val \<Rightarrow> string" where
  "dumps si sk srt (VList xs) = ''['' @ join si (map (dumps si sk srt) xs) @ '']''"
| "dumps si sk srt (VDict d) =
     ''{'' @ join si (map (\<lambda>(k, t). json_str k @ sk @ t)
                        (key_order srt (map (\<lambda>(k, x). (k, dumps si sk srt x)) d))) @ ''}''"
| "dumps si sk srt v = json_scalar v"

abbreviation canonical :: "val \<Rightarrow> string" where
  "canonical v \<equiv> dumps '','' '':'' True v"

text \<open>\<open>json.dumps(v, ensure_ascii=False)\<close>.\<close>

abbreviation json_dumps :: "val \<Rightarrow> string" where
  "json_dumps v \<equiv> dumps '', '' '': '' False v"

text \<open>\<open>json.dumps(v, ensure_ascii=False, indent=2)\<close>, at nesting depth \<open>n\<close>.\<close>

definition newline :: "nat \<Rightarrow> string" where
  "newline n = char_of (10 :: nat) # replicate (2 * n) (CHR '' '')"

fun dumps_indent :: "nat \<Rightarrow> val \<Rightarrow> string" where
  "dumps_indent n (VList xs) =
     (if xs = [] then ''[]''
      else ''['' @ newline (Suc n) @ join ('','' @ newline (Suc n)) (map (dumps_indent (Suc n)) xs) @
           newline n @ '']'')"
| "dumps_indent n (VDict d) =
     (if d = [] then ''{}''
      else ''{'' @ newline (Suc n) @
           join ('','' @ newline (Suc n)) (map (\<lambda>(k, x). json_str k @ '': '' @ dumps_indent (Suc n) x) d) @
           newline n @ ''}'')"
| "dumps_indent n v = json_scalar v"

section \<open>\<open>json.loads\<close>\<close>

definition is_ws :: "char \<Rightarrow> bool" where
  "is_ws c = ((of_char c :: nat) \<in> {9, 10, 13, 32})"

definition skip_ws :: "string \<Rightarrow> string" where
  "skip_ws s = dropWhile is_ws s"

definition is_digit :: "char \<Rightarrow> bool" where
  "is_digit c = (48 \<le> (of_char c :: nat) \<and> (of_char c :: nat) \<le> 57)"

definition digit_val :: "char \<Rightarrow> nat" where
  "digit_val c = of_char c - 48"

definition nat_of_digits :: "string \<Rightarrow> nat" where
  "nat_of_digits s = foldl (\<lambda>n c. 10 * n + digit_val c) 0 s"

fun hex_val :: "char \<Rightarrow> nat option" where
  "hex_val c = (let n = of_char c :: nat in
     if 48 \<le> n \<and> n \<le> 57 then Some (n - 48)
     else if 97 \<le> n \<and> n \<le> 102 then Some (n - 87)
     else if 65 \<le> n \<and> n \<le> 70 then Some (n - 55) else None)"

definition utf8 :: "nat \<Rightarrow> string" where
  "utf8 n =
     (if n < 128 then [char_of n]
      else if n < 2048 then [char_of (192 + n div 64), char_of (128 + n mod 64)]
      else if n < 65536 then
        [char_of (224 + n div 4096), char_of (128 + n div 64 mod 64), char_of (128 + n mod 64)]
      else [char_of (240 + n div 262144), char_of (128 + n div 4096 mod 64),
            char_of (128 + n div 64 mod 64), char_of (128 + n mod 64)])"

fun hex4 :: "string \<Rightarrow> (nat \<times> string) option" where
  "hex4 (a # b # c # d # r) =
     (case (hex_val a, hex_val b, hex_val c, hex_val d) of
        (Some a', Some b', Some c', Some d') \<Rightarrow> Some (((a' * 16 + b') * 16 + c') * 16 + d', r)
      | _ \<Rightarrow> None)"
| "hex4 _ = None"

definition esc_char :: "char \<Rightarrow> char option" where
  "esc_char c = map_of (zip (map char_of [34, 92, 47, 98, 102, 110, 114, 116 :: nat])
                            (map char_of [34, 92, 47, 8, 12, 10, 13, 9 :: nat])) c"

text \<open>A \<open>\uXXXX\<close> escape, joined with the one that follows it when the two are a surrogate pair.\<close>

definition unescape_u :: "string \<Rightarrow> (string \<times> string) option" where
  "unescape_u s =
     (case hex4 s of None \<Rightarrow> None
      | Some (n, r) \<Rightarrow>
          if 55296 \<le> n \<and> n < 56320 \<and> take 2 r = [char_of (92 :: nat), CHR ''u''] then
            (case hex4 (drop 2 r) of
               Some (m, r') \<Rightarrow>
                 if 56320 \<le> m \<and> m < 57344 then Some (utf8 (65536 + (n - 55296) * 1024 + (m - 56320)), r')
                 else Some (utf8 n, r)
             | None \<Rightarrow> None)
          else Some (utf8 n, r))"

lemma hex4_length: "hex4 s = Some (n, r) \<Longrightarrow> length r < length s"
  by (cases s rule: hex4.cases) (auto split: option.splits)

lemma unescape_u_length: "unescape_u s = Some (t, r) \<Longrightarrow> length r < length s"
  by (fastforce simp: unescape_u_def split: option.splits if_splits prod.splits dest: hex4_length)

text \<open>The text of a string after its opening quote, and what follows the closing one.\<close>

function pstr :: "string \<Rightarrow> (string \<times> string) option" where
  "pstr [] = None"
| "pstr (c # cs) =
     (if c = quote2 then Some ([], cs)
      else if of_char c = (92 :: nat) then
        (case cs of [] \<Rightarrow> None
         | e # es \<Rightarrow>
             if e = CHR ''u'' then
               (case unescape_u es of None \<Rightarrow> None
                | Some (t, r) \<Rightarrow> map_option (\<lambda>(t', r'). (t @ t', r')) (pstr r))
             else
               (case esc_char e of None \<Rightarrow> None
                | Some x \<Rightarrow> map_option (\<lambda>(t', r'). (x # t', r')) (pstr es)))
      else if (of_char c :: nat) < 32 then None
      else map_option (\<lambda>(t', r'). (c # t', r')) (pstr cs))"
  by pat_completeness auto
termination
  by (relation "measure length") (auto dest: unescape_u_length)

text \<open>Numbers: an optional sign, an integer part without leading zeros, and an optional fraction
  and exponent, which make it a \<open>float\<close>.\<close>

definition pfrac :: "string \<Rightarrow> string \<times> string" where
  "pfrac s = (case s of c # r \<Rightarrow>
       (let ds = takeWhile is_digit r in
        if c = CHR ''.'' \<and> ds \<noteq> [] then (ds, dropWhile is_digit r) else ([], s)) | [] \<Rightarrow> ([], s))"

definition pexp :: "string \<Rightarrow> int option \<times> string" where
  "pexp s = (case s of c # r \<Rightarrow>
      (if c = CHR ''e'' \<or> c = CHR ''E'' then
         (let sg = (if take 1 r = ''-'' then - 1 else 1 :: int);
              r1 = (if take 1 r = ''-'' \<or> take 1 r = ''+'' then drop 1 r else r);
              ds = takeWhile is_digit r1 in
          if ds = [] then (None, s) else (Some (sg * int (nat_of_digits ds)), dropWhile is_digit r1))
       else (None, s)) | [] \<Rightarrow> (None, s))"

definition pnum :: "string \<Rightarrow> (val \<times> string) option" where
  "pnum s =
     (let neg = (take 1 s = ''-''); s1 = (if neg then drop 1 s else s);
          all = takeWhile is_digit s1;
          ip = (if take 1 all = ''0'' then ''0'' else all);
          r1 = drop (length ip) s1; (fr, r2) = pfrac r1; (ex, r3) = pexp r2;
          sg = (if neg then - 1 else 1 :: int)
      in if ip = [] then None
         else if fr = [] \<and> ex = None then Some (VInt (sg * int (nat_of_digits ip)), r1)
         else Some (VFloat (round_double (of_int (sg * int (nat_of_digits (ip @ fr))) *
                      rpow 10 ((case ex of Some e \<Rightarrow> e | None \<Rightarrow> 0) - int (length fr)))), r3))"

definition pword :: "string \<Rightarrow> val \<Rightarrow> string \<Rightarrow> (val \<times> string) option" where
  "pword w v s = (if take (length w) s = w then Some (v, drop (length w) s) else None)"

definition pscalar :: "string \<Rightarrow> (val \<times> string) option" where
  "pscalar s =
     (case s of [] \<Rightarrow> None
      | c # cs \<Rightarrow>
         if c = CHR ''n'' then pword ''null'' VNone s
         else if c = CHR ''t'' then pword ''true'' (VBool True) s
         else if c = CHR ''f'' then pword ''false'' (VBool False) s
         else if c = CHR ''N'' then pword ''NaN'' (VFloat NaN) s
         else if c = CHR ''I'' then pword ''Infinity'' (VFloat PInf) s
         else if take 2 s = ''-I'' then pword ''-Infinity'' (VFloat NInf) s
         else pnum s)"

text \<open>Values, array elements and object members, with fuel for the nesting. Twice the length of
  the text plus two is enough: every second call reads a character.\<close>

fun pval :: "nat \<Rightarrow> string \<Rightarrow> (val \<times> string) option"
and parr :: "nat \<Rightarrow> string \<Rightarrow> (val list \<times> string) option"
and pobj :: "nat \<Rightarrow> string \<Rightarrow> (dict \<times> string) option" where
  "pval 0 s = None"
| "pval (Suc n) s =
     (case s of [] \<Rightarrow> None
      | c # cs \<Rightarrow>
         if c = quote2 then map_option (\<lambda>(t, r). (VStr t, r)) (pstr cs)
         else if c = CHR ''['' then
           (case skip_ws cs of [] \<Rightarrow> None
            | d # ds \<Rightarrow> if d = CHR '']'' then Some (VList [], ds)
                        else map_option (\<lambda>(xs, r). (VList xs, r)) (parr n (d # ds)))
         else if c = CHR ''{'' then
           (case skip_ws cs of [] \<Rightarrow> None
            | d # ds \<Rightarrow> if d = CHR ''}'' then Some (VDict [], ds)
                        else map_option (\<lambda>(e, r). (VDict (dupdate [] e), r)) (pobj n (d # ds)))
         else pscalar s)"
| "parr 0 s = None"
| "parr (Suc n) s =
     Option.bind (pval n s) (\<lambda>(x, r). case skip_ws r of [] \<Rightarrow> None
       | d # ds \<Rightarrow> if d = CHR '','' then map_option (\<lambda>(xs, r'). (x # xs, r')) (parr n (skip_ws ds))
                   else if d = CHR '']'' then Some ([x], ds) else None)"
| "pobj 0 s = None"
| "pobj (Suc n) s =
     (case s of [] \<Rightarrow> None
      | q # qs \<Rightarrow> if q \<noteq> quote2 then None else
         Option.bind (pstr qs) (\<lambda>(k, r). case skip_ws r of [] \<Rightarrow> None
          | c # cs \<Rightarrow> if c \<noteq> CHR '':'' then None else
             Option.bind (pval n (skip_ws cs)) (\<lambda>(x, r1). case skip_ws r1 of [] \<Rightarrow> None
               | d # ds \<Rightarrow>
                   if d = CHR '','' then map_option (\<lambda>(e, r'). ((k, x) # e, r')) (pobj n (skip_ws ds))
                   else if d = CHR ''}'' then Some ([(k, x)], ds) else None)))"

definition json_loads :: "string \<Rightarrow> val res" where
  "json_loads s =
     (case pval (2 * length s + 2) (skip_ws s) of
        Some (v, r) \<Rightarrow> if skip_ws r = [] then Inr v else Inl (Exn JSONDecodeError ''Extra data'')
      | None \<Rightarrow> Inl (Exn JSONDecodeError ''Expecting value''))"

section \<open>\<open>int\<close>, \<open>float\<close> and float arithmetic\<close>

text \<open>Underscores are allowed between two digits.\<close>

fun drop_underscores :: "string \<Rightarrow> string" where
  "drop_underscores (a # u # b # r) =
     (if is_digit a \<and> u = CHR ''_'' \<and> is_digit b then a # drop_underscores (b # r)
      else a # drop_underscores (u # b # r))"
| "drop_underscores s = s"

definition split_sign :: "string \<Rightarrow> int \<times> string" where
  "split_sign s = (if take 1 s = ''-'' then (- 1, drop 1 s) else if take 1 s = ''+'' then (1, drop 1 s) else (1, s))"

definition parse_int :: "string \<Rightarrow> int option" where
  "parse_int s =
     (let (sg, t) = split_sign (drop_underscores (py_strip s))
      in if t \<noteq> [] \<and> list_all is_digit t then Some (sg * int (nat_of_digits t)) else None)"

definition parse_float :: "string \<Rightarrow> pyfloat option" where
  "parse_float s =
     (let (sg, t) = split_sign (drop_underscores (py_lower (py_strip s)));
          sgn = (\<lambda>x. if sg < 0 then fl_neg x else x)
      in if t = ''inf'' \<or> t = ''infinity'' then Some (sgn PInf)
         else if t = ''nan'' then Some NaN
         else
           (let ip = takeWhile is_digit t; r1 = dropWhile is_digit t;
                r2 = (if take 1 r1 = ''.'' then drop 1 r1 else []);
                fr = takeWhile is_digit r2;
                r3 = (if take 1 r1 = ''.'' then dropWhile is_digit r2 else r1);
                (ex, r4) = pexp r3
            in if (ip = [] \<and> fr = []) \<or> r4 \<noteq> [] then None
               else Some (sgn (round_double (of_int (int (nat_of_digits (ip @ fr))) *
                      rpow 10 ((case ex of Some e \<Rightarrow> e | None \<Rightarrow> 0) - int (length fr)))))))"

fun py_float :: "val \<Rightarrow> pyfloat res" where
  "py_float (VFloat x) = Inr x"
| "py_float (VBool b) = Inr (Fin (if b then 1 else 0))"
| "py_float (VInt i) =
     (case round_double (of_int i) of Fin x \<Rightarrow> Inr (Fin x)
      | _ \<Rightarrow> Inl (Exn OverflowError ''int too large to convert to float''))"
| "py_float (VStr s) =
     (case parse_float s of Some x \<Rightarrow> Inr x | None \<Rightarrow> Inl (Exn ValueError ''could not convert string to float''))"
| "py_float _ = Inl (Exn TypeError ''float() argument'')"

definition trunc_rat :: "rat \<Rightarrow> int" where
  "trunc_rat x = (if x < 0 then \<lceil>x\<rceil> else \<lfloor>x\<rfloor>)"

fun py_int :: "val \<Rightarrow> int res" where
  "py_int (VInt i) = Inr i"
| "py_int (VBool b) = Inr (if b then 1 else 0)"
| "py_int (VFloat x) =
     (case x of Fin y \<Rightarrow> Inr (trunc_rat y) | NaN \<Rightarrow> Inl (Exn ValueError ''cannot convert float NaN to integer'')
      | _ \<Rightarrow> Inl (Exn OverflowError ''cannot convert float infinity to integer''))"
| "py_int (VStr s) =
     (case parse_int s of Some i \<Rightarrow> Inr i | None \<Rightarrow> Inl (Exn ValueError ''invalid literal for int()''))"
| "py_int _ = Inl (Exn TypeError ''int() argument'')"

fun fl_add :: "pyfloat \<Rightarrow> pyfloat \<Rightarrow> pyfloat" where
  "fl_add (Fin x) (Fin y) = round_double (x + y)"
| "fl_add NaN _ = NaN"
| "fl_add _ NaN = NaN"
| "fl_add PInf NInf = NaN"
| "fl_add NInf PInf = NaN"
| "fl_add PInf _ = PInf"
| "fl_add _ PInf = PInf"
| "fl_add NInf _ = NInf"
| "fl_add _ NInf = NInf"

definition fl_sub :: "pyfloat \<Rightarrow> pyfloat \<Rightarrow> pyfloat" where
  "fl_sub x y = fl_add x (fl_neg y)"

text \<open>Division by a positive integer.\<close>

fun fl_div_nat :: "pyfloat \<Rightarrow> nat \<Rightarrow> pyfloat res" where
  "fl_div_nat x 0 = Inl (Exn ZeroDivisionError ''float division by zero'')"
| "fl_div_nat (Fin x) n = Inr (round_double (x / of_nat n))"
| "fl_div_nat x n = Inr x"

text \<open>\<open>x / y\<close> of two floats; a zero divisor raises.\<close>

fun fl_div :: "pyfloat \<Rightarrow> pyfloat \<Rightarrow> pyfloat res" where
  "fl_div x (Fin y) =
     (if y = 0 then Inl (Exn ZeroDivisionError ''float division by zero'')
      else Inr (case x of Fin z \<Rightarrow> round_double (z / y) | NaN \<Rightarrow> NaN
        | PInf \<Rightarrow> if y < 0 then NInf else PInf | NInf \<Rightarrow> if y < 0 then PInf else NInf))"
| "fl_div x NaN = Inr NaN"
| "fl_div x y = Inr (case x of Fin z \<Rightarrow> Fin 0 | _ \<Rightarrow> NaN)"

definition fl_max :: "pyfloat \<Rightarrow> pyfloat list \<Rightarrow> pyfloat" where
  "fl_max x xs = foldl (\<lambda>m y. if fl_less m y then y else m) x xs"

definition fl_min :: "pyfloat \<Rightarrow> pyfloat list \<Rightarrow> pyfloat" where
  "fl_min x xs = foldl (\<lambda>m y. if fl_less y m then y else m) x xs"

section \<open>Operations used by the validators\<close>

text \<open>A run of \<open>_require\<close> statements whose conditions cannot raise.\<close>

fun checks :: "(bool \<times> exn) list \<Rightarrow> 'a res \<Rightarrow> 'a res" where
  "checks [] k = k"
| "checks ((c, e) # cs) k = chk c e (checks cs k)"

lemma checks_eq_Inr [exn_elims]: "checks cs k = Inr y \<longleftrightarrow> list_all fst cs \<and> k = Inr y"
  by (induction cs) (auto simp: chk_eq_Inr)

text \<open>\<open>v[k1][k2]...\<close>\<close>

fun vpath :: "val \<Rightarrow> string list \<Rightarrow> val res" where
  "vpath v [] = Inr v"
| "vpath v (k # ks) = bnd (vsub v k) (\<lambda>w. vpath w ks)"

text \<open>\<open>x in v\<close> for a text \<open>x\<close>.\<close>

definition infix_of :: "string \<Rightarrow> string \<Rightarrow> bool" where
  "infix_of s t = list_ex (\<lambda>i. take (length s) (drop i t) = s) [0..<Suc (length t)]"

fun py_in :: "string \<Rightarrow> val \<Rightarrow> bool res" where
  "py_in s (VList xs) = Inr (vmem (VStr s) xs)"
| "py_in s (VDict d) = Inr (s \<in> fst ` set d)"
| "py_in s (VStr t) = Inr (infix_of s t)"
| "py_in s _ = Inl (Exn TypeError ''argument is not iterable'')"

text \<open>\<open>v in {...}\<close> for a set of texts; an unhashable \<open>v\<close> raises.\<close>

definition in_set :: "val \<Rightarrow> string list \<Rightarrow> bool res" where
  "in_set v ss = chk (hashable v) (Exn TypeError ''unhashable type'') (Inr (vmem v (strs ss)))"

lemma in_set_eq [exn_elims]: "in_set v ss = Inr b \<longleftrightarrow> hashable v \<and> b = (\<exists>s \<in> set ss. v = VStr s)"
  by (auto simp: in_set_def chk_eq_Inr vmem_strs_iff)

definition is_true :: "val \<Rightarrow> bool" where
  "is_true v = (v = VBool True)"

end
