(* ===== verification/Sha256.thy ===== *)
theory Sha256
  imports Prelude "HOL-Library.Word"
begin

text \<open>
  \<open>hashlib.sha256(...).hexdigest()\<close> (FIPS 180-4), which the suite uses for every identity and
  every file digest, on byte strings. The only facts the components use are that a digest is 64
  lowercase hexadecimal digits and that it is a function of its argument; no theorem assumes that
  digests do not collide unless its statement says so.
\<close>

unbundle bit_operations_syntax

type_synonym w32 = "32 word"

definition rotr :: "nat \<Rightarrow> w32 \<Rightarrow> w32" where
  "rotr n x = drop_bit n x OR push_bit (32 - n) x"

text \<open>The round constants: the first 32 bits of the fractional parts of the cube roots of the first 64 primes.\<close>

definition K256 :: "w32 list" where
  "K256 =
    [1116352408, 1899447441, 3049323471, 3921009573, 961987163, 1508970993, 2453635748, 2870763221,
     3624381080, 310598401, 607225278, 1426881987, 1925078388, 2162078206, 2614888103, 3248222580,
     3835390401, 4022224774, 264347078, 604807628, 770255983, 1249150122, 1555081692, 1996064986,
     2554220882, 2821834349, 2952996808, 3210313671, 3336571891, 3584528711, 113926993, 338241895,
     666307205, 773529912, 1294757372, 1396182291, 1695183700, 1986661051, 2177026350, 2456956037,
     2730485921, 2820302411, 3259730800, 3345764771, 3516065817, 3600352804, 4094571909, 275423344,
     430227734, 506948616, 659060556, 883997877, 958139571, 1322822218, 1537002063, 1747873779,
     1955562222, 2024104815, 2227730452, 2361852424, 2428436474, 2756734187, 3204031479, 3329325298]"

record sha_state =
  ha :: w32
  hb :: w32
  hc :: w32
  hd' :: w32
  he :: w32
  hf :: w32
  hg :: w32
  hh :: w32

definition sha_init :: sha_state where
  "sha_init = \<lparr>ha = 1779033703, hb = 3144134277, hc = 1013904242, hd' = 2773480762,
               he = 1359893119, hf = 2600822924, hg = 528734635, hh = 1541459225\<rparr>"

definition sha_round :: "sha_state \<Rightarrow> w32 \<times> w32 \<Rightarrow> sha_state" where
  "sha_round s kw =
     (let e = he s; a = ha s;
          t1 = hh s + (rotr 6 e XOR rotr 11 e XOR rotr 25 e) + ((e AND hf s) XOR (NOT e AND hg s)) +
               fst kw + snd kw;
          t2 = (rotr 2 a XOR rotr 13 a XOR rotr 22 a) +
               ((a AND hb s) XOR (a AND hc s) XOR (hb s AND hc s))
      in \<lparr>ha = t1 + t2, hb = a, hc = hb s, hd' = hc s, he = hd' s + t1, hf = e, hg = hf s, hh = hg s\<rparr>)"

text \<open>The message schedule, newest word first: \<open>n\<close> further words from the sixteen of a block.\<close>

fun sha_schedule :: "nat \<Rightarrow> w32 list \<Rightarrow> w32 list" where
  "sha_schedule 0 ws = rev ws"
| "sha_schedule (Suc n) ws =
     (let x = ws ! 14; y = ws ! 1
      in sha_schedule n
           (((rotr 17 y XOR rotr 19 y XOR drop_bit 10 y) + ws ! 6 +
             (rotr 7 x XOR rotr 18 x XOR drop_bit 3 x) + ws ! 15) # ws))"

definition sha_block :: "sha_state \<Rightarrow> w32 list \<Rightarrow> sha_state" where
  "sha_block s ws =
     (let t = foldl sha_round s (zip K256 (sha_schedule 48 (rev ws)))
      in \<lparr>ha = ha s + ha t, hb = hb s + hb t, hc = hc s + hc t, hd' = hd' s + hd' t,
          he = he s + he t, hf = hf s + hf t, hg = hg s + hg t, hh = hh s + hh t\<rparr>)"

text \<open>The padding: a one bit, zeros, and the length in bits as eight bytes.\<close>

definition be_bytes :: "nat \<Rightarrow> nat \<Rightarrow> nat list" where
  "be_bytes k n = map (\<lambda>i. n div 256 ^ (k - 1 - i) mod 256) [0..<k]"

definition sha_pad :: "nat list \<Rightarrow> nat list" where
  "sha_pad bs =
     (let n = length bs in bs @ [128] @ replicate ((119 - n mod 64) mod 64) 0 @ be_bytes 8 (8 * n))"

fun sha_words :: "nat list \<Rightarrow> w32 list" where
  "sha_words (a # b # c # d # r) = of_nat (((a * 256 + b) * 256 + c) * 256 + d) # sha_words r"
| "sha_words _ = []"

function sha_blocks :: "sha_state \<Rightarrow> w32 list \<Rightarrow> sha_state" where
  "sha_blocks s ws = (if length ws < 16 then s else sha_blocks (sha_block s (take 16 ws)) (drop 16 ws))"
  by pat_completeness auto
termination
  by (relation "measure (\<lambda>(s, ws). length ws)") auto

declare sha_blocks.simps [simp del]

definition hex_word :: "w32 \<Rightarrow> string" where
  "hex_word w = map (\<lambda>i. hex_digits ! (unat w div 16 ^ (7 - i) mod 16)) [0..<8]"

definition sha256_hex :: "string \<Rightarrow> string" where
  "sha256_hex bytes =
     (let s = sha_blocks sha_init (sha_words (sha_pad (map of_char bytes)))
      in concat (map hex_word [ha s, hb s, hc s, hd' s, he s, hf s, hg s, hh s]))"

section \<open>The shape of a digest\<close>

definition is_hex :: "nat \<Rightarrow> string \<Rightarrow> bool" where
  "is_hex n s = (length s = n \<and> set s \<subseteq> set hex_digits)"

lemma hex_digits_nth: "n < 16 \<Longrightarrow> hex_digits ! n \<in> set hex_digits"
  by (rule nth_mem) (simp add: hex_digits_def)

lemma is_hex_hex_word: "is_hex 8 (hex_word w)"
  by (auto simp: is_hex_def hex_word_def intro!: hex_digits_nth simp del: set_simps)

lemma is_hex_append: "is_hex n s \<Longrightarrow> is_hex m t \<Longrightarrow> is_hex (n + m) (s @ t)"
  by (auto simp: is_hex_def)

lemma is_hex_concat_words: "is_hex (8 * length ws) (concat (map hex_word ws))"
proof (induction ws)
  case (Cons w ws)
  then show ?case using is_hex_append [OF is_hex_hex_word Cons] by (simp add: algebra_simps)
qed (simp add: is_hex_def)

lemma is_hex_sha256: "is_hex 64 (sha256_hex bytes)"
proof -
  have "is_hex (8 * length [ha s, hb s, hc s, hd' s, he s, hf s, hg s, hh s])
          (concat (map hex_word [ha s, hb s, hc s, hd' s, he s, hf s, hg s, hh s]))" for s :: sha_state
    by (rule is_hex_concat_words)
  then show ?thesis by (simp add: sha256_hex_def Let_def)
qed

end
