(* ===== verification/State_Exn.thy ===== *)
theory State_Exn
  imports Prelude
begin

text \<open>
  Programs that change a state and may raise: a statement takes the state and returns the state it
  leaves behind, with its result or the exception. What was changed before an exception stays
  changed. The theory has the sequence, the loops, \<open>try\<close>/\<open>except\<close> and \<open>try\<close>/\<open>finally\<close>, the access to
  a part of the state (an attribute of the object, or the object behind it), and the reasoning
  principle the components share: a relation between the states before and after that every
  statement keeps, whatever it returns (\<open>keeps\<close>).
\<close>

named_theorems st_simps \<open>evaluation of stateful statements\<close>
named_theorems keeps_intros \<open>relations that every statement keeps\<close>

type_synonym ('s, 'a) st = "'s \<Rightarrow> 's \<times> 'a res"

definition st_ret :: "'a res \<Rightarrow> ('s, 'a) st" where
  "st_ret r s = (s, r)"

definition st_bnd :: "('s, 'a) st \<Rightarrow> ('a \<Rightarrow> ('s, 'b) st) \<Rightarrow> ('s, 'b) st" where
  "st_bnd m f s = (case m s of (s', Inl e) \<Rightarrow> (s', Inl e) | (s', Inr x) \<Rightarrow> f x s')"

text \<open>A statement that only reads the state, and one that only assigns.\<close>

definition st_read :: "('s \<Rightarrow> 'a res) \<Rightarrow> ('s, 'a) st" where
  "st_read r s = (s, r s)"

definition st_upd :: "('s \<Rightarrow> 's) \<Rightarrow> ('s, unit) st" where
  "st_upd f s = (f s, Inr ())"

text \<open>\<open>try: m except Exception as error: h(error)\<close> and \<open>try: m finally: h\<close>; an exception raised in the
  \<open>finally\<close> clause replaces the outcome of the body.\<close>

definition st_try :: "('s, 'a) st \<Rightarrow> (exn \<Rightarrow> ('s, 'a) st) \<Rightarrow> ('s, 'a) st" where
  "st_try m h s = (case m s of (s', Inl e) \<Rightarrow> h e s' | (s', Inr x) \<Rightarrow> (s', Inr x))"

definition st_finally :: "('s, 'a) st \<Rightarrow> ('s, unit) st \<Rightarrow> ('s, 'a) st" where
  "st_finally m h s =
     (case m s of (s', r) \<Rightarrow> (case h s' of (s'', Inl e) \<Rightarrow> (s'', Inl e) | (s'', Inr _) \<Rightarrow> (s'', r)))"

fun st_each :: "('a \<Rightarrow> ('s, unit) st) \<Rightarrow> 'a list \<Rightarrow> ('s, unit) st" where
  "st_each f [] = (\<lambda>s. (s, Inr ()))"
| "st_each f (x # xs) = st_bnd (f x) (\<lambda>_. st_each f xs)"

fun st_mapm :: "('a \<Rightarrow> ('s, 'b) st) \<Rightarrow> 'a list \<Rightarrow> ('s, 'b list) st" where
  "st_mapm f [] = st_ret (Inr [])"
| "st_mapm f (x # xs) = st_bnd (f x) (\<lambda>y. st_bnd (st_mapm f xs) (\<lambda>ys. st_ret (Inr (y # ys))))"

text \<open>A statement on a part of the state, given how to read and how to replace the part.\<close>

definition on_part :: "('s \<Rightarrow> 'h) \<Rightarrow> ('h \<Rightarrow> 's \<Rightarrow> 's) \<Rightarrow> ('h, 'a) st \<Rightarrow> ('s, 'a) st" where
  "on_part get put m s = (case m (get s) of (h, r) \<Rightarrow> (put h s, r))"

section \<open>Evaluation\<close>

lemma st_ret_apply [st_simps]: "st_ret r s = (s, r)"
  by (simp add: st_ret_def)

lemma st_bnd_Inr: "m s = (s', Inr x) \<Longrightarrow> st_bnd m f s = f x s'"
  by (simp add: st_bnd_def)

lemma st_bnd_Inl: "m s = (s', Inl e) \<Longrightarrow> st_bnd m f s = (s', Inl e)"
  by (simp add: st_bnd_def)

lemma st_bnd_ret [simp]: "st_bnd (st_ret (Inr x)) f = f x" "st_bnd (st_ret (Inl e)) f = st_ret (Inl e)"
  by (simp_all add: st_bnd_def st_ret_def fun_eq_iff)

lemma st_bnd_assoc: "st_bnd (st_bnd m f) g = st_bnd m (\<lambda>x. st_bnd (f x) g)"
  by (rule ext) (simp add: st_bnd_def split: prod.split sum.split)

lemma st_bnd_eq_Inr [exn_elims]:
  "st_bnd m f s = (s', Inr y) \<longleftrightarrow> (\<exists>s1 x. m s = (s1, Inr x) \<and> f x s1 = (s', Inr y))"
  by (auto simp: st_bnd_def split: prod.splits sum.splits)

lemma st_bnd_eq_Inl:
  "st_bnd m f s = (s', Inl e) \<longleftrightarrow> m s = (s', Inl e) \<or> (\<exists>s1 x. m s = (s1, Inr x) \<and> f x s1 = (s', Inl e))"
  by (auto simp: st_bnd_def split: prod.splits sum.splits)

lemma st_read_eq_Inr [exn_elims]: "st_read r s = (s', Inr y) \<longleftrightarrow> s' = s \<and> r s = Inr y"
  by (auto simp: st_read_def)

lemma st_ret_eq_Inr [exn_elims]: "st_ret r s = (s', Inr y) \<longleftrightarrow> s' = s \<and> r = Inr y"
  by (auto simp: st_ret_def)

lemma st_upd_eq [exn_elims]: "st_upd f s = (s', r) \<longleftrightarrow> s' = f s \<and> r = Inr ()"
  by (auto simp: st_upd_def)

lemma st_try_eq_Inr [exn_elims]:
  "st_try m h s = (s', Inr y) \<longleftrightarrow> m s = (s', Inr y) \<or> (\<exists>s1 e. m s = (s1, Inl e) \<and> h e s1 = (s', Inr y))"
  by (auto simp: st_try_def split: prod.splits sum.splits)

lemma st_finally_eq_Inr [exn_elims]:
  "st_finally m h s = (s', Inr y) \<longleftrightarrow> (\<exists>s1. m s = (s1, Inr y) \<and> h s1 = (s', Inr ()))"
  by (auto simp: st_finally_def split: prod.splits sum.splits)

lemma on_part_eq [exn_elims]:
  "on_part get put m s = (s', r) \<longleftrightarrow> (\<exists>h. m (get s) = (h, r) \<and> s' = put h s)"
  by (auto simp: on_part_def split: prod.splits)

lemma st_mapm_length: "st_mapm f xs s = (s', Inr ys) \<Longrightarrow> length ys = length xs"
  by (induction xs arbitrary: s ys) (auto simp: st_bnd_eq_Inr st_ret_eq_Inr)

section \<open>Relations every statement keeps\<close>

text \<open>\<open>keeps R m\<close>: whatever \<open>m\<close> returns or raises, the state it starts in and the state it leaves
  behind are related by \<open>R\<close>. A preorder is kept by a program when it is kept by its statements.\<close>

definition keeps :: "('s \<Rightarrow> 's \<Rightarrow> bool) \<Rightarrow> ('s, 'a) st \<Rightarrow> bool" where
  "keeps R m = (\<forall>s. R s (fst (m s)))"

lemma keepsI: "(\<And>s s' r. m s = (s', r) \<Longrightarrow> R s s') \<Longrightarrow> keeps R m"
  by (simp add: keeps_def) (metis prod.collapse)

lemma keepsD: "keeps R m \<Longrightarrow> m s = (s', r) \<Longrightarrow> R s s'"
  by (metis fst_conv keeps_def)

lemma keeps_on_part: "(\<And>s h. R s (put h s)) \<Longrightarrow> keeps R (on_part get put m)"
  by (simp add: keeps_def on_part_def split: prod.split)

lemma keeps_upd: "(\<And>s. R s (f s)) \<Longrightarrow> keeps R (st_upd f)"
  by (simp add: keeps_def st_upd_def)

lemma keeps_if: "keeps R m \<Longrightarrow> keeps R n \<Longrightarrow> keeps R (if b then m else n)"
  by simp

locale preorder_kept =
  fixes R :: "'s \<Rightarrow> 's \<Rightarrow> bool"
  assumes R_refl: "R s s"
    and R_trans: "R s t \<Longrightarrow> R t u \<Longrightarrow> R s u"
begin

lemma keeps_ret: "keeps R (st_ret r)"
  by (simp add: keeps_def st_ret_def R_refl)

lemma keeps_read: "keeps R (st_read r)"
  by (simp add: keeps_def st_read_def R_refl)

lemma keeps_bnd:
  assumes "keeps R m" and "\<And>x. keeps R (f x)"
  shows "keeps R (st_bnd m f)"
  using assms by (auto simp: keeps_def st_bnd_def split: prod.splits sum.splits) (metis R_trans fst_conv)+

lemma keeps_try:
  assumes "keeps R m" and "\<And>e. keeps R (h e)"
  shows "keeps R (st_try m h)"
  using assms by (auto simp: keeps_def st_try_def split: prod.splits sum.splits) (metis R_trans fst_conv)+

lemma keeps_finally:
  assumes "keeps R m" and "keeps R h"
  shows "keeps R (st_finally m h)"
  using assms by (auto simp: keeps_def st_finally_def split: prod.splits sum.splits) (metis R_trans fst_conv)+

lemma keeps_each: "(\<And>x. x \<in> set xs \<Longrightarrow> keeps R (f x)) \<Longrightarrow> keeps R (st_each f xs)"
  by (induction xs) (simp_all add: keeps_bnd keeps_def [of R "\<lambda>s. (s, Inr ())"] R_refl)

lemma keeps_mapm: "(\<And>x. x \<in> set xs \<Longrightarrow> keeps R (f x)) \<Longrightarrow> keeps R (st_mapm f xs)"
  by (induction xs) (simp_all add: keeps_bnd keeps_ret)

lemmas keeps_rules = keeps_ret keeps_read keeps_bnd keeps_try keeps_finally keeps_each keeps_mapm

end

text \<open>A system whose steps all keep a preorder: so do the states it reaches.\<close>

locale kept_by_steps = preorder_kept R for R :: "'s \<Rightarrow> 's \<Rightarrow> bool" +
  fixes step :: "'s \<Rightarrow> 's \<Rightarrow> bool"
  assumes step_kept: "step s t \<Longrightarrow> R s t"
begin

lemma reach_kept: "step\<^sup>*\<^sup>* s t \<Longrightarrow> R s t"
  by (induction rule: rtranclp_induct) (auto intro: R_refl R_trans step_kept)

end

lemma preorder_invariant: "preorder_kept (\<lambda>s s'. I s \<longrightarrow> I s')"
  by unfold_locales auto

end
