(* ===== verification/Files.thy ===== *)
theory Files
  imports Py_Text Sha256 State_Exn
begin

text \<open>
  Paths (\<open>pathlib\<close>, POSIX flavour) and the file system. The file system is the environment of the
  program: a record that says what each path holds, what \<open>Path.resolve\<close> makes of it and whether it
  is a symbolic link, which paths \<open>Path.rglob("*")\<close> yields below a directory, and what \<open>git show\<close> prints
  for a path of a commit. Reading a file that is not there raises \<open>OSError\<close>; file contents are UTF-8
  texts. Writing returns the changed file system.
\<close>

datatype path = Path (is_absolute: bool) (parts: "string list")

definition slash :: char where "slash = CHR ''/''"

fun split_on :: "char \<Rightarrow> string \<Rightarrow> string list" where
  "split_on c [] = [[]]"
| "split_on c (x # xs) =
     (if x = c then [] # split_on c xs
      else case split_on c xs of [] \<Rightarrow> [[x]] | h # t \<Rightarrow> (x # h) # t)"

text \<open>\<open>Path(s)\<close>: empty parts and single dots are dropped.\<close>

definition path_of :: "string \<Rightarrow> path" where
  "path_of s = Path (take 1 s = [slash]) (filter (\<lambda>p. p \<noteq> [] \<and> p \<noteq> ''.'') (split_on slash s))"

definition path_str :: "path \<Rightarrow> string" where
  "path_str p = (if is_absolute p then [slash] else []) @
     (if parts p = [] \<and> \<not> is_absolute p then ''.'' else join [slash] (parts p))"

definition joinp :: "path \<Rightarrow> path \<Rightarrow> path" where
  "joinp p q = (if is_absolute q then q else Path (is_absolute p) (parts p @ parts q))"

definition parent :: "path \<Rightarrow> path" where
  "parent p = Path (is_absolute p) (butlast (parts p))"

definition pname :: "path \<Rightarrow> string" where
  "pname p = (if parts p = [] then [] else last (parts p))"

definition is_relative_to :: "path \<Rightarrow> path \<Rightarrow> bool" where
  "is_relative_to p q =
     (is_absolute p = is_absolute q \<and> take (length (parts q)) (parts p) = parts q)"

definition relative_to :: "path \<Rightarrow> path \<Rightarrow> path" where
  "relative_to p q = Path False (drop (length (parts q)) (parts p))"

record filesystem =
  fs_file :: "path \<Rightarrow> string option"
  fs_dir :: "path \<Rightarrow> bool"
  fs_symlink :: "path \<Rightarrow> bool"
  fs_resolve :: "path \<Rightarrow> path"
  fs_rglob :: "path \<Rightarrow> path list"
  fs_git_show :: "string \<Rightarrow> string \<Rightarrow> string option"

definition is_file :: "filesystem \<Rightarrow> path \<Rightarrow> bool" where
  "is_file fs p = (fs_file fs p \<noteq> None)"

definition read_bytes :: "filesystem \<Rightarrow> path \<Rightarrow> string res" where
  "read_bytes fs p = (case fs_file fs p of None \<Rightarrow> Inl (Exn OSError (path_str p)) | Some s \<Rightarrow> Inr s)"

text \<open>The digest of a file, read in chunks of a mebibyte.\<close>

definition file_sha256 :: "filesystem \<Rightarrow> path \<Rightarrow> string res" where
  "file_sha256 fs p = bnd (read_bytes fs p) (\<lambda>s. Inr (sha256_hex s))"

text \<open>\<open>json.loads(path.read_text(encoding="utf-8"))\<close>.\<close>

definition read_json :: "filesystem \<Rightarrow> path \<Rightarrow> val res" where
  "read_json fs p = bnd (read_bytes fs p) json_loads"

definition write_text :: "path \<Rightarrow> string \<Rightarrow> filesystem \<Rightarrow> filesystem" where
  "write_text p s fs = fs\<lparr>fs_file := (fs_file fs)(p := Some s)\<rparr>"

text \<open>\<open>source.replace(target)\<close> for an existing file \<open>source\<close>.\<close>

definition replace_file :: "path \<Rightarrow> path \<Rightarrow> filesystem \<Rightarrow> filesystem" where
  "replace_file source target fs =
     fs\<lparr>fs_file := (fs_file fs)(source := None, target := fs_file fs source)\<rparr>"

section \<open>Programs that change the file system\<close>

text \<open>A function that reads and writes files takes the file system and returns the one it leaves
  behind, with its result or the exception it raised: what was written before an exception stays
  written.\<close>

type_synonym 'a io = "(filesystem, 'a) st"

text \<open>\<open>try: m finally: h\<close> for an \<open>h\<close> that cannot raise.\<close>

definition io_finally :: "'a io \<Rightarrow> (filesystem \<Rightarrow> filesystem) \<Rightarrow> 'a io" where
  "io_finally m h fs = (case m fs of (fs', r) \<Rightarrow> (h fs', r))"

definition exists_path :: "filesystem \<Rightarrow> path \<Rightarrow> bool" where
  "exists_path fs p = (is_file fs p \<or> fs_dir fs p)"

definition prefixes_of :: "path \<Rightarrow> path list" where
  "prefixes_of p = map (\<lambda>n. Path (is_absolute p) (take n (parts p))) [0..<Suc (length (parts p))]"

text \<open>\<open>p.mkdir(parents=True, exist_ok=True)\<close> and \<open>p.mkdir()\<close>.\<close>

definition mkdir_p :: "path \<Rightarrow> unit io" where
  "mkdir_p p fs =
     (if list_ex (is_file fs) (prefixes_of p) then (fs, Inl (Exn OSError (path_str p)))
      else (fs\<lparr>fs_dir := \<lambda>q. q \<in> set (prefixes_of p) \<or> fs_dir fs q\<rparr>, Inr ()))"

definition mkdir :: "path \<Rightarrow> unit io" where
  "mkdir p fs =
     (if exists_path fs p \<or> \<not> fs_dir fs (parent p) then (fs, Inl (Exn OSError (path_str p)))
      else (fs\<lparr>fs_dir := (fs_dir fs)(p := True)\<rparr>, Inr ()))"

text \<open>\<open>open(p, "w")\<close>, the text written and the file closed.\<close>

definition write_file :: "path \<Rightarrow> string \<Rightarrow> unit io" where
  "write_file p s fs =
     (if fs_dir fs p \<or> \<not> fs_dir fs (parent p) then (fs, Inl (Exn OSError (path_str p)))
      else (write_text p s fs, Inr ()))"

text \<open>\<open>os.replace(source, target)\<close> of a file.\<close>

definition os_replace :: "path \<Rightarrow> path \<Rightarrow> unit io" where
  "os_replace source target fs =
     (if \<not> is_file fs source \<or> fs_dir fs target then (fs, Inl (Exn OSError (path_str target)))
      else (replace_file source target fs, Inr ()))"

text \<open>\<open>source.replace(target)\<close> of a directory onto a path that does not exist, and \<open>shutil.rmtree\<close>.\<close>

definition rename_dir :: "path \<Rightarrow> path \<Rightarrow> unit io" where
  "rename_dir source target fs =
     (if \<not> fs_dir fs source \<or> exists_path fs target \<or> \<not> fs_dir fs (parent target)
      then (fs, Inl (Exn OSError (path_str target)))
      else
        (fs\<lparr>fs_file := (\<lambda>q. if is_relative_to q target then fs_file fs (joinp source (relative_to q target))
                                else if is_relative_to q source then None else fs_file fs q),
            fs_dir := (\<lambda>q. if is_relative_to q target then fs_dir fs (joinp source (relative_to q target))
                                else if is_relative_to q source then False else fs_dir fs q)\<rparr>, Inr ()))"

definition rmtree :: "path \<Rightarrow> filesystem \<Rightarrow> filesystem" where
  "rmtree p fs = fs\<lparr>fs_file := (\<lambda>q. if is_relative_to q p then None else fs_file fs q),
                     fs_dir := (\<lambda>q. \<not> is_relative_to q p \<and> fs_dir fs q)\<rparr>"

text \<open>\<open>json.dumps(value, ensure_ascii=False, sort_keys=True, separators=(",", ":"))\<close>, encoded and hashed.\<close>

definition canonical_sha256 :: "val \<Rightarrow> string" where
  "canonical_sha256 v = sha256_hex (canonical v)"

lemma is_hex_canonical_sha256: "is_hex 64 (canonical_sha256 v)"
  by (simp add: canonical_sha256_def is_hex_sha256)

lemma read_bytes_eq [exn_elims]: "read_bytes fs p = Inr s \<longleftrightarrow> fs_file fs p = Some s"
  by (simp add: read_bytes_def split: option.splits)

lemma file_sha256_eq [exn_elims]:
  "file_sha256 fs p = Inr d \<longleftrightarrow> (\<exists>s. fs_file fs p = Some s \<and> d = sha256_hex s)"
  by (auto simp: file_sha256_def exn_elims)

lemma read_json_eq [exn_elims]:
  "read_json fs p = Inr v \<longleftrightarrow> (\<exists>s. fs_file fs p = Some s \<and> json_loads s = Inr v)"
  by (auto simp: read_json_def exn_elims)

lemma is_file_iff: "is_file fs p \<longleftrightarrow> (\<exists>s. fs_file fs p = Some s)"
  by (auto simp: is_file_def)

end
