(* ===== verification/Tool_Session.thy ===== *)
theory Tool_Session
  imports Files
begin

text \<open>
  \<open>EvidenceToolSession\<close> of \<open>integrations/python/ownward_information_use.py\<close>: the session that shows the
  agent short references instead of the host's identifiers and offers the grouped read. The host is
  the object it wraps: a record of the operations the class documentation asks for, over a host state
  of any type. Every operation of the session is a statement over the session's attributes, one of
  which is the host's state.
\<close>

section \<open>The host\<close>

record 'h host =
  host_call :: "string \<Rightarrow> val \<Rightarrow> ('h, val) st"
  host_reset_attempt :: "('h, unit) st"
  host_report :: "('h, val) st"
  host_restore :: "val \<Rightarrow> ('h, unit) st"
  host_validate :: "('h, val) st"
  host_retrieval_capacity :: "('h, bool \<times> bool) st"
  host_dynamic_tools :: "'h \<Rightarrow> val"
  host_instructions :: "'h \<Rightarrow> val"

text \<open>\<open>str(error)\<close>: a \<open>KeyError\<close> shows the \<open>repr\<close> of its key.\<close>

definition exn_text :: "exn \<Rightarrow> string" where
  "exn_text e = (if exn_cls e = KeyError then repr_str (exn_msg e) else exn_msg e)"

section \<open>Short references\<close>

definition READ_MANY :: string where
  "READ_MANY = ''ownward_evidence_read_many''"

definition id_fields :: "string list" where
  "id_fields = [''id'', ''source_id'', ''target_id'', ''start_ids'', ''continuation'']"

text \<open>The two tables of a session: from a host identifier to its reference and back.\<close>

type_synonym table = "(string \<times> string) list"

definition ref_name :: "nat \<Rightarrow> string" where
  "ref_name n = ''ref'' @ dec_nat n"

definition encode_id :: "string \<Rightarrow> table \<times> table \<Rightarrow> (table \<times> table) \<times> string" where
  "encode_id value t =
     (case map_of (fst t) value of
        Some alias \<Rightarrow> (t, alias)
      | None \<Rightarrow>
          (let alias = ref_name (length (fst t) + 1)
           in ((AList.update value alias (fst t), AList.update alias value (snd t)), alias)))"

definition decode_id :: "string \<Rightarrow> table \<times> table \<Rightarrow> string" where
  "decode_id value t = (case map_of (snd t) value of Some x \<Rightarrow> x | None \<Rightarrow> value)"

text \<open>A comprehension whose body changes the tables: the elements from left to right.\<close>

fun thread :: "('a \<Rightarrow> 't \<Rightarrow> 't \<times> 'b) \<Rightarrow> 'a list \<Rightarrow> 't \<Rightarrow> 't \<times> 'b list" where
  "thread f [] t = (t, [])"
| "thread f (x # xs) t = (case f x t of (t1, y) \<Rightarrow> (case thread f xs t1 of (t2, ys) \<Rightarrow> (t2, y # ys)))"

lemma thread_cong [fundef_cong]:
  "xs = ys \<Longrightarrow> t = u \<Longrightarrow> (\<And>x t. x \<in> set ys \<Longrightarrow> f x t = g x t) \<Longrightarrow> thread f xs t = thread g ys u"
proof (induction xs arbitrary: ys t u)
  case (Cons x xs)
  then have "thread f xs t' = thread g xs t'" for t' by auto
  then show ?case using Cons.prems by auto
qed auto

fun transform :: "bool \<Rightarrow> string option \<Rightarrow> val \<Rightarrow> table \<times> table \<Rightarrow> (table \<times> table) \<times> val" where
  "transform enc field (VDict d) t =
     map_prod id VDict (thread (\<lambda>(k, x) u. map_prod id (Pair k) (transform enc (Some k) x u)) d t)"
| "transform enc field (VList xs) t = map_prod id VList (thread (\<lambda>x u. transform enc field x u) xs t)"
| "transform enc field (VStr s) t =
     (if s \<noteq> [] \<and> field \<in> Some ` set id_fields then
        (if \<not> enc then (t, VStr (decode_id s t)) else map_prod id VStr (encode_id s t))
      else (t, VStr s))"
| "transform enc field v t = (t, v)"

section \<open>The session\<close>

record 'h tool_session =
  ts_host :: 'h
  ts_limit :: int
  ts_forward :: table
  ts_reverse :: table
  ts_catalog :: "val list"
  ts_dynamic_tools :: "val list"
  ts_definition :: val
  ts_manifest_identity :: string

abbreviation on_tool_host :: "('h, 'a) st \<Rightarrow> ('h tool_session, 'a) st" where
  "on_tool_host \<equiv> on_part ts_host (\<lambda>h. ts_host_update (\<lambda>_. h))"

definition read_many_definition :: "int \<Rightarrow> val" where
  "read_many_definition limit = VDict
     [(''name'', VStr READ_MANY),
      (''description'', VStr (''Read multiple already-observed evidence references together. Choose the references '' @
         ''needed for the task. Each reference consumes one original read and one tool call; '' @
         ''all returned text counts toward the same character budget. Returns each original '' @
         ''result or error in input order.'')),
      (''inputSchema'', VDict
         [(''type'', VStr ''object''), (''additionalProperties'', VBool False),
          (''required'', VList [VStr ''ids'']),
          (''properties'', VDict [(''ids'', VDict
             [(''type'', VStr ''array''), (''minItems'', VInt 1), (''maxItems'', VInt limit),
              (''items'', VDict [(''type'', VStr ''string''), (''minLength'', VInt 1)])])])])]"

text \<open>The condition of the tool list, and the \<open>any\<close> that decides on the grouped read.\<close>

definition tool_offered :: "bool \<Rightarrow> bool \<Rightarrow> val \<Rightarrow> bool res" where
  "tool_offered can_call can_read tool =
     (if \<not> can_call then Inr False
      else if can_read then Inr True
      else bnd (vsub tool ''name'') (\<lambda>n.
           bnd (in_set n [''ownward_read'', ''ownward_evidence_read'']) (\<lambda>b. Inr (\<not> b))))"

definition is_evidence_read :: "val \<Rightarrow> bool res" where
  "is_evidence_read tool = bnd (vsub tool ''name'') (\<lambda>n. Inr (py_eq n (VStr ''ownward_evidence_read'')))"

definition available_tools :: "val list \<Rightarrow> val \<Rightarrow> bool \<Rightarrow> bool \<Rightarrow> val list res" where
  "available_tools catalog defn can_call can_read =
     bnd (filterm (tool_offered can_call can_read) catalog) (\<lambda>available.
     bnd (anym is_evidence_read available) (\<lambda>b.
     Inr (if b then available @ [defn] else available)))"

definition refresh :: "'h host \<Rightarrow> ('h tool_session, unit) st" where
  "refresh H =
     st_bnd (on_tool_host (host_retrieval_capacity H)) (\<lambda>(can_call, can_read).
     st_bnd (st_read (\<lambda>s. available_tools (ts_catalog s) (ts_definition s) can_call can_read)) (\<lambda>available.
     st_upd (\<lambda>s. s\<lparr>ts_dynamic_tools := available\<rparr>)))"

text \<open>\<open>__init__\<close>: the host's state becomes part of the session; an exception leaves the host as the
  capacity query left it.\<close>

definition new_tool_session :: "'h host \<Rightarrow> val \<Rightarrow> ('h, 'h tool_session) st" where
  "new_tool_session H read_limit h =
     (case bnd (py_int read_limit) (\<lambda>limit. bnd (py_iter (host_dynamic_tools H h)) (\<lambda>catalog. Inr (limit, catalog))) of
        Inl e \<Rightarrow> (h, Inl e)
      | Inr (limit, catalog) \<Rightarrow>
          (case refresh H \<lparr>ts_host = h, ts_limit = limit, ts_forward = [], ts_reverse = [], ts_catalog = catalog,
                           ts_dynamic_tools = [], ts_definition = read_many_definition limit,
                           ts_manifest_identity = []\<rparr> of
             (s, Inl e) \<Rightarrow> (ts_host s, Inl e)
           | (s, Inr _) \<Rightarrow>
               (ts_host s, Inr (s\<lparr>ts_manifest_identity := sha256_hex (canonical (VList (ts_dynamic_tools s)))\<rparr>))))"

definition tool_instructions :: "'h host \<Rightarrow> 'h tool_session \<Rightarrow> val" where
  "tool_instructions H s = host_instructions H (ts_host s)"

text \<open>\<open>self.transform(value, encode)\<close> on the session's tables.\<close>

definition transform_st :: "bool \<Rightarrow> val \<Rightarrow> ('h tool_session, val) st" where
  "transform_st enc v s =
     (case transform enc None v (ts_forward s, ts_reverse s) of
        ((f, r), v') \<Rightarrow> (s\<lparr>ts_forward := f, ts_reverse := r\<rparr>, Inr v'))"

definition single :: "'h host \<Rightarrow> string \<Rightarrow> val \<Rightarrow> ('h tool_session, val) st" where
  "single H name arguments =
     st_finally
       (st_bnd (transform_st False arguments) (\<lambda>a.
        st_bnd (on_tool_host (host_call H name a)) (\<lambda>r. transform_st True r)))
       (refresh H)"

text \<open>The guard of the grouped read, and one round of its loop.\<close>

definition read_many_ok :: "int \<Rightarrow> val \<Rightarrow> bool" where
  "read_many_ok limit arguments =
     (is_dict arguments \<and> keyset_is arguments [''ids''] \<and> is_list (fld arguments ''ids'') \<and>
      (case fld arguments ''ids'' of VList refs \<Rightarrow>
         1 \<le> length refs \<and> int (length refs) \<le> limit \<and> list_all (\<lambda>ref. is_str ref \<and> truthy ref) refs
       | _ \<Rightarrow> False))"

definition read_one :: "'h host \<Rightarrow> val \<Rightarrow> ('h tool_session, val) st" where
  "read_one H ref =
     st_try
       (st_bnd (single H ''ownward_evidence_read'' (VDict [(''id'', ref)])) (\<lambda>r.
        st_ret (Inr (VDict [(''id'', ref), (''result'', r)]))))
       (\<lambda>error. st_ret (Inr (VDict [(''id'', ref), (''error'', VStr (exn_text error))])))"

fun refs_of :: "val \<Rightarrow> val list" where
  "refs_of (VList xs) = xs" | "refs_of _ = []"

definition tool_call :: "'h host \<Rightarrow> string \<Rightarrow> val \<Rightarrow> ('h tool_session, val) st" where
  "tool_call H name arguments =
     (if name \<noteq> READ_MANY then single H name arguments
      else
        st_bnd (st_read (\<lambda>s. chk (read_many_ok (ts_limit s) arguments)
          (Exn ValueError ''Expected an ids list within the original read limit; no action executed.'')
          (Inr (refs_of (fld arguments ''ids''))))) (\<lambda>refs.
        st_bnd (st_mapm (read_one H) refs) (\<lambda>results.
        st_ret (Inr (VDict [(''results'', VList results)])))))"

definition tool_reset_attempt :: "'h host \<Rightarrow> ('h tool_session, unit) st" where
  "tool_reset_attempt H = st_bnd (on_tool_host (host_reset_attempt H)) (\<lambda>_. refresh H)"

definition tool_restore :: "'h host \<Rightarrow> val \<Rightarrow> ('h tool_session, unit) st" where
  "tool_restore H value = st_bnd (on_tool_host (host_restore H value)) (\<lambda>_. refresh H)"

definition tool_report :: "'h host \<Rightarrow> ('h tool_session, val) st" where
  "tool_report H = on_tool_host (host_report H)"

definition tool_validate :: "'h host \<Rightarrow> ('h tool_session, val) st" where
  "tool_validate H = on_tool_host (host_validate H)"

text \<open>The session in the place of a host, as \<open>UseSession\<close> takes it: of the operations below that class
  calls \<open>call\<close>, \<open>report\<close> and \<open>restore\<close>.\<close>

definition tool_host :: "'h host \<Rightarrow> 'h tool_session host" where
  "tool_host H =
     \<lparr>host_call = tool_call H, host_reset_attempt = tool_reset_attempt H, host_report = tool_report H,
      host_restore = tool_restore H, host_validate = tool_validate H,
      host_retrieval_capacity = on_tool_host (host_retrieval_capacity H),
      host_dynamic_tools = (\<lambda>s. VList (ts_dynamic_tools s)),
      host_instructions = tool_instructions H\<rparr>"

end
