(* ===== verification/Json_Roundtrip.thy ===== *)
theory Json_Roundtrip
  imports Py_Text
begin

text \<open>
  \<open>json.loads\<close> inverts \<open>json.dumps\<close> on values without floats, for every layout the program writes:
  indented files, the compact canonical form that is hashed, and the default one-line form.
\<close>

section \<open>Numbers and texts\<close>

definition stops :: "string \<Rightarrow> bool" where
  "stops r = (r = [] \<or> \<not> is_digit (hd r) \<and> hd r \<noteq> CHR ''.'' \<and> hd r \<noteq> CHR ''e'' \<and> hd r \<noteq> CHR ''E'')"

lemma is_digit_char_of: "n < 10 \<Longrightarrow> is_digit (char_of (48 + n :: nat))"
  by (simp add: is_digit_def of_char_of)

lemma digit_val_char_of: "n < 10 \<Longrightarrow> digit_val (char_of (48 + n)) = n"
  by (simp add: digit_val_def of_char_of)

lemma dec_nat_digits: "list_all is_digit (dec_nat n)"
proof (induction n rule: dec_nat.induct)
  case (1 n)
  then show ?case
    by (subst dec_nat.simps) (auto simp: is_digit_char_of)
qed

lemma dec_nat_ne: "dec_nat n \<noteq> []"
  by (subst dec_nat.simps) simp

lemma nat_of_digits_snoc: "nat_of_digits (xs @ [c]) = 10 * nat_of_digits xs + digit_val c"
  by (simp add: nat_of_digits_def)

lemma nat_of_digits_dec_nat: "nat_of_digits (dec_nat n) = n"
proof (induction n rule: dec_nat.induct)
  case (1 n)
  show ?case
  proof (cases "n < 10")
    case True
    then show ?thesis by (subst dec_nat.simps) (simp add: nat_of_digits_def digit_val_char_of)
  next
    case False
    then have "dec_nat n = dec_nat (n div 10) @ [char_of (48 + n mod 10)]" by (subst dec_nat.simps) simp
    then show ?thesis using 1 [OF False] by (simp add: nat_of_digits_snoc digit_val_char_of)
  qed
qed

lemma dec_nat_hd: "0 < n \<Longrightarrow> hd (dec_nat n) \<noteq> CHR ''0''"
proof (induction n rule: dec_nat.induct)
  case (1 n)
  show ?case
  proof (cases "n < 10")
    case True
    have "char_of (48 + n) \<noteq> CHR ''0''"
    proof
      assume "char_of (48 + n) = CHR ''0''"
      then have "of_char (char_of (48 + n) :: char) = (48 :: nat)" by simp
      then show False using True 1(2) by (simp add: of_char_of)
    qed
    with True show ?thesis by (subst dec_nat.simps) simp
  next
    case False
    then have "dec_nat n = dec_nat (n div 10) @ [char_of (48 + n mod 10)]" by (subst dec_nat.simps) simp
    moreover have "0 < n div 10" using False by simp
    ultimately show ?thesis using 1(1) [OF False] dec_nat_ne [of "n div 10"] by simp
  qed
qed

lemma takeWhile_digits:
  assumes "list_all is_digit ds" and "stops r"
  shows "takeWhile is_digit (ds @ r) = ds"
proof -
  have "takeWhile is_digit r = []" using assms(2) by (cases r) (auto simp: stops_def)
  then show ?thesis using assms(1) by (simp add: takeWhile_append2 list_all_iff)
qed

lemma pfrac_stops: "stops r \<Longrightarrow> pfrac r = ([], r)"
  by (cases r) (auto simp: pfrac_def stops_def Let_def)

lemma pexp_stops: "stops r \<Longrightarrow> pexp r = (None, r)"
  by (cases r) (auto simp: pexp_def stops_def)

lemma dec_nat_zero: "dec_nat 0 = ''0''"
  by code_simp

lemma pnum_nat:
  assumes "stops r"
  shows "pnum (dec_nat n @ r) = Some (VInt (int n), r)" and "pnum (''-'' @ dec_nat n @ r) = Some (VInt (- int n), r)"
proof -
  let ?ds = "dec_nat n"
  obtain c cs where ds: "?ds = c # cs" using dec_nat_ne [of n] by (cases ?ds) auto
  have c: "is_digit c" using dec_nat_digits [of n] ds by simp
  have m: "c \<noteq> CHR ''-''" using c by (auto simp: is_digit_def)
  have ip: "(if take 1 ?ds = ''0'' then ''0'' else ?ds) = ?ds"
    using dec_nat_hd [of n] dec_nat_zero ds by (cases "n = 0") auto
  have t: "takeWhile is_digit (?ds @ r) = ?ds" by (rule takeWhile_digits [OF dec_nat_digits assms])
  have p: "(take 1 (?ds @ r) = ''-'') = False" using m ds by simp
  have q: "(take 1 (''-'' @ ?ds @ r) = ''-'') = True" "drop 1 (''-'' @ ?ds @ r) = ?ds @ r" by simp_all
  have l: "drop (length ?ds) (?ds @ r) = r" by simp
  show "pnum (?ds @ r) = Some (VInt (int n), r)"
    by (simp only: pnum_def Let_def p if_False t ip l pfrac_stops [OF assms] pexp_stops [OF assms] prod.case)
      (simp add: nat_of_digits_dec_nat dec_nat_ne)
  show "pnum (''-'' @ ?ds @ r) = Some (VInt (- int n), r)"
    by (simp only: pnum_def Let_def q if_True t ip l pfrac_stops [OF assms] pexp_stops [OF assms] prod.case)
      (simp add: nat_of_digits_dec_nat dec_nat_ne)
qed

lemma digit_not_letter: "is_digit c \<Longrightarrow> c \<notin> {CHR ''n'', CHR ''t'', CHR ''f'', CHR ''N'', CHR ''I'', CHR ''-'', CHR ''['', CHR ''{'', quote2}"
  by (auto simp: is_digit_def quote2_def of_char_of)

lemma pscalar_int: "stops r \<Longrightarrow> pscalar (dec_int i @ r) = Some (VInt i, r)"
proof -
  assume s: "stops r"
  obtain c cs where ds: "dec_nat (nat i) = c # cs" using dec_nat_ne [of "nat i"] by (cases "dec_nat (nat i)") auto
  obtain c' cs' where ds': "dec_nat (nat (- i)) = c' # cs'" using dec_nat_ne [of "nat (- i)"] by (cases "dec_nat (nat (- i))") auto
  have "is_digit c" "is_digit c'" using dec_nat_digits [of "nat i"] dec_nat_digits [of "nat (- i)"] ds ds' by simp_all
  then have n: "c \<notin> {CHR ''n'', CHR ''t'', CHR ''f'', CHR ''N'', CHR ''I'', CHR ''-''}" "c' \<noteq> CHR ''I''"
    using digit_not_letter by blast+
  show ?thesis
  proof (cases "i < 0")
    case True
    then show ?thesis using pnum_nat(2) [OF s, of "nat (- i)"] n ds' by (auto simp: dec_int_def pscalar_def)
  next
    case False
    then show ?thesis using pnum_nat(1) [OF s, of "nat i"] n ds by (auto simp: dec_int_def pscalar_def)
  qed
qed

lemma hex_val_digit: "m < 16 \<Longrightarrow> hex_val (hex_digits ! m) = Some m"
proof -
  assume "m < 16"
  then have "m \<in> set [0..<16]" by simp
  moreover have "\<forall>m \<in> set [0..<16]. hex_val (hex_digits ! m) = Some m"
    by (simp add: hex_digits_def upt_rec)
  ultimately show ?thesis by blast
qed

lemma unescape_u_control:
  assumes "n < 32" shows "unescape_u (''00'' @ hex2 n @ r) = Some ([char_of n], r)"
proof -
  have z: "hex_val CHR ''0'' = Some 0" by simp
  have "hex4 (''00'' @ hex2 n @ r) = Some (n, r)"
    using assms hex_val_digit [of "n div 16 mod 16"] hex_val_digit [of "n mod 16"]
    by (simp add: hex2_def z del: hex_val.simps)
  then show ?thesis using assms by (simp add: unescape_u_def utf8_def)
qed

lemma esc_char_simps: "esc_char (char_of (34::nat)) = Some (char_of (34::nat))" "esc_char (char_of (92::nat)) = Some (char_of (92::nat))"
  "esc_char CHR ''b'' = Some (char_of (8::nat))" "esc_char CHR ''t'' = Some (char_of (9::nat))"
  "esc_char CHR ''n'' = Some (char_of (10::nat))" "esc_char CHR ''f'' = Some (char_of (12::nat))"
  "esc_char CHR ''r'' = Some (char_of (13::nat))"
  by code_simp+

lemma pstr_json_char: "pstr (json_char c @ r) = map_option (\<lambda>(t, r'). (c # t, r')) (pstr r)"
proof -
  let ?n = "of_char c :: nat"
  have c: "c = char_of ?n" by simp
  have u: "CHR ''u'' \<noteq> char_of (34::nat)" "CHR ''u'' \<noteq> char_of (92::nat)" by code_simp+
  have bs: "of_char (char_of (92::nat) :: char) = (92 :: nat)" "char_of (92::nat) \<noteq> quote2"
    by code_simp+
  consider "?n = 34" | "?n = 92" | "?n = 8" | "?n = 9" | "?n = 10" | "?n = 12" | "?n = 13"
    | "?n < 32" "?n \<notin> {8, 9, 10, 12, 13}" | "32 \<le> ?n" "?n \<noteq> 34" "?n \<noteq> 92" by fastforce
  then show ?thesis
  proof cases
    case 8
    then show ?thesis using bs u unescape_u_control [OF 8(1), of r] c
      by (simp add: json_char_def Let_def split: option.splits)
  next
    case 9
    have "c \<noteq> quote2" using 9 by (auto simp: quote2_def)
    then show ?thesis using 9 by (simp add: json_char_def Let_def)
  qed (use bs u esc_char_simps c in \<open>auto simp: json_char_def Let_def\<close>)
qed

lemma pstr_json_str: "pstr (concat (map json_char s) @ quote2 # r) = Some (s, r)"
  by (induction s) (simp_all add: pstr_json_char)


section \<open>Layouts\<close>

text \<open>The white space a layout puts after an opening bracket, after a comma, before a closing bracket and
  after a colon, by nesting depth.\<close>

record layout =
  after_open :: "nat \<Rightarrow> string"
  after_comma :: "nat \<Rightarrow> string"
  before_close :: "nat \<Rightarrow> string"
  after_colon :: string

definition blank :: "string \<Rightarrow> bool" where
  "blank w = list_all is_ws w"

definition layout_ok :: "layout \<Rightarrow> bool" where
  "layout_ok l = ((\<forall>n. blank (after_open l n) \<and> blank (after_comma l n) \<and> blank (before_close l n)) \<and> blank (after_colon l))"

fun render :: "layout \<Rightarrow> nat \<Rightarrow> val \<Rightarrow> string" where
  "render l n (VList xs) =
     (if xs = [] then ''[]''
      else ''['' @ after_open l n @ join ('','' @ after_comma l n) (map (render l (Suc n)) xs) @ before_close l n @ '']'')"
| "render l n (VDict d) =
     (if d = [] then ''{}''
      else ''{'' @ after_open l n @
           join ('','' @ after_comma l n) (map (\<lambda>(k, x). json_str k @ '':'' @ after_colon l @ render l (Suc n) x) d) @
           before_close l n @ ''}'')"
| "render l n v = json_scalar v"

definition indent_layout :: layout where
  "indent_layout = \<lparr>after_open = \<lambda>n. newline (Suc n), after_comma = \<lambda>n. newline (Suc n), before_close = newline,
     after_colon = '' ''\<rparr>"

definition line_layout :: layout where
  "line_layout = \<lparr>after_open = \<lambda>n. [], after_comma = \<lambda>n. '' '', before_close = \<lambda>n. [], after_colon = '' ''\<rparr>"

definition compact_layout :: layout where
  "compact_layout = \<lparr>after_open = \<lambda>n. [], after_comma = \<lambda>n. [], before_close = \<lambda>n. [], after_colon = []\<rparr>"

lemma blank_newline: "blank (newline n)"
proof -
  have "is_ws (char_of (10::nat))" "is_ws CHR '' ''" by code_simp+
  then show ?thesis by (simp add: blank_def newline_def list_all_iff)
qed

lemma layouts_ok: "layout_ok indent_layout" "layout_ok line_layout" "layout_ok compact_layout"
proof -
  have "is_ws CHR '' ''" by code_simp
  then show "layout_ok indent_layout" "layout_ok line_layout" "layout_ok compact_layout"
    using blank_newline
    by (simp_all add: layout_ok_def indent_layout_def line_layout_def compact_layout_def blank_def)
qed

lemma layout_fields [simp]:
  "after_open indent_layout n = newline (Suc n)" "after_comma indent_layout n = newline (Suc n)"
  "before_close indent_layout n = newline n" "after_colon indent_layout = '' ''"
  "after_open compact_layout n = []" "after_comma compact_layout n = []"
  "before_close compact_layout n = []" "after_colon compact_layout = []"
  by (simp_all add: indent_layout_def compact_layout_def)

lemma dumps_indent_render: "dumps_indent n v = render indent_layout n v"
proof (induction n v rule: dumps_indent.induct)
  case (1 n xs)
  then have "map (dumps_indent (Suc n)) xs = map (render indent_layout (Suc n)) xs" by (cases "xs = []") auto
  then show ?case by (simp only: dumps_indent.simps render.simps layout_fields)
next
  case (2 n d)
  then have "map (\<lambda>(k, x). json_str k @ '': '' @ dumps_indent (Suc n) x) d =
      map (\<lambda>(k, x). json_str k @ '': '' @ render indent_layout (Suc n) x) d"
    by (cases "d = []") auto
  then show ?case by (simp only: dumps_indent.simps render.simps layout_fields) simp
qed simp_all

text \<open>\<open>sort_keys=True\<close>: the value with every dictionary in the order of its keys.\<close>

fun sorted_val :: "val \<Rightarrow> val" where
  "sorted_val (VList xs) = VList (map sorted_val xs)"
| "sorted_val (VDict d) = VDict (sort_key fst (map (\<lambda>(k, x). (k, sorted_val x)) d))"
| "sorted_val v = v"

lemma sort_key_map_snd:
  "sort_key fst (map (\<lambda>(k, x). (k, f x)) d) = map (\<lambda>(k, x). (k, f x)) (sort_key fst d)"
proof -
  have i: "insort_key fst (k, f x) (map (\<lambda>(k, x). (k, f x)) e) = map (\<lambda>(k, x). (k, f x)) (insort_key fst (k, x) e)"
    for k x and e by (induction e) auto
  show ?thesis by (induction d) (auto simp: i)
qed

lemma canonical_render: "canonical v = render compact_layout n (sorted_val v)"
proof (induction v arbitrary: n rule: sorted_val.induct)
  case (1 xs)
  have m: "map canonical xs = map (render compact_layout (Suc n)) (map sorted_val xs)" using 1 by auto
  show ?case by (cases "xs = []") (simp_all del: map_map add: m)
next
  case (2 d)
  have e: "map (\<lambda>(k, x). (k, canonical x)) d = map (\<lambda>(k, x). (k, render compact_layout (Suc n) x)) (map (\<lambda>(k, x). (k, sorted_val x)) d)"
    using 2 by auto
  show ?case
  proof (cases "d = []")
    case False
    then have "sort_key fst (map (\<lambda>(k, x). (k, sorted_val x)) d) \<noteq> []"
      by (metis length_0_conv length_map length_sort)
    then show ?thesis
      by (simp add: key_order_def e sort_key_map_snd [of "render compact_layout (Suc n)"] del: map_map)
        (simp add: split_def comp_def)
  qed (simp add: key_order_def)
qed simp_all

section \<open>Parsing a rendered value\<close>

fun json_ok :: "val \<Rightarrow> bool" where
  "json_ok (VList xs) = list_all json_ok xs"
| "json_ok (VDict d) = (distinct (map fst d) \<and> list_all (\<lambda>(k, x). json_ok x) d)"
| "json_ok (VFloat x) = False"
| "json_ok _ = True"

definition starts :: "string \<Rightarrow> bool" where
  "starts s = (s \<noteq> [] \<and> \<not> is_ws (hd s) \<and> hd s \<noteq> CHR '']'' \<and> hd s \<noteq> CHR ''}'')"

lemma skip_blank: "blank w \<Longrightarrow> s = [] \<or> \<not> is_ws (hd s) \<Longrightarrow> skip_ws (w @ s) = s"
  by (cases s) (auto simp: blank_def skip_ws_def dropWhile_append2 list_all_iff)

lemma skip_ws_starts: "blank w \<Longrightarrow> starts s \<Longrightarrow> skip_ws (w @ s @ r) = s @ r"
  by (rule skip_blank) (auto simp: starts_def)

lemma starts_digit: "is_digit c \<Longrightarrow> starts (c # s)"
  by (auto simp: starts_def is_digit_def is_ws_def)

lemma starts_scalar: "v \<noteq> VList xs \<Longrightarrow> json_ok v \<Longrightarrow> (\<And>xs. v \<noteq> VList xs) \<Longrightarrow> (\<And>d. v \<noteq> VDict d) \<Longrightarrow> starts (json_scalar v)"
proof (cases v)
  case (VInt i)
  have "starts (dec_nat m)" for m
    using dec_nat_digits [of m] dec_nat_ne [of m] starts_digit by (cases "dec_nat m") auto
  moreover have "starts (CHR ''-'' # s)" for s by (simp add: starts_def is_ws_def)
  ultimately show ?thesis using VInt by (simp add: dec_int_def)
next
  case (VStr s)
  have "starts (quote2 # t)" for t
    unfolding starts_def list.sel by code_simp
  then show ?thesis using VStr by (simp add: json_str_def)
qed (auto simp: starts_def is_ws_def)

lemma starts_render: "json_ok v \<Longrightarrow> starts (render l n v)"
proof (cases v)
  case (VList xs)
  then show ?thesis by (auto simp: starts_def is_ws_def)
next
  case (VDict d)
  then show ?thesis by (auto simp: starts_def is_ws_def)
qed (use starts_scalar [of v "[]"] in auto)

lemma stops_close: "blank w \<Longrightarrow> c \<in> {CHR '','', CHR '']'', CHR ''}''} \<Longrightarrow> stops (w @ c # r)"
  by (cases w) (auto simp: stops_def blank_def is_ws_def is_digit_def)

lemma pval_scalar:
  assumes "json_ok v" and "\<And>xs. v \<noteq> VList xs" and "\<And>d. v \<noteq> VDict d" and "stops r"
  shows "pval (Suc n) (json_scalar v @ r) = Some (v, r)"
proof (cases v)
  case VNone
  have "CHR ''n'' \<noteq> quote2" by code_simp
  then show ?thesis using VNone by (simp add: pscalar_def pword_def)
next
  case (VBool b)
  have "CHR ''t'' \<noteq> quote2" "CHR ''f'' \<noteq> quote2" by code_simp+
  then show ?thesis using VBool by (simp add: pscalar_def pword_def)
next
  case (VInt i)
  obtain c cs where c: "dec_int i = c # cs" "is_digit c \<or> c = CHR ''-''"
  proof (cases "i < 0")
    case True
    then show ?thesis using that by (simp add: dec_int_def)
  next
    case False
    then show ?thesis
      using that dec_nat_ne [of "nat i"] dec_nat_digits [of "nat i"] by (cases "dec_nat (nat i)") (auto simp: dec_int_def)
  qed
  have "CHR ''-'' \<noteq> quote2" by code_simp
  then have "c \<noteq> quote2" "c \<noteq> CHR ''[''" "c \<noteq> CHR ''{''" using c(2) digit_not_letter by auto
  then show ?thesis using VInt c(1) pscalar_int [OF assms(4), of i] by simp
next
  case (VStr s)
  then show ?thesis using pstr_json_str [of s r] by (simp add: json_str_def)
qed (use assms in auto)

text \<open>Elements and members, given that every value parses back.\<close>

definition parses :: "layout \<Rightarrow> nat \<Rightarrow> val \<Rightarrow> bool" where
  "parses l m x = (\<forall>fuel r. 2 * length (render l m x) \<le> fuel \<and> stops r \<longrightarrow> pval fuel (render l m x @ r) = Some (x, r))"

lemma parr_render:
  assumes "xs \<noteq> []" and "\<forall>x \<in> set xs. json_ok x \<and> parses l m x" and "blank sp" and "blank cl"
    and "2 * length (join ('','' @ sp) (map (render l m) xs)) + 1 \<le> fuel"
  shows "parr fuel (join ('','' @ sp) (map (render l m) xs) @ cl @ CHR '']'' # r) = Some (xs, r)"
  using assms
proof (induction xs arbitrary: fuel)
  case Nil
  then show ?case by simp
next
  case (Cons x xs)
  obtain n where f: "fuel = Suc n" using Cons.prems(5) by (cases fuel) auto
  have px: "\<And>r. 2 * length (render l m x) \<le> n \<Longrightarrow> stops r \<Longrightarrow> pval n (render l m x @ r) = Some (x, r)"
    using Cons.prems(2) by (simp add: parses_def)
  show ?case
  proof (cases xs)
    case Nil
    have "pval n (render l m x @ cl @ CHR '']'' # r) = Some (x, cl @ CHR '']'' # r)"
      using Cons.prems(4,5) f Nil by (intro px stops_close) auto
    moreover have "skip_ws (cl @ CHR '']'' # r) = CHR '']'' # r"
      using Cons.prems(4) by (intro skip_blank) (auto simp: is_ws_def)
    ultimately show ?thesis by (simp add: f Nil)
  next
    case (Cons y ys)
    note xs = this and prems = Cons.prems
    let ?rest = "join ('','' @ sp) (map (render l m) xs) @ cl @ CHR '']'' # r"
    have te: "join ('','' @ sp) (map (render l m) (x # xs)) @ cl @ CHR '']'' # r = render l m x @ CHR '','' # sp @ ?rest"
      by (simp add: Cons)
    have len: "2 * length (render l m x) \<le> n" "2 * length (join ('','' @ sp) (map (render l m) xs)) + 1 \<le> n"
      using Cons.prems(5) f by (auto simp: Cons)
    have "pval n (render l m x @ CHR '','' # sp @ ?rest) = Some (x, CHR '','' # sp @ ?rest)"
      using len stops_close [of "[]" "CHR '',''"] by (intro px) (auto simp: blank_def)
    moreover have "skip_ws (CHR '','' # sp @ ?rest) = CHR '','' # sp @ ?rest"
      by (simp add: skip_ws_def is_ws_def)
    moreover have "skip_ws (sp @ ?rest) = ?rest"
    proof (rule skip_blank)
      show "?rest = [] \<or> \<not> is_ws (hd ?rest)"
        using starts_render [of y l m] Cons.prems(2) Cons by (cases ys) (auto simp: starts_def)
    qed (rule Cons.prems(3))
    moreover have "parr n ?rest = Some (xs, r)"
      using Cons.prems len by (intro Cons.IH) (auto simp: Cons)
    ultimately show ?thesis by (simp only: f te parr.simps(2)) simp
  qed
qed


definition member_text :: "layout \<Rightarrow> nat \<Rightarrow> string \<times> val \<Rightarrow> string" where
  "member_text l m kx = (case kx of (k, x) \<Rightarrow> json_str k @ '':'' @ after_colon l @ render l m x)"

lemma pobj_member:
  assumes "blank (after_colon l)" and "json_ok x"
  shows "pobj (Suc n) (member_text l m (k, x) @ t) =
      Option.bind (pval n (render l m x @ t)) (\<lambda>(x, r1). case skip_ws r1 of [] \<Rightarrow> None
               | d # ds \<Rightarrow>
                   if d = CHR '','' then map_option (\<lambda>(e, r'). ((k, x) # e, r')) (pobj n (skip_ws ds))
                   else if d = CHR ''}'' then Some ([(k, x)], ds) else None)"
proof -
  have "skip_ws (CHR '':'' # u) = CHR '':'' # u" for u by (simp add: skip_ws_def is_ws_def)
  moreover have "skip_ws (after_colon l @ render l m x @ t) = render l m x @ t"
    by (rule skip_ws_starts [OF assms(1) starts_render [OF assms(2)]])
  ultimately show ?thesis
    using pstr_json_str [of k "CHR '':'' # after_colon l @ render l m x @ t"]
    by (simp add: member_text_def json_str_def)
qed

lemma pobj_render:
  assumes "d \<noteq> []" and "\<forall>(k, x) \<in> set d. json_ok x \<and> parses l m x" and "blank sp" and "blank cl" and "blank (after_colon l)"
    and "2 * length (join ('','' @ sp) (map (member_text l m) d)) + 1 \<le> fuel"
  shows "pobj fuel (join ('','' @ sp) (map (member_text l m) d) @ cl @ CHR ''}'' # r) = Some (d, r)"
  using assms
proof (induction d arbitrary: fuel)
  case Nil
  then show ?case by simp
next
  case (Cons kx d)
  obtain k x where kx: "kx = (k, x)" by force
  obtain n where f: "fuel = Suc n" using Cons.prems(6) by (cases fuel) auto
  have px: "\<And>r. 2 * length (render l m x) \<le> n \<Longrightarrow> stops r \<Longrightarrow> pval n (render l m x @ r) = Some (x, r)"
    and ok: "json_ok x"
    using Cons.prems(2) kx by (auto simp: parses_def)
  note head = pobj_member [OF Cons.prems(5) ok, where n = n and k = k and m = m, folded kx]
  show ?case
  proof (cases d)
    case Nil
    have "pval n (render l m x @ cl @ CHR ''}'' # r) = Some (x, cl @ CHR ''}'' # r)"
      using Cons.prems(4,6) f Nil kx by (intro px stops_close) (auto simp: member_text_def)
    moreover have "skip_ws (cl @ CHR ''}'' # r) = CHR ''}'' # r"
      using Cons.prems(4) by (intro skip_blank) (auto simp: is_ws_def)
    ultimately show ?thesis using head [of "cl @ CHR ''}'' # r"] by (simp add: f Nil kx)
  next
    case (Cons y ys)
    let ?rest = "join ('','' @ sp) (map (member_text l m) d) @ cl @ CHR ''}'' # r"
    have te: "join ('','' @ sp) (map (member_text l m) (kx # d)) @ cl @ CHR ''}'' # r = member_text l m kx @ CHR '','' # sp @ ?rest"
      by (simp add: Cons)
    have "length (render l m x) \<le> length (member_text l m kx)" by (simp add: member_text_def kx)
    then have len: "2 * length (render l m x) \<le> n" "2 * length (join ('','' @ sp) (map (member_text l m) d)) + 1 \<le> n"
      using Cons.prems(6) f by (auto simp: Cons)
    have "pval n (render l m x @ CHR '','' # sp @ ?rest) = Some (x, CHR '','' # sp @ ?rest)"
      using len stops_close [of "[]" "CHR '',''"] by (intro px) (auto simp: blank_def)
    moreover have "skip_ws (CHR '','' # sp @ ?rest) = CHR '','' # sp @ ?rest"
      by (simp add: skip_ws_def is_ws_def)
    moreover have "skip_ws (sp @ ?rest) = ?rest"
    proof (rule skip_blank)
      have "\<not> is_ws quote2" by code_simp
      then show "?rest = [] \<or> \<not> is_ws (hd ?rest)"
        by (cases ys; cases y) (auto simp: Cons member_text_def json_str_def)
    qed (rule Cons.prems(3))
    moreover have "pobj n ?rest = Some (d, r)"
      using Cons.prems len by (intro Cons.IH) (auto simp: Cons)
    ultimately show ?thesis by (simp only: f te head) (simp add: kx)
  qed
qed

lemma update_fresh: "k \<notin> fst ` set d \<Longrightarrow> AList.update k v d = d @ [(k, v)]"
  by (induction d) auto

lemma dupdate_distinct: "distinct (map fst (d @ e)) \<Longrightarrow> dupdate d e = d @ e"
proof (induction e arbitrary: d)
  case (Cons x e)
  obtain k v where x: "x = (k, v)" by force
  have "AList.update k v d = d @ [(k, v)]"
    using Cons.prems x by (intro update_fresh) auto
  then show ?case using Cons.IH [of "d @ [(k, v)]"] Cons.prems by (simp add: dupdate_def x)
qed (simp add: dupdate_def)

lemma parses_scalar:
  assumes "json_ok v" and "\<And>xs. v \<noteq> VList xs" and "\<And>d. v \<noteq> VDict d"
  shows "parses l n v"
  unfolding parses_def
proof (intro allI impI, elim conjE)
  fix fuel r assume le: "2 * length (render l n v) \<le> fuel" and st: "stops r"
  have "render l n v \<noteq> []" using starts_render [OF assms(1)] by (auto simp: starts_def)
  then obtain m where "fuel = Suc m" using le by (cases fuel) auto
  moreover have "render l n v = json_scalar v" using assms by (cases v) auto
  ultimately show "pval fuel (render l n v @ r) = Some (v, r)" using pval_scalar [OF assms st] by simp
qed

lemma parses_list:
  assumes "layout_ok l" and "\<forall>x \<in> set xs. json_ok x \<and> parses l (Suc n) x"
  shows "parses l n (VList xs)"
proof -
  have b: "blank (after_open l n)" "blank (after_comma l n)" "blank (before_close l n)"
    using assms(1) by (auto simp: layout_ok_def)
  show ?thesis unfolding parses_def
  proof (intro allI impI, elim conjE)
    fix fuel r assume le: "2 * length (render l n (VList xs)) \<le> fuel" and st: "stops r"
    obtain m where f: "fuel = Suc m" using le by (cases fuel) (auto split: if_splits)
    have q: "CHR ''['' \<noteq> quote2" by code_simp
    show "pval fuel (render l n (VList xs) @ r) = Some (VList xs, r)"
    proof (cases "xs = []")
      case True
      then show ?thesis using q by (simp add: f skip_ws_def is_ws_def)
    next
      case False
      let ?j = "join ('','' @ after_comma l n) (map (render l (Suc n)) xs)"
      have oks: "\<forall>x \<in> set xs. json_ok x \<and> parses l (Suc n) x" using assms(2) by (auto simp: list_all_iff)
      have len: "2 * length ?j + 1 \<le> m" using le f False by simp
      obtain y ys where xs: "xs = y # ys" using False by (cases xs) auto
      have sj: "starts ?j" using starts_render [of y l "Suc n"] oks xs by (cases ys) (auto simp: starts_def)
      then obtain c cs where c: "?j = c # cs" "c \<noteq> CHR '']''" by (cases ?j) (auto simp: starts_def)
      have sk: "skip_ws (after_open l n @ ?j @ before_close l n @ CHR '']'' # r) = ?j @ before_close l n @ CHR '']'' # r"
        by (rule skip_ws_starts [OF b(1) sj])
      have pa: "parr m (?j @ before_close l n @ CHR '']'' # r) = Some (xs, r)"
        by (rule parr_render [OF False oks b(2,3) len])
      have te: "render l n (VList xs) @ r = CHR ''['' # after_open l n @ ?j @ before_close l n @ CHR '']'' # r"
        using False by simp
      show ?thesis using q sk pa c by (simp only: f te pval.simps(2)) (simp del: join_simps)
    qed
  qed
qed

lemma parses_dict:
  assumes "layout_ok l" and "\<forall>(k, x) \<in> set d. json_ok x \<and> parses l (Suc n) x" and "distinct (map fst d)"
  shows "parses l n (VDict d)"
proof -
  have b: "blank (after_open l n)" "blank (after_comma l n)" "blank (before_close l n)" "blank (after_colon l)"
    using assms(1) by (auto simp: layout_ok_def)
  show ?thesis unfolding parses_def
  proof (intro allI impI, elim conjE)
    fix fuel r assume le: "2 * length (render l n (VDict d)) \<le> fuel" and st: "stops r"
    obtain m where f: "fuel = Suc m" using le by (cases fuel) (auto split: if_splits)
    have q: "CHR ''{'' \<noteq> quote2" by code_simp
    have mt: "map (\<lambda>(k, x). json_str k @ '':'' @ after_colon l @ render l (Suc n) x) d = map (member_text l (Suc n)) d"
      by (simp add: member_text_def)
    show "pval fuel (render l n (VDict d) @ r) = Some (VDict d, r)"
    proof (cases "d = []")
      case True
      then show ?thesis using q by (simp add: f skip_ws_def is_ws_def)
    next
      case False
      let ?j = "join ('','' @ after_comma l n) (map (member_text l (Suc n)) d)"
      have oks: "\<forall>(k, x) \<in> set d. json_ok x \<and> parses l (Suc n) x" using assms(2) by (auto simp: list_all_iff)
      have te: "render l n (VDict d) @ r = CHR ''{'' # after_open l n @ ?j @ before_close l n @ CHR ''}'' # r"
        using False by (simp only: render.simps if_False mt) simp
      have "length (render l n (VDict d) @ r) = length (CHR ''{'' # after_open l n @ ?j @ before_close l n @ CHR ''}'' # r)"
        by (simp only: te)
      then have len: "2 * length ?j + 1 \<le> m" using le f by simp
      obtain y ys where d: "d = y # ys" using False by (cases d) auto
      have "starts (quote2 # t)" for t unfolding starts_def list.sel by code_simp
      then have sj: "starts ?j" using d by (cases ys; cases y) (auto simp: member_text_def json_str_def)
      then obtain c cs where c: "?j = c # cs" "c \<noteq> CHR ''}''" by (cases ?j) (auto simp: starts_def)
      have sk: "skip_ws (after_open l n @ ?j @ before_close l n @ CHR ''}'' # r) = ?j @ before_close l n @ CHR ''}'' # r"
        by (rule skip_ws_starts [OF b(1) sj])
      have pa: "pobj m (?j @ before_close l n @ CHR ''}'' # r) = Some (d, r)"
        by (rule pobj_render [OF False oks b(2,3,4) len])
      have du: "dupdate [] d = d" using dupdate_distinct [of "[]" d] assms(3) by simp
      show ?thesis using q sk pa c du by (simp only: f te pval.simps(2)) (simp del: join_simps)
    qed
  qed
qed

lemma parses_render:
  assumes "layout_ok l" shows "json_ok v \<Longrightarrow> parses l n v"
proof (induction v arbitrary: n rule: json_ok.induct)
  case (1 xs)
  then show ?case by (intro parses_list [OF assms]) (auto simp: list_all_iff)
next
  case (2 d)
  then show ?case by (intro parses_dict [OF assms]) (auto simp: list_all_iff)
next
  case (3 x)
  then show ?case by simp
qed (rule parses_scalar; simp)+

theorem json_loads_render:
  assumes "layout_ok l" and "json_ok v" and "blank w"
  shows "json_loads (render l n v @ w) = Inr v"
proof -
  let ?t = "render l n v"
  have s: "skip_ws (?t @ w) = ?t @ w" using skip_ws_starts [of "[]" ?t w] starts_render [OF assms(2)] by (simp add: blank_def)
  have st: "stops w" using assms(3) by (cases w) (auto simp: stops_def blank_def is_ws_def is_digit_def)
  have "pval (2 * length (?t @ w) + 2) (?t @ w) = Some (v, w)"
    using parses_render [OF assms(1,2), of n] st unfolding parses_def by (metis le_add1 length_append mult_le_mono2 trans_le_add1)
  moreover have "skip_ws w = []" using assms(3) by (simp add: blank_def skip_ws_def list_all_iff)
  ultimately show ?thesis by (simp add: json_loads_def s)
qed

end
