(* ===== verification/Tool_References.thy ===== *)
theory Tool_References
  imports Tool_Session Json_Roundtrip "HOL-Library.Sublist"
begin

text \<open>
  The short references of an \<open>EvidenceToolSession\<close>. The two tables are always inverse to each other
  and number the identifiers in the order they were first shown (\<open>refs_wf\<close>); no operation of the
  session ever changes or forgets an entry (\<open>tables_ext\<close>), so a reference the agent noted down keeps
  its meaning; and what the session shows the agent decodes to what the host sent
  (\<open>transform_reverses\<close>).
\<close>

section \<open>The tables\<close>

definition refs_wf :: "table \<times> table \<Rightarrow> bool" where
  "refs_wf t = (distinct (map fst (fst t)) \<and> map snd (fst t) = map ref_name [1..<Suc (length (fst t))] \<and>
     snd t = map prod.swap (fst t))"

definition extends :: "table \<times> table \<Rightarrow> table \<times> table \<Rightarrow> bool" where
  "extends t u = (prefix (fst t) (fst u) \<and> prefix (snd t) (snd u))"

lemma dec_nat_inj: "dec_nat m = dec_nat n \<longleftrightarrow> m = n"
  by (metis nat_of_digits_dec_nat)

lemma ref_name_inj [simp]: "ref_name m = ref_name n \<longleftrightarrow> m = n"
  by (simp add: ref_name_def dec_nat_inj)

lemma extends_refl [simp]: "extends t t"
  by (simp add: extends_def)

lemma extends_trans: "extends t u \<Longrightarrow> extends u w \<Longrightarrow> extends t w"
  by (auto simp: extends_def intro: prefix_order.trans)

lemma refs_wf_empty [simp]: "refs_wf ([], [])"
  by (simp add: refs_wf_def)

lemma refs_wf_distinct_aliases: "refs_wf t \<Longrightarrow> distinct (map fst (snd t))"
proof -
  assume w: "refs_wf t"
  have "map fst (snd t) = map snd (fst t)" using w by (simp add: refs_wf_def comp_def del: upt_Suc)
  also have "\<dots> = map ref_name [1..<Suc (length (fst t))]" using w by (simp add: refs_wf_def del: upt_Suc)
  finally show ?thesis by (simp add: distinct_map inj_on_def del: upt_Suc)
qed

lemma map_of_prefix: "prefix t u \<Longrightarrow> map_of t k = Some v \<Longrightarrow> map_of u k = Some v"
  by (auto simp: prefix_def map_of_append)

text \<open>A reference and its identifier are looked up from each other.\<close>

lemma refs_wf_inverse: "refs_wf t \<Longrightarrow> map_of (fst t) x = Some a \<longleftrightarrow> map_of (snd t) a = Some x"
  using refs_wf_distinct_aliases [of t] by (auto simp: refs_wf_def map_of_eq_Some_iff)

lemma refs_wf_alias: "refs_wf t \<Longrightarrow> map_of (fst t) x = Some a \<Longrightarrow> \<exists>n. 1 \<le> n \<and> n \<le> length (fst t) \<and> a = ref_name n"
proof -
  assume w: "refs_wf t" and m: "map_of (fst t) x = Some a"
  have "a \<in> set (map snd (fst t))" using map_of_SomeD [OF m] by force
  also have "\<dots> = set (map ref_name [1..<Suc (length (fst t))])" using w by (simp add: refs_wf_def del: upt_Suc)
  finally have "a \<in> set (map ref_name [1..<Suc (length (fst t))])" .
  then show ?thesis by auto
qed

lemma fresh_alias: "refs_wf t \<Longrightarrow> ref_name (Suc (length (fst t))) \<notin> fst ` set (snd t)"
proof
  assume w: "refs_wf t" and i: "ref_name (Suc (length (fst t))) \<in> fst ` set (snd t)"
  then obtain x where "(ref_name (Suc (length (fst t))), x) \<in> set (snd t)" by auto
  then have "map_of (snd t) (ref_name (Suc (length (fst t)))) = Some x"
    using refs_wf_distinct_aliases [OF w] by (simp add: map_of_eq_Some_iff)
  then show False using refs_wf_alias [OF w] refs_wf_inverse [OF w] by fastforce
qed

lemma encode_id_new:
  assumes "refs_wf t" and "map_of (fst t) x = None"
  shows "encode_id x t = ((fst t @ [(x, ref_name (Suc (length (fst t))))], snd t @ [(ref_name (Suc (length (fst t))), x)]),
    ref_name (Suc (length (fst t))))"
proof -
  have "x \<notin> fst ` set (fst t)" using assms(2) by (simp add: map_of_eq_None_iff)
  then show ?thesis using assms(2) fresh_alias [OF assms(1)] by (simp add: encode_id_def Let_def update_fresh)
qed

lemma encode_id_old: "map_of (fst t) x = Some a \<Longrightarrow> encode_id x t = (t, a)"
  by (simp add: encode_id_def)

lemma refs_wf_new:
  "refs_wf t \<Longrightarrow> map_of (fst t) x = None \<Longrightarrow>
   refs_wf (fst t @ [(x, ref_name (Suc (length (fst t))))], snd t @ [(ref_name (Suc (length (fst t))), x)])"
  by (auto simp: refs_wf_def map_of_eq_None_iff)

section \<open>Encoding and decoding\<close>

text \<open>\<open>g\<close> undoes \<open>f\<close> on \<open>x\<close>, with the tables \<open>f\<close> left behind and with all that extend them.\<close>

definition reverses :: "('a \<Rightarrow> table \<times> table \<Rightarrow> (table \<times> table) \<times> 'b) \<Rightarrow> ('b \<Rightarrow> table \<times> table \<Rightarrow> (table \<times> table) \<times> 'a) \<Rightarrow> 'a \<Rightarrow> bool" where
  "reverses f g x = (\<forall>t t' y. refs_wf t \<longrightarrow> f x t = (t', y) \<longrightarrow>
     refs_wf t' \<and> extends t t' \<and> (\<forall>u. refs_wf u \<longrightarrow> extends t' u \<longrightarrow> g y u = (u, x)))"

lemma reversesI:
  assumes "\<And>t t' y. refs_wf t \<Longrightarrow> f x t = (t', y) \<Longrightarrow> refs_wf t' \<and> extends t t'"
    and "\<And>t t' y u. refs_wf t \<Longrightarrow> f x t = (t', y) \<Longrightarrow> refs_wf u \<Longrightarrow> extends t' u \<Longrightarrow> g y u = (u, x)"
  shows "reverses f g x"
  using assms unfolding reverses_def by blast

lemma reversesD:
  assumes "reverses f g x" and "refs_wf t" and "f x t = (t', y)"
  shows "refs_wf t'" and "extends t t'" and "refs_wf u \<Longrightarrow> extends t' u \<Longrightarrow> g y u = (u, x)"
  using assms unfolding reverses_def by blast+

lemma encode_id_reverses: "reverses encode_id (\<lambda>a u. (u, decode_id a u)) x"
proof (rule reversesI)
  fix t t' a assume w: "refs_wf t" and e: "encode_id x t = (t', a)"
  show wf: "refs_wf t' \<and> extends t t'"
    using w e by (cases "map_of (fst t) x") (auto simp: encode_id_new encode_id_old refs_wf_new extends_def)
  have "map_of (fst t') x = Some a"
    using w e by (cases "map_of (fst t) x") (auto simp: encode_id_new encode_id_old map_add_def)
  then have r: "map_of (snd t') a = Some x" using refs_wf_inverse wf by blast
  fix u assume "extends t' u"
  then have "map_of (snd u) a = Some x" using r map_of_prefix by (auto simp: extends_def)
  then show "(u, decode_id a u) = (u, x)" by (simp add: decode_id_def)
qed

lemma thread_reverses:
  assumes "\<And>x. x \<in> set xs \<Longrightarrow> reverses f g x"
  shows "reverses (thread f) (thread g) xs"
  using assms
proof (induction xs)
  case Nil
  show ?case by (rule reversesI) auto
next
  case (Cons x xs)
  have hd: "reverses f g x" and tl: "reverses (thread f) (thread g) xs" using Cons by simp_all
  show ?case
  proof (rule reversesI)
    fix t t' ys assume w: "refs_wf t" and e: "thread f (x # xs) t = (t', ys)"
    then obtain t1 y zs where t1: "f x t = (t1, y)" and t2: "thread f xs t1 = (t', zs)" and ys: "ys = y # zs"
      by (auto split: prod.splits)
    note h = reversesD [OF hd w t1]
    note l = reversesD [OF tl h(1) t2]
    show "refs_wf t' \<and> extends t t'" using h l extends_trans by blast
    fix u assume "refs_wf u" "extends t' u"
    then show "thread g ys u = (u, x # xs)" using h(3) l extends_trans by (simp add: ys)
  qed
qed

lemma transform_reverses: "reverses (transform True field) (transform False field) v"
proof (induction v arbitrary: field)
  case (VStr s)
  show ?case
  proof (cases "s \<noteq> [] \<and> field \<in> Some ` set id_fields")
    case True
    note id = reversesD [OF encode_id_reverses]
    show ?thesis
    proof (rule reversesI)
      fix t t' y assume w: "refs_wf t" and e: "transform True field (VStr s) t = (t', y)"
      then obtain a where a: "encode_id s t = (t', a)" and y: "y = VStr a" using True by (auto simp: map_prod_def split: prod.splits)
      show "refs_wf t' \<and> extends t t'" using id(1,2) [OF w a] by blast
      fix u assume u: "refs_wf u" "extends t' u"
      have "a \<noteq> []" using w a by (cases "map_of (fst t) s")
          (auto simp: encode_id_new encode_id_old ref_name_def dest!: refs_wf_alias)
      then show "transform False field y u = (u, VStr s)" using id(3) [OF w a u] True by (simp add: y)
    qed
  qed (auto intro!: reversesI)
next
  case (VList xs)
  have r: "reverses (thread (\<lambda>x u. transform True field x u)) (thread (\<lambda>x u. transform False field x u)) xs"
    using VList by (intro thread_reverses) blast
  show ?case
    by (rule reversesI) (use reversesD [OF r] in \<open>force simp: map_prod_def split: prod.splits\<close>)+
next
  case (VDict d)
  let ?f = "\<lambda>enc (k, x) u. map_prod id (Pair k) (transform enc (Some k) x u)"
  have "reverses (?f True) (?f False) (k, x)" if "(k, x) \<in> set d" for k x
  proof -
    have r: "reverses (transform True (Some k)) (transform False (Some k)) x" using VDict that by (auto simp: snds.simps)
    show ?thesis by (rule reversesI) (use reversesD [OF r] in \<open>force simp: map_prod_def split: prod.splits\<close>)+
  qed
  then have r: "reverses (thread (?f True)) (thread (?f False)) d" by (intro thread_reverses) auto
  show ?case
    by (rule reversesI) (use reversesD [OF r] in \<open>force simp: map_prod_def split: prod.splits\<close>)+
qed (auto intro!: reversesI)

lemma transform_wf: "refs_wf t \<Longrightarrow> transform True field v t = (t', w) \<Longrightarrow> refs_wf t'"
  using reversesD(1) [OF transform_reverses [of field v]] by blast

lemma thread_unchanged: "(\<And>x t. x \<in> set xs \<Longrightarrow> fst (f x t) = t) \<Longrightarrow> fst (thread f xs t) = t"
proof (induction xs arbitrary: t)
  case (Cons x xs)
  then have "fst (f x t) = t" "fst (thread f xs t) = t" by simp_all
  then show ?case by (simp add: split_def)
qed simp

lemma decode_tables: "fst (transform False field v t) = t"
proof (induction v arbitrary: field t)
  case (VList xs)
  then show ?case by (simp add: thread_unchanged)
next
  case (VDict d)
  have "fst (thread (\<lambda>(k, x) u. map_prod id (Pair k) (transform False (Some k) x u)) d t) = t"
    by (rule thread_unchanged) (use VDict in \<open>auto simp: snds.simps\<close>)
  then show ?case by simp
qed simp_all

section \<open>The tables of a session\<close>

abbreviation tables :: "'h tool_session \<Rightarrow> table \<times> table" where
  "tables s \<equiv> (ts_forward s, ts_reverse s)"

text \<open>What an operation may do to the tables: keep them well-formed and add to them.\<close>

definition tables_ext :: "'h tool_session \<Rightarrow> 'h tool_session \<Rightarrow> bool" where
  "tables_ext s s' = (refs_wf (tables s) \<longrightarrow> refs_wf (tables s') \<and> extends (tables s) (tables s'))"

inductive tool_step :: "'h host \<Rightarrow> 'h tool_session \<Rightarrow> 'h tool_session \<Rightarrow> bool" for H where
  step_call: "tool_call H name arguments s = (s', r) \<Longrightarrow> tool_step H s s'"
| step_reset: "tool_reset_attempt H s = (s', u) \<Longrightarrow> tool_step H s s'"
| step_restore: "tool_restore H value s = (s', u) \<Longrightarrow> tool_step H s s'"
| step_report: "tool_report H s = (s', r) \<Longrightarrow> tool_step H s s'"
| step_validate: "tool_validate H s = (s', r) \<Longrightarrow> tool_step H s s'"

interpretation tabs: preorder_kept tables_ext
  by unfold_locales (auto simp: tables_ext_def intro: extends_trans)

lemma keeps_tables_transform: "keeps tables_ext (transform_st enc v)"
proof (rule keepsI)
  fix s s' :: "'h tool_session" and r assume e: "transform_st enc v s = (s', r)"
  then obtain w where w: "transform enc None v (tables s) = (tables s', w)"
    by (auto simp: transform_st_def split: prod.splits)
  show "tables_ext s s'"
  proof (cases enc)
    case True
    then show ?thesis using reversesD(1,2) [OF transform_reverses] w by (auto simp: tables_ext_def)
  next
    case False
    then have "tables s' = tables s" using decode_tables [of None v "tables s"] w by simp
    then show ?thesis by (simp add: tables_ext_def)
  qed
qed

lemma keeps_tables_host: "keeps tables_ext (on_tool_host m)"
  by (rule keeps_on_part) (simp add: tables_ext_def)

lemma keeps_tables_refresh: "keeps tables_ext (refresh H)"
  unfolding refresh_def split_def
  by (intro tabs.keeps_rules keeps_tables_host keeps_upd) (simp add: tables_ext_def)

lemmas keeps_tables = tabs.keeps_rules keeps_tables_host keeps_tables_transform keeps_tables_refresh

lemma keeps_tables_single: "keeps tables_ext (single H name arguments)"
  unfolding single_def by (intro keeps_tables)

lemma keeps_tables_call: "keeps tables_ext (tool_call H name arguments)"
  unfolding tool_call_def read_one_def by (cases "name = READ_MANY") (simp_all, (intro keeps_tables keeps_tables_single)+)

lemma tool_step_tables: "tool_step H s s' \<Longrightarrow> tables_ext s s'"
proof (induction rule: tool_step.induct)
  case (step_call name arguments s s' r)
  then show ?case using keepsD [OF keeps_tables_call] by blast
next
  case (step_reset s s' u)
  moreover have "keeps tables_ext (tool_reset_attempt H)" unfolding tool_reset_attempt_def by (intro keeps_tables)
  ultimately show ?case by (blast dest: keepsD)
next
  case (step_restore v s s' u)
  moreover have "keeps tables_ext (tool_restore H v)" unfolding tool_restore_def by (intro keeps_tables)
  ultimately show ?case by (blast dest: keepsD)
next
  case (step_report s s' r)
  then show ?case using keepsD [OF keeps_tables_host] by (simp add: tool_report_def) blast
next
  case (step_validate s s' r)
  then show ?case using keepsD [OF keeps_tables_host] by (simp add: tool_validate_def) blast
qed

interpretation tool_tables: kept_by_steps tables_ext "tool_step H" for H
  by unfold_locales (rule tool_step_tables)

text \<open>A new session starts with empty tables.\<close>

lemma new_tool_session_tables:
  assumes "new_tool_session H read_limit h = (h', Inr s)"
  shows "tables s = ([], [])"
  using assms
  by (auto simp: new_tool_session_def refresh_def st_bnd_def st_read_def st_upd_def on_part_def
      split: sum.splits prod.splits)

lemma reached_tables:
  assumes "new_tool_session H read_limit h = (h', Inr s0)" and "(tool_step H)\<^sup>*\<^sup>* s0 s"
  shows "refs_wf (tables s)"
  using tool_tables.reach_kept [OF assms(2)] new_tool_session_tables [OF assms(1)] by (simp add: tables_ext_def)

end
