(* ===== verification/Tool_Calls.thy ===== *)
theory Tool_Calls
  imports Tool_References
begin

text \<open>
  The calls of an \<open>EvidenceToolSession\<close>: which tools are on offer after a refresh, that the grouped
  read is total and equals the separate reads in order, and that the set-up of a session (catalogue,
  limit, the definition of the grouped read) never changes.
\<close>

section \<open>Tools on offer\<close>

lemma available_tools_eq:
  assumes "available_tools catalog defn can_call can_read = Inr ts"
  obtains av where "av = filter (\<lambda>t. tool_offered can_call can_read t = Inr True) catalog"
    and "ts = (if \<exists>t \<in> set av. is_evidence_read t = Inr True then av @ [defn] else av)"
proof -
  from assms obtain av b where av: "filterm (tool_offered can_call can_read) catalog = Inr av"
    and b: "anym is_evidence_read av = Inr b" and ts: "ts = (if b then av @ [defn] else av)"
    by (auto simp: available_tools_def bnd_eq_Inr)
  have "b \<longleftrightarrow> (\<exists>t \<in> set av. is_evidence_read t = Inr True)"
    using b by (cases b) (auto simp: anym_Inr_False dest: anym_Inr_True)
  moreover have "av = filter (\<lambda>t. tool_offered can_call can_read t = Inr True) catalog" using av filterm_eq_Inr by blast
  ultimately show ?thesis using that ts by metis
qed

lemma tool_offered_read:
  "tool_offered can_call False t = Inr True \<Longrightarrow>
   \<exists>n. vsub t ''name'' = Inr n \<and> n \<noteq> VStr ''ownward_read'' \<and> n \<noteq> VStr ''ownward_evidence_read''"
  by (auto simp: tool_offered_def bnd_eq_Inr in_set_eq split: if_splits)

text \<open>What the capacity of the host means for the offer.\<close>

definition gated :: "bool \<Rightarrow> bool \<Rightarrow> 'h tool_session \<Rightarrow> bool" where
  "gated can_call can_read s =
     ((\<not> can_call \<longrightarrow> ts_dynamic_tools s = []) \<and>
      (\<not> can_read \<longrightarrow> set (ts_dynamic_tools s) \<subseteq> set (ts_catalog s) \<and>
         (\<forall>t \<in> set (ts_dynamic_tools s). \<exists>n. vsub t ''name'' = Inr n \<and> n \<noteq> VStr ''ownward_read'' \<and> n \<noteq> VStr ''ownward_evidence_read'')) \<and>
      (can_call \<and> can_read \<longrightarrow> ts_dynamic_tools s =
         (if \<exists>t \<in> set (ts_catalog s). is_evidence_read t = Inr True then ts_catalog s @ [ts_definition s] else ts_catalog s)))"

lemma available_gated:
  assumes "available_tools (ts_catalog s) (ts_definition s) can_call can_read = Inr (ts_dynamic_tools s)"
  shows "gated can_call can_read s"
proof -
  from available_tools_eq [OF assms] obtain av
    where av: "av = filter (\<lambda>t. tool_offered can_call can_read t = Inr True) (ts_catalog s)"
      and ts: "ts_dynamic_tools s = (if \<exists>t \<in> set av. is_evidence_read t = Inr True then av @ [ts_definition s] else av)" .
  have none: "av = []" if "\<not> can_call" using that av by (simp add: tool_offered_def)
  have all: "av = ts_catalog s" if "can_call" "can_read" using that av by (simp add: tool_offered_def)
  have rd: "\<exists>n. vsub t ''name'' = Inr n \<and> n \<noteq> VStr ''ownward_read'' \<and> n \<noteq> VStr ''ownward_evidence_read''"
    if "\<not> can_read" "t \<in> set av" for t
    using that av tool_offered_read by auto
  have ne: "\<not> (\<exists>t \<in> set av. is_evidence_read t = Inr True)" if "\<not> can_read"
    using rd [OF that] by (force simp: is_evidence_read_def)
  have sub: "set av \<subseteq> set (ts_catalog s)" using av by auto
  show ?thesis
    unfolding gated_def
  proof (intro conjI impI)
    assume c: "\<not> can_call"
    then show "ts_dynamic_tools s = []" using none ts by simp
  next
    assume r: "\<not> can_read"
    then have d: "ts_dynamic_tools s = av" using ne ts by simp
    show "set (ts_dynamic_tools s) \<subseteq> set (ts_catalog s)" using d sub by simp
    show "\<forall>t \<in> set (ts_dynamic_tools s). \<exists>n. vsub t ''name'' = Inr n \<and> n \<noteq> VStr ''ownward_read'' \<and> n \<noteq> VStr ''ownward_evidence_read''"
      using rd [OF r] d by blast
  next
    assume "can_call \<and> can_read"
    then show "ts_dynamic_tools s = (if \<exists>t \<in> set (ts_catalog s). is_evidence_read t = Inr True then ts_catalog s @ [ts_definition s] else ts_catalog s)"
      using all ts by simp
  qed
qed

lemma refresh_eq_Inr:
  assumes "refresh H s = (s', Inr u)"
  obtains can_call can_read where "host_retrieval_capacity H (ts_host s) = (ts_host s', Inr (can_call, can_read))"
    and "available_tools (ts_catalog s') (ts_definition s') can_call can_read = Inr (ts_dynamic_tools s')"
    and "tables s' = tables s"
  using assms that by (auto simp: refresh_def st_bnd_eq_Inr on_part_eq st_read_eq_Inr st_upd_eq)

section \<open>The set-up never changes\<close>

definition same_setup :: "'h tool_session \<Rightarrow> 'h tool_session \<Rightarrow> bool" where
  "same_setup s s' = (ts_catalog s' = ts_catalog s \<and> ts_limit s' = ts_limit s \<and> ts_definition s' = ts_definition s \<and>
     ts_manifest_identity s' = ts_manifest_identity s)"

interpretation conf: preorder_kept same_setup
  by unfold_locales (auto simp: same_setup_def)

lemma keeps_setup_host: "keeps same_setup (on_tool_host m)"
  by (rule keeps_on_part) (simp add: same_setup_def)

lemma keeps_setup_transform: "keeps same_setup (transform_st enc v)"
  by (rule keepsI) (auto simp: transform_st_def same_setup_def split: prod.splits)

lemma keeps_setup_refresh: "keeps same_setup (refresh H)"
  unfolding refresh_def split_def
  by (intro conf.keeps_rules keeps_setup_host keeps_upd) (simp add: same_setup_def)

lemmas keeps_setup = conf.keeps_rules keeps_setup_host keeps_setup_transform keeps_setup_refresh

lemma keeps_setup_call: "keeps same_setup (tool_call H name arguments)"
  unfolding tool_call_def read_one_def single_def
  by (cases "name = READ_MANY") (simp_all, (intro keeps_setup)+)

section \<open>One call\<close>

text \<open>A single call reaches the host once, with the references decoded, and ends with a refresh.\<close>

lemma single_run:
  "single H name arguments s =
     (case host_call H name (snd (transform False None arguments (tables s))) (ts_host s) of
        (h, r) \<Rightarrow> st_finally (case r of Inl e \<Rightarrow> st_ret (Inl e) | Inr v \<Rightarrow> transform_st True v) (refresh H) (s\<lparr>ts_host := h\<rparr>))"
proof -
  have d: "transform_st False arguments s = (s, Inr (snd (transform False None arguments (tables s))))"
    using decode_tables [of None arguments "tables s"] by (auto simp: transform_st_def split: prod.splits)
  show ?thesis
    by (simp add: single_def st_finally_def st_bnd_def d on_part_def st_ret_def split: prod.split sum.split)
qed

lemma single_gated:
  assumes "single H name arguments s = (s', Inr v)"
  shows "\<exists>h can_call can_read. host_retrieval_capacity H h = (ts_host s', Inr (can_call, can_read)) \<and> gated can_call can_read s'"
proof -
  from assms obtain s1 where "refresh H s1 = (s', Inr ())" by (auto simp: single_def st_finally_eq_Inr)
  then show ?thesis by (rule refresh_eq_Inr) (use available_gated in blast)
qed

section \<open>The grouped read\<close>

text \<open>The reference for the grouped read: the separate tool calls, one after the other.\<close>

fun one_by_one :: "'h host \<Rightarrow> val list \<Rightarrow> 'h tool_session \<Rightarrow> 'h tool_session \<times> val res list" where
  "one_by_one H [] s = (s, [])"
| "one_by_one H (ref # refs) s =
     (case tool_call H ''ownward_evidence_read'' (VDict [(''id'', ref)]) s of
        (s1, r) \<Rightarrow> (case one_by_one H refs s1 of (s2, rs) \<Rightarrow> (s2, r # rs)))"

definition outcome :: "val \<Rightarrow> val res \<Rightarrow> val" where
  "outcome ref r =
     (case r of Inl e \<Rightarrow> VDict [(''id'', ref), (''error'', VStr (exn_text e))] | Inr v \<Rightarrow> VDict [(''id'', ref), (''result'', v)])"

lemma single_is_call: "single H ''ownward_evidence_read'' a = tool_call H ''ownward_evidence_read'' a"
  by (simp add: tool_call_def READ_MANY_def)

lemma read_one_eq:
  "read_one H ref s = (case tool_call H ''ownward_evidence_read'' (VDict [(''id'', ref)]) s of (s', r) \<Rightarrow> (s', Inr (outcome ref r)))"
  by (simp add: read_one_def st_try_def st_bnd_def st_ret_def outcome_def single_is_call split: prod.split sum.split)

lemma read_loop_eq:
  "st_mapm (read_one H) refs s = (case one_by_one H refs s of (s', rs) \<Rightarrow> (s', Inr (map2 outcome refs rs)))"
  by (induction refs arbitrary: s) (simp_all add: st_ret_def st_bnd_def read_one_eq split: prod.split)

lemma one_by_one_length: "one_by_one H refs s = (s', rs) \<Longrightarrow> length rs = length refs"
  by (induction refs arbitrary: s rs) (auto split: prod.splits)

lemma read_many_eq:
  assumes "read_many_ok (ts_limit s) arguments"
  shows "tool_call H READ_MANY arguments s =
    (case one_by_one H (refs_of (fld arguments ''ids'')) s of
       (s', rs) \<Rightarrow> (s', Inr (VDict [(''results'', VList (map2 outcome (refs_of (fld arguments ''ids'')) rs))])))"
  using assms by (simp add: tool_call_def st_bnd_def st_read_def st_ret_def read_loop_eq split: prod.split)

lemma read_many_okD:
  assumes "read_many_ok limit arguments" and "wf_val arguments"
  shows "\<exists>refs. arguments = VDict [(''ids'', VList refs)] \<and> 1 \<le> length refs \<and> int (length refs) \<le> limit \<and>
    (\<forall>r \<in> set refs. \<exists>t. t \<noteq> [] \<and> r = VStr t)"
proof -
  from assms(1) obtain d refs where d: "arguments = VDict d" and k: "set (map fst d) = {''ids''}"
    and f: "fld (VDict d) ''ids'' = VList refs" and r: "1 \<le> length refs" "int (length refs) \<le> limit" "list_all (\<lambda>ref. is_str ref \<and> truthy ref) refs"
    by (cases arguments) (auto simp: read_many_ok_def keyset_is_def is_list_iff)
  have "distinct (map fst d)" using assms(2) by (simp add: d)
  then have "length d = 1" using k by (metis card_1_singleton_iff distinct_card length_map One_nat_def)
  then obtain v where "d = [(''ids'', v)]" using k by (cases d) auto
  then have "arguments = VDict [(''ids'', VList refs)]" using d f by simp
  moreover have "\<exists>t. t \<noteq> [] \<and> x = VStr t" if "x \<in> set refs" for x
    using r(3) that by (cases x) (auto simp: list_all_iff)
  ultimately show ?thesis using r by blast
qed

lemma read_many_refused:
  assumes "\<not> read_many_ok (ts_limit s) arguments"
  shows "tool_call H READ_MANY arguments s =
    (s, Inl (Exn ValueError ''Expected an ids list within the original read limit; no action executed.''))"
  using assms by (simp add: tool_call_def st_bnd_def st_read_def)

end
