(* ===== verification/Reuse.thy ===== *)
theory Reuse
  imports Tool_Session
begin

text \<open>
  \<open>check_materials\<close> and \<open>reuse_context\<close> of \<open>integrations/python/ownward_information_use.py\<close>: before
  old material is used again, its source references are checked with the host in batches of 64. The
  host's answer is trusted entry by entry only where it names the reference asked for and one of the
  four states; everything else counts as \<open>unverifiable\<close>.
\<close>

type_synonym 's call = "string \<Rightarrow> val \<Rightarrow> ('s, val) st"

definition CHECK_STATES :: "string list" where
  "CHECK_STATES = [''unchanged'', ''changed'', ''unavailable'', ''unverifiable'']"

definition unverifiable :: "val \<Rightarrow> val" where
  "unverifiable ref = VDict [(''basis'', ref), (''status'', VStr ''unverifiable'')]"

text \<open>One entry of the answer: the value at \<open>index\<close>, unless it is missing or malformed.\<close>

definition accepted :: "val \<Rightarrow> val \<Rightarrow> bool" where
  "accepted ref value = (is_dict value \<and> py_eq (fld value ''basis'') ref \<and> vmem (fld value ''status'') (strs CHECK_STATES))"

definition checked_entry :: "val list \<Rightarrow> nat \<Rightarrow> val \<Rightarrow> val" where
  "checked_entry checked index ref =
     (let value = (if index < length checked then checked ! index else VDict [])
      in if accepted ref value then value else unverifiable ref)"

fun as_list :: "val \<Rightarrow> val list" where
  "as_list (VList xs) = xs" | "as_list _ = []"

text \<open>One round of the loop over the batches.\<close>

definition check_batch :: "'s call \<Rightarrow> val list \<Rightarrow> ('s, val list) st" where
  "check_batch call batch =
     st_bnd (st_ret (mapm (\<lambda>item. vgetd item ''basis'' (VStr [])) batch)) (\<lambda>refs.
     st_bnd (st_try
       (st_bnd (call ''ownward_check'' (VDict [(''bases'', VList refs)])) (\<lambda>answer.
        st_ret (vgetd answer ''results'' (VList []))))
       (\<lambda>_. st_ret (Inr (VList [])))) (\<lambda>checked.
     st_ret (Inr (map (\<lambda>(index, ref). checked_entry (as_list checked) index ref) (enumerate 0 refs)))))"

text \<open>\<open>for start in range(0, len(materials), 64)\<close>.\<close>

function check_from :: "'s call \<Rightarrow> val list \<Rightarrow> nat \<Rightarrow> ('s, val list) st" where
  "check_from call materials start =
     (if start < length materials then
        st_bnd (check_batch call (take 64 (drop start materials))) (\<lambda>results.
        st_bnd (check_from call materials (start + 64)) (\<lambda>rest. st_ret (Inr (results @ rest))))
      else st_ret (Inr []))"
  by pat_completeness auto
termination
  by (relation "measure (\<lambda>(call, materials, start). length materials - start)") auto

declare check_from.simps [simp del]

definition check_materials :: "val list \<Rightarrow> 's call \<Rightarrow> ('s, val list) st" where
  "check_materials materials call = check_from call materials 0"

definition linefeed :: string where
  "linefeed = [char_of (10 :: nat)]"

definition reuse_context :: "val list \<Rightarrow> 's call \<Rightarrow> ('s, string) st" where
  "reuse_context materials call =
     (if materials = [] then st_ret (Inr [])
      else st_bnd (check_materials materials call) (\<lambda>checked. st_ret (Inr
        (''Only these source references were checked. Changed sources require rereading; unavailable '' @
         ''or unverifiable material must not support a current decision. Unchanged does not establish '' @
         ''applicability or completeness; retrieve new information when the task requires it. '' @
         ''Continue the original task and preserve unrelated work.'' @ linefeed @
         json_dumps (VList checked)))))"

end
