(* ===== verification/Use_Session.thy ===== *)
theory Use_Session
  imports Delivery
begin

text \<open>
  \<open>UseSession\<close> of \<open>integrations/python/ownward_information_use.py\<close>: the state of one task that a host
  keeps across interruptions. The attributes are a record; those that \<open>restore\<close> takes from a
  checkpoint are values, as the code does not look at them there. An agent's work inside \<open>invoke\<close> is a
  tree: it calls tools through this session, may leave notes, may do work of its own on the host (its
  accounting), and ends with the result or an exception.
\<close>

section \<open>State\<close>

record 'h use_session =
  us_task :: string
  us_context :: dict
  us_frame :: val
  us_trace :: val
  us_notes :: val
  us_pending :: val
  us_started :: val
  us_needs_check :: bool
  us_unknown :: val
  us_host :: 'h

abbreviation on_use_host :: "('h, 'a) st \<Rightarrow> ('h use_session, 'a) st" where
  "on_use_host \<equiv> on_part us_host (\<lambda>h. us_host_update (\<lambda>_. h))"

definition USE_SCHEMA :: string where
  "USE_SCHEMA = ''ownward.information-use-session/v1''"

definition max_bytes :: nat where
  "max_bytes = 8 * 2 ^ 20"

definition new_use_session :: "val \<Rightarrow> 'h \<Rightarrow> val \<Rightarrow> 'h use_session res" where
  "new_use_session task h context =
     chk (is_str task \<and> py_strip (str_val task) \<noteq> []) (Exn ValueError ''An original task is required'')
     (let c = (if truthy context then context else VDict []) in
      chk (is_dict c \<and> \<not> has c ''task'' \<and> \<not> has c ''sources'')
        (Exn ValueError ''Task context must not replace the request or source evidence'')
      (Inr \<lparr>us_task = str_val task, us_context = items c, us_frame = VNone, us_trace = VList [],
            us_notes = VStr [], us_pending = VList [], us_started = VBool False,
            us_needs_check = False, us_unknown = VBool False, us_host = h\<rparr>))"

section \<open>The bounded copy\<close>

text \<open>\<open>allow_nan=False\<close> refuses the floats that JSON has no text for.\<close>

fun nan_free :: "val \<Rightarrow> bool" where
  "nan_free (VFloat x) = (case x of Fin _ \<Rightarrow> True | _ \<Rightarrow> False)"
| "nan_free (VList xs) = list_all nan_free xs"
| "nan_free (VDict d) = list_all (\<lambda>(k, x). nan_free x) d"
| "nan_free _ = True"

definition copy_value :: "val \<Rightarrow> val res" where
  "copy_value v =
     chk (nan_free v) (Exn ValueError ''Out of range float values are not JSON compliant'')
     (chk (length (json_dumps v) \<le> max_bytes) (Exn ValueError ''Task handoff exceeds the retained-material limit'')
      (json_loads (json_dumps v)))"

section \<open>Tool calls\<close>

definition trace_entry :: "string \<Rightarrow> val \<Rightarrow> val \<Rightarrow> val" where
  "trace_entry name arguments result =
     VDict [(''tool'', VStr name), (''arguments'', arguments), (''result'', result)]"

text \<open>\<open>self.trace + [entry]\<close> and \<open>self.trace.append(entry)\<close> on the value the trace is.\<close>

fun append_entry :: "val \<Rightarrow> val \<Rightarrow> val res" where
  "append_entry (VList xs) e = Inr (VList (xs @ [e]))"
| "append_entry (VStr s) e = Inl (Exn TypeError (''can only concatenate str (not '' @ [quote2] @ ''list'' @ [quote2] @ '') to str''))"
| "append_entry v e = Inl (Exn TypeError (''unsupported operand type(s) for +: '' @ quoted (type_name v) @ '' and '' @ quoted ''list''))"

definition use_call :: "'h host \<Rightarrow> string \<Rightarrow> val \<Rightarrow> ('h use_session, val) st" where
  "use_call H name arguments =
     st_bnd (st_upd (\<lambda>s. s\<lparr>us_started := VBool True\<rparr>)) (\<lambda>_.
     st_bnd (st_try (on_use_host (host_call H name arguments))
               (\<lambda>error. st_bnd (st_upd (\<lambda>s. s\<lparr>us_unknown := VBool True\<rparr>)) (\<lambda>_. st_ret (Inl error)))) (\<lambda>result.
     st_bnd (st_ret (bnd (copy_value arguments) (\<lambda>a. bnd (copy_value result) (\<lambda>r. Inr (trace_entry name a r))))) (\<lambda>entry.
     st_bnd (st_read (\<lambda>s. bnd (append_entry (us_trace s) entry) (\<lambda>t. bnd (copy_value t) (\<lambda>_. Inr t)))) (\<lambda>t.
     st_bnd (st_upd (\<lambda>s. s\<lparr>us_trace := t\<rparr>)) (\<lambda>_.
     st_ret (Inr result))))))"

section \<open>Hand-over\<close>

definition checkpoint_value :: "'h use_session \<Rightarrow> val \<Rightarrow> val" where
  "checkpoint_value s report = VDict
     [(''schema'', VStr USE_SCHEMA), (''task'', VStr (us_task s)), (''context'', VDict (us_context s)),
      (''frame'', us_frame s), (''trace'', us_trace s), (''notes'', us_notes s),
      (''pending'', us_pending s), (''started'', us_started s), (''unknown'', us_unknown s),
      (''host'', report)]"

definition checkpoint :: "'h host \<Rightarrow> ('h use_session, val) st" where
  "checkpoint H =
     st_bnd (on_use_host (host_report H)) (\<lambda>report.
     st_read (\<lambda>s. copy_value (checkpoint_value s report)))"

definition belongs :: "'h use_session \<Rightarrow> val \<Rightarrow> bool" where
  "belongs s state = (py_eq (fld state ''schema'') (VStr USE_SCHEMA) \<and> py_eq (fld state ''task'') (VStr (us_task s)) \<and>
     py_eq (fld state ''context'') (VDict (us_context s)))"

definition use_restore :: "'h host \<Rightarrow> val \<Rightarrow> ('h use_session, unit) st" where
  "use_restore H state0 =
     st_bnd (st_ret (copy_value state0)) (\<lambda>state.
     st_bnd (st_read (\<lambda>s. bnd (vget state ''schema'') (\<lambda>_.
        chk (belongs s state) (Exn ValueError ''Handoff does not belong to this task and context'') (Inr ())))) (\<lambda>_.
     st_bnd (st_ret (vsub state ''host'')) (\<lambda>h.
     st_bnd (on_use_host (host_restore H h)) (\<lambda>_.
     st_bnd (st_ret (bnd (vsub state ''frame'') (\<lambda>f. bnd (vsub state ''trace'') (\<lambda>t. Inr (f, t))))) (\<lambda>(f, t).
     st_bnd (st_upd (\<lambda>s. s\<lparr>us_frame := f, us_trace := t\<rparr>)) (\<lambda>_.
     st_bnd (st_ret (bnd (vsub state ''notes'') (\<lambda>n. bnd (vsub state ''pending'') (\<lambda>p. Inr (n, p))))) (\<lambda>(n, p).
     st_bnd (st_upd (\<lambda>s. s\<lparr>us_notes := n, us_pending := p\<rparr>)) (\<lambda>_.
     st_bnd (st_ret (bnd (vsub state ''started'') (\<lambda>b. bnd (vsub state ''unknown'') (\<lambda>u. Inr (b, u))))) (\<lambda>(b, u).
     st_upd (\<lambda>s. s\<lparr>us_started := b, us_unknown := u, us_needs_check := True\<rparr>))))))))))"

section \<open>Rechecking old reads\<close>

text \<open>The reads of one trace entry: the entry itself for a single read, an entry of its own for every
  successful item of a grouped read.\<close>

definition grouped_item :: "val \<Rightarrow> val list res" where
  "grouped_item item =
     bnd (vget item ''result'') (\<lambda>r.
     if is_dict r then
       bnd (vsub item ''id'') (\<lambda>i. Inr [trace_entry ''ownward_evidence_read'' (VDict [(''id'', i)]) r])
     else Inr [])"

definition entry_reads :: "val \<Rightarrow> val list res" where
  "entry_reads entry =
     bnd (vsub entry ''tool'') (\<lambda>tool.
     if vmem tool (strs [''ownward_read'', ''ownward_evidence_read'']) then Inr [entry]
     else if py_eq tool (VStr READ_MANY) then
       bnd (vsub entry ''result'') (\<lambda>r.
       bnd (vgetd r ''results'' (VList [])) (\<lambda>rs.
       bnd (py_iter rs) (\<lambda>its. bnd (mapm grouped_item its) (\<lambda>xss. Inr (concat xss)))))
     else Inr [])"

definition trace_reads :: "val \<Rightarrow> val list res" where
  "trace_reads trace = bnd (py_iter trace) (\<lambda>es. bnd (mapm entry_reads es) (\<lambda>xss. Inr (concat xss)))"

definition material_of :: "val \<Rightarrow> val res" where
  "material_of e = bnd (vsub e ''result'') (\<lambda>r. bnd (vgetd r ''basis'' (VStr [])) (\<lambda>b. Inr (VDict [(''basis'', b)])))"

definition vd_pop :: "val \<Rightarrow> vdict \<Rightarrow> vdict" where
  "vd_pop k d = filter (\<lambda>(j, w). \<not> py_eq j k) d"

definition pending_start :: "val list \<Rightarrow> vdict res" where
  "pending_start cs = foldm (\<lambda>d c. bnd (vgetd c ''basis'' (VStr [])) (\<lambda>b. bnd (hash_key b) (\<lambda>k. Inr (vd_put k c d)))) [] cs"

definition pending_step :: "vdict \<Rightarrow> val \<Rightarrow> vdict res" where
  "pending_step d c =
     bnd (vsub c ''status'') (\<lambda>st.
     bnd (vsub c ''basis'') (\<lambda>b. bnd (hash_key b) (\<lambda>k.
     Inr (if py_eq st (VStr ''unchanged'') then vd_pop k d else vd_put k c d))))"

text \<open>\<open>id(e) in valid\<close>: the reads are objects of their own, told apart by their position.\<close>

definition kept_reads :: "val list \<Rightarrow> val list \<Rightarrow> val list" where
  "kept_reads reads checked = map fst (filter (\<lambda>(e, c). py_eq (fld c ''status'') (VStr ''unchanged'')) (zip reads checked))"

definition recheck :: "'h host \<Rightarrow> ('h use_session, unit) st" where
  "recheck H s =
     (if \<not> us_needs_check s then (s, Inr ())
      else
       (st_bnd (st_read (\<lambda>s. trace_reads (us_trace s))) (\<lambda>reads.
        st_bnd (st_ret (mapm material_of reads)) (\<lambda>materials.
        st_bnd (on_use_host (check_materials materials (host_call H))) (\<lambda>checked.
        let kept = kept_reads reads checked in
        st_bnd (st_upd (\<lambda>s. s\<lparr>us_trace := VList kept\<rparr>)) (\<lambda>_.
        st_bnd (st_read (\<lambda>s. bnd (py_iter (us_pending s)) (\<lambda>cs.
           bnd (pending_start cs) (\<lambda>d. foldm pending_step d checked)))) (\<lambda>d.
        st_upd (\<lambda>s. s\<lparr>us_pending := VList (map snd d),
                      us_notes := (if length kept \<noteq> length reads \<or> reads = [] then VStr [] else us_notes s),
                      us_needs_check := False\<rparr>)))))) ) s)"

section \<open>Usage\<close>

definition numbers :: "dict \<Rightarrow> dict" where
  "numbers d = filter (\<lambda>(k, v). is_num v) d"

definition usage_part :: "val \<Rightarrow> dict \<Rightarrow> string \<Rightarrow> dict" where
  "usage_part report result name =
     (case fldd report name (VDict []) of VDict values \<Rightarrow> AList.update name (VDict (numbers values)) result | _ \<Rightarrow> result)"

definition usage_of :: "val \<Rightarrow> val res" where
  "usage_of report =
     (case report of
        VDict d \<Rightarrow>
          (let result = usage_part report (usage_part report (numbers d) ''limits'') ''usage'' in
           Inr (VDict
             (case find (\<lambda>name. is_list (fld report name)) [''selection_steps'', ''calls''] of
                Some name \<Rightarrow> AList.update ''tool_calls'' (VInt (int (length (as_list (fld report name))))) result
              | None \<Rightarrow> result)))
      | _ \<Rightarrow> Inl (no_attribute report ''items''))"

definition usage :: "'h host \<Rightarrow> ('h use_session, val) st" where
  "usage H = st_bnd (on_use_host (host_report H)) (\<lambda>report. st_ret (usage_of report))"

section \<open>The agent\<close>

datatype 'h agent =
    Return "val res"
  | Call string val "val res \<Rightarrow> 'h agent"
  | Note val "'h agent"
  | Work "('h, val) st" "val res \<Rightarrow> 'h agent"

primrec run_agent :: "'h host \<Rightarrow> 'h agent \<Rightarrow> ('h use_session, val) st" where
  "run_agent H (Return r) = st_ret r"
| "run_agent H (Call name arguments k) = (\<lambda>s. case use_call H name arguments s of (s', r) \<Rightarrow> run_agent H (k r) s')"
| "run_agent H (Note v k) = (\<lambda>s. run_agent H k (s\<lparr>us_notes := v\<rparr>))"
| "run_agent H (Work m k) = (\<lambda>s. case on_use_host m s of (s', r) \<Rightarrow> run_agent H (k r) s')"

type_synonym 'h agents = "string \<Rightarrow> string \<Rightarrow> val \<Rightarrow> val \<Rightarrow> 'h agent"

section \<open>A run\<close>

definition use_payload :: "'h use_session \<Rightarrow> val \<Rightarrow> val" where
  "use_payload s u = VDict (dupdate (us_context s)
     [(''task'', VStr (us_task s)), (''tool_results'', us_trace s),
      (''prior_work'', VDict [(''notes'', us_notes s)]), (''pending'', us_pending s),
      (''usage'', u), (''usage_incomplete'', us_unknown s)])"

definition prepare_frame :: "'h host \<Rightarrow> 'h agents \<Rightarrow> string \<Rightarrow> ('h use_session, unit) st" where
  "prepare_frame H invoke path s =
     (if path = ''deep'' \<and> us_frame s = VNone then
        st_bnd (run_agent H (invoke ''task-basis'' FRAME
                  (VDict (dupdate (us_context s) [(''task'', VStr (us_task s))])) FRAME_SCHEMA)) (\<lambda>frame.
        st_upd (\<lambda>s. s\<lparr>us_frame := frame\<rparr>)) s
      else (s, Inr ()))"

definition seed :: "'h host \<Rightarrow> string \<Rightarrow> bool \<Rightarrow> ('h use_session, unit) st" where
  "seed H path was_started s =
     (if path = ''deep'' \<and> \<not> was_started then
        st_bnd (initial_context (VStr (us_task s)) (use_call H)) (\<lambda>_. st_ret (Inr ()))
          (s\<lparr>us_started := VBool True\<rparr>)
      else (s, Inr ()))"

definition contract_of :: "val \<Rightarrow> (string \<times> val) res" where
  "contract_of frame = (if frame \<noteq> VNone then task_contract frame else Inr (OFFER, RESPONSE))"

definition deliver :: "'h host \<Rightarrow> 'h agents \<Rightarrow> ('h use_session, val) st" where
  "deliver H invoke =
     st_bnd (st_upd (\<lambda>s. s\<lparr>us_started := VBool True\<rparr>)) (\<lambda>_.
     st_bnd (st_read (\<lambda>s. contract_of (us_frame s))) (\<lambda>(instruction, schema).
     st_bnd (usage H) (\<lambda>u.
     st_bnd (st_read (\<lambda>s. Inr (use_payload s u))) (\<lambda>payload.
     st_finally
       (st_bnd (st_ret (copy_value payload)) (\<lambda>p.
        st_bnd (run_agent H (invoke ''respond'' instruction p schema)) (\<lambda>response.
        st_ret (finish response))))
       (st_upd (\<lambda>s. s\<lparr>us_needs_check := True\<rparr>))))))"

definition use_run :: "'h host \<Rightarrow> 'h agents \<Rightarrow> string \<Rightarrow> ('h use_session, val) st" where
  "use_run H invoke path s =
     (if path \<noteq> ''quick'' \<and> path \<noteq> ''deep'' then (s, Inl (Exn ValueError ''Expected quick or deep''))
      else
        (let was_started = truthy (us_started s) in
         (st_bnd (recheck H) (\<lambda>_.
          st_bnd (prepare_frame H invoke path) (\<lambda>_.
          st_bnd (seed H path was_started) (\<lambda>_. deliver H invoke)))) s))"

end
