(* ===== verification/Use_Facts.thy ===== *)
theory Use_Facts
  imports Use_Session Json_Roundtrip "HOL-Library.Sublist"
begin

text \<open>
  The operations of a \<open>UseSession\<close>: what a tool call does on every branch, what an agent can and cannot
  change (\<open>use_ext\<close>), the bound on the retained trace, the round trip of a checkpoint and the
  refusal of a foreign one, the contents of the usage report, and the relation of the two paths.
\<close>

section \<open>The bounded copy\<close>

lemma layout_line [simp]:
  "after_open line_layout n = []" "after_comma line_layout n = '' ''"
  "before_close line_layout n = []" "after_colon line_layout = '' ''"
  by (simp_all add: line_layout_def)

lemma json_dumps_render: "json_dumps v = render line_layout n v"
proof (induction v arbitrary: n rule: sorted_val.induct)
  case (1 xs)
  then have "map json_dumps xs = map (render line_layout (Suc n)) xs" by auto
  then have "join '', '' (map json_dumps xs) = join '', '' (map (render line_layout (Suc n)) xs)" by (rule arg_cong)
  then show ?case by (cases "xs = []") simp_all
next
  case (2 d)
  then have "map (\<lambda>(k, x). json_str k @ '': '' @ json_dumps x) d = map (\<lambda>(k, x). json_str k @ '': '' @ render line_layout (Suc n) x) d"
    by auto
  then have "join '', '' (map (\<lambda>(k, x). json_str k @ '': '' @ json_dumps x) d) =
      join '', '' (map (\<lambda>(k, x). json_str k @ '': '' @ render line_layout (Suc n) x) d)" by (rule arg_cong)
  then show ?case by (cases "d = []") (simp_all add: key_order_def split_def comp_def)
qed simp_all

lemma json_roundtrip: "json_ok v \<Longrightarrow> json_loads (json_dumps v) = Inr v"
  using json_loads_render [OF layouts_ok(2), of v "[]" 0] by (simp add: json_dumps_render [of v 0] blank_def)

lemma json_ok_nan_free: "json_ok v \<Longrightarrow> nan_free v"
  by (induction v rule: json_ok.induct) (auto simp: list_all_iff)

definition fits :: "val \<Rightarrow> bool" where
  "fits v = (length (json_dumps v) \<le> max_bytes)"

lemma copy_value_ok: "json_ok v \<Longrightarrow> fits v \<Longrightarrow> copy_value v = Inr v"
  by (simp add: copy_value_def fits_def json_ok_nan_free json_roundtrip)

lemma copy_value_fits: "copy_value v = Inr w \<Longrightarrow> fits v \<and> nan_free v"
  by (simp add: copy_value_def fits_def chk_eq_Inr)

lemma copy_value_too_large:
  "nan_free v \<Longrightarrow> \<not> fits v \<Longrightarrow> copy_value v = Inl (Exn ValueError ''Task handoff exceeds the retained-material limit'')"
  by (simp add: copy_value_def fits_def)

section \<open>A tool call\<close>

lemma use_call_host_fails:
  assumes "host_call H name arguments (us_host s) = (h, Inl e)"
  shows "use_call H name arguments s =
    (s\<lparr>us_started := VBool True, us_host := h, us_unknown := VBool True\<rparr>, Inl e)"
  using assms by (simp add: use_call_def st_bnd_def st_upd_def st_try_def on_part_def st_ret_def)

text \<open>After the host has answered: the branches of the bookkeeping.\<close>

lemma use_call_answered:
  assumes "host_call H name arguments (us_host s) = (h, Inr r)"
  shows "use_call H name arguments s =
    (case bnd (copy_value arguments) (\<lambda>a. bnd (copy_value r) (\<lambda>c. bnd (append_entry (us_trace s) (trace_entry name a c)) (\<lambda>t.
       bnd (copy_value t) (\<lambda>_. Inr t)))) of
       Inl e \<Rightarrow> (s\<lparr>us_started := VBool True, us_host := h\<rparr>, Inl e)
     | Inr t \<Rightarrow> (s\<lparr>us_started := VBool True, us_host := h, us_trace := t\<rparr>, Inr r))"
  using assms
  by (cases "copy_value arguments"; cases "copy_value r")
    (auto simp: use_call_def st_bnd_def st_upd_def st_try_def on_part_def st_ret_def st_read_def split: sum.splits)

lemma use_call_recorded:
  assumes "host_call H name arguments (us_host s) = (h, Inr r)" and "us_trace s = VList es"
    and "json_ok arguments" "json_ok r" "list_all json_ok es" and "fits (VList (es @ [trace_entry name arguments r]))"
    and "fits arguments" "fits r"
  shows "use_call H name arguments s =
    (s\<lparr>us_started := VBool True, us_host := h, us_trace := VList (es @ [trace_entry name arguments r])\<rparr>, Inr r)"
proof -
  have "json_ok (VList (es @ [trace_entry name arguments r]))" using assms(3-5) by (simp add: trace_entry_def)
  then show ?thesis using assms copy_value_ok by (simp add: use_call_answered)
qed

lemma use_call_trace_full:
  assumes "host_call H name arguments (us_host s) = (h, Inr r)" and "us_trace s = VList es"
    and "json_ok arguments" "json_ok r" "list_all json_ok es" "fits arguments" "fits r"
    and "\<not> fits (VList (es @ [trace_entry name arguments r]))"
  shows "use_call H name arguments s =
    (s\<lparr>us_started := VBool True, us_host := h\<rparr>, Inl (Exn ValueError ''Task handoff exceeds the retained-material limit''))"
proof -
  have "nan_free (VList (es @ [trace_entry name arguments r]))"
    using assms(3-5) json_ok_nan_free by (auto simp: trace_entry_def list_all_iff)
  then have "copy_value (VList (es @ [trace_entry name arguments r])) =
      Inl (Exn ValueError ''Task handoff exceeds the retained-material limit'')"
    using assms(8) by (rule copy_value_too_large)
  then show ?thesis using assms copy_value_ok by (simp add: use_call_answered)
qed

section \<open>What an agent can change\<close>

text \<open>Calls and agents leave the task, its context, the prepared needs, the pending checks and the
  demand for a check alone; they add to the trace, keep its bound, and never take back that work has
  started or that something failed.\<close>

definition trace_bounded :: "'h use_session \<Rightarrow> bool" where
  "trace_bounded s = (is_list (us_trace s) \<and> fits (us_trace s))"

definition trace_grows :: "val \<Rightarrow> val \<Rightarrow> bool" where
  "trace_grows t t' = (t' = t \<or> (is_list t \<and> is_list t' \<and> prefix (as_list t) (as_list t')))"

definition use_ext :: "'h use_session \<Rightarrow> 'h use_session \<Rightarrow> bool" where
  "use_ext s s' =
     (us_task s' = us_task s \<and> us_context s' = us_context s \<and> us_frame s' = us_frame s \<and>
      us_pending s' = us_pending s \<and> us_needs_check s' = us_needs_check s \<and>
      trace_grows (us_trace s) (us_trace s') \<and> (trace_bounded s \<longrightarrow> trace_bounded s') \<and>
      (truthy (us_started s) \<longrightarrow> truthy (us_started s')) \<and> (truthy (us_unknown s) \<longrightarrow> truthy (us_unknown s')))"

interpretation use: preorder_kept use_ext
  by unfold_locales (auto simp: use_ext_def trace_grows_def intro: prefix_order.trans)

lemma append_entry_grows: "append_entry t e = Inr t' \<Longrightarrow> trace_grows t t' \<and> is_list t'"
  by (cases t) (auto simp: trace_grows_def)

lemma keeps_use_call: "keeps use_ext (use_call H name arguments)"
proof (rule keepsI)
  fix s s' r assume c: "use_call H name arguments s = (s', r)"
  obtain h ans where h: "host_call H name arguments (us_host s) = (h, ans)" by fastforce
  show "use_ext s s'"
  proof (cases ans)
    case (Inl e)
    then show ?thesis using c use_call_host_fails [OF h [unfolded Inl]]
      by (auto simp: use_ext_def trace_grows_def trace_bounded_def)
  next
    case (Inr v)
    show ?thesis using c use_call_answered [OF h [unfolded Inr]] append_entry_grows copy_value_fits
      by (fastforce simp: use_ext_def trace_grows_def trace_bounded_def bnd_eq_Inr split: sum.splits)
  qed
qed

lemma keeps_use_host: "keeps use_ext (on_use_host m)"
  by (rule keeps_on_part) (simp add: use_ext_def trace_grows_def trace_bounded_def)

lemma keeps_run_agent: "keeps use_ext (run_agent H a)"
proof (induction a)
  case (Return r)
  show ?case by (simp add: use.keeps_ret)
next
  case (Call name arguments k)
  show ?case
  proof (rule keepsI)
    fix s s' r assume "run_agent H (Call name arguments k) s = (s', r)"
    then obtain s1 x where 1: "use_call H name arguments s = (s1, x)" "run_agent H (k x) s1 = (s', r)"
      by (auto split: prod.splits)
    show "use_ext s s'"
      using keepsD [OF keeps_use_call 1(1)] keepsD [OF Call [OF rangeI] 1(2)] by (rule use.R_trans)
  qed
next
  case (Note v k)
  show ?case
  proof (rule keepsI)
    fix s s' r assume "run_agent H (Note v k) s = (s', r)"
    then have "use_ext (s\<lparr>us_notes := v\<rparr>) s'" using keepsD [OF Note] by fastforce
    then show "use_ext s s'" by (simp add: use_ext_def trace_bounded_def)
  qed
next
  case (Work m k)
  show ?case
  proof (rule keepsI)
    fix s s' r assume "run_agent H (Work m k) s = (s', r)"
    then obtain s1 x where 1: "on_use_host m s = (s1, x)" "run_agent H (k x) s1 = (s', r)"
      by (auto split: prod.splits)
    show "use_ext s s'"
      using keepsD [OF keeps_use_host 1(1)] keepsD [OF Work [OF rangeI] 1(2)] by (rule use.R_trans)
  qed
qed

section \<open>Hand-over\<close>

lemma checkpoint_run:
  assumes "host_report H (us_host s) = (h, Inr rep)" and "json_ok (checkpoint_value s rep)" and "fits (checkpoint_value s rep)"
  shows "checkpoint H s = (s\<lparr>us_host := h\<rparr>, Inr (checkpoint_value s rep))"
proof -
  have "checkpoint_value (s\<lparr>us_host := h\<rparr>) rep = checkpoint_value s rep" by (simp add: checkpoint_value_def)
  then show ?thesis using assms copy_value_ok by (simp add: checkpoint_def st_bnd_def on_part_def st_read_def)
qed

lemma use_restore_run:
  assumes "json_ok (checkpoint_value s rep)" and "fits (checkpoint_value s rep)"
    and "us_task t = us_task s" "us_context t = us_context s"
    and "host_restore H rep (us_host t) = (h, Inr ())"
  shows "use_restore H (checkpoint_value s rep) t =
    (\<lparr>us_task = us_task s, us_context = us_context s, us_frame = us_frame s, us_trace = us_trace s, us_notes = us_notes s,
      us_pending = us_pending s, us_started = us_started s, us_needs_check = True, us_unknown = us_unknown s, us_host = h\<rparr>, Inr ())"
proof -
  have c: "copy_value (checkpoint_value s rep) = Inr (checkpoint_value s rep)" by (rule copy_value_ok [OF assms(1,2)])
  have "json_ok (VDict (us_context s))" using assms(1) by (simp add: checkpoint_value_def)
  then have "wf_val (VDict (us_context s))"
  proof -
    have "json_ok v \<Longrightarrow> wf_val v" for v by (induction v rule: json_ok.induct) (auto simp: list_all_iff)
    then show ?thesis using \<open>json_ok (VDict (us_context s))\<close> by blast
  qed
  then have "py_eq (VDict (us_context s)) (VDict (us_context s))" by (rule py_eq_refl)
  then have b: "belongs t (checkpoint_value s rep)"
    using assms(3,4) by (simp add: belongs_def checkpoint_value_def del: py_eq.simps)
  show ?thesis
    using c b assms(3-5)
    by (simp add: use_restore_def checkpoint_value_def st_bnd_def st_read_def st_ret_def st_upd_def on_part_def split_def)
qed

lemma use_restore_foreign:
  assumes "copy_value state = Inr (VDict d)" and "\<not> belongs s (VDict d)"
  shows "use_restore H state s = (s, Inl (Exn ValueError ''Handoff does not belong to this task and context''))"
  using assms by (simp add: use_restore_def st_bnd_def st_read_def st_ret_def)

section \<open>Usage\<close>

text \<open>Counters only: numbers, and dictionaries of numbers.\<close>

definition counters :: "val \<Rightarrow> bool" where
  "counters u = (is_dict u \<and> (\<forall>x \<in> set (vvalues u). is_num x \<or> (is_dict x \<and> list_all is_num (vvalues x))))"

lemma numbers_is_num: "list_all is_num (map snd (numbers d))"
  by (auto simp: numbers_def list_all_iff)

lemma counters_update:
  "counters (VDict d) \<Longrightarrow> is_num x \<or> (is_dict x \<and> list_all is_num (vvalues x)) \<Longrightarrow> counters (VDict (AList.update k x d))"
proof -
  have "set (map snd (AList.update k x d)) \<subseteq> insert x (set (map snd d))" by (induction d) auto
  then show "counters (VDict d) \<Longrightarrow> is_num x \<or> (is_dict x \<and> list_all is_num (vvalues x)) \<Longrightarrow> counters (VDict (AList.update k x d))"
    unfolding counters_def vvalues_VDict is_dict.simps by blast
qed

lemma counters_part: "counters (VDict d) \<Longrightarrow> counters (VDict (usage_part report d name))"
  unfolding usage_part_def
  by (cases "fldd report name (VDict [])") (simp_all add: counters_update numbers_is_num)

lemma usage_counters: "usage_of report = Inr u \<Longrightarrow> counters u"
proof -
  assume u: "usage_of report = Inr u"
  then obtain d where d: "report = VDict d" by (cases report) (auto simp: usage_of_def)
  have "counters (VDict (numbers d))" using numbers_is_num [of d] by (auto simp: counters_def list_all_iff)
  then have c: "counters (VDict (usage_part report (usage_part report (numbers d) ''limits'') ''usage''))"
    by (intro counters_part)
  then show ?thesis using u
    by (auto simp: usage_of_def d Let_def simp del: find.simps split: option.splits intro: counters_update)
qed

section \<open>The two paths\<close>

lemma seed_started: "truthy (us_started s0) \<Longrightarrow> seed H path (truthy (us_started s0)) s = (s, Inr ())"
  by (simp add: seed_def)

lemma use_run_started:
  assumes "truthy (us_started s)" and "path \<in> {''quick'', ''deep''}"
  shows "use_run H invoke path s = st_bnd (recheck H) (\<lambda>_. st_bnd (prepare_frame H invoke path) (\<lambda>_. deliver H invoke)) s"
  using assms by (auto simp: use_run_def seed_def st_bnd_def split: prod.splits sum.splits)

end
