(* ===== verification/Reuse_Facts.thy ===== *)
theory Reuse_Facts
  imports Reuse Json_Roundtrip
begin

text \<open>
  \<open>check_materials\<close> answers for every material, in order, whatever the host does: the loop over the
  start positions is the loop over the batches of 64 (\<open>check_materials_batches\<close>), a material that is not
  confirmed by the host comes back as \<open>unverifiable\<close>, and a state other than that one was given by
  the host in the answer to the batch of the material.
\<close>

definition basis_of :: "val \<Rightarrow> val" where
  "basis_of m = fldd m ''basis'' (VStr [])"

text \<open>The batches, as a specification of the loop.\<close>

function batches :: "'a list \<Rightarrow> 'a list list" where
  "batches ms = (if ms = [] then [] else take 64 ms # batches (drop 64 ms))"
  by pat_completeness auto
termination
  by (relation "measure length") auto

declare batches.simps [simp del]

lemma batches_Nil [simp]: "batches [] = []"
  by (simp add: batches.simps)

lemma batches_concat: "concat (batches ms) = ms"
proof (induction ms rule: batches.induct)
  case (1 ms)
  then show ?case by (cases "ms = []") (simp_all add: batches.simps [of ms])
qed

lemma batches_size: "b \<in> set (batches ms) \<Longrightarrow> 1 \<le> length b \<and> length b \<le> 64"
proof (induction ms rule: batches.induct)
  case (1 ms)
  then show ?case by (cases "ms = []") (auto simp: batches.simps [of ms] Suc_le_eq)
qed

lemma length_batches: "length (batches ms) = (length ms + 63) div 64"
proof (induction ms rule: batches.induct)
  case (1 ms)
  show ?case
  proof (cases "ms = []")
    case False
    have "Suc ((n - 64 + 63) div 64) = (n + 63) div 64" if "0 < n" for n :: nat
    proof (cases "n \<le> 64")
      case True
      then show ?thesis using that by (simp add: div_nat_eqI)
    next
      case False
      then obtain m where "n = 64 + m" using le_Suc_ex by (metis nat_le_linear)
      then show ?thesis by (simp add: div_add_self1 [of 64 "m + 63", simplified])
    qed
    from this [of "length ms"] show ?thesis using 1 [OF False] False by (simp add: batches.simps [of ms])
  qed simp
qed

lemma check_from_batches:
  "check_from call materials start =
     st_bnd (st_mapm (check_batch call) (batches (drop start materials))) (\<lambda>xss. st_ret (Inr (concat xss)))"
proof (induction call materials start rule: check_from.induct)
  case (1 call materials start)
  show ?case
  proof (cases "start < length materials")
    case True
    have b: "batches (drop start materials) = take 64 (drop start materials) # batches (drop (start + 64) materials)"
      using True by (simp add: batches.simps [of "drop start materials"] add.commute)
    show ?thesis
      by (subst check_from.simps) (simp add: True b 1 [OF True] st_bnd_assoc)
  next
    case False
    then show ?thesis by (subst check_from.simps) simp
  qed
qed

lemma check_materials_batches:
  "check_materials materials call =
     st_bnd (st_mapm (check_batch call) (batches materials)) (\<lambda>xss. st_ret (Inr (concat xss)))"
  by (simp add: check_materials_def check_from_batches)

section \<open>One batch\<close>

text \<open>The answer of the host that the loop works with: an empty list when the call fails or its result
  is no dictionary, or holds no list.\<close>

definition host_answer :: "val res \<Rightarrow> val list" where
  "host_answer r = (case bnd r (\<lambda>answer. vgetd answer ''results'' (VList [])) of Inl e \<Rightarrow> [] | Inr v \<Rightarrow> as_list v)"

lemma bases_mapm: "list_all is_dict batch \<Longrightarrow> mapm (\<lambda>item. vgetd item ''basis'' (VStr [])) batch = Inr (map basis_of batch)"
  by (induction batch) (simp_all add: basis_of_def)

lemma check_batch_run:
  assumes "list_all is_dict batch"
  shows "check_batch call batch s =
    (case call ''ownward_check'' (VDict [(''bases'', VList (map basis_of batch))]) s of
       (s', r) \<Rightarrow> (s', Inr (map (\<lambda>i. checked_entry (host_answer r) i (basis_of (batch ! i))) [0..<length batch])))"
proof -
  have e: "map (\<lambda>(index, ref). f index ref) (enumerate 0 (map g xs)) = map (\<lambda>i. f i (g (xs ! i))) [0..<length xs]"
    for f :: "nat \<Rightarrow> 'x \<Rightarrow> val" and g :: "val \<Rightarrow> 'x" and xs
    by (rule nth_equalityI) (simp_all add: nth_enumerate_eq)
  show ?thesis
    by (simp add: check_batch_def bases_mapm [OF assms] e)
      (simp add: st_bnd_def st_try_def st_ret_def host_answer_def split: prod.split sum.split)
qed

text \<open>Every material gets its own reference back, with one of the four states.\<close>

definition reported :: "val \<Rightarrow> val \<Rightarrow> bool" where
  "reported m r = (r = unverifiable (basis_of m) \<or> accepted (basis_of m) r)"

lemma reported_entry: "reported m (checked_entry xs i (basis_of m))"
  by (simp add: reported_def checked_entry_def Let_def)

lemma check_batch_total:
  assumes "list_all is_dict batch"
  shows "\<exists>s' rs. check_batch call batch s = (s', Inr rs) \<and> list_all2 reported batch rs"
proof -
  have "list_all2 reported batch (map (\<lambda>i. checked_entry xs i (basis_of (batch ! i))) [0..<length batch])" for xs
    by (simp add: list_all2_conv_all_nth reported_entry)
  then show ?thesis by (simp add: check_batch_run [OF assms] split: prod.split)
qed

section \<open>All batches\<close>

lemma check_batches_total:
  assumes "list_all (list_all is_dict) bs"
  shows "\<exists>s' xss. st_mapm (check_batch call) bs s = (s', Inr xss) \<and> list_all2 (list_all2 reported) bs xss"
  using assms
proof (induction bs arbitrary: s)
  case Nil
  show ?case by (simp add: st_ret_def)
next
  case (Cons b bs)
  from Cons.prems check_batch_total [of b call s] obtain s1 rs
    where b: "check_batch call b s = (s1, Inr rs)" "list_all2 reported b rs" by auto
  from Cons.prems Cons.IH [of s1] obtain s2 xss
    where bs: "st_mapm (check_batch call) bs s1 = (s2, Inr xss)" "list_all2 (list_all2 reported) bs xss" by auto
  show ?case using b bs by (simp add: st_bnd_def st_ret_def)
qed

lemma batches_all: "list_all P ms \<Longrightarrow> list_all (list_all P) (batches ms)"
  using batches_concat [of ms] by (metis (no_types, lifting) list_all_iff set_concat UN_I)

lemma list_all2_concat: "list_all2 (list_all2 P) xss yss \<Longrightarrow> list_all2 P (concat xss) (concat yss)"
  by (induction rule: list_all2_induct) (auto intro: list_all2_appendI)

lemma check_materials_total:
  assumes "list_all is_dict materials"
  shows "\<exists>s' rs. check_materials materials call s = (s', Inr rs) \<and> list_all2 reported materials rs"
proof -
  from check_batches_total [OF batches_all [OF assms], of call s] obtain s' xss
    where r: "st_mapm (check_batch call) (batches materials) s = (s', Inr xss)"
      and l: "list_all2 (list_all2 reported) (batches materials) xss" by blast
  from list_all2_concat [OF l] have "list_all2 reported materials (concat xss)" by (simp add: batches_concat)
  then show ?thesis by (simp add: check_materials_batches st_bnd_def r st_ret_def)
qed

text \<open>Only a list of dictionaries is checked to the end; anything else raises.\<close>

lemma check_batch_dicts: "check_batch call b s = (s', Inr rs) \<Longrightarrow> list_all is_dict b"
proof -
  assume "check_batch call b s = (s', Inr rs)"
  then obtain refs where "mapm (\<lambda>item. vgetd item ''basis'' (VStr [])) b = Inr refs"
    by (auto simp: check_batch_def st_bnd_eq_Inr st_ret_eq_Inr)
  then show ?thesis
    by (auto simp: mapm_eq_Inr list_all_iff in_set_conv_nth list_all2_conv_all_nth vgetd_eq_Inr)
qed

text \<open>Where a confirmed state comes from.\<close>

definition confirmed_by :: "'s call \<Rightarrow> val list \<Rightarrow> val \<Rightarrow> val \<Rightarrow> bool" where
  "confirmed_by call materials m r =
     (\<exists>batch \<in> set (batches materials). \<exists>i < length batch. \<exists>s1 s2 answer.
        batch ! i = m \<and>
        call ''ownward_check'' (VDict [(''bases'', VList (map basis_of batch))]) s1 = (s2, Inr answer) \<and>
        i < length (as_list (fldd answer ''results'' (VList []))) \<and>
        r = as_list (fldd answer ''results'' (VList [])) ! i \<and> accepted (basis_of m) r)"

lemma checked_entry_confirmed:
  assumes "checked_entry (host_answer ans) i ref \<noteq> unverifiable ref"
  shows "\<exists>answer. ans = Inr answer \<and> i < length (as_list (fldd answer ''results'' (VList []))) \<and>
    checked_entry (host_answer ans) i ref = as_list (fldd answer ''results'' (VList [])) ! i \<and>
    accepted ref (checked_entry (host_answer ans) i ref)"
proof -
  have i: "i < length (host_answer ans)" and a: "accepted ref (host_answer ans ! i)"
    using assms by (auto simp: checked_entry_def Let_def accepted_def vmem_def CHECK_STATES_def split: if_splits)
  then obtain answer where "ans = Inr answer" "is_dict answer"
    by (cases ans) (auto simp: host_answer_def vgetd_eq_Inr split: sum.splits)
  then show ?thesis using i a assms by (auto simp: host_answer_def checked_entry_def Let_def)
qed

lemma check_batch_confirmed:
  assumes "check_batch call b s = (s', Inr rs)" and "b \<in> set (batches ms)" and "i < length b"
    and "rs ! i \<noteq> unverifiable (basis_of (b ! i))"
  shows "confirmed_by call ms (b ! i) (rs ! i)"
proof -
  obtain s2 ans where c: "call ''ownward_check'' (VDict [(''bases'', VList (map basis_of b))]) s = (s2, ans)" by fastforce
  have rs: "rs ! i = checked_entry (host_answer ans) i (basis_of (b ! i))"
    using assms(1,3) check_batch_run [OF check_batch_dicts [OF assms(1)], of call s] by (auto simp: c)
  with assms(4) checked_entry_confirmed [of ans i "basis_of (b ! i)"] obtain answer where
    "ans = Inr answer" "i < length (as_list (fldd answer ''results'' (VList [])))"
    "rs ! i = as_list (fldd answer ''results'' (VList [])) ! i" "accepted (basis_of (b ! i)) (rs ! i)" by metis
  then show ?thesis unfolding confirmed_by_def using assms(2,3) c by blast
qed

lemma check_batches_confirmed:
  assumes "st_mapm (check_batch call) bs s = (s', Inr xss)" and "set bs \<subseteq> set (batches ms)"
  shows "list_all2 (\<lambda>m r. r = unverifiable (basis_of m) \<or> confirmed_by call ms m r) (concat bs) (concat xss)"
  using assms
proof (induction bs arbitrary: s xss)
  case Nil
  then show ?case by (simp add: st_ret_def)
next
  case (Cons b bs)
  from Cons.prems(1) obtain s1 rs yss where b: "check_batch call b s = (s1, Inr rs)"
    and bs: "st_mapm (check_batch call) bs s1 = (s', Inr yss)" and x: "xss = rs # yss"
    by (auto simp: st_bnd_eq_Inr st_ret_eq_Inr)
  have "length rs = length b"
    using check_batch_total [OF check_batch_dicts [OF b], of call s] b by (auto dest: list_all2_lengthD)
  then have "list_all2 (\<lambda>m r. r = unverifiable (basis_of m) \<or> confirmed_by call ms m r) b rs"
    using check_batch_confirmed [OF b, of ms] Cons.prems(2) by (auto simp: list_all2_conv_all_nth)
  then show ?case using Cons.IH [OF bs] Cons.prems(2) by (simp add: x list_all2_appendI)
qed

lemma check_materials_confirmed:
  assumes "check_materials materials call s = (s', Inr rs)"
  shows "list_all2 (\<lambda>m r. r = unverifiable (basis_of m) \<or> confirmed_by call materials m r) materials rs"
proof -
  from assms obtain xss where "st_mapm (check_batch call) (batches materials) s = (s', Inr xss)" and "rs = concat xss"
    by (auto simp: check_materials_batches st_bnd_eq_Inr st_ret_eq_Inr)
  then show ?thesis using check_batches_confirmed [of call "batches materials" s s' xss materials] by (simp add: batches_concat)
qed

end
