(* ===== verification/Keyed_Store.thy ===== *)
theory Keyed_Store
  imports Prelude
begin

text \<open>
  The interface of a dictionary that is written and popped by key, and what a run of such writes
  leaves behind: for every key the last event. The Python dictionaries of the model (association lists in
  insertion order) provide it; so does the dictionary of pending checks, whose keys are values.
\<close>

definition settle :: "('k \<Rightarrow> 'v \<Rightarrow> 'd \<Rightarrow> 'd) \<Rightarrow> ('k \<Rightarrow> 'd \<Rightarrow> 'd) \<Rightarrow> ('k \<times> 'v option) list \<Rightarrow> 'd \<Rightarrow> 'd" where
  "settle put pop evs d = foldl (\<lambda>d (k, ov). case ov of None \<Rightarrow> pop k d | Some v \<Rightarrow> put k v d) d evs"

lemma settle_simps [simp]:
  "settle put pop [] d = d"
  "settle put pop ((k, None) # evs) d = settle put pop evs (pop k d)"
  "settle put pop ((k, Some v) # evs) d = settle put pop evs (put k v d)"
  by (simp_all add: settle_def)

lemma settle_append: "settle put pop (xs @ ys) d = settle put pop ys (settle put pop xs d)"
  by (simp add: settle_def)

text \<open>The abstract view: a partial map, updated event by event.\<close>

definition settled :: "('k \<times> 'v option) list \<Rightarrow> ('k \<Rightarrow> 'v option) \<Rightarrow> 'k \<Rightarrow> 'v option" where
  "settled evs m = foldl (\<lambda>m (k, ov). m(k := ov)) m evs"

lemma settled_simps [simp]:
  "settled [] m = m" "settled ((k, ov) # evs) m = settled evs (m(k := ov))"
  by (simp_all add: settled_def)

lemma settled_last: "settled evs m k = (case map_of (rev evs) k of None \<Rightarrow> m k | Some ov \<Rightarrow> ov)"
  by (induction evs arbitrary: m) (auto simp: map_add_def split: option.splits)

locale keyed_store =
  fixes put :: "'k \<Rightarrow> 'v \<Rightarrow> 'd \<Rightarrow> 'd"
    and pop :: "'k \<Rightarrow> 'd \<Rightarrow> 'd"
    and look :: "'d \<Rightarrow> 'k \<Rightarrow> 'v option"
    and inv :: "'d \<Rightarrow> bool"
  assumes look_put: "inv d \<Longrightarrow> look (put k v d) = (look d)(k \<mapsto> v)"
    and look_pop: "inv d \<Longrightarrow> look (pop k d) = (look d)(k := None)"
    and inv_put: "inv d \<Longrightarrow> inv (put k v d)"
    and inv_pop: "inv d \<Longrightarrow> inv (pop k d)"
begin

lemma inv_settle: "inv d \<Longrightarrow> inv (settle put pop evs d)"
proof (induction evs arbitrary: d)
  case (Cons e evs)
  then show ?case by (cases e; cases "snd e") (auto simp: inv_put inv_pop)
qed simp

lemma look_settle: "inv d \<Longrightarrow> look (settle put pop evs d) = settled evs (look d)"
proof (induction evs arbitrary: d)
  case (Cons e evs)
  obtain k ov where e: "e = (k, ov)" by fastforce
  show ?case
  proof (cases ov)
    case None
    then show ?thesis unfolding e using Cons.IH [OF inv_pop [OF Cons.prems]] unfolding look_pop [OF Cons.prems] by (simp add: fun_upd_def)
  next
    case (Some v)
    then show ?thesis unfolding e using Cons.IH [OF inv_put [OF Cons.prems]] unfolding look_put [OF Cons.prems] by (simp add: fun_upd_def)
  qed
qed simp

end

interpretation dict_store: keyed_store "AList.update" "AList.delete" "map_of" "\<lambda>d. distinct (map fst d)"
  by unfold_locales (simp_all add: update_conv' delete_conv' distinct_update distinct_delete)

end
