(* ===== verification/Use_Recheck.thy ===== *)
theory Use_Recheck
  imports Use_Facts Reuse_Facts Keyed_Store
begin

text \<open>
  The recheck of a resumed \<open>UseSession\<close>: of the old trace only the reads survive that the host has
  just confirmed as unchanged, the checks that failed are pending until their source is confirmed
  (the last check of a source decides), and notes survive only where every read did.
\<close>

section \<open>The pending checks\<close>

definition pend_inv :: "vdict \<Rightarrow> bool" where
  "pend_inv d = (distinct (map fst d) \<and> list_all (\<lambda>(k, c). is_str k) d)"

lemma pend_inv_Nil [simp]: "pend_inv []"
  by (simp add: pend_inv_def)

lemma vd_put_keys: "set (map fst (vd_put (VStr k) v d)) = insert (VStr k) (set (map fst d))"
proof (induction d)
  case (Cons jw d)
  then show ?case by (cases jw) (simp add: insert_commute)
qed simp

lemma vd_put_inv: "pend_inv d \<Longrightarrow> pend_inv (vd_put (VStr k) v d)"
proof (induction d)
  case (Cons jw d)
  obtain j w where jw: "jw = (j, w)" by fastforce
  have d: "pend_inv d" and j: "j \<notin> set (map fst d)" "is_str j" using Cons.prems by (auto simp: pend_inv_def jw)
  show ?case
  proof (cases "j = VStr k")
    case False
    then show ?thesis using Cons.IH [OF d] j vd_put_keys [of k v d] by (auto simp: jw pend_inv_def)
  qed (use d j in \<open>simp add: jw pend_inv_def\<close>)
qed (simp add: pend_inv_def)

lemma vd_put_look: "map_of (vd_put (VStr k) v d) = (map_of d)(VStr k \<mapsto> v)"
  by (induction d) (auto simp: fun_eq_iff)

lemma vd_pop_look: "map_of (vd_pop (VStr k) d) = (map_of d)(VStr k := None)"
  by (induction d) (auto simp: vd_pop_def fun_eq_iff)

interpretation pend: keyed_store "\<lambda>k. vd_put (VStr k)" "\<lambda>k. vd_pop (VStr k)" "\<lambda>d k. map_of d (VStr k)" pend_inv
proof
  fix d :: vdict and k v
  assume i: "pend_inv d"
  show "(\<lambda>j. map_of (vd_put (VStr k) v d) (VStr j)) = (\<lambda>j. map_of d (VStr j))(k \<mapsto> v)" by (auto simp: vd_put_look)
  show "(\<lambda>j. map_of (vd_pop (VStr k) d) (VStr j)) = (\<lambda>j. map_of d (VStr j))(k := None)" by (auto simp: vd_pop_look)
  show "pend_inv (vd_put (VStr k) v d)" by (rule vd_put_inv [OF i])
  show "pend_inv (vd_pop (VStr k) d)"
    using i by (auto simp: pend_inv_def vd_pop_def list_all_iff distinct_map_filter)
qed

abbreviation pend_settle :: "(string \<times> val option) list \<Rightarrow> vdict \<Rightarrow> vdict" where
  "pend_settle \<equiv> settle (\<lambda>k. vd_put (VStr k)) (\<lambda>k. vd_pop (VStr k))"

text \<open>A check as an event on the pending dictionary.\<close>

definition has_basis :: "val \<Rightarrow> bool" where
  "has_basis c = (is_dict c \<and> is_str (basis_of c))"

definition start_event :: "val \<Rightarrow> string \<times> val option" where
  "start_event c = (str_val (basis_of c), Some c)"

definition check_event :: "val \<Rightarrow> string \<times> val option" where
  "check_event c = (str_val (fld c ''basis''), if fld c ''status'' = VStr ''unchanged'' then None else Some c)"

lemma str_val_eq: "is_str v \<Longrightarrow> VStr (str_val v) = v"
  by (cases v) auto

lemma pending_start_settle:
  "list_all has_basis cs \<Longrightarrow> pending_start cs = Inr (pend_settle (map start_event cs) [])"
proof -
  have "foldm (\<lambda>d c. bnd (vgetd c ''basis'' (VStr [])) (\<lambda>b. bnd (hash_key b) (\<lambda>k. Inr (vd_put k c d)))) d cs =
      Inr (pend_settle (map start_event cs) d)" if "list_all has_basis cs" for d
    using that
  proof (induction cs arbitrary: d)
    case (Cons c cs)
    then have "is_dict c" "is_str (basis_of c)" by (simp_all add: has_basis_def)
    then have "vgetd c ''basis'' (VStr []) = Inr (VStr (str_val (basis_of c)))" by (simp add: basis_of_def str_val_eq)
    then show ?case using Cons by (simp add: hash_key_def start_event_def)
  qed simp
  then show "list_all has_basis cs \<Longrightarrow> ?thesis" by (simp add: pending_start_def)
qed

definition check_ok :: "val \<Rightarrow> bool" where
  "check_ok c = (has c ''status'' \<and> has c ''basis'' \<and> is_str (fld c ''basis''))"

lemma pending_steps_settle:
  "list_all check_ok cs \<Longrightarrow> foldm pending_step d cs = Inr (pend_settle (map check_event cs) d)"
proof (induction cs arbitrary: d)
  case (Cons c cs)
  then have c: "has c ''status''" "has c ''basis''" "is_str (fld c ''basis'')" by (simp_all add: check_ok_def)
  then have h: "hash_key (fld c ''basis'') = Inr (VStr (str_val (fld c ''basis'')))"
    by (simp add: hash_key_def str_val_eq)
  show ?case using Cons c h by (simp add: pending_step_def check_event_def)
qed simp

text \<open>An answer for a material whose reference is a text is such a check.\<close>

lemma accepted_check_ok: "is_str b \<Longrightarrow> accepted b c \<Longrightarrow> check_ok c"
proof -
  assume b: "is_str b" and a: "accepted b c"
  obtain t where t: "b = VStr t" using b by (cases b) auto
  obtain st where st: "fld c ''status'' = VStr st" using a by (auto simp: accepted_def vmem_strs_iff)
  have "fld c ''basis'' = VStr t" using a t by (simp add: accepted_def)
  then show ?thesis using st fld_nonNone_has [of c "''basis''"] fld_nonNone_has [of c "''status''"] by (simp add: check_ok_def)
qed

lemma reported_check_ok: "is_str (basis_of m) \<Longrightarrow> reported m c \<Longrightarrow> check_ok c"
  by (auto simp: reported_def accepted_check_ok) (simp add: check_ok_def unverifiable_def)

lemma reported_basis: "is_str (basis_of m) \<Longrightarrow> reported m c \<Longrightarrow> fld c ''basis'' = basis_of m"
  by (auto simp: reported_def accepted_def unverifiable_def is_str_iff)

section \<open>The recheck\<close>

definition read_ok :: "val \<Rightarrow> bool" where
  "read_ok e = (has e ''result'' \<and> is_dict (fld e ''result'') \<and> is_str (basis_of (fld e ''result'')))"

definition material :: "val \<Rightarrow> val" where
  "material e = VDict [(''basis'', basis_of (fld e ''result''))]"

lemma material_basis [simp]: "basis_of (material e) = basis_of (fld e ''result'')"
  by (simp add: material_def basis_of_def [of "VDict _"])

lemma materials_mapm: "list_all read_ok reads \<Longrightarrow> mapm material_of reads = Inr (map material reads)"
proof (induction reads)
  case (Cons e reads)
  then show ?case by (simp add: material_of_def material_def read_ok_def basis_of_def)
qed simp

lemma material_of_eq: "material_of e = Inr m \<Longrightarrow> m = material e"
  by (auto simp: material_of_def bnd_eq_Inr vsub_eq_Inr vgetd_eq_Inr material_def basis_of_def)

lemma materials_mapm_eq: "mapm material_of reads = Inr ms \<Longrightarrow> ms = map material reads"
proof -
  assume "mapm material_of reads = Inr ms"
  then have "list_all2 (\<lambda>e m. material_of e = Inr m) reads ms" by (simp add: mapm_eq_Inr)
  then show ?thesis by (induction rule: list_all2_induct) (simp_all add: material_of_eq)
qed

text \<open>A successful recheck, step by step.\<close>

lemma recheck_eq_Inr:
  assumes "recheck H s = (s', Inr ())" and "us_needs_check s"
  obtains reads checked h cs d where "trace_reads (us_trace s) = Inr reads"
    and "check_materials (map material reads) (host_call H) (us_host s) = (h, Inr checked)"
    and "py_iter (us_pending s) = Inr cs" and "bnd (pending_start cs) (\<lambda>d. foldm pending_step d checked) = Inr d"
    and "s' = s\<lparr>us_host := h, us_trace := VList (kept_reads reads checked), us_pending := VList (map snd d),
      us_notes := (if length (kept_reads reads checked) \<noteq> length reads \<or> reads = [] then VStr [] else us_notes s),
      us_needs_check := False\<rparr>"
proof -
  from assms obtain reads ms h checked cs d where r: "trace_reads (us_trace s) = Inr reads"
    and m: "mapm material_of reads = Inr ms" and c: "check_materials ms (host_call H) (us_host s) = (h, Inr checked)"
    and p: "py_iter (us_pending s) = Inr cs" "bnd (pending_start cs) (\<lambda>d. foldm pending_step d checked) = Inr d"
    and s': "s' = s\<lparr>us_host := h, us_trace := VList (kept_reads reads checked), us_pending := VList (map snd d),
      us_notes := (if length (kept_reads reads checked) \<noteq> length reads \<or> reads = [] then VStr [] else us_notes s),
      us_needs_check := False\<rparr>"
    by (auto simp: recheck_def Let_def st_bnd_eq_Inr st_read_eq_Inr st_ret_eq_Inr st_upd_eq on_part_eq bnd_eq_Inr)
  show ?thesis using that r c p s' materials_mapm_eq [OF m] by blast
qed

lemma kept_readsD:
  "e \<in> set (kept_reads reads checked) \<Longrightarrow> \<exists>c. (e, c) \<in> set (zip reads checked) \<and> fld c ''status'' = VStr ''unchanged''"
  by (auto simp: kept_reads_def)

text \<open>What survives was confirmed.\<close>

lemma kept_confirmed:
  assumes "check_materials (map material reads) call s = (s', Inr checked)" and "e \<in> set (kept_reads reads checked)"
  shows "\<exists>c. confirmed_by call (map material reads) (material e) c \<and> fld c ''status'' = VStr ''unchanged''"
proof -
  from kept_readsD [OF assms(2)] obtain c where z: "(e, c) \<in> set (zip reads checked)" and u: "fld c ''status'' = VStr ''unchanged''" by blast
  have "list_all2 (\<lambda>m r. r = unverifiable (basis_of m) \<or> confirmed_by call (map material reads) m r) (map material reads) checked"
    by (rule check_materials_confirmed [OF assms(1)])
  then have "c = unverifiable (basis_of (material e)) \<or> confirmed_by call (map material reads) (material e) c"
    using z by (auto simp: list_all2_conv_all_nth in_set_zip)
  then show ?thesis using u by (auto simp: unverifiable_def)
qed

text \<open>On a trace of well-formed reads the recheck always completes, whatever the host answers.\<close>

definition trace_ok :: "val \<Rightarrow> bool" where
  "trace_ok t = (case trace_reads t of Inl _ \<Rightarrow> False | Inr reads \<Rightarrow> list_all read_ok reads)"

definition pending_ok :: "val \<Rightarrow> bool" where
  "pending_ok p = (is_list p \<and> list_all has_basis (as_list p))"

lemma checks_ok: "list_all read_ok reads \<Longrightarrow> list_all2 reported (map material reads) checked \<Longrightarrow> list_all check_ok checked"
proof -
  assume r: "list_all read_ok reads" and rep: "list_all2 reported (map material reads) checked"
  have "check_ok (checked ! i)" if "i < length checked" for i
  proof (rule reported_check_ok)
    have "i < length reads" using rep that by (simp add: list_all2_conv_all_nth)
    then show "reported (material (reads ! i)) (checked ! i)" "is_str (basis_of (material (reads ! i)))"
      using rep r by (simp_all add: list_all2_conv_all_nth list_all_length read_ok_def)
  qed
  then show ?thesis by (simp add: list_all_length)
qed

lemma recheck_total:
  assumes "us_needs_check s" and "trace_ok (us_trace s)" and "pending_ok (us_pending s)"
  shows "\<exists>h reads checked.
    trace_reads (us_trace s) = Inr reads \<and>
    check_materials (map material reads) (host_call H) (us_host s) = (h, Inr checked) \<and>
    list_all2 reported (map material reads) checked \<and>
    recheck H s = (s\<lparr>us_host := h, us_trace := VList (kept_reads reads checked),
      us_pending := VList (map snd (pend_settle (map check_event checked) (pend_settle (map start_event (as_list (us_pending s))) []))),
      us_notes := (if length (kept_reads reads checked) \<noteq> length reads \<or> reads = [] then VStr [] else us_notes s),
      us_needs_check := False\<rparr>, Inr ())"
proof -
  from assms(2) obtain reads where r: "trace_reads (us_trace s) = Inr reads" "list_all read_ok reads"
    by (auto simp: trace_ok_def split: sum.splits)
  obtain ps where p: "us_pending s = VList ps" "list_all has_basis ps"
    using assms(3) by (auto simp: pending_ok_def is_list_iff)
  have "list_all is_dict (map material reads)" by (simp add: list_all_iff material_def)
  from check_materials_total [OF this, of "host_call H" "us_host s"] obtain h checked
    where c: "check_materials (map material reads) (host_call H) (us_host s) = (h, Inr checked)"
      and rep: "list_all2 reported (map material reads) checked" by blast
  have "list_all check_ok checked" by (rule checks_ok [OF r(2) rep])
  then show ?thesis
    using assms(1) r p c rep materials_mapm [OF r(2)] pending_start_settle [OF p(2)] pending_steps_settle [of checked]
    by (simp add: recheck_def Let_def st_bnd_def st_read_def st_ret_def st_upd_def on_part_def)
qed

section \<open>Pending checks as a map\<close>

definition by_basis :: "val list \<Rightarrow> vdict" where
  "by_basis cs = map (\<lambda>c. (basis_of c, c)) cs"

text \<open>Which check is pending for a source: the last entry with its reference.\<close>

definition pend_view :: "val \<Rightarrow> string \<Rightarrow> val option" where
  "pend_view p b = map_of (rev (by_basis (as_list p))) (VStr b)"

definition keyed :: "vdict \<Rightarrow> bool" where
  "keyed d = list_all (\<lambda>(k, c). k = basis_of c) d"

definition event_ok :: "string \<times> val option \<Rightarrow> bool" where
  "event_ok e = (case snd e of None \<Rightarrow> True | Some c \<Rightarrow> basis_of c = VStr (fst e))"

lemma keyed_put: "keyed d \<Longrightarrow> basis_of c = VStr k \<Longrightarrow> keyed (vd_put (VStr k) c d)"
  by (induction d) (auto simp: keyed_def)

lemma keyed_settle: "keyed d \<Longrightarrow> list_all event_ok evs \<Longrightarrow> keyed (pend_settle evs d)"
proof (induction evs arbitrary: d)
  case (Cons e evs)
  obtain k ov where e: "e = (k, ov)" by fastforce
  have "keyed (vd_pop (VStr k) d)" using Cons.prems(1) by (auto simp: keyed_def vd_pop_def list_all_iff)
  then show ?case using Cons keyed_put by (cases ov) (simp_all add: e event_ok_def)
qed simp

lemma keyed_by_basis: "keyed d \<Longrightarrow> by_basis (map snd d) = d"
  by (induction d) (auto simp: keyed_def by_basis_def)

lemma map_of_rev_distinct: "distinct (map fst d) \<Longrightarrow> map_of (rev d) = map_of d"
  by (subst map_of_inject_set) (simp_all add: rev_map [symmetric])

lemma start_events_ok: "list_all has_basis cs \<Longrightarrow> list_all event_ok (map start_event cs)"
  by (auto simp: list_all_iff has_basis_def event_ok_def start_event_def str_val_eq)

lemma check_events_ok: "list_all check_ok cs \<Longrightarrow> list_all event_ok (map check_event cs)"
proof -
  have "basis_of c = VStr (str_val (fld c ''basis''))" if c: "check_ok c" for c
  proof -
    obtain x where "c = VDict x" "map_of x ''basis'' = Some (fld c ''basis'')"
      using c by (cases c) (auto simp: check_ok_def fldd.simps dest!: map_of_in_set)
    then show ?thesis using c by (auto simp: check_ok_def basis_of_def str_val_eq fldd.simps split: option.splits)
  qed
  then show "list_all check_ok cs \<Longrightarrow> ?thesis" by (simp add: list_all_iff event_ok_def check_event_def)
qed

lemma settle_view:
  assumes "keyed d" and "pend_inv d" and "list_all event_ok evs"
  shows "pend_view (VList (map snd (pend_settle evs d))) = settled evs (\<lambda>b. map_of d (VStr b))"
proof -
  have i: "pend_inv (pend_settle evs d)" by (rule pend.inv_settle [OF assms(2)])
  have "pend_view (VList (map snd (pend_settle evs d))) = (\<lambda>b. map_of (pend_settle evs d) (VStr b))"
    unfolding pend_view_def using keyed_by_basis [OF keyed_settle [OF assms(1,3)]] i
    by (simp add: pend_inv_def map_of_rev_distinct)
  then show ?thesis using pend.look_settle [OF assms(2), of evs] by simp
qed

lemma settled_start: "list_all has_basis cs \<Longrightarrow> settled (map start_event cs) (\<lambda>_. None) = pend_view (VList cs)"
proof
  fix b assume h: "list_all has_basis cs"
  have "map_of (rev (map start_event cs)) b = map_option Some (map_of (rev (by_basis cs)) (VStr b))"
    using h
  proof (induction cs rule: rev_induct)
    case (snoc c cs)
    then obtain t where "basis_of c = VStr t" by (auto simp: has_basis_def is_str_iff)
    then show ?case using snoc by (auto simp: start_event_def by_basis_def)
  qed (simp add: by_basis_def)
  then show "settled (map start_event cs) (\<lambda>_. None) b = pend_view (VList cs) b"
    by (simp add: settled_last pend_view_def split: option.split)
qed

lemma pending_view:
  assumes "list_all has_basis ps" and "list_all check_ok checked"
  shows "pend_view (VList (map snd (pend_settle (map check_event checked) (pend_settle (map start_event ps) [])))) =
    settled (map check_event checked) (pend_view (VList ps))"
proof -
  have k: "keyed (pend_settle (map start_event ps) [])" by (rule keyed_settle) (simp add: keyed_def, rule start_events_ok [OF assms(1)])
  have i: "pend_inv (pend_settle (map start_event ps) [])" by (rule pend.inv_settle) simp
  have "(\<lambda>b. map_of (pend_settle (map start_event ps) []) (VStr b)) = pend_view (VList ps)"
    using pend.look_settle [of "[]" "map start_event ps"] settled_start [OF assms(1)] by simp
  then show ?thesis using settle_view [OF k i check_events_ok [OF assms(2)]] by simp
qed

lemma kept_reads_subseq: "subseq (kept_reads reads checked) reads"
proof (induction reads arbitrary: checked)
  case (Cons e reads)
  then show ?case by (cases checked) (auto simp: kept_reads_def)
qed (simp add: kept_reads_def)

lemma kept_reads_all: "length (kept_reads reads checked) = length reads \<Longrightarrow> kept_reads reads checked = reads"
  by (metis kept_reads_subseq subseq_same_length)

end
