(* ===== verification/Use_Runs.thy ===== *)
theory Use_Runs
  imports Use_Recheck
begin

text \<open>
  Whole runs of a \<open>UseSession\<close>: what the answering agent is given, that a run marks the task as started
  before anything else can fail, and that the needs are prepared and the lookup is seeded at most once.
\<close>

lemma fld_dupdate: "fldd (VDict (dupdate d e)) k x = (case map_of (rev e) k of Some y \<Rightarrow> y | None \<Rightarrow> fldd (VDict d) k x)"
proof (induction e arbitrary: d)
  case (Cons p e)
  obtain j v where p: "p = (j, v)" by fastforce
  show ?case using Cons.IH [of "AList.update j v d"]
    by (auto simp: p dupdate_def fldd.simps(1) update_conv' map_add_def split: option.splits)
qed (simp add: dupdate_def)

lemma payload_fields:
  "fld (use_payload s u) ''task'' = VStr (us_task s)" "fld (use_payload s u) ''tool_results'' = us_trace s"
  "fld (use_payload s u) ''prior_work'' = VDict [(''notes'', us_notes s)]" "fld (use_payload s u) ''pending'' = us_pending s"
  "fld (use_payload s u) ''usage'' = u" "fld (use_payload s u) ''usage_incomplete'' = us_unknown s"
  by (simp_all add: use_payload_def fld_dupdate)

section \<open>Delivery\<close>

lemma deliver_run:
  assumes "contract_of (us_frame s) = Inr (i, sch)" and "host_report H (us_host s) = (h, Inr rep)" and "usage_of rep = Inr u"
    and "json_ok (use_payload s u)" and "fits (use_payload s u)"
  shows "deliver H invoke s =
    (case run_agent H (invoke ''respond'' i (use_payload s u) sch) (s\<lparr>us_started := VBool True, us_host := h\<rparr>) of
       (s', r) \<Rightarrow> (s'\<lparr>us_needs_check := True\<rparr>, bnd r finish))"
proof -
  have p: "use_payload (s\<lparr>us_started := VBool True, us_host := h\<rparr>) u = use_payload s u" by (simp add: use_payload_def)
  have c: "copy_value (use_payload s u) = Inr (use_payload s u)" by (rule copy_value_ok [OF assms(4,5)])
  show ?thesis using assms(1-3)
    by (simp add: deliver_def usage_def st_bnd_def st_upd_def st_read_def st_ret_def on_part_def st_finally_def p c
        split: prod.split sum.split)
qed

lemma prepare_frame_done: "path = ''quick'' \<or> us_frame s \<noteq> VNone \<Longrightarrow> prepare_frame H invoke path s = (s, Inr ())"
  by (auto simp: prepare_frame_def)

lemma use_run_deliver:
  assumes "path \<in> {''quick'', ''deep''}" and "truthy (us_started s)" and "recheck H s = (s1, Inr ())"
    and "path = ''quick'' \<or> us_frame s1 \<noteq> VNone"
  shows "use_run H invoke path s = deliver H invoke s1"
  using assms by (simp add: use_run_started st_bnd_def prepare_frame_done)

lemma recheck_frame: "recheck H s = (s', r) \<Longrightarrow> us_frame s' = us_frame s \<and> us_started s' = us_started s \<and> us_task s' = us_task s \<and> us_context s' = us_context s"
  by (auto simp: recheck_def Let_def st_bnd_def st_read_def st_ret_def st_upd_def on_part_def split: if_splits sum.splits prod.splits)

section \<open>Started\<close>

abbreviation stays_started :: "'h use_session \<Rightarrow> 'h use_session \<Rightarrow> bool" where
  "stays_started s s' \<equiv> truthy (us_started s) \<longrightarrow> truthy (us_started s')"

interpretation started: preorder_kept stays_started
  by (rule preorder_invariant)

lemma use_ext_started: "keeps use_ext m \<Longrightarrow> keeps stays_started m"
  by (auto simp: keeps_def use_ext_def)

lemma keeps_started_usage: "keeps stays_started (usage H)"
  unfolding usage_def by (intro started.keeps_rules use_ext_started [OF keeps_use_host])

lemma keeps_started_deliver: "keeps stays_started (deliver H invoke)"
  unfolding deliver_def split_def
  by (intro started.keeps_rules keeps_started_usage use_ext_started [OF keeps_run_agent] keeps_upd) simp_all

lemma deliver_started: "deliver H invoke s = (s', r) \<Longrightarrow> truthy (us_started s')"
proof -
  assume d: "deliver H invoke s = (s', r)"
  have "deliver H invoke s = deliver H invoke (s\<lparr>us_started := VBool True\<rparr>)"
    by (simp add: deliver_def st_bnd_def [of "st_upd _"] st_upd_def)
  then show ?thesis using d keepsD [OF keeps_started_deliver, of H invoke "s\<lparr>us_started := VBool True\<rparr>" s' r] by simp
qed

lemma seed_failed_started: "seed H path b s = (s', Inl e) \<Longrightarrow> truthy (us_started s')"
proof -
  assume e: "seed H path b s = (s', Inl e)"
  have "keeps stays_started (st_bnd (initial_context q (use_call H)) (\<lambda>_. st_ret (Inr ())))" for q
    unfolding initial_context_def seed_read_def
    by (intro started.keeps_rules use_ext_started [OF keeps_use_call] keeps_if)
  from keepsD [OF this] show ?thesis using e by (fastforce simp: seed_def split: if_splits)
qed

lemma use_run_marks_started:
  assumes "path \<in> {''quick'', ''deep''}" and "recheck H s = (s1, Inr ())" and "prepare_frame H invoke path s1 = (s2, Inr ())"
    and "use_run H invoke path s = (s', r)"
  shows "truthy (us_started s')"
proof -
  obtain s3 x where s3: "seed H path (truthy (us_started s)) s2 = (s3, x)" by fastforce
  have run: "use_run H invoke path s = (case x of Inl e \<Rightarrow> (s3, Inl e) | Inr _ \<Rightarrow> deliver H invoke s3)"
    using assms(1-3) s3 by (auto simp: use_run_def Let_def st_bnd_def split: sum.split)
  show ?thesis
  proof (cases x)
    case (Inl e)
    then show ?thesis using run assms(4) seed_failed_started [OF s3 [unfolded Inl]] by simp
  next
    case (Inr u)
    then have "deliver H invoke s3 = (s', r)" using run assms(4) by simp
    then show ?thesis by (rule deliver_started)
  qed
qed

end
