(* ===== verification/Retrieval_Host.thy ===== *)
theory Retrieval_Host
  imports Delivery
begin

text \<open>
  \<open>ActiveRetrievalSession\<close> of \<open>benchmarks/longmemeval_s/run.py\<close>: the guarded session that an
  \<open>EvidenceToolSession\<close> wraps. It admits only tools on its list, only identifiers it has seen in an
  earlier answer, and only as many calls, reads and characters as its settings allow, and records every
  call. The product behind it is a parameter: \<open>product_call\<close> is \<open>client.call_tool\<close> over the client's state,
  \<open>elapsed_ms\<close> the clock around it. The observed sets are lists read as sets.
\<close>

record 'c product =
  product_call :: "string \<Rightarrow> val \<Rightarrow> ('c, val) st"
  elapsed_ms :: "'c \<Rightarrow> pyfloat"

record 'c active =
  ac_client :: 'c
  ac_settings :: val
  ac_allowed_tools :: "string list"
  ac_dynamic_tools :: "val list"
  ac_instructions :: val
  ac_manifest_identity :: string
  ac_calls :: "val list"
  ac_information_ids :: "string list"
  ac_evidence_ids :: "string list"
  ac_cursors :: "string list"
  ac_returned_ids :: "string list"
  ac_read_ids :: "string list"
  ac_read_evidence_ids :: "string list"
  ac_read_paths :: "val list"
  ac_read_chars :: int

abbreviation AdErr :: "string \<Rightarrow> exn" where
  "AdErr \<equiv> Exn AdapterError"

definition READS :: "string list" where
  "READS = [''ownward_read'', ''ownward_evidence_read'']"

text \<open>\<open>int(self.settings[k])\<close>.\<close>

definition setting :: "'c active \<Rightarrow> string \<Rightarrow> int res" where
  "setting s k = bnd (vsub (ac_settings s) k) py_int"

section \<open>Budget\<close>

text \<open>\<open>item.get('success') is True and item.get('tool') in {...}\<close>.\<close>

definition is_read_call :: "val \<Rightarrow> bool res" where
  "is_read_call item = bnd (vget item ''success'') (\<lambda>ok. if \<not> is_true ok then Inr False
     else bnd (vget item ''tool'') (\<lambda>t. in_set t READS))"

definition read_count :: "val list \<Rightarrow> nat res" where
  "read_count calls = bnd (filterm is_read_call calls) (\<lambda>xs. Inr (length xs))"

definition retrieval_capacity :: "'c active \<Rightarrow> (bool \<times> bool) res" where
  "retrieval_capacity s =
     bnd (read_count (ac_calls s)) (\<lambda>reads.
     bnd (setting s ''max_tool_calls'') (\<lambda>m.
     bnd (setting s ''read_limit'') (\<lambda>r.
     bnd (if int reads < r then bnd (setting s ''context_max_chars'') (\<lambda>c. Inr (ac_read_chars s < c)) else Inr False) (\<lambda>can_read.
     Inr (int (length (ac_calls s)) < m, can_read)))))"

definition reset_attempt :: "'c active \<Rightarrow> 'c active" where
  "reset_attempt s = s\<lparr>ac_calls := [], ac_information_ids := [], ac_evidence_ids := [], ac_cursors := [],
     ac_returned_ids := [], ac_read_ids := [], ac_read_evidence_ids := [], ac_read_paths := [], ac_read_chars := 0\<rparr>"

section \<open>Reading an answer\<close>

definition ids :: "val \<Rightarrow> string list" where
  "ids values = map (\<lambda>v. str_val (fld v ''id'')) (filter (\<lambda>v. is_dict v \<and> is_str (fld v ''id'') \<and> truthy (fld v ''id'')) (as_list values))"

fun plain_int :: "val \<Rightarrow> int option" where
  "plain_int (VInt i) = Some i" | "plain_int _ = None"

definition adjacent_content :: "val \<Rightarrow> (string \<times> string) res" where
  "adjacent_content value =
     (let before = fldd value ''context_before'' (VStr []); after = fldd value ''context_after'' (VStr []) in
      chk (is_str before \<and> is_str after) (AdErr ''Ownward evidence returned invalid adjacent source content'')
      (let b = str_val before; a = str_val after; lb = int (py_len_str b); la = int (py_len_str a) in
       chk (b = [] \<and> a = [] \<or>
            (case (plain_int (fld value ''start_rune''), plain_int (fld value ''end_rune''),
                   plain_int (fld value ''context_start_rune''), plain_int (fld value ''context_end_rune'')) of
               (Some start, Some stop, Some cstart, Some cstop) \<Rightarrow>
                 0 \<le> cstart \<and> cstart \<le> start \<and> start < stop \<and> stop \<le> cstop \<and>
                 start - cstart = lb \<and> cstop - stop = la \<and> max lb la \<le> stop - start
             | _ \<Rightarrow> False))
         (AdErr ''Ownward evidence returned non-source-bound adjacent content'')
       (Inr (b, a))))"

definition read_content :: "string \<Rightarrow> val \<Rightarrow> (string \<times> string) res" where
  "read_content name result =
     (if \<not> is_dict result then Inr ([], [])
      else if name = ''ownward_read'' then
        (let value = fld result ''information'' in
         if is_dict value then Inr (py_str (fldd value ''id'' (VStr [])), py_str (fldd value ''content'' (VStr []))) else Inr ([], []))
      else if name = ''ownward_evidence_read'' then
        (let value = fld result ''evidence'' in
         if is_dict value then
           bnd (adjacent_content value) (\<lambda>(b, a).
           Inr (py_str (fldd value ''source_id'' (VStr [])),
                join (linefeed @ linefeed)
                  (filter (\<lambda>p. p \<noteq> []) (map (\<lambda>k. py_str (fldd value k (VStr []))) [''source_prelude'', ''content'', ''source_complete'']))
                @ b @ a))
         else Inr ([], []))
      else Inr ([], []))"

section \<open>Admission\<close>

text \<open>\<open>require(1 <= int(value) <= limit, ...)\<close>: the limit is read only when the first comparison holds.\<close>

definition in_limits :: "int res \<Rightarrow> int res \<Rightarrow> string \<Rightarrow> unit res" where
  "in_limits value limit message =
     bnd value (\<lambda>v. bnd (if 1 \<le> v then bnd limit (\<lambda>m. Inr (v \<le> m)) else Inr False) (\<lambda>b. chk b (AdErr message) (Inr ())))"

definition nonblank :: "val \<Rightarrow> bool" where
  "nonblank v = (is_str v \<and> py_strip (str_val v) \<noteq> [])"

definition starts_observed :: "'c active \<Rightarrow> val \<Rightarrow> bool res" where
  "starts_observed s start_ids =
     (case start_ids of
        VList xs \<Rightarrow>
          if xs = [] then Inr False
          else if list_all (\<lambda>v. is_str v \<and> str_val v \<in> set (ac_information_ids s)) xs then Inr True
          else if length xs = 1 then in_set (hd xs) (ac_cursors s)
          else Inr False
      | _ \<Rightarrow> Inr False)"

definition validate_arguments :: "'c active \<Rightarrow> string \<Rightarrow> val \<Rightarrow> unit res" where
  "validate_arguments s name arguments =
     chk (name \<in> set (ac_allowed_tools s)) (AdErr (''Ownward tool is outside active retrieval: '' @ name))
     (if name = ''ownward_search'' then
        chk (nonblank (fld arguments ''query'')) (AdErr ''search query is empty'')
        (in_limits (py_int (fldd arguments ''limit'' (VInt 10))) (setting s ''search_limit_per_call'') ''search limit exceeds the frozen budget'')
      else if name = ''ownward_navigate'' then
        bnd (starts_observed s (fld arguments ''start_ids'')) (\<lambda>b.
        chk b (AdErr ''navigation used an information ID not observed from Ownward'')
        (bnd (in_limits (py_int (fldd arguments ''depth'' (VInt 1))) (Inr 5) ''navigation depth exceeds the product contract'') (\<lambda>_.
         in_limits (py_int (fldd arguments ''limit'' (VInt 50))) (setting s ''navigate_limit_per_call'') ''navigation limit exceeds the frozen budget'')))
      else if name = ''ownward_evidence_search'' then
        bnd (in_set (fld arguments ''source_id'') (ac_information_ids s)) (\<lambda>b.
        chk b (AdErr ''evidence search source was not observed from Ownward'')
        (chk (nonblank (fld arguments ''query'')) (AdErr ''evidence query is empty'')
         (in_limits (py_int (fldd arguments ''limit'' (VInt 3))) (setting s ''evidence_search_limit_per_source'') ''evidence search limit exceeds the frozen budget'')))
      else if name = ''ownward_read'' then
        bnd (in_set (fld arguments ''id'') (ac_information_ids s)) (\<lambda>b. chk b (AdErr ''read ID was not observed from Ownward'') (Inr ()))
      else if name = ''ownward_evidence_read'' then
        bnd (in_set (fld arguments ''id'') (ac_evidence_ids s)) (\<lambda>b. chk b (AdErr ''evidence read ID was not observed from Ownward'') (Inr ()))
      else Inr ())"

section \<open>Observation\<close>

text \<open>\<open>refs += a + b\<close>: two lists, or two texts, whose characters are no references.\<close>

fun plus_refs :: "val \<Rightarrow> val \<Rightarrow> val list res" where
  "plus_refs (VList xs) (VList ys) = Inr (xs @ ys)"
| "plus_refs (VStr s) (VStr t) = Inr (map VStr (code_points (s @ t)))"
| "plus_refs v w = Inl (Exn TypeError ''unsupported operand'')"

definition observe_ref :: "val \<Rightarrow> 'c active \<Rightarrow> 'c active" where
  "observe_ref ref s =
     (if is_dict ref \<and> is_str (fld ref ''id'') \<and> is_str (fld ref ''source_id'') then
        s\<lparr>ac_evidence_ids := List.insert (str_val (fld ref ''id'')) (ac_evidence_ids s),
          ac_information_ids := List.insert (str_val (fld ref ''source_id'')) (ac_information_ids s)\<rparr>
      else s)"

definition observe_relation :: "val \<Rightarrow> ('c active, unit) st" where
  "observe_relation relation =
     (if \<not> is_dict relation then st_ret (Inr ())
      else st_bnd (st_ret (plus_refs (fldd relation ''context'' (VList [])) (fldd relation ''conditions'' (VList [])))) (\<lambda>more.
           st_upd (\<lambda>s. foldl (\<lambda>s ref. observe_ref ref s) s ([fld relation ''source'', fld relation ''target''] @ more))))"

definition observe_relations :: "val \<Rightarrow> ('c active, unit) st" where
  "observe_relations relations = (case relations of VList rs \<Rightarrow> st_each observe_relation rs | _ \<Rightarrow> st_ret (Inr ()))"

definition observe_source :: "val \<Rightarrow> ('c active, unit) st" where
  "observe_source source =
     (if \<not> is_dict source then st_ret (Inr ())
      else st_bnd (observe_relations (fld source ''relations'')) (\<lambda>_.
           case fldd source ''evidence'' (VList []) of
             VList refs \<Rightarrow> st_upd (\<lambda>s. s\<lparr>ac_evidence_ids := List.union
               (ids (VList (filter (\<lambda>r. is_dict r \<and> py_eq (fld r ''source_id'') (fld source ''id'')) refs))) (ac_evidence_ids s)\<rparr>)
           | _ \<Rightarrow> st_ret (Inr ())))"

definition observe_ids :: "string list \<Rightarrow> 'c active \<Rightarrow> 'c active" where
  "observe_ids xs s = s\<lparr>ac_information_ids := List.union xs (ac_information_ids s), ac_returned_ids := ac_returned_ids s @ xs\<rparr>"

definition observe_search :: "val \<Rightarrow> ('c active, string list) st" where
  "observe_search result =
     (let xs = ids (fld result ''results'') in
      st_bnd (st_upd (observe_ids xs)) (\<lambda>_.
      st_bnd (st_ret (py_iter (fldd result ''results'' (VList [])))) (\<lambda>sources.
      st_bnd (st_each observe_source sources) (\<lambda>_. st_ret (Inr xs)))))"

definition observe_navigation :: "val \<Rightarrow> ('c active, string list) st" where
  "observe_navigation result =
     (let navigation = fld result ''result''; xs = (if is_dict navigation then ids (fld navigation ''nodes'') else []) in
      st_bnd (if is_dict navigation then
          st_bnd (st_ret (py_iter (fldd navigation ''edges'' (VList [])))) (\<lambda>edges.
          st_bnd (observe_relations (VList (map (\<lambda>e. fld e ''grounded'') (filter is_dict edges)))) (\<lambda>_.
          st_upd (\<lambda>s. if is_str (fld navigation ''continuation'') \<and> truthy (fld navigation ''continuation'')
            then s\<lparr>ac_cursors := List.insert (str_val (fld navigation ''continuation'')) (ac_cursors s)\<rparr> else s)))
        else st_ret (Inr ())) (\<lambda>_.
      st_bnd (st_upd (observe_ids xs)) (\<lambda>_. st_ret (Inr xs))))"

definition read_path :: "string \<Rightarrow> string \<Rightarrow> string list \<Rightarrow> val" where
  "read_path source mode evs = VDict [(''source_id'', VStr source), (''mode'', VStr mode), (''evidence_ids'', VList (strs evs))]"

definition observe_read :: "string \<Rightarrow> val \<Rightarrow> string \<Rightarrow> string \<Rightarrow> 'c active \<Rightarrow> 'c active" where
  "observe_read name arguments source content s =
     (if name = ''ownward_read'' then
        s\<lparr>ac_read_ids := ac_read_ids s @ [source], ac_read_paths := ac_read_paths s @ [read_path source ''full'' []],
          ac_read_chars := ac_read_chars s + int (py_len_str content)\<rparr>
      else if name = ''ownward_evidence_read'' then
        (let e = py_str (fldd arguments ''id'' (VStr [])) in
         s\<lparr>ac_read_evidence_ids := ac_read_evidence_ids s @ [e],
           ac_read_paths := ac_read_paths s @ [read_path source ''evidence'' [e]],
           ac_read_chars := ac_read_chars s + int (py_len_str content),
           ac_read_ids := (if source \<noteq> [] then ac_read_ids s @ [source] else ac_read_ids s)\<rparr>)
      else s)"

definition observe_result :: "string \<Rightarrow> val \<Rightarrow> val \<Rightarrow> string \<Rightarrow> string \<Rightarrow> ('c active, string list) st" where
  "observe_result name arguments result source content =
     (if \<not> is_dict result then st_ret (Inr [])
      else if name = ''ownward_search'' then observe_search result
      else if name = ''ownward_navigate'' then observe_navigation result
      else if name = ''ownward_evidence_search'' then
        (let xs = ids (fld result ''evidence'') in
         st_bnd (st_upd (\<lambda>s. s\<lparr>ac_evidence_ids := List.union xs (ac_evidence_ids s)\<rparr>)) (\<lambda>_. st_ret (Inr xs)))
      else st_bnd (st_upd (observe_read name arguments source content)) (\<lambda>_. st_ret (Inr [])))"

section \<open>A call\<close>

text \<open>The body of the \<open>try\<close>: admission, the read budget, the product, the character budget.\<close>

definition guarded_call :: "'c product \<Rightarrow> string \<Rightarrow> val \<Rightarrow> ('c active, val \<times> string \<times> string) st" where
  "guarded_call P name arguments =
     st_bnd (st_read (\<lambda>s. bnd (validate_arguments s name arguments) (\<lambda>_.
        if name \<in> set READS then
          bnd (read_count (ac_calls s)) (\<lambda>reads. bnd (setting s ''read_limit'') (\<lambda>m.
          chk (int reads < m) (AdErr ''active retrieval read budget exhausted'') (Inr ())))
        else Inr ()))) (\<lambda>_.
     st_bnd (on_part ac_client (\<lambda>c. ac_client_update (\<lambda>_. c)) (product_call P name arguments)) (\<lambda>result.
     st_bnd (st_ret (read_content name result)) (\<lambda>(source, content).
     st_bnd (st_read (\<lambda>s. if content \<noteq> [] then
          bnd (setting s ''context_max_chars'') (\<lambda>m. chk (ac_read_chars s + int (py_len_str content) \<le> m)
            (AdErr ''active retrieval evidence-character budget exhausted; use a narrower evidence reference'') (Inr ()))
        else Inr ())) (\<lambda>_.
     st_ret (Inr (result, source, content))))))"

definition call_record :: "string \<Rightarrow> val \<Rightarrow> (val \<times> string \<times> string) res \<Rightarrow> pyfloat \<Rightarrow> string list \<Rightarrow> val" where
  "call_record name arguments tried ms result_ids = VDict
     [(''tool'', VStr name), (''arguments_sha256'', VStr (canonical_sha256 arguments)), (''arguments'', arguments),
      (''result'', case tried of Inr (result, _, _) \<Rightarrow> result | Inl _ \<Rightarrow> VNone),
      (''success'', VBool (case tried of Inr _ \<Rightarrow> True | Inl _ \<Rightarrow> False)),
      (''error'', VStr (case tried of Inr _ \<Rightarrow> [] | Inl e \<Rightarrow> concat (take 500 (code_points (exn_text e))))),
      (''elapsed_ms'', VFloat ms), (''result_ids'', VList (strs result_ids)),
      (''read_source_id'', VStr (case tried of Inr (_, source, _) \<Rightarrow> source | Inl _ \<Rightarrow> [])),
      (''read_chars'', VInt (case tried of Inr (_, _, content) \<Rightarrow> int (py_len_str content) | Inl _ \<Rightarrow> 0))]"

definition active_call :: "'c product \<Rightarrow> string \<Rightarrow> val \<Rightarrow> ('c active, val) st" where
  "active_call P name raw_arguments =
     (let arguments = (if is_dict raw_arguments then raw_arguments else VDict []) in
      st_bnd (st_read (\<lambda>s. bnd (setting s ''max_tool_calls'') (\<lambda>m.
        chk (int (length (ac_calls s)) < m) (AdErr ''active retrieval tool-call budget exhausted'') (Inr ())))) (\<lambda>_.
      st_bnd (\<lambda>s. case guarded_call P name arguments s of (s', r) \<Rightarrow> (s', Inr r)) (\<lambda>tried.
      st_bnd (st_read (\<lambda>s. Inr (elapsed_ms P (ac_client s)))) (\<lambda>ms.
      st_bnd (case tried of Inr (result, source, content) \<Rightarrow> observe_result name arguments result source content
              | Inl _ \<Rightarrow> st_ret (Inr [])) (\<lambda>result_ids.
      st_bnd (st_upd (\<lambda>s. s\<lparr>ac_calls := ac_calls s @ [call_record name arguments tried ms result_ids]\<rparr>)) (\<lambda>_.
      st_ret (case tried of Inl e \<Rightarrow> Inl (AdErr (exn_text e)) | Inr (result, _, _) \<Rightarrow> Inr result)))))))"

section \<open>Restore, report and validation\<close>

definition active_restore :: "val \<Rightarrow> ('c active, unit) st" where
  "active_restore value =
     st_bnd (st_ret (chk (is_dict value) (AdErr ''active retrieval checkpoint has no tool trace'') (Inr ()))) (\<lambda>_.
     st_bnd (st_ret (py_iter (fldd value ''selection_steps'' (VList [])))) (\<lambda>calls.
     st_bnd (st_upd (\<lambda>s. s\<lparr>ac_calls := calls\<rparr>)) (\<lambda>_.
     st_bnd (st_ret (py_iter (fldd value ''returned'' (VList [])))) (\<lambda>returned.
     st_bnd (st_upd (\<lambda>s. s\<lparr>ac_returned_ids :=
        map (\<lambda>i. py_str (fld i ''id'')) (filter (\<lambda>i. is_dict i \<and> truthy (fld i ''id'')) returned)\<rparr>)) (\<lambda>_.
     st_bnd (st_ret (py_iter (fldd value ''read_ids'' (VList [])))) (\<lambda>reads.
     st_bnd (st_upd (\<lambda>s. s\<lparr>ac_read_ids := map py_str reads\<rparr>)) (\<lambda>_.
     st_bnd (st_ret (py_iter (fldd value ''evidence_read_ids'' (VList [])))) (\<lambda>evidence.
     st_bnd (st_upd (\<lambda>s. s\<lparr>ac_read_evidence_ids := map py_str evidence\<rparr>)) (\<lambda>_.
     st_bnd (st_ret (py_iter (fldd value ''read_paths'' (VList [])))) (\<lambda>paths.
     st_bnd (st_upd (\<lambda>s. s\<lparr>ac_read_paths := paths\<rparr>)) (\<lambda>_.
     st_bnd (st_ret (py_int (fldd value ''context_chars'' (VInt 0)))) (\<lambda>chars.
     st_upd (\<lambda>s. s\<lparr>ac_read_chars := chars\<rparr>)))))))))))))"

definition source_previews :: "val \<Rightarrow> val list res" where
  "source_previews source =
     (if \<not> is_dict source \<or> \<not> truthy (fld source ''id'') then Inr []
      else bnd (py_iter (fldd source ''evidence'' (VList []))) (\<lambda>refs.
           Inr (filter (\<lambda>r. is_dict r \<and> truthy (fld r ''id'') \<and> py_eq (fld r ''source_id'') (fld source ''id'') \<and>
                            nonblank (fld r ''preview'')) refs)))"

definition call_previews :: "val \<Rightarrow> val list res" where
  "call_previews c =
     bnd (vget c ''success'') (\<lambda>ok.
     if \<not> is_true ok then Inr []
     else bnd (vget c ''tool'') (\<lambda>t.
       if \<not> py_eq t (VStr ''ownward_search'') then Inr []
       else bnd (vget c ''result'') (\<lambda>r.
         bnd (vgetd (if truthy r then r else VDict []) ''results'' (VList [])) (\<lambda>rs.
         bnd (py_iter rs) (\<lambda>sources. bnd (mapm source_previews sources) (\<lambda>xss. Inr (concat xss)))))))"

definition preview_evidence :: "val list \<Rightarrow> val list res" where
  "preview_evidence calls = bnd (mapm call_previews calls) (\<lambda>xss. Inr (concat xss))"

text \<open>\<open>sum(float(item["elapsed_ms"]) for item in calls if item.get("tool") in tools)\<close>: the integer 0 when no
  call qualifies.\<close>

definition sum_ms :: "string list \<Rightarrow> val list \<Rightarrow> val res" where
  "sum_ms tools calls =
     bnd (filterm (\<lambda>c. bnd (vget c ''tool'') (\<lambda>t. in_set t tools)) calls) (\<lambda>cs.
     bnd (mapm (\<lambda>c. bnd (vsub c ''elapsed_ms'') py_float) cs) (\<lambda>xs.
     Inr (case xs of [] \<Rightarrow> VInt 0 | y # ys \<Rightarrow> VFloat (foldl fl_add y ys))))"

fun ms_add :: "val \<Rightarrow> val \<Rightarrow> val" where
  "ms_add (VFloat x) (VFloat y) = VFloat (fl_add x y)"
| "ms_add (VFloat x) _ = VFloat x"
| "ms_add _ w = w"

definition active_report :: "'c active \<Rightarrow> val res" where
  "active_report s =
     bnd (sum_ms [''ownward_search'', ''ownward_navigate''] (ac_calls s)) (\<lambda>search_ms.
     bnd (sum_ms [''ownward_evidence_search''] (ac_calls s)) (\<lambda>evidence_ms.
     bnd (sum_ms READS (ac_calls s)) (\<lambda>read_ms.
     bnd (preview_evidence (ac_calls s)) (\<lambda>previews.
     chk (list_all (\<lambda>r. hashable (fld r ''source_id'')) previews) (Exn TypeError ''unhashable type'')
     (bnd (mapm (\<lambda>(name, key). bnd (setting s key) (\<lambda>i. Inr (name, VInt i)))
            [(''tool_calls'', ''max_tool_calls''), (''read_units'', ''read_limit''), (''context_chars'', ''context_max_chars''),
             (''search_results_per_call'', ''search_limit_per_call''), (''navigation_results_per_call'', ''navigate_limit_per_call''),
             (''evidence_depth_per_source'', ''evidence_search_limit_per_source'')]) (\<lambda>limits.
     Inr (VDict
       [(''mode'', VStr ''external-agent-progressive/v1''), (''tool_manifest_identity'', VStr (ac_manifest_identity s)),
        (''search_ms'', search_ms), (''evidence_search_ms'', evidence_ms), (''read_ms'', read_ms),
        (''total_ms'', ms_add (ms_add search_ms evidence_ms) read_ms),
        (''returned'', VList (map (\<lambda>i. VDict [(''id'', VStr i)]) (rev (remdups (rev (ac_returned_ids s)))))),
        (''read_ids'', VList (strs (rev (remdups (rev (filter (\<lambda>i. i \<noteq> []) (ac_read_ids s))))))),
        (''evidence_read_ids'', VList (strs (rev (remdups (rev (ac_read_evidence_ids s)))))),
        (''read_paths'', VList (ac_read_paths s)), (''context_chars'', VInt (ac_read_chars s)),
        (''preview_source_ids'', VList (rev (dedup (rev (map (\<lambda>r. fld r ''source_id'') previews))))),
        (''preview_chars'', VInt (int (sum_list (map (\<lambda>r. py_len_str (str_val (fld r ''preview''))) previews)))),
        (''limits'', VDict limits), (''selection_policy'', VStr ''external-agent-progressive/v1''),
        (''selection_steps'', VList (ac_calls s))])))))))"

definition active_validate :: "'c active \<Rightarrow> val res" where
  "active_validate s =
     bnd (filterm (\<lambda>c. bnd (vget c ''success'') (\<lambda>ok. Inr (is_true ok))) (ac_calls s)) (\<lambda>successful.
     bnd (anym (\<lambda>c. bnd (vget c ''tool'') (\<lambda>t. Inr (py_eq t (VStr ''ownward_search'')))) successful) (\<lambda>searched.
     chk searched (AdErr ''product evaluator bypassed active Ownward search'')
     (bnd (anym (\<lambda>c. bnd (vget c ''tool'') (\<lambda>t. in_set t READS)) successful) (\<lambda>was_read.
      bnd (if was_read then Inr True else bnd (preview_evidence (ac_calls s)) (\<lambda>ps. Inr (ps \<noteq> []))) (\<lambda>b.
      chk b (AdErr ''product evaluator answered without reading Ownward evidence'') (Inr VNone))))))"

section \<open>The session as a host\<close>

definition active_host :: "'c product \<Rightarrow> 'c active host" where
  "active_host P =
     \<lparr>host_call = active_call P, host_reset_attempt = st_upd reset_attempt, host_report = st_read active_report,
      host_restore = active_restore, host_validate = st_read active_validate,
      host_retrieval_capacity = st_read retrieval_capacity,
      host_dynamic_tools = (\<lambda>s. VList (ac_dynamic_tools s)), host_instructions = ac_instructions\<rparr>"

end
