(* ===== verification/Host_Laws.thy ===== *)
theory Host_Laws
  imports Use_Session Reuse_Facts
begin

text \<open>
  The interface between a session and the host it stands on: a preorder on the host's states that
  the host's own operations keep (a counter that never falls, a limit that is never exceeded). Such a law
  carries over to the \<open>EvidenceToolSession\<close> that wraps the host, which is a host again, and to everything a
  \<open>UseSession\<close> does except a restore: calls, rechecks, checkpoints and whole runs, whatever the agent
  asks for.
\<close>

text \<open>An agent whose own work on the host keeps the preorder; its tool calls are not restricted.\<close>

primrec agent_keeps :: "('h \<Rightarrow> 'h \<Rightarrow> bool) \<Rightarrow> 'h agent \<Rightarrow> bool" where
  "agent_keeps R (Return r) = True"
| "agent_keeps R (Call name arguments k) = (\<forall>r. agent_keeps R (k r))"
| "agent_keeps R (Note v k) = agent_keeps R k"
| "agent_keeps R (Work m k) = (keeps R m \<and> (\<forall>r. agent_keeps R (k r)))"

locale kept_host =
  fixes H :: "'h host" and R :: "'h \<Rightarrow> 'h \<Rightarrow> bool"
  assumes host_refl: "R h h"
    and host_trans: "R h i \<Longrightarrow> R i j \<Longrightarrow> R h j"
    and call_kept: "keeps R (host_call H name arguments)"
    and report_kept: "keeps R (host_report H)"
    and capacity_kept: "keeps R (host_retrieval_capacity H)"
begin

lemma part_preorder: "preorder_kept (\<lambda>s s'. R (get s) (get s'))"
  by unfold_locales (rule host_refl, rule host_trans)

lemma on_part_kept:
  assumes "keeps R m" and "\<And>h s. get (put h s) = h"
  shows "keeps (\<lambda>s s'. R (get s) (get s')) (on_part get put m)"
  using assms by (simp add: keeps_def on_part_def split_def)

lemma upd_kept: "(\<And>s. get (f s) = get s) \<Longrightarrow> keeps (\<lambda>s s'. R (get s) (get s')) (st_upd f)"
  by (rule keeps_upd) (simp add: host_refl)

lemmas kept_rules = preorder_kept.keeps_rules [OF part_preorder] on_part_kept upd_kept
  call_kept report_kept capacity_kept

subsection \<open>The tool session\<close>

abbreviation RT :: "'h tool_session \<Rightarrow> 'h tool_session \<Rightarrow> bool" where
  "RT s s' \<equiv> R (ts_host s) (ts_host s')"

lemma transform_kept: "keeps RT (transform_st enc v)"
  by (rule keepsI) (auto simp: transform_st_def host_refl split: prod.splits)

lemma refresh_kept: "keeps RT (refresh H)"
  unfolding refresh_def split_def by (intro kept_rules) simp_all

lemma single_kept: "keeps RT (single H name arguments)"
  unfolding single_def by (intro kept_rules transform_kept refresh_kept) simp_all

lemma tool_call_kept: "keeps RT (tool_call H name arguments)"
  unfolding tool_call_def read_one_def by (simp, intro conjI impI kept_rules single_kept)

lemma tool_report_kept: "keeps RT (tool_report H)"
  unfolding tool_report_def by (intro kept_rules) simp_all

lemma tool_host_kept: "kept_host (tool_host H) RT"
proof
  show "keeps RT (host_call (tool_host H) name arguments)" for name arguments
    by (simp add: tool_host_def tool_call_kept)
  show "keeps RT (host_report (tool_host H))"
    by (simp add: tool_host_def tool_report_kept)
  show "keeps RT (host_retrieval_capacity (tool_host H))"
    unfolding tool_host_def host.simps by (intro kept_rules) simp_all
qed (blast intro: host_refl host_trans)+

subsection \<open>The use session\<close>

abbreviation RU :: "'h use_session \<Rightarrow> 'h use_session \<Rightarrow> bool" where
  "RU s s' \<equiv> R (us_host s) (us_host s')"

lemma use_call_kept: "keeps RU (use_call H name arguments)"
  unfolding use_call_def by (intro kept_rules) simp_all

lemma host_preorder: "preorder_kept R"
  by unfold_locales (rule host_refl, rule host_trans)

lemmas host_rules = preorder_kept.keeps_rules [OF host_preorder] call_kept

lemma check_materials_kept: "keeps R (check_materials materials (host_call H))"
  unfolding check_materials_batches check_batch_def by (intro host_rules)

lemma recheck_kept: "keeps RU (recheck H)"
proof (rule keepsI)
  fix s s' r assume e: "recheck H s = (s', r)"
  let ?m = "st_bnd (st_read (\<lambda>s. trace_reads (us_trace s))) (\<lambda>reads.
        st_bnd (st_ret (mapm material_of reads)) (\<lambda>materials.
        st_bnd (on_use_host (check_materials materials (host_call H))) (\<lambda>checked.
        let kept = kept_reads reads checked in
        st_bnd (st_upd (\<lambda>s. s\<lparr>us_trace := VList kept\<rparr>)) (\<lambda>_.
        st_bnd (st_read (\<lambda>s. bnd (py_iter (us_pending s)) (\<lambda>cs.
           bnd (pending_start cs) (\<lambda>d. foldm pending_step d checked)))) (\<lambda>d.
        st_upd (\<lambda>s. s\<lparr>us_pending := VList (map snd d),
                      us_notes := (if length kept \<noteq> length reads \<or> reads = [] then VStr [] else us_notes s),
                      us_needs_check := False\<rparr>))))))"
  have "keeps RU ?m" unfolding Let_def by (intro kept_rules check_materials_kept) simp_all
  then show "RU s s'" using e host_refl keepsD [of RU ?m s] by (cases "us_needs_check s") (auto simp: recheck_def)
qed

lemma run_agent_kept: "agent_keeps R a \<Longrightarrow> keeps RU (run_agent H a)"
proof (induction a)
  case (Return r)
  show ?case unfolding run_agent.simps by (intro kept_rules)
next
  case (Call name arguments k)
  show ?case
  proof (rule keepsI)
    fix s s' r assume "run_agent H (Call name arguments k) s = (s', r)"
    then obtain s1 x where 1: "use_call H name arguments s = (s1, x)" "run_agent H (k x) s1 = (s', r)"
      by (auto split: prod.splits)
    have k: "keeps RU (run_agent H (k x))" using Call by simp
    show "RU s s'" using keepsD [OF use_call_kept 1(1)] keepsD [OF k 1(2)] by (rule host_trans)
  qed
next
  case (Note v k)
  show ?case
  proof (rule keepsI)
    fix s s' r assume "run_agent H (Note v k) s = (s', r)"
    then have e: "run_agent H k (s\<lparr>us_notes := v\<rparr>) = (s', r)" by simp
    have "keeps RU (run_agent H k)" using Note by simp
    from keepsD [OF this e] show "RU s s'" by simp
  qed
next
  case (Work m k)
  show ?case
  proof (rule keepsI)
    fix s s' r assume "run_agent H (Work m k) s = (s', r)"
    then obtain s1 x where 1: "on_use_host m s = (s1, x)" "run_agent H (k x) s1 = (s', r)"
      by (auto split: prod.splits)
    have m: "keeps RU (on_use_host m)" using Work.prems by (intro on_part_kept) simp_all
    have k: "keeps RU (run_agent H (k x))" using Work by simp
    show "RU s s'" using keepsD [OF m 1(1)] keepsD [OF k 1(2)] by (rule host_trans)
  qed
qed

lemma checkpoint_kept: "keeps RU (checkpoint H)"
  unfolding checkpoint_def by (intro kept_rules) simp_all

lemma usage_kept: "keeps RU (usage H)"
  unfolding usage_def by (intro kept_rules) simp_all

lemma initial_context_kept: "keeps RU (initial_context q (use_call H))"
  unfolding initial_context_def seed_read_def by (intro kept_rules use_call_kept keeps_if)

lemma prepare_frame_kept:
  assumes "\<And>stage i p sch. agent_keeps R (invoke stage i p sch)"
  shows "keeps RU (prepare_frame H invoke path)"
proof (rule keepsI)
  fix s s' r assume e: "prepare_frame H invoke path s = (s', r)"
  have "keeps RU (st_bnd (run_agent H a) (\<lambda>frame. st_upd (\<lambda>s. s\<lparr>us_frame := frame\<rparr>)))" if "agent_keeps R a" for a
    by (intro kept_rules run_agent_kept that) simp_all
  from keepsD [OF this [OF assms]] show "RU s s'" using e host_refl by (auto simp: prepare_frame_def split: if_splits)
qed

lemma seed_kept: "keeps RU (seed H path was_started)"
proof (rule keepsI)
  fix s s' r assume e: "seed H path was_started s = (s', r)"
  have "keeps RU (st_bnd (initial_context q (use_call H)) (\<lambda>_. st_ret (Inr ())))" for q
    by (intro kept_rules initial_context_kept)
  from keepsD [OF this] show "RU s s'" using e host_refl by (fastforce simp: seed_def split: if_splits)
qed

lemma deliver_kept:
  assumes "\<And>stage i p sch. agent_keeps R (invoke stage i p sch)"
  shows "keeps RU (deliver H invoke)"
  unfolding deliver_def split_def by (intro kept_rules usage_kept run_agent_kept assms) simp_all

lemma use_run_kept:
  assumes "\<And>stage i p sch. agent_keeps R (invoke stage i p sch)"
  shows "keeps RU (use_run H invoke path)"
proof (rule keepsI)
  fix s s' r assume e: "use_run H invoke path s = (s', r)"
  have "keeps RU (st_bnd (recheck H) (\<lambda>_. st_bnd (prepare_frame H invoke path) (\<lambda>_.
      st_bnd (seed H path b) (\<lambda>_. deliver H invoke))))" for b
    by (intro kept_rules recheck_kept prepare_frame_kept seed_kept deliver_kept assms)
  from keepsD [OF this] show "RU s s'" using e host_refl by (auto simp: use_run_def Let_def split: if_splits)
qed

end

end
