(* ===== verification/Retrieval_Facts.thy ===== *)
theory Retrieval_Facts
  imports Retrieval_Host Host_Laws "HOL-Library.Sublist"
begin

text \<open>
  The guarded session keeps its budget: it never records more calls, more successful reads or more
  characters than its settings allow, its record only grows, and it lets nothing through to the product
  that was refused. As laws of a host (\<open>kept_host\<close>) these carry over to the sessions above it.
\<close>

section \<open>What observation leaves alone\<close>

definition obs_frame :: "'c active \<Rightarrow> 'c active \<Rightarrow> bool" where
  "obs_frame s s' = (ac_calls s' = ac_calls s \<and> ac_settings s' = ac_settings s \<and> ac_allowed_tools s' = ac_allowed_tools s \<and>
     ac_client s' = ac_client s \<and> ac_read_chars s' = ac_read_chars s)"

interpretation obs: preorder_kept obs_frame
  by unfold_locales (auto simp: obs_frame_def)

lemma observe_ref_frame: "obs_frame s (observe_ref ref s)"
  by (simp add: observe_ref_def obs_frame_def)

lemma observe_refs_frame: "obs_frame s (foldl (\<lambda>s ref. observe_ref ref s) s refs)"
proof (induction refs arbitrary: s)
  case (Cons r refs)
  then show ?case using observe_ref_frame [of s r] by (simp) (blast intro: obs.R_trans)
qed (simp add: obs.R_refl)

lemma keeps_obs_relation: "keeps obs_frame (observe_relation r)"
  unfolding observe_relation_def by (intro obs.keeps_rules keeps_if keeps_upd observe_refs_frame)

lemma keeps_obs_relations: "keeps obs_frame (observe_relations rs)"
  unfolding observe_relations_def by (cases rs) (simp_all add: obs.keeps_rules keeps_obs_relation)

lemma keeps_obs_source: "keeps obs_frame (observe_source src)"
proof -
  have "keeps obs_frame (case fldd src ''evidence'' (VList []) of VList refs \<Rightarrow> st_upd (\<lambda>s. s\<lparr>ac_evidence_ids := f refs s\<rparr>)
     | _ \<Rightarrow> st_ret (Inr ()))" for f :: "val list \<Rightarrow> 'c active \<Rightarrow> string list"
    by (cases "fldd src ''evidence'' (VList [])") (auto intro!: obs.keeps_rules keeps_upd simp: obs_frame_def)
  then show ?thesis unfolding observe_source_def by (intro obs.keeps_rules keeps_if keeps_obs_relations)
qed

lemma keeps_obs_search: "keeps obs_frame (observe_search r)"
  unfolding observe_search_def Let_def
  by (intro obs.keeps_rules keeps_upd keeps_obs_source) (simp add: observe_ids_def obs_frame_def)

lemma keeps_obs_navigation: "keeps obs_frame (observe_navigation r)"
  unfolding observe_navigation_def Let_def
  by (intro obs.keeps_rules keeps_upd keeps_if keeps_obs_relations) (simp_all add: observe_ids_def obs_frame_def)

text \<open>Observing an answer adds at most its content to the characters read, and leaves the record, the
  settings and the product alone.\<close>

lemma observe_result_frame:
  assumes "observe_result name arguments result source content s = (s', r)"
  shows "ac_calls s' = ac_calls s" and "ac_settings s' = ac_settings s" and "ac_client s' = ac_client s"
    and "ac_read_chars s' \<le> ac_read_chars s + int (py_len_str content)" and "ac_read_chars s \<le> ac_read_chars s'"
proof -
  have "ac_calls s' = ac_calls s \<and> ac_settings s' = ac_settings s \<and> ac_client s' = ac_client s \<and>
    ac_read_chars s' \<le> ac_read_chars s + int (py_len_str content) \<and> ac_read_chars s \<le> ac_read_chars s'"
  proof (cases "is_dict result \<and> (name = ''ownward_search'' \<or> name = ''ownward_navigate'')")
    case True
    then have "obs_frame s s'"
      using assms keepsD [OF keeps_obs_search] keepsD [OF keeps_obs_navigation]
      by (auto simp: observe_result_def split: if_splits) blast+
    then show ?thesis by (simp add: obs_frame_def)
  next
    case False
    then show ?thesis using assms
      by (auto simp: observe_result_def observe_read_def Let_def st_bnd_def st_upd_def st_ret_def split: if_splits)
  qed
  then show "ac_calls s' = ac_calls s" "ac_settings s' = ac_settings s" "ac_client s' = ac_client s"
    "ac_read_chars s' \<le> ac_read_chars s + int (py_len_str content)" "ac_read_chars s \<le> ac_read_chars s'" by blast+
qed

section \<open>The guard\<close>

lemma guarded_call_frame:
  assumes "guarded_call P name arguments s = (s', tried)"
  shows "s' = s\<lparr>ac_client := ac_client s'\<rparr>"
  using assms
  by (auto simp: guarded_call_def st_bnd_def st_read_def st_ret_def on_part_def split: prod.splits sum.splits)

lemma guarded_call_fields:
  assumes "guarded_call P name arguments s = (s', tried)"
  shows "ac_settings s' = ac_settings s" "ac_calls s' = ac_calls s" "ac_read_chars s' = ac_read_chars s"
  by (subst guarded_call_frame [OF assms], simp)+

lemma guarded_call_Inr:
  assumes "guarded_call P name arguments s = (s', Inr (result, source, content))"
  shows "validate_arguments s name arguments = Inr ()"
    and "name \<in> set READS \<Longrightarrow> \<exists>n m. read_count (ac_calls s) = Inr n \<and> setting s ''read_limit'' = Inr m \<and> int n < m"
    and "content \<noteq> [] \<Longrightarrow> \<exists>m. setting s ''context_max_chars'' = Inr m \<and> ac_read_chars s + int (py_len_str content) \<le> m"
proof -
  from assms obtain c where g: "bnd (validate_arguments s name arguments) (\<lambda>_.
        if name \<in> set READS then
          bnd (read_count (ac_calls s)) (\<lambda>reads. bnd (setting s ''read_limit'') (\<lambda>m.
          chk (int reads < m) (AdErr ''active retrieval read budget exhausted'') (Inr ())))
        else Inr ()) = Inr ()"
    and k: "(if content \<noteq> [] then
          bnd (setting (s\<lparr>ac_client := c\<rparr>) ''context_max_chars'') (\<lambda>m. chk (ac_read_chars (s\<lparr>ac_client := c\<rparr>) + int (py_len_str content) \<le> m)
            (AdErr ''active retrieval evidence-character budget exhausted; use a narrower evidence reference'') (Inr ()))
        else Inr ()) = Inr ()"
    by (auto simp: guarded_call_def st_bnd_eq_Inr st_read_eq_Inr st_ret_eq_Inr on_part_eq)
  show "validate_arguments s name arguments = Inr ()" using g by (auto simp: bnd_eq_Inr)
  show "name \<in> set READS \<Longrightarrow> \<exists>n m. read_count (ac_calls s) = Inr n \<and> setting s ''read_limit'' = Inr m \<and> int n < m"
    using g by (auto simp: bnd_eq_Inr chk_eq_Inr)
  show "content \<noteq> [] \<Longrightarrow> \<exists>m. setting s ''context_max_chars'' = Inr m \<and> ac_read_chars s + int (py_len_str content) \<le> m"
    using k by (auto simp: bnd_eq_Inr chk_eq_Inr setting_def)
qed

text \<open>A call, branch by branch.\<close>

definition call_arguments :: "val \<Rightarrow> val" where
  "call_arguments raw = (if is_dict raw then raw else VDict [])"

lemma active_call_refused:
  assumes "setting s ''max_tool_calls'' = Inr m" and "m \<le> int (length (ac_calls s))"
  shows "active_call P name raw s = (s, Inl (AdErr ''active retrieval tool-call budget exhausted''))"
  using assms by (simp add: active_call_def Let_def st_bnd_def st_read_def)

lemma active_call_admitted:
  assumes "setting s ''max_tool_calls'' = Inr m" and "int (length (ac_calls s)) < m"
    and "guarded_call P name (call_arguments raw) s = (s1, tried)"
    and "(case tried of Inr (result, source, content) \<Rightarrow> observe_result name (call_arguments raw) result source content
              | Inl _ \<Rightarrow> st_ret (Inr [])) s1 = (s2, obs)"
  shows "active_call P name raw s =
    (case obs of Inl e \<Rightarrow> (s2, Inl e)
     | Inr xs \<Rightarrow> (s2\<lparr>ac_calls := ac_calls s2 @ [call_record name (call_arguments raw) tried (elapsed_ms P (ac_client s1)) xs]\<rparr>,
         case tried of Inl e \<Rightarrow> Inl (AdErr (exn_text e)) | Inr (result, _, _) \<Rightarrow> Inr result))"
  using assms
  by (simp add: active_call_def Let_def st_bnd_def st_read_def st_upd_def st_ret_def call_arguments_def [symmetric]
      split: sum.split)

lemma active_call_cases:
  assumes "active_call P name raw s = (s', r)"
  obtains (refused) e where "s' = s" "r = Inl e"
  | (unrecorded) s1 result source content e where "guarded_call P name (call_arguments raw) s = (s1, Inr (result, source, content))"
      "observe_result name (call_arguments raw) result source content s1 = (s', Inl e)" "r = Inl e"
  | (failed) s1 e ms m where "guarded_call P name (call_arguments raw) s = (s1, Inl e)"
      "s' = s1\<lparr>ac_calls := ac_calls s1 @ [call_record name (call_arguments raw) (Inl e) ms []]\<rparr>" "r = Inl (AdErr (exn_text e))"
      "setting s ''max_tool_calls'' = Inr m" "int (length (ac_calls s)) < m"
  | (recorded) s1 s2 result source content xs ms m where "guarded_call P name (call_arguments raw) s = (s1, Inr (result, source, content))"
      "observe_result name (call_arguments raw) result source content s1 = (s2, Inr xs)"
      "s' = s2\<lparr>ac_calls := ac_calls s2 @ [call_record name (call_arguments raw) (Inr (result, source, content)) ms xs]\<rparr>" "r = Inr result"
      "setting s ''max_tool_calls'' = Inr m" "int (length (ac_calls s)) < m"
proof (cases "bnd (setting s ''max_tool_calls'') (\<lambda>m. chk (int (length (ac_calls s)) < m) (AdErr ''active retrieval tool-call budget exhausted'') (Inr ()))")
  case (Inl e)
  then have "active_call P name raw s = (s, Inl e)"
    by (simp add: active_call_def Let_def st_bnd_def [of "st_read _"] st_read_def)
  then show ?thesis using assms refused by simp
next
  case (Inr u)
  then obtain m where m: "setting s ''max_tool_calls'' = Inr m" "int (length (ac_calls s)) < m" by (auto simp: bnd_eq_Inr chk_eq_Inr)
  obtain s1 tried where g: "guarded_call P name (call_arguments raw) s = (s1, tried)" by fastforce
  obtain s2 ob where oq: "(case tried of Inr (result, source, content) \<Rightarrow> observe_result name (call_arguments raw) result source content
              | Inl _ \<Rightarrow> st_ret (Inr [])) s1 = (s2, ob)" by fastforce
  note run = active_call_admitted [OF m g oq]
  show ?thesis
  proof (cases tried)
    case (Inl e)
    then have "s2 = s1" "ob = Inr []" using oq by (auto simp: st_ret_def)
    then show ?thesis using failed [OF g [unfolded Inl]] run assms m by (simp add: Inl)
  next
    case (Inr t)
    obtain result source content where t: "t = (result, source, content)" by (cases t) auto
    note g' = g [unfolded Inr t] and o' = oq [unfolded Inr t, simplified]
    show ?thesis
    proof (cases ob)
      case (Inl e)
      then show ?thesis using unrecorded [OF g'] o' run assms by simp
    next
      case (Inr xs)
      then show ?thesis using recorded [OF g'] o' run assms m \<open>tried = Inr t\<close> t by auto
    qed
  qed
qed

section \<open>The budget\<close>

definition within_budget :: "'c active \<Rightarrow> bool" where
  "within_budget s =
     (\<exists>m r c n. setting s ''max_tool_calls'' = Inr m \<and> setting s ''read_limit'' = Inr r \<and> setting s ''context_max_chars'' = Inr c \<and>
        read_count (ac_calls s) = Inr n \<and> int (length (ac_calls s)) \<le> m \<and> int n \<le> r \<and> ac_read_chars s \<le> c)"

lemma setting_cong: "ac_settings s' = ac_settings s \<Longrightarrow> setting s' k = setting s k"
  by (simp add: setting_def)

lemma filterm_snoc: "filterm p xs = Inr ys \<Longrightarrow> p x = Inr b \<Longrightarrow> filterm p (xs @ [x]) = Inr (if b then ys @ [x] else ys)"
  by (auto simp: filterm_eq_Inr)

lemma is_read_call_record: "is_read_call (call_record name a tried ms xs) = Inr ((case tried of Inr _ \<Rightarrow> True | Inl _ \<Rightarrow> False) \<and> name \<in> set READS)"
  by (cases tried) (simp_all add: is_read_call_def call_record_def is_true_def in_set_def)

lemma read_count_snoc:
  "read_count calls = Inr n \<Longrightarrow>
   read_count (calls @ [call_record name a tried ms xs]) =
     Inr (n + (if (case tried of Inr _ \<Rightarrow> True | Inl _ \<Rightarrow> False) \<and> name \<in> set READS then 1 else 0))"
proof -
  assume "read_count calls = Inr n"
  then obtain ys where ys: "filterm is_read_call calls = Inr ys" "n = length ys" by (auto simp: read_count_def bnd_eq_Inr)
  show ?thesis using filterm_snoc [OF ys(1) is_read_call_record] ys(2) by (simp add: read_count_def)
qed

text \<open>Appending a record within the budget.\<close>

lemma within_budget_record:
  assumes b: "within_budget s" and st: "ac_settings s' = ac_settings s"
    and calls: "ac_calls s' = ac_calls s @ [call_record name a tried ms xs]"
    and m: "setting s ''max_tool_calls'' = Inr m" "int (length (ac_calls s)) < m"
    and rd: "(case tried of Inr _ \<Rightarrow> True | Inl _ \<Rightarrow> False) \<Longrightarrow> name \<in> set READS \<Longrightarrow>
      \<exists>n r. read_count (ac_calls s) = Inr n \<and> setting s ''read_limit'' = Inr r \<and> int n < r"
    and ch: "\<And>c. setting s ''context_max_chars'' = Inr c \<Longrightarrow> ac_read_chars s' \<le> c"
  shows "within_budget s'"
proof -
  from b obtain r c n where rc: "setting s ''read_limit'' = Inr r" "setting s ''context_max_chars'' = Inr c"
    "read_count (ac_calls s) = Inr n" "int n \<le> r" by (auto simp: within_budget_def)
  let ?d = "if (case tried of Inr _ \<Rightarrow> True | Inl _ \<Rightarrow> False) \<and> name \<in> set READS then 1 else 0 :: nat"
  obtain k where n: "read_count (ac_calls s') = Inr k" and k: "int k \<le> r"
  proof
    show "read_count (ac_calls s') = Inr (n + ?d)" unfolding calls by (rule read_count_snoc [OF rc(3)])
    show "int (n + ?d) \<le> r" using rd rc by auto
  qed
  have "int (length (ac_calls s')) \<le> m" using m(2) calls by simp
  then show ?thesis unfolding within_budget_def setting_cong [OF st] using m(1) rc n k ch [OF rc(2)] by blast
qed

lemma budget_kept: "active_call P name raw s = (s', r) \<Longrightarrow> within_budget s \<Longrightarrow> within_budget s'"
proof (erule active_call_cases, goal_cases)
  case 1
  then show ?case by simp
next
  case (2 s1 result source content e)
  note s1 = guarded_call_fields [OF 2(2)] and o = observe_result_frame [OF 2(3)] and g = guarded_call_Inr [OF 2(2)]
  have st: "ac_settings s' = ac_settings s" using s1 o by simp
  have "ac_read_chars s' \<le> c" if "setting s ''context_max_chars'' = Inr c" for c
    using that o(4) g(3) 2(1) s1 by (cases "content = []") (auto simp: within_budget_def py_len_str_def)
  then show ?case using 2(1) s1 o by (auto simp: within_budget_def setting_cong [OF st])
next
  case (3 s1 e ms m)
  note s1 = guarded_call_fields [OF 3(2)]
  show ?case
    by (rule within_budget_record [OF 3(1), where name = name and tried = "Inl e" and ms = ms and xs = "[]" and a = "call_arguments raw", OF _ _ 3(5,6)])
      (use 3 s1 in \<open>auto simp: within_budget_def\<close>)
next
  case (4 s1 s2 result source content xs ms m)
  note s1 = guarded_call_fields [OF 4(2)] and o = observe_result_frame [OF 4(3)] and g = guarded_call_Inr [OF 4(2)]
  have ch: "ac_read_chars s' \<le> c" if "setting s ''context_max_chars'' = Inr c" for c
    using that o(4) g(3) 4(1,4) s1 by (cases "content = []") (auto simp: within_budget_def py_len_str_def)
  show ?case
    by (rule within_budget_record [OF 4(1), where name = name and tried = "Inr (result, source, content)" and ms = ms and xs = xs and a = "call_arguments raw", OF _ _ 4(6,7)])
      (use 4 s1 o g(2) ch in auto)
qed

section \<open>The laws of the host\<close>

lemma calls_grow: "active_call P name raw s = (s', r) \<Longrightarrow> prefix (ac_calls s) (ac_calls s')"
proof (erule active_call_cases, goal_cases)
  case (2 s1 result source content e)
  then show ?case using guarded_call_fields [OF 2(1)] observe_result_frame [OF 2(2)] by simp
next
  case (3 s1 e ms m)
  then show ?case using guarded_call_fields [OF 3(1)] by simp
next
  case (4 s1 s2 result source content xs ms m)
  then show ?case using guarded_call_fields [OF 4(1)] observe_result_frame [OF 4(2)] by simp
qed simp

lemma active_host_reads [simp]:
  "host_call (active_host P) = active_call P" "host_report (active_host P) = st_read active_report"
  "host_retrieval_capacity (active_host P) = st_read retrieval_capacity"
  by (simp_all add: active_host_def)

interpretation act_calls: kept_host "active_host P" "\<lambda>s s'. prefix (ac_calls s) (ac_calls s')" for P
proof
  show "keeps (\<lambda>s s'. prefix (ac_calls s) (ac_calls s')) (host_call (active_host P) name arguments)" for name arguments
    by (rule keepsI) (simp add: calls_grow)
qed (auto simp: keeps_def st_read_def intro: prefix_order.trans)

interpretation act_budget: kept_host "active_host P" "\<lambda>s s'. within_budget s \<longrightarrow> within_budget s'" for P
proof
  show "keeps (\<lambda>s s'. within_budget s \<longrightarrow> within_budget s') (host_call (active_host P) name arguments)" for name arguments
    by (rule keepsI) (simp add: budget_kept)
qed (auto simp: keeps_def st_read_def)

interpretation tool_calls: kept_host "tool_host (active_host P)" "\<lambda>s s'. prefix (ac_calls (ts_host s)) (ac_calls (ts_host s'))" for P
  by (rule act_calls.tool_host_kept)

interpretation tool_budget: kept_host "tool_host (active_host P)" "\<lambda>s s'. within_budget (ts_host s) \<longrightarrow> within_budget (ts_host s')" for P
  by (rule act_budget.tool_host_kept)

section \<open>What reaches the product\<close>

definition admitted :: "'c active \<Rightarrow> string \<Rightarrow> val \<Rightarrow> bool" where
  "admitted s name arguments =
     (validate_arguments s name arguments = Inr () \<and>
      (case setting s ''max_tool_calls'' of Inr m \<Rightarrow> int (length (ac_calls s)) < m | Inl _ \<Rightarrow> False) \<and>
      (name \<in> set READS \<longrightarrow>
         (case (read_count (ac_calls s), setting s ''read_limit'') of (Inr n, Inr r) \<Rightarrow> int n < r | _ \<Rightarrow> False)))"

lemma guarded_call_not_admitted:
  assumes "guarded_call P name arguments s = (s', tried)" and "setting s ''max_tool_calls'' = Inr m" "int (length (ac_calls s)) < m"
    and "\<not> admitted s name arguments"
  shows "s' = s"
  using assms
  by (auto simp: guarded_call_def st_bnd_def st_read_def admitted_def chk_def bnd_def split: sum.splits prod.splits if_splits)

lemma not_admitted_client:
  assumes "\<not> admitted s name (call_arguments raw)" and "active_call P name raw s = (s', r)"
  shows "ac_client s' = ac_client s"
  using assms(2)
proof (cases rule: active_call_cases)
  case (unrecorded s1 result source content e)
  have "\<not> (\<exists>m. setting s ''max_tool_calls'' = Inr m \<and> int (length (ac_calls s)) < m)"
    using guarded_call_Inr [OF unrecorded(1)] assms(1) by (auto simp: admitted_def)
  then have "active_call P name raw s = (s, snd (active_call P name raw s))"
    by (cases "setting s ''max_tool_calls''") (simp_all add: active_call_def Let_def st_bnd_def st_read_def)
  then show ?thesis using assms(2) by (metis fst_conv)
next
  case (failed s1 e ms m)
  have "s1 = s" by (rule guarded_call_not_admitted [OF failed(1) failed(4,5) assms(1)])
  then show ?thesis using failed by simp
next
  case (recorded s1 s2 result source content xs ms m)
  have "s1 = s" by (rule guarded_call_not_admitted [OF recorded(1) recorded(5,6) assms(1)])
  then show ?thesis using recorded observe_result_frame [OF recorded(2)] by simp
qed simp

text \<open>The product has answered a search, and the session has no account of it.\<close>

lemma unrecorded_search:
  assumes "admitted s ''ownward_search'' a" and "is_dict a"
    and "product_call P ''ownward_search'' a (ac_client s) = (c, Inr (VDict [(''results'', VNone)]))"
  shows "active_call P ''ownward_search'' a s =
    (s\<lparr>ac_client := c\<rparr>, Inl (Exn TypeError (quoted ''NoneType'' @ '' object is not iterable'')))"
proof -
  from assms(1) obtain m where m: "setting s ''max_tool_calls'' = Inr m" "int (length (ac_calls s)) < m"
    by (auto simp: admitted_def split: sum.splits)
  have v: "validate_arguments s ''ownward_search'' a = Inr ()" using assms(1) by (simp add: admitted_def)
  have a: "call_arguments a = a" using assms(2) by (simp add: call_arguments_def)
  have g: "guarded_call P ''ownward_search'' (call_arguments a) s = (s\<lparr>ac_client := c\<rparr>, Inr (VDict [(''results'', VNone)], [], []))"
    using v assms(3)
    by (simp add: a guarded_call_def st_bnd_def st_read_def st_ret_def on_part_def READS_def read_content_def)
  have o: "observe_result ''ownward_search'' (call_arguments a) (VDict [(''results'', VNone)]) [] [] (s\<lparr>ac_client := c\<rparr>) =
      (s\<lparr>ac_client := c\<rparr>, Inl (Exn TypeError (quoted ''NoneType'' @ '' object is not iterable'')))"
    by (simp add: observe_result_def observe_search_def Let_def ids_def observe_ids_def List.union_def st_bnd_def st_upd_def st_ret_def)
  show ?thesis using active_call_admitted [OF m g] o by simp
qed

end
