(* ===== verification/Delivery_Facts.thy ===== *)
theory Delivery_Facts
  imports Retrieval_Facts Tool_Calls
begin

text \<open>
  The composed result (\<open>finish\<close>) in closed form, and the price of the code's own tool calls: the seeded
  lookup makes at most four, a check of materials one for each batch of 64.
\<close>

section \<open>The composed result\<close>

definition condition_text :: "string \<times> string \<Rightarrow> string" where
  "condition_text p = linefeed @ linefeed @ fst p @ '': '' @ snd p"

definition condition_parts :: "val \<Rightarrow> string \<times> string \<Rightarrow> bool" where
  "condition_parts r p = (vsub r ''condition'' = Inr (VStr (fst p)) \<and> vsub r ''result'' = Inr (VStr (snd p)))"

lemma as_text_eq [exn_elims]: "as_text v = Inr t \<longleftrightarrow> v = VStr t"
  by (cases v) auto

lemma add_condition_eq: "add_condition a r = Inr y \<longleftrightarrow> (\<exists>p. condition_parts r p \<and> y = a @ condition_text p)"
  by (auto simp: add_condition_def condition_parts_def condition_text_def bnd_eq_Inr as_text_eq)

lemma conditions_eq:
  "foldm add_condition a rs = Inr y \<longleftrightarrow> (\<exists>ps. list_all2 condition_parts rs ps \<and> y = a @ concat (map condition_text ps))"
proof (induction rs arbitrary: a)
  case (Cons r rs)
  have "foldm add_condition a (r # rs) = Inr y \<longleftrightarrow> (\<exists>p. condition_parts r p \<and> foldm add_condition (a @ condition_text p) rs = Inr y)"
    unfolding foldm.simps bnd_eq_Inr add_condition_eq by blast
  also have "\<dots> \<longleftrightarrow> (\<exists>p ps. condition_parts r p \<and> list_all2 condition_parts rs ps \<and> y = a @ concat (map condition_text (p # ps)))"
    unfolding Cons.IH by simp
  also have "\<dots> \<longleftrightarrow> (\<exists>qs. list_all2 condition_parts (r # rs) qs \<and> y = a @ concat (map condition_text qs))"
    unfolding list_all2_Cons1 by blast
  finally show ?case .
qed auto

lemma finish_eq:
  "finish response = Inr y \<longleftrightarrow>
     (\<exists>a rs ps. fld response ''answer'' = VStr a \<and> py_strip a \<noteq> [] \<and> has response ''conditional_results'' \<and>
        py_iter (fld response ''conditional_results'') = Inr rs \<and> list_all2 condition_parts rs ps \<and>
        y = VDict [(''answer'', VStr (a @ concat (map condition_text ps))), (''used_information_use'', VBool True),
                   (''scoped_results'', response), (''basis'', VDict [])])"
proof -
  have d: "has response ''conditional_results'' \<Longrightarrow> is_dict response" using has_is_dict by blast
  show ?thesis
    unfolding finish_def
    by (auto simp: bnd_eq_Inr chk_eq_Inr vgetd_eq_Inr vsub_eq_Inr conditions_eq is_str_iff dest: d)
qed

section \<open>The price of a statement\<close>

definition costs :: "('s \<Rightarrow> nat) \<Rightarrow> nat \<Rightarrow> ('s, 'a) st \<Rightarrow> bool" where
  "costs cnt n m = (\<forall>s. cnt (fst (m s)) \<le> cnt s + n)"

lemma costs_ret: "costs cnt 0 (st_ret r)"
  by (simp add: costs_def st_ret_def)

lemma costs_mono: "costs cnt n m \<Longrightarrow> n \<le> k \<Longrightarrow> costs cnt k m"
  by (auto simp: costs_def intro: order_trans)

lemma costs_if: "costs cnt n m \<Longrightarrow> costs cnt n k \<Longrightarrow> costs cnt n (if b then m else k)"
  by simp

lemma costs_bnd:
  assumes "costs cnt n m" and "\<And>x. costs cnt k (f x)"
  shows "costs cnt (n + k) (st_bnd m f)"
proof -
  have "cnt (fst (st_bnd m f s)) \<le> cnt s + (n + k)" for s
  proof (cases "m s")
    case (Pair s1 r)
    have m: "cnt s1 \<le> cnt s + n" using assms(1) Pair by (metis costs_def fst_conv)
    show ?thesis
    proof (cases r)
      case (Inr x)
      have "cnt (fst (f x s1)) \<le> cnt s1 + k" using assms(2) by (simp add: costs_def)
      then show ?thesis using m Pair Inr by (simp add: st_bnd_def)
    qed (use m Pair in \<open>simp add: st_bnd_def\<close>)
  qed
  then show ?thesis by (simp add: costs_def)
qed

lemma costs_try:
  assumes "costs cnt n m" and "\<And>e. costs cnt k (h e)"
  shows "costs cnt (n + k) (st_try m h)"
proof -
  have "cnt (fst (st_try m h s)) \<le> cnt s + (n + k)" for s
  proof (cases "m s")
    case (Pair s1 r)
    have m: "cnt s1 \<le> cnt s + n" using assms(1) Pair by (metis costs_def fst_conv)
    show ?thesis
    proof (cases r)
      case (Inl e)
      have "cnt (fst (h e s1)) \<le> cnt s1 + k" using assms(2) by (simp add: costs_def)
      then show ?thesis using m Pair Inl by (simp add: st_try_def)
    qed (use m Pair in \<open>simp add: st_try_def\<close>)
  qed
  then show ?thesis by (simp add: costs_def)
qed

lemma costs_mapm:
  assumes "\<And>x. costs cnt n (f x)"
  shows "costs cnt (n * length xs) (st_mapm f xs)"
proof (induction xs)
  case (Cons x xs)
  have "costs cnt (n + (n * length xs + 0)) (st_mapm f (x # xs))"
    unfolding st_mapm.simps by (intro costs_bnd assms Cons costs_ret)
  then show ?case by simp
qed (simp add: costs_ret)

text \<open>A tool interface on which the tools the code itself calls cost at most one counted call each.\<close>

locale call_cost =
  fixes call :: "'s call" and cnt :: "'s \<Rightarrow> nat"
  assumes one_call: "name \<in> {''ownward_search'', ''ownward_evidence_read'', ''ownward_check''} \<Longrightarrow> costs cnt 1 (call name arguments)"
begin

lemma seed_read_cost: "costs cnt 1 (seed_read call source)"
proof -
  have "costs cnt (0 + (1 + 0)) (st_bnd (st_ret r) (\<lambda>i. st_bnd (call ''ownward_evidence_read'' (a i)) (\<lambda>v. st_ret (g v))))" for r a g
    by (intro costs_bnd costs_ret one_call) simp
  then have t: "costs cnt (1 + 0) (st_try (st_bnd (st_ret r) (\<lambda>i. st_bnd (call ''ownward_evidence_read'' (a i)) (\<lambda>v. st_ret (g v)))) (\<lambda>e. st_ret (h e)))" for r a g h
    by (intro costs_try costs_ret) simp
  have "costs cnt (0 + 1) (seed_read call source)"
    unfolding seed_read_def
  proof (intro costs_bnd costs_ret)
    show "costs cnt 1 (if \<not> truthy refs then st_ret (Inr []) else st_try
       (st_bnd (st_ret (bnd (vfirst refs) (\<lambda>ref. vsub ref ''id''))) (\<lambda>i.
        st_bnd (call ''ownward_evidence_read'' (VDict [(''id'', i)])) (\<lambda>value.
        st_ret (Inr [initial_entry ''ownward_evidence_read'' ''result'' value]))))
       (\<lambda>error. st_ret (Inr [initial_entry ''ownward_evidence_read'' ''error'' (VStr (exn_text error))])))" for refs
      using t [of _ "\<lambda>i. VDict [(''id'', i)]"] costs_mono [OF costs_ret, of 1 cnt] by (intro costs_if) simp_all
  qed
  then show ?thesis by simp
qed

lemma first_three_length: "first_three v = Inr xs \<Longrightarrow> length xs \<le> 3"
  by (cases v) auto

lemma initial_context_cost: "costs cnt 4 (initial_context q call)"
proof -
  have reads: "costs cnt 3 (st_bnd (st_mapm (seed_read call) sources) (\<lambda>reads. st_ret (g reads)))" if "length sources \<le> 3" for sources g
  proof -
    have "costs cnt (1 * length sources + 0) (st_bnd (st_mapm (seed_read call) sources) (\<lambda>reads. st_ret (g reads)))"
      by (intro costs_bnd costs_mapm costs_ret seed_read_cost)
    then show ?thesis by (rule costs_mono) (use that in simp)
  qed
  have b: "costs cnt 3 (st_bnd (st_ret (bnd m first_three)) (\<lambda>sources. st_bnd (st_mapm (seed_read call) sources) (\<lambda>reads. st_ret (g reads))))" for m g
  proof (cases "bnd m first_three")
    case (Inr xs)
    then have "length xs \<le> 3" using first_three_length by (auto simp: bnd_eq_Inr)
    from reads [OF this] show ?thesis by (simp add: Inr)
  qed (use costs_mono [OF costs_ret, of 3 cnt] in simp)
  have "costs cnt (1 + 3) (initial_context q call)"
    unfolding initial_context_def by (intro costs_bnd one_call b) simp
  then show ?thesis by simp
qed

lemma check_batch_cost: "costs cnt 1 (check_batch call batch)"
proof -
  have "costs cnt (0 + ((1 + 0 + 0) + 0)) (check_batch call batch)"
    unfolding check_batch_def by (intro costs_bnd costs_try costs_ret one_call) simp
  then show ?thesis by simp
qed

lemma check_materials_cost: "costs cnt ((length materials + 63) div 64) (check_materials materials call)"
proof -
  have "costs cnt (1 * length (batches materials) + 0) (check_materials materials call)"
    unfolding check_materials_batches by (intro costs_bnd costs_mapm check_batch_cost costs_ret)
  then show ?thesis by (simp add: length_batches)
qed

end

section \<open>The price at the guarded session\<close>

lemma active_call_cost: "costs (\<lambda>s. length (ac_calls s)) 1 (active_call P name raw)"
proof -
  have "length (ac_calls s') \<le> Suc (length (ac_calls s))" if "active_call P name raw s = (s', r)" for s s' r
    using that
  proof (cases rule: active_call_cases)
    case (unrecorded s1 result source content e)
    then show ?thesis using guarded_call_fields [OF unrecorded(1)] observe_result_frame [OF unrecorded(2)] by simp
  next
    case (failed s1 e ms m)
    then show ?thesis using guarded_call_fields [OF failed(1)] by simp
  next
    case (recorded s1 s2 result source content xs ms m)
    then show ?thesis using guarded_call_fields [OF recorded(1)] observe_result_frame [OF recorded(2)] by simp
  qed simp
  then show ?thesis by (simp add: costs_def) (metis prod.collapse)
qed

lemma costs_use_call:
  assumes "costs cnt 1 (host_call H name arguments)"
  shows "costs (\<lambda>s. cnt (us_host s)) 1 (use_call H name arguments)"
proof -
  have "cnt (us_host (fst (use_call H name arguments s))) \<le> Suc (cnt (us_host s))" for s
  proof -
    obtain h r where h: "host_call H name arguments (us_host s) = (h, r)" by fastforce
    have "cnt h \<le> Suc (cnt (us_host s))" using assms h by (simp add: costs_def) (metis fst_conv)
    moreover have "us_host (fst (use_call H name arguments s)) = h"
      using h by (cases r) (simp_all add: use_call_def st_bnd_def st_upd_def st_try_def on_part_def st_ret_def st_read_def split: sum.split)
    ultimately show ?thesis by simp
  qed
  then show ?thesis by (simp add: costs_def)
qed

lemma costs_tool_call:
  assumes "\<And>a. costs cnt 1 (host_call H name a)" and "costs cnt 0 (host_retrieval_capacity H)" and "name \<noteq> READ_MANY"
  shows "costs (\<lambda>s. cnt (ts_host s)) 1 (tool_call H name arguments)"
proof -
  have r: "cnt (ts_host (fst (refresh H s))) \<le> cnt (ts_host s)" for s
  proof -
    obtain h c where h: "host_retrieval_capacity H (ts_host s) = (h, c)" by fastforce
    have "cnt h \<le> cnt (ts_host s)" using assms(2) h by (simp add: costs_def) (metis fst_conv)
    moreover have "ts_host (fst (refresh H s)) = h"
      using h by (cases c) (auto simp: refresh_def st_bnd_def st_upd_def on_part_def st_read_def split: sum.split prod.split)
    ultimately show ?thesis by simp
  qed
  have f: "cnt (ts_host (fst (st_finally m (refresh H) s))) \<le> cnt (ts_host (fst (m s)))" for m :: "('a tool_session, 'b) st" and s
  proof -
    have "fst (st_finally m (refresh H) s) = fst (refresh H (fst (m s)))"
      by (cases "m s") (auto simp: st_finally_def split: prod.split sum.split)
    then show ?thesis using r by simp
  qed
  have "cnt (ts_host (fst (single H name arguments s))) \<le> Suc (cnt (ts_host s))" for s
  proof -
    let ?d = "snd (transform False None arguments (tables s))"
    obtain h v where h: "host_call H name ?d (ts_host s) = (h, v)" by fastforce
    have c: "cnt h \<le> Suc (cnt (ts_host s))" using assms(1) [of ?d] h by (simp add: costs_def) (metis fst_conv)
    have "ts_host (fst ((case v of Inl e \<Rightarrow> st_ret (Inl e) | Inr x \<Rightarrow> transform_st True x) (s\<lparr>ts_host := h\<rparr>))) = h"
      by (cases v) (simp_all add: st_ret_def transform_st_def split: prod.split)
    then have "cnt (ts_host (fst (single H name arguments s))) \<le> cnt h"
      using f [of "case v of Inl e \<Rightarrow> st_ret (Inl e) | Inr x \<Rightarrow> transform_st True x" "s\<lparr>ts_host := h\<rparr>"] by (simp add: single_run h)
    then show ?thesis using c by simp
  qed
  then show ?thesis using assms(3) by (simp add: tool_call_def costs_def)
qed

interpretation act_cost: call_cost "active_call P" "\<lambda>s. length (ac_calls s)" for P
  by unfold_locales (rule active_call_cost)

interpretation use_cost: call_cost "use_call (active_host P)" "\<lambda>s. length (ac_calls (us_host s))" for P
  by unfold_locales (rule costs_use_call, simp del: One_nat_def add: active_call_cost)

lemma tool_act_cost: "name \<noteq> READ_MANY \<Longrightarrow> costs (\<lambda>s. length (ac_calls (ts_host s))) 1 (tool_call (active_host P) name arguments)"
  by (rule costs_tool_call) (simp_all del: One_nat_def add: active_call_cost, simp add: costs_def st_read_def)

interpretation tool_cost: call_cost "tool_call (active_host P)" "\<lambda>s. length (ac_calls (ts_host s))" for P
  by unfold_locales (rule tool_act_cost, auto simp: READ_MANY_def)

interpretation use_tool_cost: call_cost "use_call (tool_host (active_host P))" "\<lambda>s. length (ac_calls (ts_host (us_host s)))" for P
proof
  fix name arguments assume n: "name \<in> {''ownward_search'', ''ownward_evidence_read'', ''ownward_check''}"
  have "costs (\<lambda>s. length (ac_calls (ts_host s))) 1 (host_call (tool_host (active_host P)) name arguments)"
    unfolding tool_host_def host.simps by (rule tool_act_cost) (use n in \<open>auto simp: READ_MANY_def\<close>)
  then show "costs (\<lambda>s. length (ac_calls (ts_host (us_host s)))) 1 (use_call (tool_host (active_host P)) name arguments)"
    by (rule costs_use_call)
qed

end
