(* ===== verification/Guarded_Host.thy ===== *)
theory Guarded_Host
  imports Use_Recheck Delivery_Facts
begin

text \<open>
  Concrete instances for the witnesses: the guarded host of the flow tests
  (\<open>benchmarks/support/test_information_use_flow.py\<close>), with a limit on its calls and one status for every
  check, a product that answers every call of the guarded session, and a few sessions over them.
\<close>

definition check_results :: "string \<Rightarrow> val \<Rightarrow> val" where
  "check_results status arguments = VDict [(''results'',
     VList (map (\<lambda>b. VDict [(''basis'', b), (''status'', VStr status)]) (as_list (fld arguments ''bases''))))]"

definition test_call :: "nat \<Rightarrow> string \<Rightarrow> string \<Rightarrow> val \<Rightarrow> (val list, val) st" where
  "test_call limit status name arguments calls =
     (if limit \<le> length calls then (calls, Inl (Exn ValueError ''Budget exhausted''))
      else (calls @ [VList [VStr name, arguments]], Inr
        (if name = ''ownward_check'' then check_results status arguments
         else if name = ''ownward_search'' then
           VDict [(''results'', VList [VDict [(''evidence'', VList [VDict [(''id'', VStr ''e1'')]])]])]
         else VDict [(''basis'', VStr ''b1-test''), (''content'', VStr ''Original with a qualification'')])))"

definition test_report :: "nat \<Rightarrow> val list \<Rightarrow> val res" where
  "test_report limit calls = Inr (VDict [(''calls'', VList calls), (''tokens'', VInt 0), (''limit'', VInt (int limit))])"

definition test_restore :: "nat \<Rightarrow> val \<Rightarrow> (val list, unit) st" where
  "test_restore limit state calls =
     (if py_eq (fld state ''limit'') (VInt (int limit)) then (as_list (fld state ''calls''), Inr ())
      else (calls, Inl (Exn ValueError ''Budget identity changed'')))"

definition test_tools :: "val list" where
  "test_tools = map (\<lambda>n. VDict [(''name'', VStr n)]) [''ownward_search'', ''ownward_evidence_read'', ''ownward_check'']"

definition guarded_host :: "nat \<Rightarrow> string \<Rightarrow> val list host" where
  "guarded_host limit status =
     \<lparr>host_call = test_call limit status, host_reset_attempt = st_upd (\<lambda>_. []), host_report = st_read (test_report limit),
      host_restore = test_restore limit, host_validate = st_ret (Inr VNone),
      host_retrieval_capacity = st_read (\<lambda>calls. Inr (length calls < limit, length calls < limit)),
      host_dynamic_tools = (\<lambda>_. VList test_tools), host_instructions = (\<lambda>_. VStr [])\<rparr>"

text \<open>A session with one recorded read and notes, resumed from a checkpoint.\<close>

definition read_entry :: val where
  "read_entry = trace_entry ''ownward_read'' (VDict [(''id'', VStr ''source'')])
     (VDict [(''basis'', VStr ''b1-test''), (''content'', VStr ''Original with a qualification'')])"

definition resumed :: "val list use_session" where
  "resumed = \<lparr>us_task = ''Original task'', us_context = [(''date'', VStr ''2026-09-20'')],
     us_frame = VDict [(''purpose'', VStr ''Retrieve a fact''), (''needs'', VList [VStr ''Which fact is recorded?''])],
     us_trace = VList [read_entry], us_notes = VStr ''fallible'', us_pending = VList [], us_started = VBool True,
     us_needs_check = True, us_unknown = VBool False, us_host = []\<rparr>"

definition answering :: "'h agents" where
  "answering stage instruction payload schema = Return (Inr (VDict
     [(''resolution'', VStr ''partial''), (''answer'', VStr ''Original delivery''), (''conditional_results'', VList [])]))"

text \<open>An agent that searches once before it answers.\<close>

definition searching :: "'h agents" where
  "searching stage instruction payload schema =
     Call ''ownward_search'' (VDict [(''query'', VStr ''trip'')]) (\<lambda>r. answering stage instruction payload schema)"

text \<open>The settings and a fresh state of the guarded session of the benchmark.\<close>

definition test_settings :: val where
  "test_settings = VDict [(''max_tool_calls'', VInt 2), (''read_limit'', VInt 1), (''context_max_chars'', VInt 100),
     (''search_limit_per_call'', VInt 10), (''navigate_limit_per_call'', VInt 10), (''evidence_search_limit_per_source'', VInt 3)]"

definition fresh_active :: "nat active" where
  "fresh_active = \<lparr>ac_client = 0, ac_settings = test_settings,
     ac_allowed_tools = [''ownward_search'', ''ownward_evidence_read'', ''ownward_check''], ac_dynamic_tools = test_tools,
     ac_instructions = VStr [], ac_manifest_identity = [], ac_calls = [], ac_information_ids = [], ac_evidence_ids = [],
     ac_cursors = [], ac_returned_ids = [], ac_read_ids = [], ac_read_evidence_ids = [], ac_read_paths = [], ac_read_chars = 0\<rparr>"

text \<open>A product that counts its calls and answers every search with \<open>{"results": null}\<close>.\<close>

definition null_product :: "nat product" where
  "null_product = \<lparr>product_call = (\<lambda>name arguments n. (n + 1, Inr (VDict [(''results'', VNone)]))), elapsed_ms = (\<lambda>_. Fin 0)\<rparr>"

definition active_task :: "nat active tool_session use_session" where
  "active_task = \<lparr>us_task = ''Original task'', us_context = [], us_frame = VNone, us_trace = VList [], us_notes = VStr [],
     us_pending = VList [], us_started = VBool False, us_needs_check = False, us_unknown = VBool False,
     us_host = \<lparr>ts_host = fresh_active, ts_limit = 6, ts_forward = [], ts_reverse = [], ts_catalog = test_tools,
       ts_dynamic_tools = test_tools, ts_definition = read_many_definition 6, ts_manifest_identity = []\<rparr>\<rparr>"

lemma within_budget_fresh: "within_budget fresh_active"
  unfolding within_budget_def
  by (simp add: fresh_active_def setting_def test_settings_def read_count_def)

end
