(* ===== verification/Relationships.thy ===== *)
theory Relationships
  imports Prelude
begin

text \<open>
  The two authorities over the relations between execution modes: \<open>report_relationships.py\<close>
  (scopes, start eligibility, selections) and \<open>state_relationships.py\<close> (impact feedback, stage plans,
  invalidation). The tables are association lists in source order; the functions raise
  \<open>RelationshipError\<close>.
\<close>

abbreviation RelErr :: "string \<Rightarrow> exn" where
  "RelErr m \<equiv> Exn RelationshipError m"

section \<open>\<open>report_relationships.py\<close>\<close>

definition TARGET_STAGES :: "string list" where
  "TARGET_STAGES = [''identity'', ''relations'', ''merge_split'', ''incremental_consistency'',
     ''organization'', ''indexing'', ''lexical'', ''vector'', ''graph'', ''context'', ''fusion'']"

definition MODE_SCOPES :: "(string \<times> string) list" where
  "MODE_SCOPES = [(''targeted'', ''frontier''), (''frontier'', ''frontier''), (''core'', ''core''),
     (''qualification'', ''product''), (''full'', ''product''), (''longmemeval'', ''community'')]"

definition START_ELIGIBILITY :: "(string \<times> string list) list" where
  "START_ELIGIBILITY = [(''targeted'', []), (''core'', []), (''frontier'', []),
     (''qualification'', [''core'', ''frontier'']), (''full'', [''core'', ''qualification'']),
     (''longmemeval'', [''core'', ''full'']), (''summarize'', [''core'', ''full'', ''longmemeval''])]"

definition SUMMARY_AGGREGATES :: "string list" where
  "SUMMARY_AGGREGATES = [''core'', ''full'', ''longmemeval'']"

record scope_config =
  sections :: "string list"
  candidate_binary :: bool
  embedding :: bool
  external_intelligence :: bool

definition SCOPE_CONFIG :: "(string \<times> scope_config) list" where
  "SCOPE_CONFIG =
    [(''frontier'', \<lparr>sections = [''frontier''], candidate_binary = False, embedding = False, external_intelligence = False\<rparr>),
     (''core'', \<lparr>sections = [''candidate''], candidate_binary = True, embedding = True, external_intelligence = False\<rparr>),
     (''product'', \<lparr>sections = [''candidate'', ''product''], candidate_binary = True, embedding = True, external_intelligence = True\<rparr>),
     (''community'', \<lparr>sections = [''candidate'', ''community''], candidate_binary = True, embedding = True, external_intelligence = True\<rparr>)]"

definition SCOPE_MATERIALS :: "(string \<times> string list) list" where
  "SCOPE_MATERIALS =
    [(''frontier'', [''benchmarks/acceptance/suite/materials/core/v1/dataset.json'',
                     ''benchmarks/acceptance/suite/materials/frontier/v1/calibration.json'']),
     (''core'', [''benchmarks/acceptance/suite/materials/core/v1/dataset.json'']),
     (''product'', [''benchmarks/acceptance/suite/materials/product/v2/dataset.json'',
                    ''benchmarks/acceptance/suite/materials/product/v2/qualification.json'',
                    ''benchmarks/acceptance/suite/materials/product/v2/review.json'',
                    ''benchmarks/acceptance/suite/adapters/product_resource/thresholds.json'']),
     (''community'', [])]"

definition scope_for_mode :: "string \<Rightarrow> string res" where
  "scope_for_mode mode =
     (case map_of MODE_SCOPES mode of
        None \<Rightarrow> Inl (RelErr (''mode '' @ mode @ '' has no binding scope of its own''))
      | Some scope \<Rightarrow> Inr scope)"

definition enabled_scopes :: "val \<Rightarrow> string list res" where
  "enabled_scopes config =
     bnd (vget config ''enabled_scopes'') (\<lambda>value.
     chk (is_list value \<and> truthy value) (RelErr ''the configuration must declare enabled_scopes'')
     (bnd (py_iter value) (\<lambda>xs.
     chk (list_all is_str xs) (RelErr ''enabled_scopes must be an array of strings'')
     (let names = map str_val xs in
     chk (length names = card (set names)) (RelErr ''enabled_scopes must not repeat'')
     (let unknown = filter (\<lambda>s. s \<notin> set (map fst SCOPE_CONFIG)) names in
     chk (unknown = []) (RelErr (''enabled_scopes contains unknown scopes: '' @ join '', '' (sort unknown)))
     (Inr (filter (\<lambda>scope. scope \<in> set names) (map fst SCOPE_CONFIG))))))))"

definition selection_identity :: "string \<Rightarrow> val \<Rightarrow> val res" where
  "selection_identity mode config =
     (if mode \<noteq> ''targeted'' then Inr VNone
      else
        bnd (vget config ''frontier'') (\<lambda>frontier.
        chk (is_dict frontier) (RelErr ''a targeted run needs the frontier configuration'')
        (bnd (vget frontier ''targeted_stages'') (\<lambda>stages.
        chk (is_list stages \<and> truthy stages) (RelErr ''targeted mode must declare the affected stages'')
        (bnd (py_iter stages) (\<lambda>xs.
        chk (list_all is_str xs) (RelErr ''targeted_stages must be an array of strings'')
        (let names = map str_val xs in
        chk (length names = card (set names) \<and> set names \<subseteq> set TARGET_STAGES)
            (RelErr ''targeted_stages repeats or has unknown stages'')
        (Inr (VDict [(''targeted_stages'',
                VList (strs (filter (\<lambda>stage. stage \<in> set names) TARGET_STAGES)))])))))))))"

section \<open>\<open>state_relationships.py\<close>\<close>

definition BASELINE_AGGREGATES :: "string list" where
  "BASELINE_AGGREGATES = [''core'', ''frontier'', ''qualification'']"

definition IMPACT_FEEDBACK :: "(string \<times> string list) list" where
  "IMPACT_FEEDBACK = [(''local'', []), (''asset'', [''core'']), (''retrieval'', [''targeted'']),
     (''organization'', [''targeted''])]"

definition IMPACT_STAGES :: "(string \<times> string list) list" where
  "IMPACT_STAGES = [(''local'', []),
     (''asset'', [''identity'', ''incremental_consistency'', ''organization'', ''indexing'']),
     (''retrieval'', [''indexing'', ''lexical'', ''vector'', ''graph'', ''context'', ''fusion'']),
     (''organization'', [''relations'', ''merge_split'', ''incremental_consistency'', ''organization'',
        ''indexing'', ''lexical'', ''vector'', ''graph'', ''context'', ''fusion''])]"

definition STAGE_PLANS :: "(string \<times> string list) list" where
  "STAGE_PLANS = [(''kernel-baseline'', [''core'', ''frontier'', ''qualification'']),
     (''stable-candidate'', [''core'', ''full'']),
     (''final-candidate'', [''core'', ''full'', ''longmemeval'', ''summarize''])]"

definition MODE_INVALIDATION :: "(string \<times> string list) list" where
  "MODE_INVALIDATION = [(''targeted'', [''targeted'']), (''core'', [''core'', ''summarize'']),
     (''frontier'', [''frontier'']), (''qualification'', [''qualification'']),
     (''full'', [''full'', ''summarize'']), (''longmemeval'', [''longmemeval'', ''summarize''])]"

definition SCOPE_RESULTS :: "(string \<times> string list) list" where
  "SCOPE_RESULTS = [(''frontier'', [''targeted'', ''frontier'']), (''core'', [''core'']),
     (''product'', [''qualification'', ''full'']), (''community'', [''longmemeval''])]"

text \<open>A table lookup whose key is known to be present.\<close>

definition tbl :: "(string \<times> string list) list \<Rightarrow> string \<Rightarrow> string list" where
  "tbl t k = (case map_of t k of Some xs \<Rightarrow> xs | None \<Rightarrow> [])"

definition plan_for_impacts :: "string list \<Rightarrow> string list res" where
  "plan_for_impacts impacts =
     chk (impacts \<noteq> []) (RelErr ''at least one impact is needed'')
     (let unknown = filter (\<lambda>i. i \<notin> set (map fst IMPACT_FEEDBACK)) impacts in
     chk (unknown = []) (RelErr (''unknown impacts: '' @ join '', '' (sort (remdups unknown))))
     (let wanted = concat (map (tbl IMPACT_FEEDBACK) impacts) in
     Inr (filter (\<lambda>mode. mode \<in> set wanted) [''targeted'', ''core''])))"

definition stages_for_impacts :: "string list \<Rightarrow> string list res" where
  "stages_for_impacts impacts =
     bnd (plan_for_impacts impacts) (\<lambda>plan.
     if ''targeted'' \<notin> set plan then Inr []
     else
       (let wanted = concat (map (tbl IMPACT_STAGES) impacts)
        in Inr (filter (\<lambda>stage. stage \<in> set wanted) TARGET_STAGES)))"

definition plan_for_stage :: "string \<Rightarrow> string list res" where
  "plan_for_stage stage =
     (case map_of STAGE_PLANS stage of
        None \<Rightarrow> Inl (RelErr (''unknown acceptance stage: '' @ stage))
      | Some plan \<Rightarrow> Inr plan)"

section \<open>Selections and scopes\<close>

lemmas tables = MODE_SCOPES_def START_ELIGIBILITY_def SUMMARY_AGGREGATES_def BASELINE_AGGREGATES_def
  IMPACT_FEEDBACK_def IMPACT_STAGES_def STAGE_PLANS_def MODE_INVALIDATION_def SCOPE_RESULTS_def
  TARGET_STAGES_def tbl_def

lemma str_val_strs [simp]: "map str_val (strs ss) = ss"
  by (induction ss) auto

lemma distinct_scope_names: "distinct (map fst SCOPE_CONFIG)"
  by (simp add: SCOPE_CONFIG_def)

lemma distinct_TARGET_STAGES: "distinct TARGET_STAGES"
  by (simp add: TARGET_STAGES_def)

lemma enabled_scopes_eq:
  "enabled_scopes config = Inr ss \<longleftrightarrow>
     (\<exists>names. is_dict config \<and> fld config ''enabled_scopes'' = VList (strs names) \<and> names \<noteq> [] \<and>
        distinct names \<and> set names \<subseteq> set (map fst SCOPE_CONFIG) \<and>
        ss = filter (\<lambda>s. s \<in> set names) (map fst SCOPE_CONFIG))"
  (is "?L \<longleftrightarrow> ?R")
proof
  assume ?L
  then obtain xs where xs: "is_dict config" "fld config ''enabled_scopes'' = VList xs" "xs \<noteq> []"
      "list_all is_str xs"
    and rest: "length (map str_val xs) = card (set (map str_val xs))"
      "filter (\<lambda>s. s \<notin> set (map fst SCOPE_CONFIG)) (map str_val xs) = []"
      "ss = filter (\<lambda>s. s \<in> set (map str_val xs)) (map fst SCOPE_CONFIG)"
    unfolding enabled_scopes_def Let_def by (auto simp: exn_elims is_list_iff)
  from xs(4) obtain names where names: "xs = strs names" using all_str_strs by blast
  have "distinct names" using rest(1) names card_distinct by (metis str_val_strs)
  with xs names rest show ?R by (auto simp: filter_empty_conv)
next
  assume ?R
  then show ?L
    unfolding enabled_scopes_def Let_def
    by (auto simp: exn_elims list_all_iff distinct_card filter_empty_conv image_image)
qed

lemma selection_identity_eq:
  "selection_identity ''targeted'' config = Inr v \<longleftrightarrow>
     (\<exists>names. is_dict config \<and> is_dict (fld config ''frontier'') \<and>
        fld (fld config ''frontier'') ''targeted_stages'' = VList (strs names) \<and> names \<noteq> [] \<and>
        distinct names \<and> set names \<subseteq> set TARGET_STAGES \<and>
        v = VDict [(''targeted_stages'', VList (strs (filter (\<lambda>s. s \<in> set names) TARGET_STAGES)))])"
  (is "?L \<longleftrightarrow> ?R")
proof
  assume ?L
  then obtain xs where xs: "is_dict config" "is_dict (fld config ''frontier'')"
      "fld (fld config ''frontier'') ''targeted_stages'' = VList xs" "xs \<noteq> []" "list_all is_str xs"
    and rest: "length (map str_val xs) = card (set (map str_val xs))"
      "set (map str_val xs) \<subseteq> set TARGET_STAGES"
      "v = VDict [(''targeted_stages'', VList (strs (filter (\<lambda>s. s \<in> set (map str_val xs)) TARGET_STAGES)))]"
    unfolding selection_identity_def Let_def by (auto simp: exn_elims is_list_iff)
  from xs(5) obtain names where names: "xs = strs names" using all_str_strs by blast
  have "distinct names" using rest(1) names card_distinct by (metis str_val_strs)
  with xs names rest show ?R by auto
next
  assume ?R
  then show ?L
    unfolding selection_identity_def Let_def
    by (auto simp: exn_elims list_all_iff distinct_card image_image)
qed

lemma feedback_iff:
  "''targeted'' \<in> set (tbl IMPACT_FEEDBACK i) \<longleftrightarrow> i = ''retrieval'' \<or> i = ''organization''"
  "''core'' \<in> set (tbl IMPACT_FEEDBACK i) \<longleftrightarrow> i = ''asset''"
  by (simp_all add: tables)

lemma impact_names: "set (map fst IMPACT_FEEDBACK) = {''local'', ''asset'', ''retrieval'', ''organization''}"
  by (simp add: IMPACT_FEEDBACK_def)

lemma filter_not_in_Nil: "filter (\<lambda>x. x \<notin> A) xs = [] \<longleftrightarrow> set xs \<subseteq> A"
  by (auto simp: filter_empty_conv)

lemma plan_for_impacts_eq:
  "plan_for_impacts impacts = Inr plan \<longleftrightarrow>
     impacts \<noteq> [] \<and> set impacts \<subseteq> {''local'', ''asset'', ''retrieval'', ''organization''} \<and>
     plan = (if ''retrieval'' \<in> set impacts \<or> ''organization'' \<in> set impacts then [''targeted''] else []) @
            (if ''asset'' \<in> set impacts then [''core''] else [])"
proof -
  have t: "''targeted'' \<in> set (concat (map (tbl IMPACT_FEEDBACK) impacts)) \<longleftrightarrow>
      ''retrieval'' \<in> set impacts \<or> ''organization'' \<in> set impacts"
    unfolding set_concat set_map by (auto simp: feedback_iff)
  have c: "''core'' \<in> set (concat (map (tbl IMPACT_FEEDBACK) impacts)) \<longleftrightarrow> ''asset'' \<in> set impacts"
    unfolding set_concat set_map by (auto simp: feedback_iff)
  show ?thesis
    unfolding plan_for_impacts_def Let_def exn_elims filter_not_in_Nil impact_names filter.simps t c
    by auto
qed

end
