(* ===== verification/Evidence_Identity.thy ===== *)
theory Evidence_Identity
  imports Files Relationships
begin

text \<open>
  \<open>evidence_identity.py\<close>: content identities of the candidate's components, the direct-dependency
  binding (schema v6) of each acceptance scope, the identity of a piece of evidence and of a promoted
  baseline, and the validators that every stored binding, checkpoint and baseline goes through.
\<close>

abbreviation EIErr :: "string \<Rightarrow> exn" where
  "EIErr m \<equiv> Exn EvidenceIdentityError m"

section \<open>Schemas and tables\<close>

definition BINDING_SCHEMA :: string where "BINDING_SCHEMA = ''ownward.acceptance-binding/v6''"
definition DEPENDENCY_SCHEMA :: string where "DEPENDENCY_SCHEMA = ''ownward.acceptance-direct-dependencies/v1''"
definition EVIDENCE_SCHEMA :: string where "EVIDENCE_SCHEMA = ''ownward.acceptance-evidence-identity/v1''"
definition STATE_SCHEMA :: string where "STATE_SCHEMA = ''ownward.acceptance-state/v3''"
definition BASELINE_IDENTITY_SCHEMA :: string where
  "BASELINE_IDENTITY_SCHEMA = ''ownward.acceptance-baseline-identity/v1''"

definition COMPONENT_ROLES :: "string list" where
  "COMPONENT_ROLES = [''access'', ''authority-substrate'', ''binary'', ''composition'', ''kernel'',
     ''kernel-generation'', ''product'', ''product-rules'', ''release'', ''semantic'', ''vector'', ''vector-space'']"

definition SCOPE_COMPONENTS :: "(string \<times> string list) list" where
  "SCOPE_COMPONENTS =
    [(''frontier'', [''kernel'']),
     (''core'', [''authority-substrate'', ''kernel'', ''semantic'', ''vector'', ''vector-space'', ''binary'']),
     (''product'', [''product'', ''authority-substrate'', ''kernel'', ''semantic'', ''vector'', ''vector-space'',
        ''access'', ''composition'', ''binary'', ''release'']),
     (''community'', [''product'', ''authority-substrate'', ''kernel'', ''semantic'', ''vector'', ''vector-space'',
        ''access'', ''composition'', ''binary'', ''release''])]"

definition EVIDENCE_LIFECYCLE_ONLY :: "string list" where
  "EVIDENCE_LIFECYCLE_ONLY = [''benchmarks/acceptance/suite/binding.py'',
     ''benchmarks/acceptance/suite/evidence_identity.py'', ''benchmarks/acceptance/suite/lifecycle.py'',
     ''benchmarks/acceptance/suite/lifecycle_error.py'', ''benchmarks/acceptance/suite/state_relationships.py'']"

definition LEGACY_EVIDENCE_LIFECYCLE_ONLY :: "string list" where
  "LEGACY_EVIDENCE_LIFECYCLE_ONLY = [''benchmarks/acceptance/suite/relationships.py'']"

definition REPORT_BINDING_FIELDS :: "string list" where
  "REPORT_BINDING_FIELDS = [''environment_sha256'', ''input_manifest_sha256'', ''tool_sha256'', ''artifact_sha256'']"

section \<open>Digests\<close>

fun is_sha256 :: "val \<Rightarrow> bool" where
  "is_sha256 (VStr s) = (py_len_str s = 64 \<and> list_all (\<lambda>c. c \<in> set hex_digits) s)"
| "is_sha256 _ = False"

fun is_git_commit :: "val \<Rightarrow> bool" where
  "is_git_commit (VStr s) = (py_len_str s = 40 \<and> list_all (\<lambda>c. c \<in> set hex_digits) s)"
| "is_git_commit _ = False"

text \<open>\<open>is_sha256(str(v))\<close>.\<close>

abbreviation sha_str :: "val \<Rightarrow> bool" where
  "sha_str v \<equiv> is_sha256 (VStr (py_str v))"

section \<open>Tool identity\<close>

definition lifecycle_only :: "string \<Rightarrow> bool" where
  "lifecycle_only path = (path \<in> set EVIDENCE_LIFECYCLE_ONLY \<or> path \<in> set LEGACY_EVIDENCE_LIFECYCLE_ONLY)"

text \<open>One iteration over the files: the selected entries and the paths seen so far.\<close>

definition tool_file :: "(string \<times> string) list \<times> string list \<Rightarrow> val \<Rightarrow> ((string \<times> string) list \<times> string list) res" where
  "tool_file acc item =
     (case acc of (selected, seen) \<Rightarrow>
     chk (is_dict item \<and> keyset_is item [''path'', ''sha256'']) (EIErr ''invalid tool file identity'')
     (let path = py_str (fld item ''path''); digest = py_str (fld item ''sha256'') in
     chk (path \<notin> set seen \<and> is_sha256 (VStr digest)) (EIErr ''tool file repeated or digest invalid'')
     (Inr (if lifecycle_only path then selected else selected @ [(path, digest)], path # seen))))"

definition file_entry :: "string \<times> string \<Rightarrow> val" where
  "file_entry e = VDict [(''path'', VStr (fst e)), (''sha256'', VStr (snd e))]"

definition tool_projection :: "val \<Rightarrow> (string \<times> string) list \<Rightarrow> val" where
  "tool_projection scope selected =
     VDict [(''schema'', VStr ''ownward.acceptance-tool-identity/v1''), (''scope'', scope),
            (''files'', VList (map file_entry (sort_key fst selected)))]"

definition tool_identity :: "val \<Rightarrow> string res" where
  "tool_identity manifest =
     chk (is_dict manifest) (EIErr ''the tool manifest must be an object'')
     (let scope = fld manifest ''scope''; files = fld manifest ''files'' in
     chk (is_str scope \<and> truthy scope) (EIErr ''the tool manifest has no scope'')
     (chk (is_list files \<and> truthy files) (EIErr ''the tool manifest has no files'')
     (bnd (py_iter files) (\<lambda>fs.
      bnd (foldm tool_file ([], []) fs) (\<lambda>(selected, seen).
     chk (selected \<noteq> []) (EIErr ''the tool identity must not be empty'')
     (Inr (canonical_sha256 (tool_projection scope selected))))))))"

definition tool_manifest_identity_valid :: "val \<Rightarrow> val \<Rightarrow> bool res" where
  "tool_manifest_identity_valid manifest expected =
     (if \<not> is_sha256 expected then Inr False
      else bnd (tool_identity manifest) (\<lambda>t. Inr (expected = VStr t)))"

section \<open>The component graph\<close>

definition node :: "val \<Rightarrow> dict \<Rightarrow> val" where
  "node identity dependencies =
     VDict [(''identity'', identity), (''direct_dependencies'', VDict (dsorted dependencies))]"

text \<open>The body of the first loop of \<open>validate_component_graph\<close>.\<close>

definition validate_node :: "dict \<Rightarrow> string \<times> val \<Rightarrow> unit res" where
  "validate_node components entry =
     (case entry of (role, nd) \<Rightarrow>
     chk (is_dict nd \<and> keyset_is nd [''identity'', ''direct_dependencies''])
         (EIErr (''invalid component identity: '' @ role))
     (chk (sha_str (fld nd ''identity'')) (EIErr (''component without identity: '' @ role))
     (let dependencies = fld nd ''direct_dependencies'' in
     chk (is_dict dependencies) (EIErr (''invalid direct dependencies: '' @ role))
     (each (\<lambda>(dependency, identity).
        chk (dependency \<in> fst ` set components \<and> dependency \<noteq> role)
            (EIErr (''missing or reflexive dependency: '' @ role @ ''->'' @ dependency))
        (bnd (vsub (fld (VDict components) dependency) ''identity'') (\<lambda>i.
        chk (py_eq identity i) (EIErr (''misbound dependency: '' @ role @ ''->'' @ dependency))
        (Inr ())))) (items dependencies)))))"

text \<open>\<open>visit\<close>: the set \<open>visiting\<close> is the stack of the recursion, since a call that returns removes
  what it added; \<open>visited\<close> is threaded through.\<close>

lemma foldm_cong [fundef_cong]:
  "xs = ys \<Longrightarrow> s = t \<Longrightarrow> (\<And>s x. x \<in> set ys \<Longrightarrow> f s x = g s x) \<Longrightarrow> foldm f s xs = foldm g t ys"
  by (induction xs arbitrary: ys s t) (auto intro!: bnd_cong)

function visit :: "dict \<Rightarrow> string list \<Rightarrow> string list \<Rightarrow> string \<Rightarrow> string list res" where
  "visit components visiting visited role =
     chk (role \<notin> set visiting) (EIErr (''cyclic component dependency: '' @ role))
     (if role \<in> set visited then Inr visited
      else
        bnd (vsub (VDict components) role) (\<lambda>nd.
        bnd (vsub nd ''direct_dependencies'') (\<lambda>deps.
        bnd (foldm (\<lambda>vs dependency. visit components (role # visiting) vs dependency) visited (keys deps)) (\<lambda>vs.
        Inr (role # vs)))))"
  by pat_completeness auto
termination
proof (relation "measure (\<lambda>(components, visiting, visited, role). card (fst ` set components - set visiting))",
    goal_cases)
  case 1
  show ?case by simp
next
  case (2 components visiting visited role nd deps vs dep)
  then have "role \<in> fst ` set components - set visiting" by (auto simp: exn_elims)
  then have "card (fst ` set components - set (role # visiting)) < card (fst ` set components - set visiting)"
    by (intro psubset_card_mono) auto
  then show ?case by simp
qed

declare visit.simps [simp del]

definition validate_component_graph :: "val \<Rightarrow> unit res" where
  "validate_component_graph components =
     chk (is_dict components) (EIErr ''the component graph must be an object'')
     (bnd (each (validate_node (items components)) (items components)) (\<lambda>_.
      bnd (foldm (\<lambda>vs role. visit (items components) [] vs role) [] (keys components)) (\<lambda>_. Inr ())))"

section \<open>Kernel effect and access component\<close>

text \<open>Dictionary keys are texts; a key of another type is outside the model.\<close>

definition str_key :: "val \<Rightarrow> string res" where
  "str_key v = (case v of VStr s \<Rightarrow> Inr s | _ \<Rightarrow> Inl (Exn TypeError ''non-string key''))"

definition sorted_strs :: "val \<Rightarrow> string list res" where
  "sorted_strs v = bnd (py_iter v) (\<lambda>xs. bnd (mapm str_key xs) (\<lambda>ss. Inr (sort ss)))"

definition select_keys :: "val \<Rightarrow> string list \<Rightarrow> dict res" where
  "select_keys v names = mapm (\<lambda>name. bnd (vsub v name) (\<lambda>x. Inr (name, x))) names"

definition facet_value :: "val \<Rightarrow> val \<Rightarrow> (string \<Rightarrow> val option) \<Rightarrow> val \<Rightarrow> val res" where
  "facet_value content config dependencies facet =
     chk (is_dict facet \<and> is_str (fld facet ''name'')) (EIErr ''invalid kernel facet'')
     (bnd (sorted_strs (fldd facet ''content'' (VList []))) (\<lambda>cs.
      bnd (select_keys content cs) (\<lambda>selected_content.
      bnd (sorted_strs (fldd facet ''config'' (VList []))) (\<lambda>gs.
      bnd (select_keys config gs) (\<lambda>selected_config.
      bnd (sorted_strs (fldd facet ''dependencies'' (VList []))) (\<lambda>rs.
      bnd (mapm (\<lambda>role. bnd (case dependencies role of None \<Rightarrow> Inl (Exn KeyError role) | Some d \<Rightarrow> vsub d ''identity'')
                            (\<lambda>i. Inr (role, i)))
             (filter (\<lambda>role. role \<notin> {''authority-substrate'', ''semantic'', ''vector''}) rs)) (\<lambda>selected_dependencies.
      Inr (VDict [(''name'', fld facet ''name''), (''content'', VDict (dupdate [] selected_content)),
                  (''config'', VDict (dupdate [] selected_config)),
                  (''direct_dependencies'', VDict (dupdate [] selected_dependencies))]))))))))"

definition kernel_effect_identity :: "val \<Rightarrow> val \<Rightarrow> (string \<Rightarrow> val option) \<Rightarrow> string res" where
  "kernel_effect_identity kern facets dependencies =
     bnd (vgetd kern ''content'' (VList [])) (\<lambda>items0.
     bnd (py_iter items0) (\<lambda>xs.
     bnd (mapm (\<lambda>item. bnd (vsub item ''name'') (\<lambda>n. bnd (str_key n) (\<lambda>k.
                       bnd (vsub item ''sha256'') (\<lambda>d. Inr (k, d))))) (filter is_dict xs)) (\<lambda>pairs.
     let content = VDict (dupdate [] pairs); config = fldd kern ''config'' (VDict []) in
     chk (is_list facets \<and> truthy facets) (EIErr ''the kernel generation has no facet'')
     (bnd (py_iter facets) (\<lambda>fs.
      bnd (mapm (facet_value content config dependencies) fs) (\<lambda>values.
      Inr (canonical_sha256 (VDict [(''schema'', VStr ''ownward.kernel-effect-identity/v1''),
                                    (''facets'', VList values)]))))))))"

definition access_content :: "filesystem \<Rightarrow> string \<Rightarrow> val \<Rightarrow> (string \<times> val) res" where
  "access_content fs candidate item =
     bnd (vgetd item ''path'' (VStr [])) (\<lambda>p.
     let relative = hd (split_on (CHR ''#'') (py_str p)) in
     chk (relative \<noteq> []) (EIErr ''invalid access content path'')
     (case fs_git_show fs candidate relative of
        None \<Rightarrow> Inl (EIErr (''access content missing: '' @ relative))
      | Some bytes \<Rightarrow>
          bnd (vsub item ''name'') (\<lambda>n. bnd (str_key n) (\<lambda>k. Inr (k, VStr (sha256_hex bytes))))))"

definition historical_access_component :: "filesystem \<Rightarrow> string \<Rightarrow> val \<Rightarrow> val \<Rightarrow> val \<Rightarrow> string res" where
  "historical_access_component fs candidate template kernel_identity rules_identity =
     bnd (vgetd template ''content'' (VList [])) (\<lambda>c.
     bnd (py_iter c) (\<lambda>xs.
     bnd (mapm (access_content fs candidate) xs) (\<lambda>content.
     Inr (canonical_sha256 (VDict
       [(''schema'', VStr ''ownward.component-identity/v1''), (''role'', VStr ''access''),
        (''contracts'', fldd template ''contracts'' (VList [])),
        (''content'', VList (map (\<lambda>(n, d). VDict [(''name'', VStr n), (''sha256'', d)]) (sort_key fst content))),
        (''config'', fldd template ''config'' (VDict [])),
        (''dependencies'', VList [VDict [(''role'', VStr ''kernel''), (''identity'', kernel_identity)],
                                  VDict [(''role'', VStr ''product-rules''), (''identity'', rules_identity)]])])))))"

section \<open>Candidate components\<close>

text \<open>The graph both builders assemble from the ten given identities.\<close>

definition with_derived_ids :: "dict \<Rightarrow> dict" where
  "with_derived_ids ids =
     (let composition = canonical_sha256 (VDict [(''schema'', VStr ''ownward.evidence-composition-identity/v1''),
            (''components'', VDict (filter (\<lambda>(name, _). name \<notin> {''binary'', ''release''}) (dsorted ids)))]);
          product = canonical_sha256 (VDict [(''schema'', VStr ''ownward.product-capability-identity/v1''),
            (''composition'', VStr composition), (''binary'', fld (VDict ids) ''binary''),
            (''release'', fld (VDict ids) ''release'')])
      in ids @ [(''composition'', VStr composition), (''product'', VStr product)])"

definition pick_ids :: "dict \<Rightarrow> string list \<Rightarrow> dict" where
  "pick_ids ids names = map (\<lambda>n. (n, fld (VDict ids) n)) names"

definition GRAPH_DEPENDENCIES :: "(string \<times> string list) list" where
  "GRAPH_DEPENDENCIES =
    [(''authority-substrate'', []), (''product-rules'', []), (''semantic'', []), (''vector'', []),
     (''vector-space'', [''vector'']), (''kernel'', [''product-rules'']),
     (''kernel-generation'', [''authority-substrate'', ''kernel'', ''product-rules'', ''semantic'', ''vector'']),
     (''access'', [''kernel'', ''product-rules'']), (''binary'', []), (''release'', [''binary'']),
     (''composition'', [''access'', ''authority-substrate'', ''kernel-generation'', ''product-rules'', ''semantic'',
        ''vector'', ''vector-space'']),
     (''product'', [''composition'', ''binary'', ''release''])]"

definition component_graph :: "dict \<Rightarrow> val" where
  "component_graph ids = VDict (map (\<lambda>(r, ds). (r, node (fld (VDict ids) r) (pick_ids ids ds))) GRAPH_DEPENDENCIES)"

definition vector_space_identity :: "val \<Rightarrow> val \<Rightarrow> val \<Rightarrow> val \<Rightarrow> val" where
  "vector_space_identity capability space dimensions vector =
     VStr (canonical_sha256 (VDict [(''schema'', VStr ''ownward.vector-space-identity/v1''), (''capability'', capability),
       (''space'', space), (''dimensions'', dimensions), (''vector'', vector)]))"

definition finish_components :: "dict \<Rightarrow> string \<Rightarrow> val res" where
  "finish_components ids message =
     chk (list_all (\<lambda>(_, v). sha_str v) ids) (EIErr message)
     (let graph = component_graph (with_derived_ids ids) in
      bnd (validate_component_graph graph) (\<lambda>_. Inr graph))"

definition load_json :: "filesystem \<Rightarrow> path \<Rightarrow> val res" where
  "load_json fs p = bnd (read_json fs p) (\<lambda>v.
     chk (is_dict v) (EIErr (''the JSON document must be an object: '' @ path_str p)) (Inr v))"

text \<open>\<open>next((value for value in xs if p(value)), None)\<close> for a predicate that may raise.\<close>

fun find_first :: "('a \<Rightarrow> bool res) \<Rightarrow> 'a list \<Rightarrow> 'a option res" where
  "find_first p [] = Inr None"
| "find_first p (x # xs) = bnd (p x) (\<lambda>b. if b then Inr (Some x) else find_first p xs)"

text \<open>\<open>{value.get("role"): value for value in dependencies if isinstance(value, dict)}\<close>, looked up
  at a text: the last entry wins.\<close>

definition by_role :: "val list \<Rightarrow> string \<Rightarrow> val option" where
  "by_role dependencies role =
     map_of (rev (map (\<lambda>v. (fld v ''role'', v)) (filter is_dict dependencies))) (VStr role)"

definition nested_fld :: "val option \<Rightarrow> string \<Rightarrow> string \<Rightarrow> val res" where
  "nested_fld d outer inner = bnd (vgetd (the d) outer (VDict [])) (\<lambda>c. vget c inner)"

definition build_candidate_components ::
    "filesystem \<Rightarrow> path \<Rightarrow> string \<Rightarrow> val \<Rightarrow> val \<Rightarrow> path option \<Rightarrow> path option \<Rightarrow> val res" where
  "build_candidate_components fs repository0 candidate binary_sha256 release_sha256 catalog_path0 composition_path0 =
     (let repository = fs_resolve fs repository0;
          catalog_path = (case catalog_path0 of Some p \<Rightarrow> p | None \<Rightarrow>
            joinp repository (Path False [''manifests'', ''kernel-generations'', ''v1'', ''catalog.json'']));
          composition_path = (case composition_path0 of Some p \<Rightarrow> p | None \<Rightarrow>
            joinp repository (Path False [''manifests'', ''compositions'', ''v1'', ''current-collaborative.json'']))
      in
      bnd (load_json fs catalog_path) (\<lambda>catalog.
      bnd (load_json fs composition_path) (\<lambda>composition.
      chk (fld catalog ''schema'' = VStr ''ownward.kernel-generation-catalog/v1'') (EIErr ''invalid catalog schema'')
      (chk (fld composition ''schema'' = VStr ''ownward.composition/v1'') (EIErr ''invalid composition schema'')
      (bnd (py_iter (fldd catalog ''generations'' (VList []))) (\<lambda>gens.
       bnd (find_first (\<lambda>v. bnd (vgetd v ''audit'' (VDict [])) (\<lambda>a. bnd (vget a ''source_git'') (\<lambda>g.
              Inr (g = VStr candidate)))) gens) (\<lambda>found.
      (let generation = (case found of Some g \<Rightarrow> g | None \<Rightarrow> VNone) in
      chk (is_dict generation) (EIErr (''no sealed kernel generation for candidate: '' @ candidate))
      (let kern = fld generation ''kernel''; dependencies = fld generation ''dependencies'' in
      chk (is_dict kern \<and> is_list dependencies) (EIErr ''invalid kernel generation'')
      (bnd (py_iter dependencies) (\<lambda>deps.
      chk (list_all (\<lambda>v. hashable (fld v ''role'')) (filter is_dict deps)) (Exn TypeError ''unhashable type'')
      (let roles = by_role deps in
      bnd (each (\<lambda>role. chk (roles role \<noteq> None \<and> sha_str (fldd (the (roles role)) ''identity'' (VStr [])))
                            (EIErr (''kernel generation lacks '' @ role)) (Inr ()))
             [''authority-substrate'', ''product-rules'', ''semantic'', ''vector'']) (\<lambda>_.
      bnd (kernel_effect_identity kern (fld generation ''facets'') roles) (\<lambda>kernel_effect.
      bnd (py_iter (fldd composition ''components'' (VList []))) (\<lambda>cs.
      bnd (find_first (\<lambda>v. bnd (vget v ''role'') (\<lambda>r. Inr (r = VStr ''access''))) cs) (\<lambda>found_access.
      (let access_template = (case found_access of Some v \<Rightarrow> v | None \<Rightarrow> VNone);
           ident = (\<lambda>r. fld (the (roles r)) ''identity'') in
      chk (is_dict access_template) (EIErr ''the composition has no access component'')
      (bnd (historical_access_component fs candidate access_template (VStr kernel_effect) (ident ''product-rules'')) (\<lambda>access.
       bnd (nested_fld (roles ''vector'') ''config'' ''capability'') (\<lambda>capability.
       bnd (nested_fld (roles ''vector'') ''config'' ''space'') (\<lambda>space.
       bnd (nested_fld (roles ''vector'') ''config'' ''dimensions'') (\<lambda>dimensions.
       bnd (vsub kern ''identity'') (\<lambda>generation_identity.
       finish_components
         [(''authority-substrate'', ident ''authority-substrate''), (''kernel'', VStr kernel_effect),
          (''kernel-generation'', generation_identity), (''product-rules'', ident ''product-rules''),
          (''semantic'', ident ''semantic''), (''vector'', ident ''vector''),
          (''vector-space'', vector_space_identity capability space dimensions (ident ''vector'')),
          (''access'', VStr access), (''binary'', binary_sha256), (''release'', release_sha256)]
         ''incomplete candidate component identities'')))))))))))))))))))))))"

definition build_candidate_components_from_manifest :: "filesystem \<Rightarrow> path \<Rightarrow> val \<Rightarrow> val \<Rightarrow> val res" where
  "build_candidate_components_from_manifest fs manifest_path binary_sha256 release_sha256 =
     bnd (load_json fs (fs_resolve fs manifest_path)) (\<lambda>manifest.
     chk (fld manifest ''schema'' = VStr ''ownward.acceptance-candidate-components/v1'')
         (EIErr ''invalid component manifest schema'')
     (let identity = fld manifest ''identity'';
          unsigned = VDict (filter (\<lambda>(name, _). name \<noteq> ''identity'') (items manifest)) in
     chk (sha_str identity \<and> identity = VStr (canonical_sha256 unsigned)) (EIErr ''component manifest identity drift'')
     (bnd (each (\<lambda>name. chk (sha_str (fldd manifest name (VStr []))) (EIErr (''component manifest lacks '' @ name)) (Inr ()))
            [''source_subject_identity'', ''runtime_identity'', ''kernel_effect_identity'', ''sealed_composition_identity'']) (\<lambda>_.
     (let components = fld manifest ''components''; vector = fld manifest ''vector_space'' in
     chk (is_dict components \<and>
          keyset_is components [''access'', ''authority-substrate'', ''product-rules'', ''semantic'', ''vector''] \<and>
          list_all sha_str (vvalues components)) (EIErr ''invalid direct component identities'')
     (chk (is_dict vector \<and> keyset_is vector [''capability'', ''space'', ''dimensions''] \<and>
           is_str (fld vector ''capability'') \<and> is_str (fld vector ''space'') \<and> is_int (fld vector ''dimensions''))
          (EIErr ''invalid vector space declaration'')
     (finish_components
        [(''authority-substrate'', fld components ''authority-substrate''),
         (''kernel'', fld manifest ''kernel_effect_identity''),
         (''kernel-generation'', fld manifest ''runtime_identity''),
         (''product-rules'', fld components ''product-rules''), (''semantic'', fld components ''semantic''),
         (''vector'', fld components ''vector''),
         (''vector-space'', vector_space_identity (fld vector ''capability'') (fld vector ''space'')
            (fld vector ''dimensions'') (fld components ''vector'')),
         (''access'', fld components ''access''), (''binary'', binary_sha256), (''release'', release_sha256)]
        ''incomplete candidate component identities'')))))))"

section \<open>Digests have the shape the validators test\<close>

lemma hex_not_cont: "c \<in> set hex_digits \<Longrightarrow> \<not> utf8_cont c"
  by (auto simp: hex_digits_def utf8_cont_def)

lemma py_len_str_hex: "set s \<subseteq> set hex_digits \<Longrightarrow> py_len_str s = length s"
  by (simp add: py_len_str_def filter_id_conv hex_not_cont subset_iff)

lemma is_sha256_iff: "is_sha256 v \<longleftrightarrow> (\<exists>s. v = VStr s \<and> is_hex 64 s)"
  by (cases v) (auto simp: is_hex_def list_all_iff py_len_str_hex subset_iff)

lemma is_git_commit_iff: "is_git_commit v \<longleftrightarrow> (\<exists>s. v = VStr s \<and> is_hex 40 s)"
  by (cases v) (auto simp: is_hex_def list_all_iff py_len_str_hex subset_iff)

lemma sha_str_VStr: "sha_str (VStr s) \<longleftrightarrow> is_hex 64 s"
  by (simp add: is_sha256_iff del: is_sha256.simps)

lemma sha_str_canonical [simp]: "is_sha256 (VStr (canonical_sha256 v))"
  by (simp add: is_sha256_iff is_hex_canonical_sha256 del: is_sha256.simps)

declare is_sha256.simps [simp del] is_git_commit.simps [simp del]

section \<open>The graph check decides acyclicity\<close>

definition succs :: "dict \<Rightarrow> string \<Rightarrow> string list" where
  "succs components role = keys (fld (fld (VDict components) role) ''direct_dependencies'')"

definition dep_rel :: "dict \<Rightarrow> (string \<times> string) set" where
  "dep_rel components = {(r, d). r \<in> fst ` set components \<and> d \<in> set (succs components r)}"

text \<open>A visited list in finishing order: every role stands before (that is, is visited after) what
  it depends on.\<close>

fun topo :: "dict \<Rightarrow> string list \<Rightarrow> bool" where
  "topo components [] = True"
| "topo components (r # vs) = (r \<notin> set vs \<and> set (succs components r) \<subseteq> set vs \<and> topo components vs)"

lemma topo_measure:
  assumes "topo components vs" and "x \<in> set vs" and "d \<in> set (succs components x)"
  shows "length (dropWhile (\<lambda>y. y \<noteq> d) vs) < length (dropWhile (\<lambda>y. y \<noteq> x) vs)"
  using assms
proof (induction vs)
  case (Cons r vs)
  show ?case
  proof (cases "x = r")
    case True
    with Cons.prems have "d \<in> set vs" "d \<noteq> r" by auto
    then have "length (dropWhile (\<lambda>y. y \<noteq> d) vs) \<le> length vs" by (simp add: length_dropWhile_le)
    with True \<open>d \<noteq> r\<close> show ?thesis by auto
  next
    case False
    with Cons.prems have "x \<in> set vs" "topo components vs" by auto
    moreover from this have "d \<in> set vs"
      using Cons.prems(3) by (induction vs) auto
    ultimately have "d \<noteq> r" using Cons.prems(1) by auto
    with False Cons.IH [OF \<open>topo components vs\<close> \<open>x \<in> set vs\<close> Cons.prems(3)] show ?thesis by auto
  qed
qed simp

lemma topo_acyclic:
  assumes "topo components vs" and "fst ` set components \<subseteq> set vs"
  shows "acyclic (dep_rel components)"
proof -
  let ?f = "\<lambda>x. length (dropWhile (\<lambda>y. y \<noteq> x) vs)"
  have "dep_rel components \<subseteq> (measure ?f)\<inverse>"
    using assms(2) topo_measure [OF assms(1)] by (auto simp: dep_rel_def)
  moreover have "acyclic ((measure ?f)\<inverse>)" by (simp add: acyclic_converse wf_acyclic)
  ultimately show ?thesis using acyclic_subset by blast
qed

lemma visit_topo:
  "visit components visiting visited role = Inr vs \<Longrightarrow> topo components visited \<Longrightarrow>
     topo components vs \<and> role \<in> set vs \<and> set visited \<subseteq> set vs \<and>
     (set vs - set visited) \<inter> set visiting = {}"
proof (induction components visiting visited role arbitrary: vs rule: visit.induct)
  case (1 components visiting visited role)
  show ?case
  proof (cases "role \<in> set visited")
    case True
    with "1.prems" show ?thesis
      by (subst (asm) visit.simps) (auto simp: exn_elims)
  next
    case False
    with "1.prems"(1) obtain nd deps ws where nd: "vsub (VDict components) role = Inr nd"
        "vsub nd ''direct_dependencies'' = Inr deps"
      and fold: "foldm (\<lambda>vs d. visit components (role # visiting) vs d) visited (keys deps) = Inr ws"
      and vs: "vs = role # ws" and nv: "role \<notin> set visiting"
      by (subst (asm) visit.simps) (auto simp: bnd_eq_Inr chk_eq_Inr)
    note IH = "1.IH" [OF nv False nd]
    have loop: "topo components t \<and> set s \<subseteq> set t \<and> set ds \<subseteq> set t \<and> (set t - set s) \<inter> set (role # visiting) = {}"
      if "foldm (\<lambda>vs d. visit components (role # visiting) vs d) s ds = Inr t" "topo components s"
        "set ds \<subseteq> set (keys deps)" for s t ds
      using that
    proof (induction ds arbitrary: s)
      case (Cons d ds)
      from Cons.prems(1) obtain u where u: "visit components (role # visiting) s d = Inr u"
        "foldm (\<lambda>vs d. visit components (role # visiting) vs d) u ds = Inr t" by (auto simp: bnd_eq_Inr)
      have "d \<in> set (keys deps)" using Cons.prems(3) by simp
      from IH [OF this u(1) Cons.prems(2)] have v: "topo components u" "d \<in> set u" "set s \<subseteq> set u"
        "(set u - set s) \<inter> set (role # visiting) = {}" by auto
      from Cons.IH [OF u(2) v(1)] Cons.prems(3) have "topo components t" "set u \<subseteq> set t" "set ds \<subseteq> set t"
        "(set t - set u) \<inter> set (role # visiting) = {}" by auto
      with v show ?case by auto
    qed simp
    from loop [OF fold "1.prems"(2)] have ws: "topo components ws" "set visited \<subseteq> set ws" "set (keys deps) \<subseteq> set ws"
      "(set ws - set visited) \<inter> set (role # visiting) = {}" by auto
    have "succs components role = keys deps"
      using nd by (simp add: succs_def vsub_eq_Inr)
    with ws vs False nv show ?thesis by auto
  qed
qed

lemma foldm_visit_topo:
  assumes "foldm (\<lambda>vs r. visit components [] vs r) s rs = Inr t" and "topo components s"
  shows "topo components t \<and> set s \<union> set rs \<subseteq> set t"
  using assms
proof (induction rs arbitrary: s)
  case (Cons r rs)
  then obtain u where "visit components [] s r = Inr u" "foldm (\<lambda>vs r. visit components [] vs r) u rs = Inr t"
    by (auto simp: bnd_eq_Inr)
  with Cons.IH [of u] visit_topo [of components "[]" s r u] Cons.prems(2) show ?case by auto
qed simp

lemma foldm_total:
  "(\<And>x s. x \<in> set xs \<Longrightarrow> \<exists>s'. f s x = Inr s') \<Longrightarrow> \<exists>t. foldm f s xs = Inr t"
proof (induction xs arbitrary: s)
  case (Cons x xs)
  then obtain s' where "f s x = Inr s'" by force
  with Cons show ?case by auto
qed simp

text \<open>A node as the first loop leaves it: a dictionary whose dependencies are roles of the graph.\<close>

definition nodes_ok :: "dict \<Rightarrow> bool" where
  "nodes_ok components =
     (\<forall>r \<in> fst ` set components. is_dict (fld (VDict components) r) \<and>
        has (fld (VDict components) r) ''direct_dependencies'' \<and>
        set (succs components r) \<subseteq> fst ` set components)"

lemma visit_total:
  assumes "acyclic (dep_rel components)" and "nodes_ok components"
    and "role \<in> fst ` set components" and "\<And>v. v \<in> set visiting \<Longrightarrow> (v, role) \<in> (dep_rel components)\<^sup>+"
  shows "\<exists>vs. visit components visiting visited role = Inr vs"
  using assms
proof (induction components visiting visited role rule: visit.induct)
  case (1 components visiting visited role)
  let ?R = "dep_rel components"
  have nv: "role \<notin> set visiting"
    using "1.prems"(4) [of role] "1.prems"(1) by (auto simp: acyclic_def)
  show ?case
  proof (cases "role \<in> set visited")
    case True
    with nv show ?thesis by (subst visit.simps) simp
  next
    case False
    let ?nd = "fld (VDict components) role" and ?deps = "fld (fld (VDict components) role) ''direct_dependencies''"
    have nd: "vsub (VDict components) role = Inr ?nd" "vsub ?nd ''direct_dependencies'' = Inr ?deps"
      using "1.prems"(2,3) by (auto simp: nodes_ok_def vsub_eq_Inr)
    have "\<exists>vs. visit components (role # visiting) s d = Inr vs" if d: "d \<in> set (keys ?deps)" for s d
    proof (rule "1.IH" [OF nv False nd d])
      have e: "(role, d) \<in> ?R" using d "1.prems"(3) by (auto simp: dep_rel_def succs_def)
      show "d \<in> fst ` set components"
        using d "1.prems"(2,3) by (auto simp: nodes_ok_def succs_def)
      show "(v, d) \<in> ?R\<^sup>+" if "v \<in> set (role # visiting)" for v
        using that e "1.prems"(4) by (auto intro: trancl_into_trancl)
    qed (use "1.prems" in auto)
    then have "\<exists>ws. foldm (\<lambda>vs d. visit components (role # visiting) vs d) visited (keys ?deps) = Inr ws"
      by (intro foldm_total)
    then obtain ws where "foldm (\<lambda>vs d. visit components (role # visiting) vs d) visited (keys ?deps) = Inr ws" ..
    then have "visit components visiting visited role = Inr (role # ws)"
      by (simp only: visit.simps [of components visiting visited role] nv False nd bnd_simps chk_simps
          if_False not_False_eq_True)
    then show ?thesis by blast
  qed
qed

lemma validate_node_iff:
  "validate_node components (r, nd) = Inr u \<longleftrightarrow>
     is_dict nd \<and> keyset_is nd [''identity'', ''direct_dependencies''] \<and> sha_str (fld nd ''identity'') \<and>
     is_dict (fld nd ''direct_dependencies'') \<and>
     (\<forall>(d, i) \<in> set (items (fld nd ''direct_dependencies'')).
        d \<in> fst ` set components \<and> d \<noteq> r \<and> has (fld (VDict components) d) ''identity'' \<and>
        py_eq i (fld (fld (VDict components) d) ''identity''))"
  unfolding validate_node_def Let_def prod.case chk_eq_Inr each_eq_Inr split_beta bnd_eq_Inr vsub_eq_Inr
  by (auto simp: has_is_dict)

lemma nodes_valid_nodes_ok:
  assumes "each (validate_node components) components = Inr u" and "distinct (map fst components)"
  shows "nodes_ok components"
  unfolding nodes_ok_def
proof
  fix r assume "r \<in> fst ` set components"
  then obtain nd where nd: "(r, nd) \<in> set components" by force
  with assms(2) have f: "fld (VDict components) r = nd" by (simp add: fldd.simps(1))
  from nd assms(1) have "validate_node components (r, nd) = Inr ()" by (simp add: each_eq_Inr)
  then have d: "is_dict nd" and k: "keyset_is nd [''identity'', ''direct_dependencies'']"
    and s: "\<forall>(d, i) \<in> set (items (fld nd ''direct_dependencies'')). d \<in> fst ` set components"
    unfolding validate_node_iff by blast+
  have h: "has nd ''direct_dependencies''" using k by (simp add: has_def keyset_is_def)
  have "set (keys (fld nd ''direct_dependencies'')) \<subseteq> fst ` set components"
    using s by (auto simp: keys_def)
  with d h show "is_dict (fld (VDict components) r) \<and> has (fld (VDict components) r) ''direct_dependencies'' \<and>
        set (succs components r) \<subseteq> fst ` set components"
    unfolding f succs_def by blast
qed

theorem validate_component_graph_iff:
  assumes "distinct (keys v)"
  shows "validate_component_graph v = Inr () \<longleftrightarrow>
     is_dict v \<and> each (validate_node (items v)) (items v) = Inr () \<and> acyclic (dep_rel (items v))"
    (is "?L \<longleftrightarrow> ?R")
proof
  assume ?L
  then obtain t where d: "is_dict v" and n: "each (validate_node (items v)) (items v) = Inr ()"
    and f: "foldm (\<lambda>vs role. visit (items v) [] vs role) [] (keys v) = Inr t"
    by (auto simp: validate_component_graph_def bnd_eq_Inr chk_eq_Inr)
  from foldm_visit_topo [OF f] have "topo (items v) t" "set (keys v) \<subseteq> set t" by auto
  then have "acyclic (dep_rel (items v))" by (intro topo_acyclic) (auto simp: keys_def)
  with d n show ?R by simp
next
  assume r: ?R
  from r assms have ok: "nodes_ok (items v)" using nodes_valid_nodes_ok by (auto simp: keys_def)
  have "\<exists>t. foldm (\<lambda>vs role. visit (items v) [] vs role) [] (keys v) = Inr t"
    using r by (intro foldm_total visit_total [OF _ ok]) (auto simp: keys_def)
  with r show ?L by (auto simp: validate_component_graph_def)
qed

section \<open>The tool identity reads the report-producing files only\<close>

definition entry_ok :: "val \<Rightarrow> bool" where
  "entry_ok item = (is_dict item \<and> keyset_is item [''path'', ''sha256''] \<and>
     is_sha256 (VStr (py_str (fld item ''sha256''))))"

definition entry_of :: "val \<Rightarrow> string \<times> string" where
  "entry_of item = (py_str (fld item ''path''), py_str (fld item ''sha256''))"

definition producing :: "val list \<Rightarrow> (string \<times> string) list" where
  "producing files = filter (\<lambda>e. \<not> lifecycle_only (fst e)) (map entry_of files)"

lemma tool_file_eq:
  "tool_file (selected, seen) item = Inr r \<longleftrightarrow>
     entry_ok item \<and> fst (entry_of item) \<notin> set seen \<and>
     r = (selected @ producing [item], fst (entry_of item) # seen)"
  by (auto simp: tool_file_def Let_def chk_eq_Inr entry_ok_def entry_of_def producing_def)

lemma foldm_tool_file:
  "foldm tool_file (selected, seen) files = Inr r \<longleftrightarrow>
     list_all entry_ok files \<and> distinct (map (fst \<circ> entry_of) files) \<and>
     set (map (fst \<circ> entry_of) files) \<inter> set seen = {} \<and>
     r = (selected @ producing files, rev (map (fst \<circ> entry_of) files) @ seen)"
proof (induction files arbitrary: selected seen)
  case Nil
  then show ?case by (auto simp: producing_def)
next
  case (Cons item files)
  have "foldm tool_file (selected, seen) (item # files) = Inr r \<longleftrightarrow>
      entry_ok item \<and> fst (entry_of item) \<notin> set seen \<and>
      foldm tool_file (selected @ producing [item], fst (entry_of item) # seen) files = Inr r"
    by (auto simp: bnd_eq_Inr tool_file_eq)
  also have "\<dots> \<longleftrightarrow> list_all entry_ok (item # files) \<and> distinct (map (fst \<circ> entry_of) (item # files)) \<and>
     set (map (fst \<circ> entry_of) (item # files)) \<inter> set seen = {} \<and>
     r = (selected @ producing (item # files), rev (map (fst \<circ> entry_of) (item # files)) @ seen)"
    unfolding Cons.IH by (auto simp: producing_def)
  finally show ?case .
qed

lemma tool_identity_iff:
  "tool_identity manifest = Inr t \<longleftrightarrow>
     (\<exists>scope files. is_dict manifest \<and> fld manifest ''scope'' = VStr scope \<and> scope \<noteq> [] \<and>
        fld manifest ''files'' = VList files \<and> list_all entry_ok files \<and>
        distinct (map (fst \<circ> entry_of) files) \<and> producing files \<noteq> [] \<and>
        t = canonical_sha256 (tool_projection (VStr scope) (producing files)))"
proof -
  have "files \<noteq> []" if "producing files \<noteq> []" for files
    using that by (auto simp: producing_def)
  then show ?thesis
    unfolding tool_identity_def Let_def chk_eq_Inr bnd_eq_Inr split_beta
    by (fastforce simp: is_str_iff is_list_iff foldm_tool_file)
qed

lemma sort_key_perm:
  assumes "mset xs = mset ys" and "distinct (map fst xs)"
  shows "sort_key fst xs = sort_key fst ys"
proof (rule sort_key_inj_key_eq)
  show "mset xs = mset (sort_key fst ys)" using assms(1) by simp
  show "inj_on fst (set xs)" using assms(2) by (simp add: distinct_map)
qed simp

lemma distinct_producing:
  "distinct (map (fst \<circ> entry_of) files) \<Longrightarrow> distinct (map fst (producing files))"
  unfolding producing_def by (metis distinct_map_filter map_map)

lemma tool_projection_perm:
  assumes "mset (producing files) = mset (producing files')" and "distinct (map (fst \<circ> entry_of) files)"
  shows "tool_projection scope (producing files) = tool_projection scope (producing files')"
  using sort_key_perm [OF assms(1) distinct_producing [OF assms(2)]] by (simp add: tool_projection_def)

section \<open>The builders assemble a graph that passes the check\<close>

definition CANDIDATE_IDS :: "string list" where
  "CANDIDATE_IDS = [''authority-substrate'', ''kernel'', ''kernel-generation'', ''product-rules'', ''semantic'',
     ''vector'', ''vector-space'', ''access'', ''binary'', ''release'']"

lemma fld_in_ids:
  assumes "n \<in> fst ` set ids"
  shows "fld (VDict ids) n \<in> snd ` set ids"
proof -
  from assms obtain y where y: "map_of ids n = Some y" using map_of_in_set by force
  then have "(n, y) \<in> set ids" by (rule map_of_SomeD)
  then have "y \<in> snd ` set ids" by (rule rev_image_eqI) simp
  with y show ?thesis by (simp add: fldd.simps(1))
qed

lemma ids_complete:
  assumes "map fst ids = CANDIDATE_IDS" and "list_all is_sha256 (map snd ids)"
    and "n \<in> set (map fst GRAPH_DEPENDENCIES)"
  shows "is_sha256 (fld (VDict (with_derived_ids ids)) n)"
proof -
  let ?ids = "with_derived_ids ids"
  have "set (map fst ?ids) = set (map fst GRAPH_DEPENDENCIES)"
    using arg_cong [OF assms(1), of set]
    by (auto simp: with_derived_ids_def Let_def CANDIDATE_IDS_def GRAPH_DEPENDENCIES_def)
  then have "n \<in> fst ` set ?ids" using assms(3) by simp
  then have "fld (VDict ?ids) n \<in> snd ` set ?ids" by (rule fld_in_ids)
  moreover have "list_all is_sha256 (map snd ?ids)"
    using assms(2) by (simp add: with_derived_ids_def Let_def)
  ultimately show ?thesis by (auto simp: list_all_iff)
qed

lemma fld_map_entries:
  "map_of t r = Some ds \<Longrightarrow> fld (VDict (map (\<lambda>(r, ds). (r, f r ds)) t)) r = f r ds"
  by (induction t) (auto split: if_splits)

lemma component_graph_fld:
  assumes "r \<in> set (map fst GRAPH_DEPENDENCIES)"
  shows "fld (component_graph ids) r = node (fld (VDict ids) r) (pick_ids ids (tbl GRAPH_DEPENDENCIES r))"
proof -
  obtain ds where ds: "map_of GRAPH_DEPENDENCIES r = Some ds" using assms map_of_in_set by fastforce
  then show ?thesis
    using fld_map_entries [OF ds, of "\<lambda>r ds. node (fld (VDict ids) r) (pick_ids ids ds)"]
    by (simp add: component_graph_def tbl_def)
qed

lemma keys_component_graph: "keys (component_graph ids) = map fst GRAPH_DEPENDENCIES"
  by (simp add: component_graph_def case_prod_beta comp_def)

lemma distinct_graph_roles: "distinct (map fst GRAPH_DEPENDENCIES)"
  by (simp add: GRAPH_DEPENDENCIES_def)

lemma node_simps [simp]: "is_dict (node i ds)" "fld (node i ds) ''identity'' = i"
  "fld (node i ds) ''direct_dependencies'' = VDict (dsorted ds)"
  "keyset_is (node i ds) [''identity'', ''direct_dependencies'']" "has (node i ds) ''identity''"
  by (simp_all add: node_def keyset_is_def)

lemma succs_component_graph:
  "r \<in> set (map fst GRAPH_DEPENDENCIES) \<Longrightarrow>
     set (succs (items (component_graph ids)) r) = set (tbl GRAPH_DEPENDENCIES r)"
proof -
  assume r: "r \<in> set (map fst GRAPH_DEPENDENCIES)"
  have "VDict (items (component_graph ids)) = component_graph ids" by (simp add: component_graph_def)
  then show ?thesis
    using component_graph_fld [OF r, of ids]
    by (simp add: succs_def mset_dsorted pick_ids_def image_image)
qed

definition GRAPH_ORDER :: "string list" where
  "GRAPH_ORDER = [''product'', ''composition'', ''release'', ''binary'', ''access'', ''kernel-generation'', ''kernel'',
     ''vector-space'', ''vector'', ''semantic'', ''product-rules'', ''authority-substrate'']"

fun topo_by :: "(string \<Rightarrow> string list) \<Rightarrow> string list \<Rightarrow> bool" where
  "topo_by D [] = True"
| "topo_by D (r # vs) = (r \<notin> set vs \<and> list_all (\<lambda>d. d \<in> set vs) (D r) \<and> topo_by D vs)"

lemma topo_topo_by:
  "(\<And>r. r \<in> set vs \<Longrightarrow> set (succs c r) = set (D r)) \<Longrightarrow> topo c vs = topo_by D vs"
  by (induction vs) (auto simp: list_all_iff)

lemma GRAPH_ORDER_roles: "set GRAPH_ORDER = set (map fst GRAPH_DEPENDENCIES)"
  by (auto simp: GRAPH_ORDER_def GRAPH_DEPENDENCIES_def)

lemma component_graph_acyclic: "acyclic (dep_rel (items (component_graph ids)))"
proof (rule topo_acyclic)
  show "fst ` set (items (component_graph ids)) \<subseteq> set GRAPH_ORDER"
    using keys_component_graph [of ids] by (metis GRAPH_ORDER_roles keys_def order_refl set_map)
  have "topo_by (tbl GRAPH_DEPENDENCIES) GRAPH_ORDER"
    by (simp add: GRAPH_ORDER_def GRAPH_DEPENDENCIES_def tbl_def)
  then show "topo (items (component_graph ids)) GRAPH_ORDER"
    using topo_topo_by [of GRAPH_ORDER "items (component_graph ids)" "tbl GRAPH_DEPENDENCIES"]
      succs_component_graph GRAPH_ORDER_roles by blast
qed

lemma py_eq_is_sha256: "is_sha256 v \<Longrightarrow> py_eq v v"
  by (auto simp: is_sha256_iff)

lemma sha_str_is_sha256: "is_sha256 v \<Longrightarrow> sha_str v"
  by (auto simp: is_sha256_iff)

lemma graph_deps_roles:
  "r \<in> set (map fst GRAPH_DEPENDENCIES) \<Longrightarrow> d \<in> set (tbl GRAPH_DEPENDENCIES r) \<Longrightarrow>
     d \<in> set (map fst GRAPH_DEPENDENCIES) \<and> d \<noteq> r"
  by (auto simp: GRAPH_DEPENDENCIES_def tbl_def)

lemma component_graph_valid:
  assumes ids: "\<And>n. n \<in> set (map fst GRAPH_DEPENDENCIES) \<Longrightarrow> is_sha256 (fld (VDict ids) n)"
  shows "validate_component_graph (component_graph ids) = Inr ()"
proof -
  let ?g = "component_graph ids"
  have g: "VDict (items ?g) = ?g" by (simp add: component_graph_def)
  have roles: "fst ` set (items ?g) = set (map fst GRAPH_DEPENDENCIES)"
    using keys_component_graph [of ids] by (metis keys_def set_map)
  have nd: "validate_node (items ?g) (r, nd) = Inr ()" if "(r, nd) \<in> set (items ?g)" for r nd
  proof -
    have r: "r \<in> set (map fst GRAPH_DEPENDENCIES)" using that roles by force
    have n: "nd = fld ?g r"
      using that distinct_graph_roles keys_component_graph [of ids] g
      by (metis fldd.simps(1) keys_def map_of_is_SomeI option.simps(5))
    have nd: "nd = node (fld (VDict ids) r) (pick_ids ids (tbl GRAPH_DEPENDENCIES r))"
      unfolding n by (rule component_graph_fld [OF r])
    have deps: "d \<in> set (map fst GRAPH_DEPENDENCIES) \<and> d \<noteq> r \<and> i = fld (VDict ids) d"
      if "(d, i) \<in> set (items (fld nd ''direct_dependencies''))" for d i
      using that graph_deps_roles [OF r] by (auto simp: nd mset_dsorted pick_ids_def)
    have "d \<in> set (map fst GRAPH_DEPENDENCIES) \<and> d \<noteq> r \<and> has (fld ?g d) ''identity'' \<and>
        py_eq i (fld (fld ?g d) ''identity'')"
      if "(d, i) \<in> set (items (fld nd ''direct_dependencies''))" for d i
      using deps [OF that] ids [of d] py_eq_is_sha256 component_graph_fld [of d ids] by auto
    moreover have "sha_str (fld nd ''identity'')" using ids [OF r] sha_str_is_sha256 by (simp add: nd)
    moreover have "is_dict nd" "keyset_is nd [''identity'', ''direct_dependencies'']"
      "is_dict (fld nd ''direct_dependencies'')" by (simp_all add: nd)
    ultimately show ?thesis unfolding validate_node_iff g roles by blast
  qed
  then have "each (validate_node (items ?g)) (items ?g) = Inr ()" by (auto simp: each_eq_Inr)
  moreover have "distinct (keys ?g)" by (simp add: keys_component_graph distinct_graph_roles)
  moreover have "is_dict ?g" by (simp add: component_graph_def)
  ultimately show ?thesis using validate_component_graph_iff component_graph_acyclic by blast
qed

lemma finish_components_ok:
  assumes "map fst ids = CANDIDATE_IDS" and "list_all is_sha256 (map snd ids)"
  shows "finish_components ids message = Inr (component_graph (with_derived_ids ids))"
proof -
  have "list_all (\<lambda>(_, v). sha_str v) ids"
    using assms(2) sha_str_is_sha256 by (auto simp: list_all_iff)
  then show ?thesis
    using component_graph_valid [of "with_derived_ids ids", OF ids_complete [OF assms]]
    by (simp add: finish_components_def Let_def)
qed

end
