(* ===== verification/Evidence_Binding.thy ===== *)
theory Evidence_Binding
  imports Evidence_Identity
begin

text \<open>
  The second half of \<open>evidence_identity.py\<close>: the v6 binding of a candidate (construction and
  validation), the identities of evidence and baselines, and the projections the lifecycle reads.
\<close>

section \<open>Identities of dependencies, evidence and baselines\<close>

definition dependency_identity :: "string \<Rightarrow> dict \<Rightarrow> string" where
  "dependency_identity scope dependencies =
     canonical_sha256 (VDict [(''schema'', VStr DEPENDENCY_SCHEMA), (''scope'', VStr scope),
                              (''direct_dependencies'', VDict (dsorted dependencies))])"

definition evidence_fields :: "string \<Rightarrow> string \<Rightarrow> dict \<Rightarrow> dict" where
  "evidence_fields kind report_sha256 dependencies =
     [(''schema'', VStr EVIDENCE_SCHEMA), (''kind'', VStr kind), (''report_sha256'', VStr report_sha256),
      (''direct_dependencies'', VDict (dsorted dependencies))]"

definition evidence_identity :: "string \<Rightarrow> string \<Rightarrow> dict \<Rightarrow> val res" where
  "evidence_identity kind report_sha256 dependencies =
     chk (is_sha256 (VStr report_sha256)) (EIErr ''invalid evidence report digest'')
     (let value = evidence_fields kind report_sha256 dependencies in
      Inr (VDict (value @ [(''identity'', VStr (canonical_sha256 (VDict value)))])))"

definition validate_evidence_identity :: "val \<Rightarrow> string \<Rightarrow> string \<Rightarrow> dict \<Rightarrow> unit res" where
  "validate_evidence_identity value kind report_sha256 dependencies =
     bnd (evidence_identity kind report_sha256 dependencies) (\<lambda>expected.
     chk (py_eq value expected) (EIErr (kind @ '' evidence direct dependency identity differs'')) (Inr ()))"

definition BASELINE_MODES :: "string list" where
  "BASELINE_MODES = [''core'', ''frontier'', ''qualification'']"

definition baseline_mode_identity :: "val \<Rightarrow> (string \<Rightarrow> string) \<Rightarrow> string \<Rightarrow> (string \<times> dict \<times> val) res" where
  "baseline_mode_identity dependencies report_sha256s mode =
     bnd (vsub dependencies mode) (\<lambda>direct.
     chk (is_dict direct \<and> truthy direct \<and> list_all sha_str (vvalues direct))
         (EIErr (mode @ '' invalid baseline direct dependencies''))
     (let normalized = dsorted (items direct) in
      bnd (evidence_identity mode (report_sha256s mode) normalized) (\<lambda>i. Inr (mode, normalized, i))))"

text \<open>The report digests are given as a function on the three modes: \<open>validate_baseline_identity\<close>
  and \<open>promote_baseline\<close> pass a dictionary with exactly these keys.\<close>

definition baseline_identity_fields :: "val \<Rightarrow> val \<Rightarrow> (string \<Rightarrow> string) \<Rightarrow> dict res" where
  "baseline_identity_fields product dependencies report_sha256s =
     chk (is_sha256 product) (EIErr ''invalid baseline product identity'')
     (bnd (py_set dependencies) (\<lambda>ks.
     chk (set_eq ks (strs BASELINE_MODES)) (EIErr ''invalid baseline dependency range'')
     (bnd (mapm (baseline_mode_identity dependencies report_sha256s) BASELINE_MODES) (\<lambda>rs.
      let identity = canonical_sha256 (VDict [(''schema'', VStr BASELINE_IDENTITY_SCHEMA), (''product'', product),
             (''evidence'', VDict (map (\<lambda>(m, _, i). (m, fld i ''identity'')) rs))])
      in Inr [(''product_identity'', product),
              (''direct_dependencies'', VDict (map (\<lambda>(m, d, _). (m, VDict d)) rs)),
              (''evidence_identities'', VDict (map (\<lambda>(m, _, i). (m, i)) rs)),
              (''identity'', VStr identity)]))))"

section \<open>Lifecycle and reporting artefacts\<close>

definition validate_lifecycle :: "val \<Rightarrow> unit res" where
  "validate_lifecycle value =
     chk (is_dict value \<and> keyset_is value [''evidence'', ''stateless'', ''derived'', ''authority''])
         (EIErr ''invalid lifecycle artefact identities'')
     (each (\<lambda>(name, item).
        chk (is_dict item \<and> keyset_is item [''identity'', ''plan_schema'', ''content''])
            (EIErr (name @ '' invalid lifecycle artefact''))
        (chk (sha_str (fld item ''identity'') \<and> is_list (fld item ''content'') \<and> truthy (fld item ''content''))
            (EIErr (name @ '' invalid lifecycle identity'')) (Inr ()))) (items value))"

definition reporting_digest :: "val \<Rightarrow> val \<Rightarrow> string" where
  "reporting_digest schema content = canonical_sha256 (VDict [(''schema'', schema), (''content'', content)])"

definition validate_reporting :: "val \<Rightarrow> unit res" where
  "validate_reporting value =
     chk (is_dict value \<and> keyset_is value [''reception'', ''relationships'', ''summary''])
         (EIErr ''invalid reporting artefact identities'')
     (each (\<lambda>(name, item).
        chk (is_dict item \<and> keyset_is item [''identity'', ''schema'', ''content''])
            (EIErr (name @ '' invalid reporting artefact''))
        (chk (sha_str (fld item ''identity'') \<and> is_str (fld item ''schema''))
            (EIErr (name @ '' invalid reporting identity''))
        (let content = fld item ''content'' in
        chk (is_dict content \<and> keyset_is content [''path'', ''sha256''] \<and> sha_str (fld content ''sha256''))
            (EIErr (name @ '' invalid reporting content''))
        (chk (fld item ''identity'' = VStr (reporting_digest (fld item ''schema'') content))
            (EIErr (name @ '' reporting identity drift'')) (Inr ()))))) (items value))"

definition LIFECYCLE_DEFINITIONS :: "(string \<times> string \<times> string list) list" where
  "LIFECYCLE_DEFINITIONS =
    [(''evidence'', ''ownward.acceptance-evidence-lifecycle/v1'',
       [''benchmarks/acceptance/suite/binding.py'', ''benchmarks/acceptance/suite/evidence_identity.py'',
        ''benchmarks/acceptance/suite/lifecycle.py'', ''benchmarks/acceptance/suite/state_relationships.py'',
        ''benchmarks/acceptance/suite/identity_migration.py'']),
     (''stateless'', ''ownward.stateless-capability-plan/v1'',
       [''internal/capabilitylifecycle/artifacts.go'', ''internal/capabilitylifecycle/journal.go'',
        ''internal/capabilitylifecycle/stateless.go'', ''cmd/ownward-composition/main.go'']),
     (''derived'', ''ownward.derived-capability-plan/v1'',
       [''internal/capabilitylifecycle/derived.go'', ''internal/capabilitylifecycle/derived_journal.go'',
        ''cmd/ownward-derived-lifecycle/main.go'']),
     (''authority'', ''ownward.authority-persistence-plan/v1'',
       [''internal/capabilitylifecycle/authority.go'', ''internal/capabilitylifecycle/authority_journal.go'',
        ''cmd/ownward-authority-lifecycle/main.go''])]"

definition repository_content :: "filesystem \<Rightarrow> path \<Rightarrow> string \<Rightarrow> string \<Rightarrow> val res" where
  "repository_content fs repository message relative =
     (let p = fs_resolve fs (joinp repository (path_of relative)) in
     chk (is_relative_to p repository \<and> is_file fs p) (EIErr (message @ relative))
     (bnd (file_sha256 fs p) (\<lambda>d. Inr (VDict [(''path'', VStr relative), (''sha256'', VStr d)]))))"

definition lifecycle_identities :: "filesystem \<Rightarrow> path \<Rightarrow> dict res" where
  "lifecycle_identities fs repository0 =
     (let repository = fs_resolve fs repository0 in
      mapm (\<lambda>(name, schema, files).
        bnd (mapm (repository_content fs repository ''lifecycle artefact content missing: '') files) (\<lambda>content.
        let identity = canonical_sha256 (VDict [(''schema'', VStr ''ownward.lifecycle-artifact-identity/v1''),
              (''kind'', VStr name), (''plan_schema'', VStr schema), (''content'', VList content)])
        in Inr (name, VDict [(''identity'', VStr identity), (''plan_schema'', VStr schema),
                             (''content'', VList content)])))
        LIFECYCLE_DEFINITIONS)"

definition REPORTING_DEFINITIONS :: "(string \<times> string \<times> string) list" where
  "REPORTING_DEFINITIONS =
    [(''reception'', ''ownward.acceptance-report-reception/v1'', ''benchmarks/acceptance/suite/report_semantics.py''),
     (''relationships'', ''ownward.acceptance-report-relationships/v1'',
       ''benchmarks/acceptance/suite/report_relationships.py''),
     (''summary'', ''ownward.acceptance-summary-generation/v1'', ''benchmarks/acceptance/suite/summary_reporting.py'')]"

definition reporting_identities :: "filesystem \<Rightarrow> path \<Rightarrow> dict res" where
  "reporting_identities fs repository0 =
     (let repository = fs_resolve fs repository0 in
      mapm (\<lambda>(name, schema, relative).
        bnd (repository_content fs repository ''reporting artefact content missing: '' relative) (\<lambda>content.
        Inr (name, VDict [(''identity'', VStr (reporting_digest (VStr schema) content)), (''schema'', VStr schema),
                          (''content'', content)])))
        REPORTING_DEFINITIONS)"

section \<open>The binding\<close>

text \<open>The body of the loop over the scopes of \<open>validate_binding\<close>.\<close>

definition validate_scope :: "val \<Rightarrow> val \<Rightarrow> string \<times> val \<Rightarrow> unit res" where
  "validate_scope components reporting entry =
     (case entry of (name, scope) \<Rightarrow>
     chk (is_dict scope \<and> keyset_is scope [''identity'', ''direct_dependencies'', ''report_binding''])
         (EIErr (name @ '' invalid binding fields''))
     (let dependencies = fld scope ''direct_dependencies''; report_binding = fld scope ''report_binding'';
          dep = (\<lambda>k. fld dependencies k); comp = (\<lambda>k. fld (fld components k) ''identity'') in
     chk (is_dict dependencies \<and> list_all sha_str (vvalues dependencies)) (EIErr (name @ '' invalid direct dependencies''))
     (bnd (each (\<lambda>component. chk (py_eq (dep component) (comp component))
                               (EIErr (name @ '' misbound direct dependency: '' @ component)) (Inr ()))
            (tbl SCOPE_COMPONENTS name)) (\<lambda>_.
     chk (py_eq (dep ''report-reception'') (fld (fld reporting ''reception'') ''identity''))
         (EIErr (name @ '' misbound report reception''))
     (chk (py_eq (dep ''relationship-execution'') (fld (fld reporting ''relationships'') ''identity''))
         (EIErr (name @ '' misbound report relationships''))
     (chk (py_eq (fld scope ''identity'') (VStr (dependency_identity name (items dependencies))))
         (EIErr (name @ '' dependency graph identity drift''))
     (chk (is_dict report_binding \<and> keyset_is report_binding REPORT_BINDING_FIELDS)
         (EIErr (name @ '' invalid report binding''))
     (chk (list_all sha_str (vvalues report_binding)) (EIErr (name @ '' invalid report binding digests''))
     (chk (py_eq (dep ''environment'') (fld report_binding ''environment_sha256''))
         (EIErr (name @ '' misbound environment''))
     (chk (py_eq (dep ''input'') (fld report_binding ''input_manifest_sha256'')) (EIErr (name @ '' misbound input''))
     (if name = ''frontier'' then
        chk (py_eq (dep ''observer'') (fld report_binding ''artifact_sha256'')) (EIErr ''misbound observer'') (Inr ())
      else
        chk (py_eq (fld report_binding ''artifact_sha256'') (comp ''binary'')) (EIErr (name @ '' misbound binary''))
          (Inr ()))))))))))))"

definition BINDING_FIELDS :: "string list" where
  "BINDING_FIELDS = [''schema'', ''suite_version'', ''product'', ''components'', ''lifecycle'', ''reporting'',
     ''scopes'', ''audit'']"

definition validate_audit :: "val \<Rightarrow> val \<Rightarrow> unit res" where
  "validate_audit components audit =
     chk (is_dict audit \<and> (keyset_is audit [''source_git''] \<or> keyset_is audit [''source_git'', ''runtime_identity'']))
         (EIErr ''invalid audit source'')
     (chk (is_git_commit (fld audit ''source_git'')) (EIErr ''invalid audit source identity'')
     (if has audit ''runtime_identity'' then
        chk (is_sha256 (fld audit ''runtime_identity'') \<and>
             py_eq (fld audit ''runtime_identity'') (fld (fld components ''kernel-generation'') ''identity''))
            (EIErr ''misbound runtime identity'') (Inr ())
      else Inr ()))"

definition validate_binding :: "val \<Rightarrow> unit res" where
  "validate_binding value =
     chk (is_dict value) (EIErr ''the candidate binding must be an object'')
     (chk (keyset_is value BINDING_FIELDS) (EIErr ''invalid binding fields'')
     (chk (fld value ''schema'' = VStr BINDING_SCHEMA \<and> fld value ''suite_version'' = VStr ''1.0.0'')
         (EIErr ''invalid binding schema or version'')
     (let components = fld value ''components'' in
     chk (is_dict components \<and> keyset_is components COMPONENT_ROLES) (EIErr ''invalid component identity set'')
     (bnd (validate_component_graph components) (\<lambda>_.
     chk (py_eq (fld value ''product'') (fld (fld components ''product'') ''identity''))
         (EIErr ''misbound product identity'')
     (bnd (validate_lifecycle (fld value ''lifecycle'')) (\<lambda>_.
      bnd (validate_reporting (fld value ''reporting'')) (\<lambda>_.
      bnd (validate_audit components (fld value ''audit'')) (\<lambda>_.
     (let scopes = fld value ''scopes'' in
     chk (is_dict scopes \<and> truthy scopes \<and> set (keys scopes) \<subseteq> set (map fst SCOPE_COMPONENTS))
         (EIErr ''invalid binding scopes'')
     (each (validate_scope components (fld value ''reporting'')) (items scopes))))))))))))"

definition current_scope :: "val \<Rightarrow> val \<Rightarrow> val \<Rightarrow> string \<times> val \<Rightarrow> (string \<times> val) res" where
  "current_scope components manifests reporting entry =
     (case entry of (scope, old) \<Rightarrow>
     chk (is_dict old \<and> keyset_is old REPORT_BINDING_FIELDS \<and> list_all sha_str (vvalues old))
         (EIErr (scope @ '' invalid report binding digests''))
     (bnd (mapm (\<lambda>name. bnd (vsub components name) (\<lambda>c. bnd (vsub c ''identity'') (\<lambda>i. Inr (name, i))))
            (tbl SCOPE_COMPONENTS scope)) (\<lambda>component_dependencies.
      bnd (vsub manifests (scope @ ''-tools.json'')) (\<lambda>tools.
      bnd (tool_identity tools) (\<lambda>tool.
      let dependencies0 = dupdate component_dependencies
            [(''environment'', fld old ''environment_sha256''), (''input'', fld old ''input_manifest_sha256''),
             (''acceptance-tool'', VStr tool),
             (''report-reception'', fld (fld reporting ''reception'') ''identity''),
             (''relationship-execution'', fld (fld reporting ''relationships'') ''identity'')] in
      bnd (if scope = ''frontier'' then Inr (AList.update ''observer'' (fld old ''artifact_sha256'') dependencies0)
           else bnd (vsub components ''binary'') (\<lambda>b. bnd (vsub b ''identity'') (\<lambda>bi.
                  chk (py_eq (fld old ''artifact_sha256'') bi)
                      (EIErr (scope @ '' binary does not match the product component'')) (Inr dependencies0)))) (\<lambda>dependencies.
      Inr (scope, VDict [(''identity'', VStr (dependency_identity scope dependencies)),
             (''direct_dependencies'', VDict (dsorted dependencies)),
             (''report_binding'', VDict (map (\<lambda>f. (f, fld old f)) REPORT_BINDING_FIELDS))])))))))"

definition build_current_binding ::
    "val \<Rightarrow> val \<Rightarrow> val \<Rightarrow> val \<Rightarrow> val \<Rightarrow> val \<Rightarrow> val \<Rightarrow> dict \<Rightarrow> val \<Rightarrow> val res" where
  "build_current_binding candidate suite_version scopes components manifests lifecycle reporting audit0 runtime_identity =
     chk (is_git_commit candidate) (EIErr ''invalid candidate audit source'')
     (chk (suite_version = VStr ''1.0.0'') (EIErr ''invalid binding suite version'')
     (chk (is_dict scopes \<and> truthy scopes \<and> set (keys scopes) \<subseteq> set (map fst SCOPE_COMPONENTS))
         (EIErr ''invalid binding scopes'')
     (bnd (validate_component_graph components) (\<lambda>_.
      bnd (validate_lifecycle lifecycle) (\<lambda>_.
      bnd (validate_reporting reporting) (\<lambda>_.
      bnd (mapm (current_scope components manifests reporting) (items scopes)) (\<lambda>result_scopes.
      bnd (if runtime_identity \<noteq> VNone then
             chk (is_sha256 runtime_identity) (EIErr ''invalid runtime identity'')
             (bnd (vsub components ''kernel-generation'') (\<lambda>g. bnd (vsub g ''identity'') (\<lambda>gi.
              chk (py_eq runtime_identity gi) (EIErr ''runtime identity is not the kernel generation'')
              (Inr (AList.update ''runtime_identity'' runtime_identity audit0)))))
           else Inr audit0) (\<lambda>audit.
      bnd (vsub components ''product'') (\<lambda>p. bnd (vsub p ''identity'') (\<lambda>product.
      let result = VDict [(''schema'', VStr BINDING_SCHEMA), (''suite_version'', suite_version),
            (''product'', product), (''components'', components), (''lifecycle'', lifecycle),
            (''reporting'', reporting), (''scopes'', VDict result_scopes), (''audit'', VDict audit)] in
      bnd (validate_binding result) (\<lambda>_. Inr result)))))))))))"

definition validate_legacy_binding :: "val \<Rightarrow> unit res" where
  "validate_legacy_binding value =
     chk (is_dict value \<and> keyset_is value [''schema'', ''suite_version'', ''candidate'', ''scopes''])
         (EIErr ''invalid legacy binding fields'')
     (chk (fld value ''schema'' = VStr ''ownward.acceptance-binding/v4'' \<and> fld value ''suite_version'' = VStr ''1.0.0'')
         (EIErr ''invalid legacy binding schema'')
     (chk (is_git_commit (fld value ''candidate'')) (EIErr ''invalid legacy candidate commit'')
     (chk (is_dict (fld value ''scopes'') \<and> truthy (fld value ''scopes'')) (EIErr ''invalid legacy scopes'')
     (each (\<lambda>(scope, item).
        chk (scope \<in> set (map fst SCOPE_COMPONENTS) \<and> is_dict item) (EIErr (''invalid legacy scope: '' @ scope))
        (chk (keyset_is item REPORT_BINDING_FIELDS \<and> list_all sha_str (vvalues item))
            (EIErr (''invalid legacy scope digests: '' @ scope)) (Inr ()))) (items (fld value ''scopes''))))))"

definition build_binding_from_legacy_migration :: "val \<Rightarrow> val \<Rightarrow> val \<Rightarrow> val \<Rightarrow> val \<Rightarrow> val res" where
  "build_binding_from_legacy_migration legacy components manifests lifecycle reporting =
     bnd (validate_legacy_binding legacy) (\<lambda>_.
     build_current_binding (fld legacy ''candidate'') (fld legacy ''suite_version'') (fld legacy ''scopes'')
       components manifests lifecycle reporting [(''source_git'', fld legacy ''candidate'')] VNone)"

section \<open>Projections of a validated binding\<close>

definition source_git :: "val \<Rightarrow> string res" where
  "source_git value = bnd (validate_binding value) (\<lambda>_. Inr (py_str (fld (fld value ''audit'') ''source_git'')))"

definition product_identity :: "val \<Rightarrow> string res" where
  "product_identity value = bnd (validate_binding value) (\<lambda>_. Inr (py_str (fld value ''product'')))"

definition scope_dependencies :: "val \<Rightarrow> string \<Rightarrow> dict res" where
  "scope_dependencies value scope =
     bnd (validate_binding value) (\<lambda>_.
     chk (has (fld value ''scopes'') scope) (EIErr (''the candidate has not bound '' @ scope))
     (Inr (items (fld (fld (fld value ''scopes'') scope) ''direct_dependencies''))))"

definition reporting_identity :: "val \<Rightarrow> string \<Rightarrow> string res" where
  "reporting_identity value kind =
     bnd (validate_binding value) (\<lambda>_.
     chk (has (fld value ''reporting'') kind) (EIErr (''unknown reporting identity: '' @ kind))
     (Inr (py_str (fld (fld (fld value ''reporting'') kind) ''identity''))))"

definition runtime_identity :: "val \<Rightarrow> string res" where
  "runtime_identity value =
     bnd (validate_binding value) (\<lambda>_.
     Inr (py_str (fldd (fld value ''audit'') ''runtime_identity'' (fld (fld value ''audit'') ''source_git''))))"

definition report_binding :: "val \<Rightarrow> string \<Rightarrow> dict res" where
  "report_binding value scope =
     bnd (validate_binding value) (\<lambda>_.
     chk (has (fld value ''scopes'') scope) (EIErr (''the candidate has not bound '' @ scope))
     (let active = fld (fld (fld value ''scopes'') scope) ''report_binding'' in
      bnd (if scope = ''frontier'' then source_git value else runtime_identity value) (\<lambda>candidate.
      Inr ([(''suite_version'', fld value ''suite_version''), (''candidate'', VStr candidate),
            (''environment_sha256'', fld active ''environment_sha256''),
            (''input_manifest_sha256'', fld active ''input_manifest_sha256''),
            (''tool_sha256'', fld active ''tool_sha256'')] @
           (if scope = ''frontier'' then [(''observer_sha256'', fld active ''artifact_sha256'')]
            else [(''binary_sha256'', fld active ''artifact_sha256'')])))))"

section \<open>Baselines\<close>

definition REPORT_FIELDS :: "(string \<times> string) list" where
  "REPORT_FIELDS = [(''core'', ''core_report_sha256''), (''frontier'', ''frontier_report_sha256''),
     (''qualification'', ''qualification_report_sha256'')]"

definition BASELINE_SCOPES :: "(string \<times> string) list" where
  "BASELINE_SCOPES = [(''core'', ''core''), (''frontier'', ''frontier''), (''qualification'', ''product'')]"

definition report_digest_of :: "val \<Rightarrow> string \<Rightarrow> string" where
  "report_digest_of value mode = py_str (fldd value (the (map_of REPORT_FIELDS mode)) (VStr []))"

definition validate_baseline_report :: "val \<Rightarrow> val \<Rightarrow> string \<Rightarrow> unit res" where
  "validate_baseline_report reports candidate mode =
     (let sealed = fld reports mode in
     chk (is_dict sealed \<and> keyset_is sealed [''canonical_sha256'', ''value''] \<and> is_dict (fld sealed ''value'') \<and>
          fld sealed ''canonical_sha256'' = VStr (canonical_sha256 (fld sealed ''value'')))
         (EIErr (mode @ '' baseline report digest drift''))
     (chk (py_eq (fld (fld sealed ''value'') ''candidate'') candidate) (EIErr (mode @ '' baseline report candidate misbound''))
      (Inr ())))"

definition validate_baseline_binding :: "val \<Rightarrow> val \<Rightarrow> val \<Rightarrow> string \<times> string \<Rightarrow> unit res" where
  "validate_baseline_binding legacy expected_direct candidate ms =
     (case ms of (mode, scope) \<Rightarrow>
     let report = fld legacy scope; direct = fld expected_direct mode;
         artifact_name = (if mode = ''frontier'' then ''observer'' else ''binary'');
         artifact_field = (if mode = ''frontier'' then ''observer_sha256'' else ''binary_sha256'') in
     chk (is_dict report \<and> py_eq (fld report ''candidate'') candidate \<and>
          py_eq (fld direct ''environment'') (fld report ''environment_sha256'') \<and>
          py_eq (fld direct ''input'') (fld report ''input_manifest_sha256''))
         (EIErr (mode @ '' baseline report binding differs from direct dependencies''))
     (chk (py_eq (fld direct artifact_name) (fld report artifact_field)) (EIErr (mode @ '' baseline artefact misbound''))
      (Inr ())))"

definition validate_baseline_identity :: "val \<Rightarrow> val option \<Rightarrow> unit res" where
  "validate_baseline_identity value binding =
     chk (is_dict value) (EIErr ''the baseline record must be an object'')
     (bnd (baseline_identity_fields (VStr (py_str (fldd value ''product_identity'' (VStr []))))
            (fld value ''direct_dependencies'') (report_digest_of value)) (\<lambda>expected.
      bnd (each (\<lambda>(field, expected_value). chk (py_eq (fld value field) expected_value)
                  (EIErr (''baseline '' @ field @ '' identity drift'')) (Inr ())) expected) (\<lambda>_.
     let reports = fld value ''reports''; candidate = fld value ''candidate''; legacy = fld value ''bindings'';
         expected_direct = fld (VDict expected) ''direct_dependencies'' in
     chk (is_dict reports \<and> set (map fst REPORT_FIELDS) \<subseteq> set (keys reports)) (EIErr ''baseline reports missing'')
     (chk (is_git_commit candidate) (EIErr ''invalid baseline candidate source'')
     (bnd (each (validate_baseline_report reports candidate) (map fst REPORT_FIELDS)) (\<lambda>_.
     chk (is_dict legacy \<and> {''core'', ''frontier'', ''product''} \<subseteq> set (keys legacy))
         (EIErr ''baseline report bindings missing'')
     (bnd (each (validate_baseline_binding legacy expected_direct candidate) BASELINE_SCOPES) (\<lambda>_.
     chk (py_eq (fld value ''binary_sha256'') (fld (fld legacy ''core'') ''binary_sha256'') \<and>
          py_eq (fld (fld legacy ''core'') ''binary_sha256'') (fld (fld legacy ''product'') ''binary_sha256''))
         (EIErr ''baseline candidate binary misbound'')
     (case binding of None \<Rightarrow> Inr ()
      | Some b \<Rightarrow>
          bnd (validate_binding b) (\<lambda>_.
          bnd (source_git b) (\<lambda>g.
          chk (candidate = VStr g) (EIErr ''the active baseline is not of the current binding'')
          (bnd (product_identity b) (\<lambda>p.
          chk (fld value ''product_identity'' = VStr p) (EIErr ''the active baseline product is not current'')
          (each (\<lambda>(mode, scope). bnd (scope_dependencies b scope) (\<lambda>d.
             chk (py_eq (fld (fld value ''direct_dependencies'') mode) (VDict d))
                 (EIErr (''active baseline '' @ mode @ '' dependencies are not current'')) (Inr ())))
             BASELINE_SCOPES))))))))))))))"

end
