(* ===== verification/Binding.thy ===== *)
theory Binding
  imports Evidence_Binding
begin

text \<open>
  \<open>binding.py\<close>: the projections of a candidate binding that the lifecycle compares reports with
  (\<open>for_scope\<close>, \<open>for_mode\<close>, \<open>aggregate\<close>), the immutable generations of bindings on disk (staged, validated,
  published by an atomic switch of the active pointer), and the audit of the candidate's build.
  The process id and the clock, which only name temporary files, are the parameter \<open>stamp\<close>; the output of
  \<open>go version -m\<close> is the parameter \<open>go_version\<close>.
\<close>

abbreviation BindErr :: "string \<Rightarrow> exn" where
  "BindErr m \<equiv> Exn BindingError m"

section \<open>Projections of a binding\<close>

definition binding_load_json :: "filesystem \<Rightarrow> path \<Rightarrow> val res" where
  "binding_load_json fs p = bnd (read_json fs p) (\<lambda>v.
     chk (is_dict v) (BindErr (''the JSON document must be an object: '' @ path_str p)) (Inr v))"

definition binding_validate_binding :: "val \<Rightarrow> unit res" where
  "binding_validate_binding value = reraise EvidenceIdentityError BindingError (validate_binding value)"

definition binding_scope_for_mode :: "string \<Rightarrow> string res" where
  "binding_scope_for_mode mode = reraise RelationshipError BindingError (scope_for_mode mode)"

definition for_scope :: "val \<Rightarrow> string \<Rightarrow> dict res" where
  "for_scope value scope = bnd (binding_validate_binding value) (\<lambda>_.
     reraise EvidenceIdentityError BindingError (report_binding value scope))"

definition AGGREGATE_SCOPES :: "string list" where
  "AGGREGATE_SCOPES = [''core'', ''product'', ''community'']"

definition project :: "string \<Rightarrow> (string \<times> val) list \<Rightarrow> dict" where
  "project field selected = map (\<lambda>(name, item). (name, fld item field)) selected"

definition aggregate :: "val \<Rightarrow> dict res" where
  "aggregate value = bnd (binding_validate_binding value) (\<lambda>_.
     bnd (mapm (\<lambda>name. bnd (for_scope value name) (\<lambda>d. Inr (name, VDict d))) AGGREGATE_SCOPES) (\<lambda>selected.
     let binaries = dedup (map snd (project ''binary_sha256'' selected)) in
     chk (length binaries = 1) (BindErr ''the formal layers are not bound to one candidate binary'')
     (bnd (reporting_identity value ''summary'') (\<lambda>summary.
      bnd (runtime_identity value) (\<lambda>candidate.
      Inr [(''suite_version'', fld value ''suite_version''), (''candidate'', VStr candidate),
           (''binary_sha256'', hd binaries),
           (''environment_sha256'', VStr (canonical_sha256 (VDict (project ''environment_sha256'' selected)))),
           (''input_manifest_sha256'', VStr (canonical_sha256 (VDict (project ''input_manifest_sha256'' selected)))),
           (''tool_sha256'', VStr (canonical_sha256 (VDict (project ''tool_sha256'' selected @
                                     [(''summary-generation'', VStr summary)]))))])))))"

definition for_mode :: "val \<Rightarrow> string \<Rightarrow> dict res" where
  "for_mode value mode =
     (if mode = ''summarize'' then aggregate value
      else bnd (binding_scope_for_mode mode) (\<lambda>scope. for_scope value scope))"

section \<open>Generations\<close>

definition serialized_json :: "val \<Rightarrow> string" where
  "serialized_json value = dumps_indent 0 value @ newline 0"

definition serialized_json_sha256 :: "val \<Rightarrow> string" where
  "serialized_json_sha256 value = sha256_hex (serialized_json value)"

definition write_json :: "string \<Rightarrow> path \<Rightarrow> val \<Rightarrow> unit io" where
  "write_json stamp p value =
     st_bnd (mkdir_p (parent p)) (\<lambda>_.
     let temporary = joinp (parent p) (Path False [''.'' @ pname p @ ''.'' @ stamp @ ''.tmp'']) in
     st_bnd (write_file temporary (serialized_json value)) (\<lambda>_. os_replace temporary p))"

definition copy_exact :: "path \<Rightarrow> path \<Rightarrow> unit io" where
  "copy_exact source target =
     st_bnd (write_file target []) (\<lambda>_.
     st_bnd (st_read (\<lambda>fs. read_bytes fs source)) (\<lambda>content. write_file target content))"

definition GENERATION_KINDS :: "(string \<times> string) list" where
  "GENERATION_KINDS = [(''environment'', ''environment_sha256''), (''inputs'', ''input_manifest_sha256''),
     (''tools'', ''tool_sha256'')]"

definition sub_path :: "path \<Rightarrow> string \<Rightarrow> path" where
  "sub_path p name = joinp p (path_of name)"

definition validate_generation_file ::
    "filesystem \<Rightarrow> path \<Rightarrow> val option \<Rightarrow> string \<Rightarrow> val \<Rightarrow> string \<times> string \<Rightarrow> unit res" where
  "validate_generation_file fs directory expected_manifests scope identity kf =
     (case kf of (kind, field) \<Rightarrow>
     let filename = scope @ ''-'' @ kind @ ''.json''; p = sub_path directory filename in
     chk (is_file fs p) (BindErr (filename @ '' of the immutable generation missing''))
     (bnd (if kind = ''tools'' then
             bnd (reraise EvidenceIdentityError BindingError
                   (bnd (binding_load_json fs p) (\<lambda>manifest.
                    bnd (vpath identity [''direct_dependencies'', ''acceptance-tool'']) (\<lambda>expected.
                    tool_manifest_identity_valid manifest expected)))) (\<lambda>valid.
             chk valid (BindErr (filename @ '' execution identity differs'')) (Inr ()))
           else
             bnd (file_sha256 fs p) (\<lambda>digest. bnd (vpath identity [''report_binding'', field]) (\<lambda>expected.
             chk (py_eq (VStr digest) expected) (BindErr (filename @ '' digest differs'')) (Inr ())))) (\<lambda>_.
      case expected_manifests of None \<Rightarrow> Inr ()
      | Some manifests \<Rightarrow>
          bnd (binding_load_json fs p) (\<lambda>actual. bnd (vsub manifests filename) (\<lambda>expected.
          chk (py_eq actual expected) (BindErr (filename @ '' content differs'')) (Inr ()))))))"

definition validate_generation :: "filesystem \<Rightarrow> path \<Rightarrow> val option \<Rightarrow> val option \<Rightarrow> unit res" where
  "validate_generation fs directory expected_binding expected_manifests =
     bnd (binding_load_json fs (sub_path directory ''binding.json'')) (\<lambda>binding.
     bnd (binding_validate_binding binding) (\<lambda>_.
     chk (case expected_binding of None \<Rightarrow> True | Some b \<Rightarrow> py_eq binding b)
         (BindErr ''the candidate identity of the immutable generation differs'')
     (each (\<lambda>(scope, identity).
        each (validate_generation_file fs directory expected_manifests scope identity) GENERATION_KINDS)
       (items (fld binding ''scopes'')))))"

definition generation_name :: "val \<Rightarrow> val \<Rightarrow> string" where
  "generation_name binding manifests =
     take 24 (canonical_sha256 (VDict [(''binding'', binding), (''manifests'', manifests)]))"

definition generation_dir :: "path \<Rightarrow> string \<Rightarrow> path" where
  "generation_dir output_dir generation = sub_path (sub_path output_dir ''generations'') generation"

text \<open>The block guarded by \<open>if not destination.exists()\<close>; \<open>raw_sources\<close> says which manifests are copied
  byte for byte.\<close>

definition fill_generation :: "string \<Rightarrow> path \<Rightarrow> path \<Rightarrow> val \<Rightarrow> val \<Rightarrow> (string \<Rightarrow> path option) \<Rightarrow> unit io" where
  "fill_generation stamp temporary destination binding manifests raw_sources =
     st_bnd (mkdir temporary) (\<lambda>_.
     st_bnd (write_json stamp (sub_path temporary ''binding.json'') binding) (\<lambda>_.
     st_bnd (st_each (\<lambda>(filename, value).
               (case raw_sources filename of None \<Rightarrow> write_json stamp (sub_path temporary filename) value
                | Some source \<Rightarrow> copy_exact source (sub_path temporary filename))) (items manifests)) (\<lambda>_.
     st_bnd (st_read (\<lambda>fs. validate_generation fs temporary (Some binding) (Some manifests))) (\<lambda>_.
     rename_dir temporary destination))))"

definition remove_leftover :: "path \<Rightarrow> filesystem \<Rightarrow> filesystem" where
  "remove_leftover temporary fs = (if exists_path fs temporary then rmtree temporary fs else fs)"

definition stage_generation ::
    "string \<Rightarrow> path \<Rightarrow> val \<Rightarrow> val \<Rightarrow> (string \<Rightarrow> path option) \<Rightarrow> string io" where
  "stage_generation stamp output_dir binding manifests raw_sources =
     (let generation = generation_name binding manifests;
          generations = sub_path output_dir ''generations'';
          destination = generation_dir output_dir generation;
          temporary = generation_dir output_dir (''.tmp-'' @ stamp) in
     st_bnd (mkdir_p generations) (\<lambda>_.
     st_bnd (\<lambda>fs. if exists_path fs destination then (fs, Inr ())
                  else io_finally (fill_generation stamp temporary destination binding manifests raw_sources)
                         (remove_leftover temporary) fs) (\<lambda>_.
     st_bnd (st_read (\<lambda>fs. validate_generation fs destination (Some binding) (Some manifests))) (\<lambda>_ fs.
     (fs, Inr generation)))))"

definition ACTIVE_SCHEMA :: string where "ACTIVE_SCHEMA = ''ownward.acceptance-binding-active/v1''"

definition active_pointer :: "string \<Rightarrow> string \<Rightarrow> val" where
  "active_pointer generation digest =
     VDict [(''schema'', VStr ACTIVE_SCHEMA), (''generation'', VStr generation), (''binding_sha256'', VStr digest)]"

definition publish_generation :: "string \<Rightarrow> path \<Rightarrow> string \<Rightarrow> unit io" where
  "publish_generation stamp output_dir generation =
     (let destination = generation_dir output_dir generation in
     st_bnd (st_read (\<lambda>fs. validate_generation fs destination None None)) (\<lambda>_.
     st_bnd (st_read (\<lambda>fs. file_sha256 fs (sub_path destination ''binding.json''))) (\<lambda>digest.
     write_json stamp (sub_path output_dir ''active.json'') (active_pointer generation digest))))"

definition activate_generation ::
    "string \<Rightarrow> path \<Rightarrow> val \<Rightarrow> val \<Rightarrow> (string \<Rightarrow> path option) \<Rightarrow> unit io" where
  "activate_generation stamp output_dir binding manifests raw_sources =
     st_bnd (stage_generation stamp output_dir binding manifests raw_sources) (publish_generation stamp output_dir)"

definition active_generation_dir :: "filesystem \<Rightarrow> path \<Rightarrow> path res" where
  "active_generation_dir fs binding_dir =
     (let active_path = sub_path binding_dir ''active.json'' in
     chk (is_file fs active_path) (BindErr ''the active pointer is missing'')
     (bnd (binding_load_json fs active_path) (\<lambda>active.
     chk (fld active ''schema'' = VStr ACTIVE_SCHEMA) (BindErr ''invalid active pointer'')
     (let generation = py_str (fldd active ''generation'' (VStr [])) in
     chk (generation \<noteq> [] \<and> pname (path_of generation) = generation) (BindErr ''invalid active generation'')
     (let root = fs_resolve fs (generation_dir binding_dir generation) in
     chk (is_relative_to root (fs_resolve fs binding_dir) \<and> fs_dir fs root) (BindErr ''the active generation does not exist'')
     (bnd (file_sha256 fs (sub_path root ''binding.json'')) (\<lambda>digest.
     chk (py_eq (VStr digest) (fld active ''binding_sha256'')) (BindErr ''the active pointer digest differs'')
     (bnd (validate_generation fs root None None) (\<lambda>_. Inr root)))))))))"

definition load_active_binding :: "filesystem \<Rightarrow> path \<Rightarrow> val res" where
  "load_active_binding fs path0 =
     (let p = fs_resolve fs path0; binding_dir = (if fs_dir fs p then p else parent p) in
     bnd (active_generation_dir fs binding_dir) (\<lambda>active. binding_load_json fs (sub_path active ''binding.json'')))"

section \<open>The candidate's build\<close>

definition binding_mapping :: "val \<Rightarrow> string \<Rightarrow> val res" where
  "binding_mapping value name = bnd (vget value name) (\<lambda>nested.
     chk (is_dict nested) (BindErr (''the execution configuration lacks '' @ name)) (Inr nested))"

text \<open>\<open>Path(v).resolve()\<close>; \<open>Path\<close> raises on a value that is no text.\<close>

definition resolved :: "filesystem \<Rightarrow> val \<Rightarrow> path res" where
  "resolved fs v = chk (is_str v) (Exn TypeError ''argument should be a str'') (Inr (fs_resolve fs (path_of (str_val v))))"

definition candidate_paths :: "filesystem \<Rightarrow> val \<Rightarrow> (path \<times> path) res" where
  "candidate_paths fs config =
     bnd (binding_mapping config ''candidate'') (\<lambda>candidate.
     bnd (vsub candidate ''binary'') (\<lambda>b. bnd (resolved fs b) (\<lambda>binary.
     bnd (vsub candidate ''embedding_bundle_dir'') (\<lambda>e. bnd (resolved fs e) (\<lambda>embedding. Inr (binary, embedding))))))"

definition frontier_tool :: "filesystem \<Rightarrow> val \<Rightarrow> path res" where
  "frontier_tool fs config =
     bnd (binding_mapping config ''frontier'') (\<lambda>frontier. bnd (vsub frontier ''tool'') (resolved fs))"

definition artifact_sha256 :: "filesystem \<Rightarrow> val \<Rightarrow> string \<Rightarrow> string res" where
  "artifact_sha256 fs config scope =
     bnd (if scope = ''frontier'' then frontier_tool fs config
          else bnd (candidate_paths fs config) (\<lambda>(binary, _). Inr binary)) (\<lambda>p.
     chk (is_file fs p) (BindErr (scope @ '' candidate artefact does not exist'')) (file_sha256 fs p))"

definition candidate_binary_sha :: "filesystem \<Rightarrow> val \<Rightarrow> string list \<Rightarrow> string res" where
  "candidate_binary_sha fs config scopes =
     (if set scopes \<inter> {''core'', ''product'', ''community''} \<noteq> {} then
        bnd (candidate_paths fs config) (\<lambda>(binary, _). file_sha256 fs binary)
      else bnd (frontier_tool fs config) (file_sha256 fs))"

definition release_manifest_sha :: "filesystem \<Rightarrow> val \<Rightarrow> string res" where
  "release_manifest_sha fs config =
     (let product = fld config ''product''; candidate = fld config ''candidate'';
          manifest = sub_path (fs_resolve fs (path_of (str_val (fld product ''package'')))) ''manifest.json'';
          sibling = sub_path (sub_path (parent (fs_resolve fs (path_of (str_val (fld candidate ''binary''))))) ''ownward-windows-amd64'')
                      ''manifest.json'' in
      if is_dict product \<and> is_str (fld product ''package'') \<and> is_file fs manifest then file_sha256 fs manifest
      else if is_dict candidate \<and> is_str (fld candidate ''binary'') \<and> is_file fs sibling then file_sha256 fs sibling
      else Inr (canonical_sha256 (VDict [(''schema'', VStr ''ownward.release-artifact-absence/v1'')])))"

text \<open>\<open>text.split(sep, 1)\<close> at the first occurrence of a character.\<close>

definition split_once :: "char \<Rightarrow> string \<Rightarrow> string \<times> string" where
  "split_once c s = (takeWhile (\<lambda>x. x \<noteq> c) s, drop 1 (dropWhile (\<lambda>x. x \<noteq> c) s))"

definition tab :: char where "tab = char_of (9 :: nat)"
definition linefeed :: char where "linefeed = char_of (10 :: nat)"

definition build_field :: "string \<Rightarrow> (string \<times> string) list" where
  "build_field line =
     (let ps = split_on tab (py_strip line) in
      if 2 \<le> length ps \<and> ps ! 0 = ''build'' \<and> CHR ''='' \<in> set (ps ! 1) then [split_once (CHR ''='') (ps ! 1)] else [])"

text \<open>The assignments \<open>fields[name] = value\<close> in the order of the lines: the last one wins.\<close>

definition build_fields :: "string \<Rightarrow> (string \<times> string) list" where
  "build_fields stdout = rev (concat (map build_field (split_on linefeed stdout)))"

definition go_binary_revision :: "(path \<Rightarrow> int \<times> string) \<Rightarrow> path \<Rightarrow> string res" where
  "go_binary_revision go_version binary =
     (case go_version binary of (returncode, stdout) \<Rightarrow>
     chk (returncode = 0) (BindErr (''cannot read the Go build identity: '' @ path_str binary))
     (let fields = build_fields stdout;
          revision = (case map_of fields ''vcs.revision'' of Some r \<Rightarrow> r | None \<Rightarrow> []) in
     chk (py_len_str revision = 40 \<and> list_all (\<lambda>c. c \<in> set hex_digits) revision)
         (BindErr ''the Go build lacks an auditable source'')
     (chk (map_of fields ''vcs.modified'' = Some ''false'') (BindErr ''the Go build comes from a dirty tree'')
      (Inr revision))))"

definition verify_go_binary :: "(path \<Rightarrow> int \<times> string) \<Rightarrow> path \<Rightarrow> string \<Rightarrow> unit res" where
  "verify_go_binary go_version binary candidate =
     bnd (go_binary_revision go_version binary) (\<lambda>r.
     chk (r = candidate) (BindErr ''the Go build is not bound to the candidate commit'') (Inr ()))"

definition candidate_audit_source ::
    "(path \<Rightarrow> int \<times> string) \<Rightarrow> filesystem \<Rightarrow> val \<Rightarrow> string list \<Rightarrow> string res" where
  "candidate_audit_source go_version fs config scopes =
     bnd (if ''frontier'' \<in> set scopes then
            bnd (frontier_tool fs config) (\<lambda>p. bnd (go_binary_revision go_version p) (\<lambda>r. Inr [r]))
          else Inr []) (\<lambda>observer.
     bnd (if set scopes \<inter> {''core'', ''product'', ''community''} \<noteq> {} then
            bnd (candidate_paths fs config) (\<lambda>(binary, _). bnd (go_binary_revision go_version binary) (\<lambda>r. Inr [r]))
          else Inr []) (\<lambda>binary.
     let revisions = remdups (observer @ binary) in
     chk (length revisions = 1) (BindErr ''the candidate artefacts have no single clean source'') (Inr (hd revisions))))"

definition candidate_runtime_identity :: "val \<Rightarrow> string \<Rightarrow> string list \<Rightarrow> string res" where
  "candidate_runtime_identity config audit_source scopes =
     (if set scopes \<inter> {''core'', ''product'', ''community''} = {} then Inr audit_source
      else bnd (binding_mapping config ''candidate'') (\<lambda>candidate.
        let declared = fld candidate ''runtime_identity'' in
        if declared = VNone then Inr audit_source
        else chk (is_sha256 declared) (BindErr ''the runtime identity must be a content digest'') (Inr (py_str declared))))"

end
