(* ===== verification/Binding_Facts.thy ===== *)
theory Binding_Facts
  imports Binding
begin

text \<open>
  What an accepted binding fixes, and what its projections return. The lemmas here carry the invariants of
  the lifecycle.
\<close>

abbreviation binding_ok :: "val \<Rightarrow> bool" where
  "binding_ok b \<equiv> validate_binding b = Inr ()"

lemma unit_res_cases: "(r :: unit res) = Inr () \<or> (\<exists>e. r = Inl e)"
  by (cases r) auto

lemma binding_validate_binding_iff [simp]: "binding_validate_binding b = Inr u \<longleftrightarrow> binding_ok b"
  by (simp add: binding_validate_binding_def reraise_eq_Inr)

lemma binding_parts:
  assumes "binding_ok b"
  shows binding_is_dict: "is_dict b" and binding_keys: "keyset_is b BINDING_FIELDS"
    and binding_schema: "fld b ''schema'' = VStr BINDING_SCHEMA"
    and binding_version: "fld b ''suite_version'' = VStr ''1.0.0''"
    and binding_graph: "validate_component_graph (fld b ''components'') = Inr ()"
    and binding_product: "py_eq (fld b ''product'') (fld (fld (fld b ''components'') ''product'') ''identity'')"
    and binding_reporting: "validate_reporting (fld b ''reporting'') = Inr ()"
    and binding_audit: "validate_audit (fld b ''components'') (fld b ''audit'') = Inr ()"
    and binding_scopes: "is_dict (fld b ''scopes'')" "set (keys (fld b ''scopes'')) \<subseteq> set (map fst SCOPE_COMPONENTS)"
    and binding_scope_valid:
      "\<And>e. e \<in> set (items (fld b ''scopes'')) \<Longrightarrow> validate_scope (fld b ''components'') (fld b ''reporting'') e = Inr ()"
  using assms unfolding validate_binding_def Let_def bnd_eq_Inr chk_eq_Inr each_eq_Inr by auto

lemma binding_source_git:
  assumes "binding_ok b" shows "\<exists>g. fld (fld b ''audit'') ''source_git'' = VStr g \<and> is_hex 40 g"
  using binding_audit [OF assms] by (auto simp: validate_audit_def chk_eq_Inr is_git_commit_iff)

lemma binding_runtime:
  assumes "binding_ok b" and "has (fld b ''audit'') ''runtime_identity''"
  shows "\<exists>r. fld (fld b ''audit'') ''runtime_identity'' = VStr r \<and> is_hex 64 r"
  using binding_audit [OF assms(1)] assms(2) by (auto simp: validate_audit_def chk_eq_Inr is_sha256_iff)

lemma fldd_no_has: "\<not> has v k \<Longrightarrow> fldd v k x = x"
  by (cases v) (auto simp: fldd.simps(1) split: option.splits dest: map_of_SomeD simp: rev_image_eqI)

text \<open>The audit source as a text, and the identity a product process reports.\<close>

definition audit_git :: "val \<Rightarrow> string" where
  "audit_git b = str_val (fld (fld b ''audit'') ''source_git'')"

definition split_runtime :: "val \<Rightarrow> bool" where
  "split_runtime b = has (fld b ''audit'') ''runtime_identity''"

definition run_identity :: "val \<Rightarrow> string" where
  "run_identity b = (if split_runtime b then str_val (fld (fld b ''audit'') ''runtime_identity'') else audit_git b)"

lemma source_git_eq: "binding_ok b \<Longrightarrow> source_git b = Inr (audit_git b)"
  using binding_source_git [of b] by (auto simp: source_git_def audit_git_def)

lemma runtime_identity_eq: "binding_ok b \<Longrightarrow> runtime_identity b = Inr (run_identity b)"
  using binding_source_git [of b] binding_runtime [of b]
  by (auto simp: runtime_identity_def run_identity_def split_runtime_def audit_git_def fldd_no_has
      fldd_has [of _ "''runtime_identity''" "fld (fld b ''audit'') ''source_git''"])

lemma audit_git_hex: "binding_ok b \<Longrightarrow> is_hex 40 (audit_git b)"
  using binding_source_git [of b] by (auto simp: audit_git_def)

lemma run_identity_hex: "binding_ok b \<Longrightarrow> split_runtime b \<Longrightarrow> is_hex 64 (run_identity b)"
  using binding_runtime [of b] by (auto simp: run_identity_def split_runtime_def)

lemma product_identity_eq: "binding_ok b \<Longrightarrow> product_identity b = Inr (py_str (fld b ''product''))"
  by (simp add: product_identity_def)

definition scope_deps :: "val \<Rightarrow> string \<Rightarrow> dict" where
  "scope_deps b scope = items (fld (fld (fld b ''scopes'') scope) ''direct_dependencies'')"

lemma scope_dependencies_eq:
  "binding_ok b \<Longrightarrow> scope_dependencies b scope =
     chk (has (fld b ''scopes'') scope) (EIErr (''the candidate has not bound '' @ scope)) (Inr (scope_deps b scope))"
  by (simp add: scope_dependencies_def scope_deps_def)

definition active_field :: "val \<Rightarrow> string \<Rightarrow> string \<Rightarrow> val" where
  "active_field b scope field = fld (fld (fld (fld b ''scopes'') scope) ''report_binding'') field"

definition report_binding_of :: "val \<Rightarrow> string \<Rightarrow> dict" where
  "report_binding_of b scope =
     [(''suite_version'', fld b ''suite_version''),
      (''candidate'', VStr (if scope = ''frontier'' then audit_git b else run_identity b)),
      (''environment_sha256'', active_field b scope ''environment_sha256''),
      (''input_manifest_sha256'', active_field b scope ''input_manifest_sha256''),
      (''tool_sha256'', active_field b scope ''tool_sha256''),
      (if scope = ''frontier'' then ''observer_sha256'' else ''binary_sha256'', active_field b scope ''artifact_sha256'')]"

lemma report_binding_eq:
  "binding_ok b \<Longrightarrow> report_binding b scope =
     chk (has (fld b ''scopes'') scope) (EIErr (''the candidate has not bound '' @ scope)) (Inr (report_binding_of b scope))"
  by (auto simp: report_binding_def report_binding_of_def active_field_def source_git_eq runtime_identity_eq chk_def Let_def)

lemma for_scope_eq_Inr:
  "for_scope b scope = Inr d \<longleftrightarrow> binding_ok b \<and> has (fld b ''scopes'') scope \<and> d = report_binding_of b scope"
  by (auto simp: for_scope_def exn_elims report_binding_eq)

lemma scope_for_mode_eq [exn_elims]: "binding_scope_for_mode mode = Inr s \<longleftrightarrow> map_of MODE_SCOPES mode = Some s"
  by (auto simp: binding_scope_for_mode_def reraise_eq_Inr scope_for_mode_def split: option.splits)

lemma for_mode_eq_Inr:
  "mode \<noteq> ''summarize'' \<Longrightarrow> for_mode b mode = Inr d \<longleftrightarrow>
     (\<exists>s. map_of MODE_SCOPES mode = Some s \<and> binding_ok b \<and> has (fld b ''scopes'') s \<and> d = report_binding_of b s)"
  by (auto simp: for_mode_def exn_elims for_scope_eq_Inr)

lemma for_mode_summarize: "for_mode b ''summarize'' = Inr d \<Longrightarrow> binding_ok b \<and> fld (VDict d) ''candidate'' = VStr (run_identity b)"
  by (auto simp: for_mode_def aggregate_def Let_def exn_elims runtime_identity_eq)

text \<open>A valid scope.\<close>

lemma scope_parts:
  assumes ok: "binding_ok b" and h: "has (fld b ''scopes'') s"
  defines "sc \<equiv> fld (fld b ''scopes'') s"
  shows "is_dict sc" and "keyset_is sc [''identity'', ''direct_dependencies'', ''report_binding'']"
    and scope_deps_dict: "is_dict (fld sc ''direct_dependencies'')"
    and scope_deps_sha: "list_all sha_str (map snd (scope_deps b s))"
    and scope_identity_digest: "fld sc ''identity'' = VStr (dependency_identity s (scope_deps b s))"
    and scope_component: "\<And>c. c \<in> set (tbl SCOPE_COMPONENTS s) \<Longrightarrow>
        py_eq (fld (VDict (scope_deps b s)) c) (fld (fld (fld b ''components'') c) ''identity'')"
    and scope_environment: "py_eq (fld (VDict (scope_deps b s)) ''environment'') (active_field b s ''environment_sha256'')"
    and scope_input: "py_eq (fld (VDict (scope_deps b s)) ''input'') (active_field b s ''input_manifest_sha256'')"
    and scope_observer: "s = ''frontier'' \<Longrightarrow> py_eq (fld (VDict (scope_deps b s)) ''observer'') (active_field b s ''artifact_sha256'')"
    and scope_binary: "s \<noteq> ''frontier'' \<Longrightarrow> py_eq (active_field b s ''artifact_sha256'') (fld (fld (fld b ''components'') ''binary'') ''identity'')"
    and scope_active_sha: "\<And>f. f \<in> set REPORT_BINDING_FIELDS \<Longrightarrow> sha_str (active_field b s f)"
proof -
  have "(s, sc) \<in> set (items (fld b ''scopes''))"
    using fld_in_set [OF _ h] unfolding sc_def by blast
  from binding_scope_valid [OF ok this]
  have v: "validate_scope (fld b ''components'') (fld b ''reporting'') (s, sc) = Inr ()" .
  then have d: "is_dict (fld sc ''direct_dependencies'')"
    and rb: "is_dict (fld sc ''report_binding'')" "keyset_is (fld sc ''report_binding'') REPORT_BINDING_FIELDS"
      "list_all sha_str (vvalues (fld sc ''report_binding''))"
    by (auto simp: validate_scope_def Let_def exn_elims split: if_splits)
  have e: "VDict (scope_deps b s) = fld sc ''direct_dependencies''"
    using d by (auto simp: scope_deps_def sc_def is_dict_iff)
  have vv: "vvalues (fld sc ''direct_dependencies'') = map snd (scope_deps b s)"
    using d by (auto simp: scope_deps_def sc_def is_dict_iff)
  show "is_dict sc" "keyset_is sc [''identity'', ''direct_dependencies'', ''report_binding'']"
    "is_dict (fld sc ''direct_dependencies'')"
    using v by (auto simp: validate_scope_def Let_def exn_elims split: if_splits)
  show "list_all sha_str (map snd (scope_deps b s))"
    using v unfolding vv [symmetric] by (auto simp: validate_scope_def Let_def exn_elims split: if_splits)
  show "fld sc ''identity'' = VStr (dependency_identity s (scope_deps b s))"
    using v by (auto simp: validate_scope_def Let_def exn_elims scope_deps_def sc_def split: if_splits)
  show "py_eq (fld (VDict (scope_deps b s)) c) (fld (fld (fld b ''components'') c) ''identity'')"
    if "c \<in> set (tbl SCOPE_COMPONENTS s)" for c
    using v that unfolding e by (auto simp: validate_scope_def Let_def exn_elims split: if_splits)
  show "py_eq (fld (VDict (scope_deps b s)) ''environment'') (active_field b s ''environment_sha256'')"
    "py_eq (fld (VDict (scope_deps b s)) ''input'') (active_field b s ''input_manifest_sha256'')"
    "s = ''frontier'' \<Longrightarrow> py_eq (fld (VDict (scope_deps b s)) ''observer'') (active_field b s ''artifact_sha256'')"
    "s \<noteq> ''frontier'' \<Longrightarrow> py_eq (active_field b s ''artifact_sha256'') (fld (fld (fld b ''components'') ''binary'') ''identity'')"
    using v unfolding e by (auto simp: validate_scope_def Let_def exn_elims active_field_def sc_def split: if_splits)
  show "sha_str (active_field b s f)" if "f \<in> set REPORT_BINDING_FIELDS" for f
  proof -
    have "has (fld sc ''report_binding'') f"
      using rb(2) that by (simp add: keyset_is_def has_def)
    then have "(f, active_field b s f) \<in> set (items (fld sc ''report_binding''))"
      using fld_in_set by (auto simp: active_field_def sc_def)
    then show ?thesis using rb(3) by (fastforce simp: vvalues_def list_all_iff)
  qed
qed

text \<open>A text that prints as a digest is that digest, so the fields of a validated scope are texts.\<close>

lemma py_eq_sha_VStr: "py_eq v w \<Longrightarrow> w = VStr t \<Longrightarrow> v = VStr t"
  by simp

end
