(* ===== verification/Generations.thy ===== *)
theory Generations
  imports Binding_Facts Json_Roundtrip
begin

text \<open>
  The generations of bindings on disk. Staging only adds files: whatever was there outside the temporary
  directory stays (\<open>grows\<close>), so that a failed activation leaves the active binding as it was, and a
  successful one makes the staged binding the active one.
\<close>

section \<open>Paths\<close>

definition plain :: "string \<Rightarrow> bool" where
  "plain s = (s \<noteq> [] \<and> s \<noteq> ''.'' \<and> slash \<notin> set s)"

lemma split_on_plain: "c \<notin> set s \<Longrightarrow> split_on c s = [s]"
  by (induction s) auto

lemma path_of_plain: "plain s \<Longrightarrow> path_of s = Path False [s]"
  by (cases s) (auto simp: plain_def path_of_def split_on_plain)

lemma sub_path_plain: "plain s \<Longrightarrow> sub_path p s = Path (is_absolute p) (parts p @ [s])"
  by (simp add: sub_path_def path_of_plain joinp_def)

lemma relative_refl [simp]: "is_relative_to p p"
  by (simp add: is_relative_to_def)

lemma relative_parent: "is_relative_to q D \<Longrightarrow> q = D \<or> is_relative_to (parent q) D"
proof (cases "parts q" rule: rev_cases)
  case (snoc xs x)
  assume r: "is_relative_to q D"
  show ?thesis
  proof (cases "length (parts D) \<le> length xs")
    case True
    then show ?thesis using r snoc by (simp add: is_relative_to_def parent_def)
  next
    case False
    then show ?thesis using r snoc by (cases q; cases D) (simp add: is_relative_to_def)
  qed
qed (cases q; cases D; simp add: is_relative_to_def)

section \<open>A file system with directories\<close>

definition tree :: "filesystem \<Rightarrow> bool" where
  "tree fs = (\<forall>p. exists_path fs p \<and> parts p \<noteq> [] \<longrightarrow> fs_dir fs (parent p))"

definition absent :: "filesystem \<Rightarrow> path \<Rightarrow> bool" where
  "absent fs D = (\<forall>q. is_relative_to q D \<longrightarrow> \<not> exists_path fs q)"

lemma absentI:
  assumes "tree fs" and "\<not> exists_path fs D"
  shows "absent fs D"
  unfolding absent_def
proof (intro allI impI)
  fix q assume "is_relative_to q D"
  then show "\<not> exists_path fs q"
  proof (induction "length (parts q)" arbitrary: q)
    case 0
    then have "q = D" using relative_parent [OF 0(2)] by (cases q; cases D) (auto simp: is_relative_to_def)
    then show ?case using assms(2) by simp
  next
    case (Suc n)
    show ?case
    proof
      assume e: "exists_path fs q"
      then have "fs_dir fs (parent q)" using assms(1) Suc(2) by (auto simp: tree_def)
      then have "exists_path fs (parent q)" by (simp add: exists_path_def)
      moreover have "n = length (parts (parent q))" using Suc(2) by (simp add: parent_def)
      ultimately have "\<not> is_relative_to (parent q) D" using Suc(1) by blast
      then have "q = D" using relative_parent [OF Suc(3)] by blast
      then show False using e assms(2) by simp
    qed
  qed
qed

section \<open>Statements that write below a directory\<close>

text \<open>Outside the directory \<open>D\<close> every file is as it was, and every directory is still there.\<close>

definition outside :: "path \<Rightarrow> filesystem \<Rightarrow> filesystem \<Rightarrow> bool" where
  "outside D fs fs' = (fs_resolve fs' = fs_resolve fs \<and>
     (\<forall>q. \<not> is_relative_to q D \<longrightarrow> fs_file fs' q = fs_file fs q \<and> (fs_dir fs q \<longrightarrow> fs_dir fs' q)))"

interpretation outside: preorder_kept "outside D" for D
  by unfold_locales (auto simp: outside_def)

lemma outside_mkdir_p: "keeps (outside D) (mkdir_p p)"
  by (rule keepsI) (auto simp: mkdir_p_def outside_def split: if_splits)

lemma outside_mkdir: "keeps (outside D) (mkdir p)"
  by (rule keepsI) (auto simp: mkdir_def outside_def split: if_splits)

lemma outside_write_file: "is_relative_to p D \<Longrightarrow> keeps (outside D) (write_file p s)"
  by (rule keepsI) (auto simp: write_file_def write_text_def outside_def split: if_splits)

lemma outside_os_replace: "is_relative_to p D \<Longrightarrow> is_relative_to q D \<Longrightarrow> keeps (outside D) (os_replace p q)"
  by (rule keepsI) (auto simp: os_replace_def replace_file_def outside_def split: if_splits)

lemma sub_path_relative: "plain s \<Longrightarrow> is_relative_to (sub_path D s) D"
  by (simp add: sub_path_plain is_relative_to_def)

lemma outside_write_json: "plain s \<Longrightarrow> keeps (outside D) (write_json stamp (sub_path D s) v)"
  unfolding write_json_def Let_def
  by (intro outside.keeps_rules outside_mkdir_p outside_write_file outside_os_replace)
    (simp_all add: sub_path_plain joinp_def parent_def is_relative_to_def)

lemma outside_copy_exact: "plain s \<Longrightarrow> keeps (outside D) (copy_exact source (sub_path D s))"
  unfolding copy_exact_def by (intro outside.keeps_rules outside_write_file sub_path_relative)

section \<open>What is there stays\<close>

definition grows :: "filesystem \<Rightarrow> filesystem \<Rightarrow> bool" where
  "grows fs fs' = (fs_resolve fs' = fs_resolve fs \<and> (\<forall>q s. fs_file fs q = Some s \<longrightarrow> fs_file fs' q = Some s) \<and>
     (\<forall>q. fs_dir fs q \<longrightarrow> fs_dir fs' q))"

interpretation grows: preorder_kept grows
  by unfold_locales (auto simp: grows_def)

lemma grows_exists: "grows fs fs' \<Longrightarrow> exists_path fs p \<Longrightarrow> exists_path fs' p"
  by (cases "fs_file fs p") (auto simp: grows_def exists_path_def is_file_def)

lemma outside_leftover:
  assumes "outside T fs fs1" and "absent fs T"
  shows "grows fs (remove_leftover T fs1)"
  unfolding grows_def
proof (intro conjI allI impI)
  show "fs_resolve (remove_leftover T fs1) = fs_resolve fs"
    using assms(1) by (simp add: outside_def remove_leftover_def rmtree_def)
next
  fix q s assume q: "fs_file fs q = Some s"
  then have "\<not> is_relative_to q T" using assms(2) by (auto simp: absent_def exists_path_def is_file_def)
  then show "fs_file (remove_leftover T fs1) q = Some s"
    using q assms(1) by (auto simp: outside_def remove_leftover_def rmtree_def)
next
  fix q assume q: "fs_dir fs q"
  then have "\<not> is_relative_to q T" using assms(2) by (auto simp: absent_def exists_path_def)
  then show "fs_dir (remove_leftover T fs1) q"
    using q assms(1) by (auto simp: outside_def remove_leftover_def rmtree_def)
qed

lemma outside_rename:
  assumes "outside T fs fs1" and "absent fs D" and "rename_dir T D fs1 = (fs2, Inr u)"
  shows "\<forall>q. \<not> is_relative_to q T \<and> exists_path fs q \<longrightarrow> fs_file fs2 q = fs_file fs q \<and> (fs_dir fs q \<longrightarrow> fs_dir fs2 q)"
    and "fs_resolve fs2 = fs_resolve fs" and "fs_dir fs2 D"
proof -
  have n: "\<not> (\<not> fs_dir fs1 T \<or> exists_path fs1 D \<or> \<not> fs_dir fs1 (parent D))"
  proof
    assume c: "\<not> fs_dir fs1 T \<or> exists_path fs1 D \<or> \<not> fs_dir fs1 (parent D)"
    have "rename_dir T D fs1 = (fs1, Inl (Exn OSError (path_str D)))" using c by (simp only: rename_dir_def if_True)
    then show False using assms(3) by simp
  qed
  then have c: "fs_dir fs1 T" by blast
  have "rename_dir T D fs1 =
        (fs1\<lparr>fs_file := (\<lambda>q. if is_relative_to q D then fs_file fs1 (joinp T (relative_to q D))
                                else if is_relative_to q T then None else fs_file fs1 q),
            fs_dir := (\<lambda>q. if is_relative_to q D then fs_dir fs1 (joinp T (relative_to q D))
                                else if is_relative_to q T then False else fs_dir fs1 q)\<rparr>, Inr ())"
    using n by (simp only: rename_dir_def if_False)
  then have e: "fs2 = fs1\<lparr>fs_file := (\<lambda>q. if is_relative_to q D then fs_file fs1 (joinp T (relative_to q D))
                                else if is_relative_to q T then None else fs_file fs1 q),
            fs_dir := (\<lambda>q. if is_relative_to q D then fs_dir fs1 (joinp T (relative_to q D))
                                else if is_relative_to q T then False else fs_dir fs1 q)\<rparr>"
    using assms(3) by (simp only: prod.inject)
  show "\<forall>q. \<not> is_relative_to q T \<and> exists_path fs q \<longrightarrow> fs_file fs2 q = fs_file fs q \<and> (fs_dir fs q \<longrightarrow> fs_dir fs2 q)"
    using assms(1,2) by (auto simp: e outside_def absent_def)
  show "fs_resolve fs2 = fs_resolve fs" using assms(1) by (simp add: e outside_def)
  have "joinp T (relative_to D D) = T" by (cases T) (simp add: joinp_def relative_to_def)
  then show "fs_dir fs2 D" using c by (simp add: e)
qed

definition plain_names :: "val \<Rightarrow> bool" where
  "plain_names manifests = list_all (\<lambda>(k, x). plain k) (items manifests)"

text \<open>The filling of a generation up to the switch, and the switch.\<close>

lemma fill_generation_run:
  assumes "fill_generation stamp T D binding manifests raw fs = (fs2, r)" and "plain_names manifests"
  shows "outside T fs fs2 \<and> (\<exists>e. r = Inl e) \<or> (\<exists>fs1. outside T fs fs1 \<and> rename_dir T D fs1 = (fs2, r))"
proof -
  let ?pre = "st_bnd (mkdir T) (\<lambda>_.
     st_bnd (write_json stamp (sub_path T ''binding.json'') binding) (\<lambda>_.
     st_bnd (st_each (\<lambda>(filename, value).
               (case raw filename of None \<Rightarrow> write_json stamp (sub_path T filename) value
                | Some source \<Rightarrow> copy_exact source (sub_path T filename))) (items manifests)) (\<lambda>_.
     st_read (\<lambda>fs. validate_generation fs T (Some binding) (Some manifests)))))"
  have pre: "keeps (outside T) ?pre"
  proof (intro outside.keeps_rules outside_mkdir outside_write_json)
    show "plain ''binding.json''" by (simp add: plain_def slash_def)
    fix e assume e: "e \<in> set (items manifests)"
    then have "plain (fst e)" using assms(2) by (auto simp: plain_names_def list_all_iff)
    then show "keeps (outside T) (case e of (filename, value) \<Rightarrow>
        (case raw filename of None \<Rightarrow> write_json stamp (sub_path T filename) value
         | Some source \<Rightarrow> copy_exact source (sub_path T filename)))"
      using outside_write_json outside_copy_exact by (auto split: option.split prod.split)
  qed
  have f: "fill_generation stamp T D binding manifests raw = st_bnd ?pre (\<lambda>_. rename_dir T D)"
    by (simp add: fill_generation_def st_bnd_assoc)
  obtain fs1 x where x: "?pre fs = (fs1, x)" by (rule prod.exhaust)
  have o: "outside T fs fs1" by (rule keepsD [OF pre x])
  show ?thesis
  proof (cases x)
    case (Inl e)
    have "st_bnd ?pre (\<lambda>_. rename_dir T D) fs = (fs1, Inl e)" by (rule st_bnd_Inl) (simp only: x Inl)
    then show ?thesis using o assms(1) unfolding f by simp
  next
    case (Inr u)
    have "st_bnd ?pre (\<lambda>_. rename_dir T D) fs = rename_dir T D fs1" by (rule st_bnd_Inr) (simp only: x Inr)
    then show ?thesis using o assms(1) unfolding f by auto
  qed
qed

lemma fill_grows:
  assumes "fill_generation stamp T D binding manifests raw fs = (fs2, r)" and "plain_names manifests"
    and "absent fs T" and "absent fs D"
  shows "grows fs (remove_leftover T fs2)"
  using fill_generation_run [OF assms(1,2)]
proof
  assume "outside T fs fs2 \<and> (\<exists>e. r = Inl e)"
  then show ?thesis using outside_leftover assms(3) by blast
next
  assume "\<exists>fs1. outside T fs fs1 \<and> rename_dir T D fs1 = (fs2, r)"
  then obtain fs1 where o: "outside T fs fs1" and rn: "rename_dir T D fs1 = (fs2, r)" by blast
  show ?thesis
  proof (cases r)
    case (Inl e)
    then have "fs2 = fs1" using rn by (auto simp: rename_dir_def split: if_splits)
    then show ?thesis using outside_leftover [OF o assms(3)] by simp
  next
    case (Inr u)
    note rr = outside_rename [OF o assms(4) rn [unfolded Inr]]
    have nT: "\<not> is_relative_to q T" if "exists_path fs q" for q using that assms(3) by (auto simp: absent_def)
    then show ?thesis using rr(1,2)
      by (auto simp: grows_def remove_leftover_def rmtree_def exists_path_def is_file_def)
  qed
qed

section \<open>Staging\<close>

abbreviation temporary_dir :: "path \<Rightarrow> string \<Rightarrow> path" where
  "temporary_dir out stamp \<equiv> generation_dir out (''.tmp-'' @ stamp)"

definition pointer_temporary :: "path \<Rightarrow> string \<Rightarrow> path" where
  "pointer_temporary out stamp = joinp out (Path False [''.active.json.'' @ stamp @ ''.tmp''])"

text \<open>The process id and the clock make the temporary names new.\<close>

definition fresh_stamp :: "filesystem \<Rightarrow> path \<Rightarrow> string \<Rightarrow> bool" where
  "fresh_stamp fs out stamp = (slash \<notin> set stamp \<and> \<not> exists_path fs (temporary_dir out stamp) \<and>
     \<not> exists_path fs (pointer_temporary out stamp))"

lemma plain_tmp: "slash \<notin> set stamp \<Longrightarrow> plain (''.tmp-'' @ stamp)"
  by (simp add: plain_def slash_def)

lemma generation_name_hex: "set (generation_name b m) \<subseteq> set hex_digits"
  using is_hex_canonical_sha256 [of "VDict [(''binding'', b), (''manifests'', m)]"] set_take_subset
  unfolding generation_name_def is_hex_def by fast

lemma plain_generation: "plain (generation_name b m)"
proof -
  obtain c d e where h: "canonical_sha256 (VDict [(''binding'', b), (''manifests'', m)]) = c # d # e"
    and s: "set (c # d # e) \<subseteq> set hex_digits"
    using is_hex_canonical_sha256 [of "VDict [(''binding'', b), (''manifests'', m)]"]
    by (auto simp: is_hex_def length_Suc_conv numeral_eq_Suc)
  have "slash \<notin> set hex_digits" by (simp add: slash_def hex_digits_def)
  then have "slash \<notin> set (take 24 (c # d # e))" using s set_take_subset [of 24 "c # d # e"] by blast
  then show ?thesis unfolding generation_name_def h plain_def by (simp add: numeral_eq_Suc)
qed

lemma generation_dir_plain: "plain g \<Longrightarrow> generation_dir out g = Path (is_absolute out) (parts out @ [''generations'', g])"
proof -
  have "plain ''generations''" by (simp add: plain_def slash_def)
  then show "plain g \<Longrightarrow> ?thesis" by (simp add: generation_dir_def sub_path_plain)
qed

lemma mkdir_p_grows: "keeps grows (mkdir_p p)"
  by (rule keepsI) (auto simp: mkdir_p_def grows_def split: if_splits)

lemma mkdir_p_files: "mkdir_p p fs = (fs1, r) \<Longrightarrow> fs_file fs1 = fs_file fs"
  by (auto simp: mkdir_p_def split: if_splits)

lemma mkdir_p_absent:
  assumes "mkdir_p p fs = (fs1, r)" and "absent fs D" and "length (parts p) < length (parts D)"
  shows "absent fs1 D"
proof -
  have "\<not> is_relative_to q D" if "q \<in> set (prefixes_of p)" for q
  proof -
    have "length (parts q) < length (parts D)" using that assms(3) by (auto simp: prefixes_of_def)
    then show ?thesis by (auto simp: is_relative_to_def dest: arg_cong [of _ _ length])
  qed
  then show ?thesis using assms(1,2) by (auto simp: mkdir_p_def absent_def exists_path_def is_file_def split: if_splits)
qed

lemma generation_not_temporary:
  assumes "slash \<notin> set stamp"
  shows "\<not> is_relative_to (generation_dir out (generation_name b m)) (temporary_dir out stamp)"
proof
  assume "is_relative_to (generation_dir out (generation_name b m)) (temporary_dir out stamp)"
  then have "generation_name b m = ''.tmp-'' @ stamp"
    unfolding generation_dir_plain [OF plain_generation] generation_dir_plain [OF plain_tmp [OF assms]] is_relative_to_def by simp
  then have "CHR ''.'' \<in> set (generation_name b m)" by simp
  then show False using generation_name_hex by (auto simp: hex_digits_def)
qed

text \<open>A binding that loads lies in a directory.\<close>

lemma loaded_in_dir:
  assumes "tree fs" and "fs_file fs1 = fs_file fs" and "validate_generation fs1 D (Some b) (Some m) = Inr ()"
  shows "fs_dir fs D"
proof -
  have "plain ''binding.json''" by (simp add: plain_def slash_def)
  then have p: "parent (sub_path D ''binding.json'') = D" "parts (sub_path D ''binding.json'') \<noteq> []"
    by (cases D; simp add: sub_path_plain parent_def)+
  obtain v where "binding_load_json fs1 (sub_path D ''binding.json'') = Inr v" using assms(3) by (auto simp: validate_generation_def bnd_eq_Inr)
  then have "is_file fs1 (sub_path D ''binding.json'')" by (auto simp: binding_load_json_def bnd_eq_Inr read_json_eq is_file_iff)
  then have "exists_path fs (sub_path D ''binding.json'')" using assms(2) by (simp add: exists_path_def is_file_def)
  then show ?thesis using assms(1) p unfolding tree_def by metis
qed

text \<open>The directory of the generations is made, and the generation filled unless it is there.\<close>

abbreviation fill_missing :: "string \<Rightarrow> path \<Rightarrow> val \<Rightarrow> val \<Rightarrow> (string \<Rightarrow> path option) \<Rightarrow> unit io" where
  "fill_missing stamp out binding manifests raw fs \<equiv>
     (if exists_path fs (generation_dir out (generation_name binding manifests)) then (fs, Inr ())
      else io_finally (fill_generation stamp (temporary_dir out stamp) (generation_dir out (generation_name binding manifests)) binding manifests raw)
             (remove_leftover (temporary_dir out stamp)) fs)"

lemma generations_made:
  assumes "mkdir_p (sub_path out ''generations'') fs = (fs1, x)" and "tree fs" and "fresh_stamp fs out stamp"
  shows "grows fs fs1" and "absent fs1 (temporary_dir out stamp)"
    and "\<not> exists_path fs1 (generation_dir out (generation_name b m)) \<Longrightarrow> absent fs1 (generation_dir out (generation_name b m))"
proof -
  have st: "slash \<notin> set stamp" using assms(3) by (simp add: fresh_stamp_def)
  have len: "length (parts (sub_path out ''generations'')) < length (parts (generation_dir out (generation_name b m)))"
    "length (parts (sub_path out ''generations'')) < length (parts (temporary_dir out stamp))"
    using plain_generation plain_tmp [OF st] sub_path_plain [of "''generations''" out]
    by (simp_all add: generation_dir_plain) (simp_all add: plain_def slash_def)
  show g: "grows fs fs1" by (rule keepsD [OF mkdir_p_grows assms(1)])
  have "\<not> exists_path fs (temporary_dir out stamp)" using assms(3) by (simp add: fresh_stamp_def)
  then show "absent fs1 (temporary_dir out stamp)" using mkdir_p_absent [OF assms(1) absentI [OF assms(2)] len(2)] by blast
  assume "\<not> exists_path fs1 (generation_dir out (generation_name b m))"
  then have "\<not> exists_path fs (generation_dir out (generation_name b m))" using g grows_exists by blast
  then show "absent fs1 (generation_dir out (generation_name b m))" using mkdir_p_absent [OF assms(1) absentI [OF assms(2)] len(1)] by blast
qed

lemma fill_missing_run:
  assumes f: "fill_missing stamp out binding manifests raw fs1 = (fs2, y)" and m: "mkdir_p (sub_path out ''generations'') fs = (fs1, x)"
    and t: "tree fs" and s: "fresh_stamp fs out stamp" and n: "plain_names manifests"
  shows "grows fs fs2 \<and> (y = Inr () \<longrightarrow> fs_dir fs2 (generation_dir out (generation_name binding manifests)) \<or> fs2 = fs1)"
proof (cases "exists_path fs1 (generation_dir out (generation_name binding manifests))")
  case True
  then show ?thesis using f generations_made(1) [OF m t s] by simp
next
  case False
  let ?D = "generation_dir out (generation_name binding manifests)" and ?T = "temporary_dir out stamp"
  note made = generations_made [OF m t s]
  obtain fs3 where fl: "fill_generation stamp ?T ?D binding manifests raw fs1 = (fs3, y)" and fs2: "fs2 = remove_leftover ?T fs3"
    using f False by (auto simp: io_finally_def split: prod.splits)
  have "grows fs1 fs2" unfolding fs2 by (rule fill_grows [OF fl n made(2) made(3) [OF False]])
  then have g: "grows fs fs2" using made(1) grows.R_trans by blast
  have "fs_dir fs2 ?D" if yi: "y = Inr ()"
  proof -
    obtain fs4 where o: "outside ?T fs1 fs4" and rn: "rename_dir ?T ?D fs4 = (fs3, Inr ())"
      using fill_generation_run [OF fl n] yi by blast
    have "fs_dir fs3 ?D" by (rule outside_rename(3) [OF o made(3) [OF False] rn])
    moreover have "\<not> is_relative_to ?D ?T" using s by (intro generation_not_temporary) (simp add: fresh_stamp_def)
    ultimately show ?thesis by (simp add: fs2 remove_leftover_def rmtree_def)
  qed
  then show ?thesis using g by simp
qed

lemma stage_generation_cases:
  assumes "stage_generation stamp out binding manifests raw fs = (fs', r)"
  obtains (unmade) e where "mkdir_p (sub_path out ''generations'') fs = (fs', Inl e)" and "r = Inl e"
  | (unfilled) fs1 e where "mkdir_p (sub_path out ''generations'') fs = (fs1, Inr ())"
      and "fill_missing stamp out binding manifests raw fs1 = (fs', Inl e)" and "r = Inl e"
  | (checked) fs1 where "mkdir_p (sub_path out ''generations'') fs = (fs1, Inr ())"
      and "fill_missing stamp out binding manifests raw fs1 = (fs', Inr ())"
      and "r = bnd (validate_generation fs' (generation_dir out (generation_name binding manifests)) (Some binding) (Some manifests))
            (\<lambda>_. Inr (generation_name binding manifests))"
proof -
  obtain fs1 x where m: "mkdir_p (sub_path out ''generations'') fs = (fs1, x)" by (rule prod.exhaust)
  obtain fs2 y where f: "fill_missing stamp out binding manifests raw fs1 = (fs2, y)" by (rule prod.exhaust)
  have run: "(fs', r) = (case x of Inl e \<Rightarrow> (fs1, Inl e) | Inr _ \<Rightarrow> case y of Inl e \<Rightarrow> (fs2, Inl e) | Inr _ \<Rightarrow>
      (fs2, bnd (validate_generation fs2 (generation_dir out (generation_name binding manifests)) (Some binding) (Some manifests))
            (\<lambda>_. Inr (generation_name binding manifests))))"
    unfolding assms [symmetric] stage_generation_def Let_def st_bnd_def st_read_def m prod.case f by (simp split: sum.split)
  show thesis
    using run m f unmade unfilled checked by (cases x; cases y) auto
qed

lemma stage_generation_run:
  assumes "stage_generation stamp out binding manifests raw fs = (fs', r)" and "tree fs" and "fresh_stamp fs out stamp"
    and "plain_names manifests"
  shows "grows fs fs' \<and> (\<forall>g. r = Inr g \<longrightarrow> g = generation_name binding manifests \<and>
    validate_generation fs' (generation_dir out g) (Some binding) (Some manifests) = Inr () \<and> fs_dir fs' (generation_dir out g))"
  using assms(1)
proof (cases rule: stage_generation_cases)
  case (unmade e)
  then show ?thesis using generations_made(1) [OF unmade(1) assms(2,3)] by simp
next
  case (unfilled fs1 e)
  then show ?thesis using fill_missing_run [OF unfilled(2,1) assms(2-4)] by simp
next
  case (checked fs1)
  note f = fill_missing_run [OF checked(2,1) assms(2-4)]
  let ?D = "generation_dir out (generation_name binding manifests)"
  have "fs_dir fs' ?D" if v: "validate_generation fs' ?D (Some binding) (Some manifests) = Inr ()"
  proof (cases "fs' = fs1")
    case True
    have "fs_dir fs ?D" by (rule loaded_in_dir [OF assms(2) _ v]) (simp add: True mkdir_p_files [OF checked(1)])
    then show ?thesis using f by (auto simp: grows_def)
  qed (use f in auto)
  then show ?thesis using f checked(3) by (auto simp: bnd_eq_Inr)
qed

section \<open>Reading a generation\<close>

text \<open>What reading below a directory depends on.\<close>

definition covers :: "path \<Rightarrow> filesystem \<Rightarrow> filesystem \<Rightarrow> bool" where
  "covers D fs fs' = (\<forall>q s. is_relative_to q D \<longrightarrow> fs_file fs q = Some s \<longrightarrow> fs_file fs' q = Some s)"

lemma grows_covers: "grows fs fs' \<Longrightarrow> covers D fs fs'"
  by (auto simp: grows_def covers_def)

lemma covers_load:
  "covers D fs fs' \<Longrightarrow> plain n \<Longrightarrow> binding_load_json fs (sub_path D n) = Inr v \<Longrightarrow> binding_load_json fs' (sub_path D n) = Inr v"
  using sub_path_relative [of n D] by (auto simp: covers_def binding_load_json_def bnd_eq_Inr chk_eq_Inr read_json_eq)

lemma covers_sha:
  "covers D fs fs' \<Longrightarrow> plain n \<Longrightarrow> file_sha256 fs (sub_path D n) = Inr v \<Longrightarrow> file_sha256 fs' (sub_path D n) = Inr v"
  using sub_path_relative [of n D] by (auto simp: covers_def file_sha256_eq)

lemma covers_is_file: "covers D fs fs' \<Longrightarrow> plain n \<Longrightarrow> is_file fs (sub_path D n) \<Longrightarrow> is_file fs' (sub_path D n)"
  using sub_path_relative [of n D] by (auto simp: covers_def is_file_iff)

lemma generation_file_plain:
  "s \<in> set (map fst SCOPE_COMPONENTS) \<Longrightarrow> (k, f) \<in> set GENERATION_KINDS \<Longrightarrow> plain (s @ ''-'' @ k @ ''.json'')"
  by (auto simp: SCOPE_COMPONENTS_def GENERATION_KINDS_def plain_def slash_def)

lemma covers_generation_file:
  assumes c: "covers D fs fs'" and s: "s \<in> set (map fst SCOPE_COMPONENTS)" and k: "kf \<in> set GENERATION_KINDS"
    and v: "validate_generation_file fs D expected s identity kf = Inr u"
  shows "validate_generation_file fs' D expected s identity kf = Inr u"
proof -
  obtain kind field where kf: "kf = (kind, field)" by (rule prod.exhaust)
  have p: "plain (s @ ''-'' @ kind @ ''.json'')" using generation_file_plain [OF s] k kf by blast
  show ?thesis
    using v covers_load [OF c p] covers_sha [OF c p] covers_is_file [OF c p]
    unfolding validate_generation_file_def kf prod.case Let_def chk_eq_Inr bnd_eq_Inr
    by (cases "kind = ''tools''"; cases expected) (auto simp: bnd_eq_Inr chk_eq_Inr reraise_eq_Inr)
qed

lemma covers_generation:
  assumes c: "covers D fs fs'" and v: "validate_generation fs D expected_binding expected_manifests = Inr u"
  shows "validate_generation fs' D expected_binding expected_manifests = Inr u"
proof -
  obtain b where b: "binding_load_json fs (sub_path D ''binding.json'') = Inr b" and ok: "binding_ok b"
    and e: "case expected_binding of None \<Rightarrow> True | Some x \<Rightarrow> py_eq b x"
    and fs: "\<forall>si \<in> set (items (fld b ''scopes'')). \<forall>kf \<in> set GENERATION_KINDS.
      validate_generation_file fs D expected_manifests (fst si) (snd si) kf = Inr ()"
    using v by (auto simp: validate_generation_def bnd_eq_Inr chk_eq_Inr each_eq_Inr split_def)
  have "\<forall>si \<in> set (items (fld b ''scopes'')). fst si \<in> set (map fst SCOPE_COMPONENTS)"
    using binding_scopes(2) [OF ok] by (auto simp: keys_def)
  then have "\<forall>si \<in> set (items (fld b ''scopes'')). \<forall>kf \<in> set GENERATION_KINDS.
      validate_generation_file fs' D expected_manifests (fst si) (snd si) kf = Inr ()"
    using fs covers_generation_file [OF c] by blast
  moreover have "binding_load_json fs' (sub_path D ''binding.json'') = Inr b"
    by (rule covers_load [OF c _ b]) (simp add: plain_def slash_def)
  ultimately show ?thesis using ok e v by (simp add: validate_generation_def bnd_eq_Inr chk_eq_Inr each_eq_Inr split_def)
qed

lemma grows_active_dir:
  assumes g: "grows fs fs'" and a: "active_generation_dir fs dir = Inr d0"
  shows "active_generation_dir fs' dir = Inr d0"
proof -
  have p: "plain ''active.json''" "plain ''binding.json''" by (simp_all add: plain_def slash_def)
  note c = grows_covers [OF g]
  have r: "fs_resolve fs' = fs_resolve fs" "\<And>q. fs_dir fs q \<Longrightarrow> fs_dir fs' q" using g by (auto simp: grows_def)
  obtain x h where f: "is_file fs (sub_path dir ''active.json'')" and l: "binding_load_json fs (sub_path dir ''active.json'') = Inr x"
    and x: "fld x ''schema'' = VStr ACTIVE_SCHEMA"
    and n: "py_str (fldd x ''generation'' (VStr [])) \<noteq> []"
      "pname (path_of (py_str (fldd x ''generation'' (VStr [])))) = py_str (fldd x ''generation'' (VStr []))"
    and d0: "d0 = fs_resolve fs (generation_dir dir (py_str (fldd x ''generation'' (VStr []))))"
    and d: "is_relative_to d0 (fs_resolve fs dir)" "fs_dir fs d0"
    and h: "file_sha256 fs (sub_path d0 ''binding.json'') = Inr h" "py_eq (VStr h) (fld x ''binding_sha256'')"
    and v: "validate_generation fs d0 None None = Inr ()"
    using a unfolding active_generation_dir_def Let_def chk_eq_Inr bnd_eq_Inr by auto
  note new = covers_is_file [OF c p(1) f] covers_load [OF c p(1) l] covers_sha [OF c p(2) h(1)] covers_generation [OF c v] r(2) [OF d(2)]
  show ?thesis
    unfolding active_generation_dir_def Let_def r(1)
    using new x n d h(2) by (simp add: chk_eq_Inr bnd_eq_Inr flip: d0)
qed

lemma grows_load_active:
  assumes g: "grows fs fs'" and d: "fs_dir fs (fs_resolve fs p)" and l: "load_active_binding fs p = Inr b"
  shows "load_active_binding fs' p = Inr b"
proof -
  have r: "fs_resolve fs' = fs_resolve fs" "fs_dir fs' (fs_resolve fs p)" using g d by (auto simp: grows_def)
  have "plain ''binding.json''" by (simp add: plain_def slash_def)
  then show ?thesis
    using l d r grows_active_dir [OF g] covers_load [OF grows_covers [OF g]]
    unfolding load_active_binding_def Let_def by (auto simp: bnd_eq_Inr)
qed

lemma loads_serialized: "json_ok v \<Longrightarrow> json_loads (serialized_json v) = Inr v"
  using json_loads_render [OF layouts_ok(1) _ blank_newline, where n = 0] by (simp add: serialized_json_def dumps_indent_render)

section \<open>Switching the pointer\<close>

lemma pointer_paths:
  "sub_path out ''active.json'' = Path (is_absolute out) (parts out @ [''active.json''])"
  "joinp (parent (sub_path out ''active.json'')) (Path False [''.'' @ pname (sub_path out ''active.json'') @ ''.'' @ stamp @ ''.tmp'']) =
     pointer_temporary out stamp"
proof -
  have "plain ''active.json''" by (simp add: plain_def slash_def)
  then show a: "sub_path out ''active.json'' = Path (is_absolute out) (parts out @ [''active.json''])" by (simp add: sub_path_plain)
  show "joinp (parent (sub_path out ''active.json'')) (Path False [''.'' @ pname (sub_path out ''active.json'') @ ''.'' @ stamp @ ''.tmp'']) =
     pointer_temporary out stamp"
    unfolding a by (cases out) (simp add: joinp_def parent_def pname_def pointer_temporary_def)
qed

lemma write_pointer:
  assumes "write_json stamp (sub_path out ''active.json'') v fs = (fs', r)"
  shows "fs_resolve fs' = fs_resolve fs" and "\<And>q. fs_dir fs q \<Longrightarrow> fs_dir fs' q"
    and "\<And>q. q \<noteq> pointer_temporary out stamp \<Longrightarrow> q \<noteq> sub_path out ''active.json'' \<Longrightarrow> fs_file fs' q = fs_file fs q"
    and "r = Inl e \<Longrightarrow> q \<noteq> pointer_temporary out stamp \<Longrightarrow> fs_file fs' q = fs_file fs q"
    and "r = Inr () \<Longrightarrow> fs_file fs' (sub_path out ''active.json'') = Some (serialized_json v) \<and> fs_dir fs' out"
proof -
  have out: "out \<in> set (prefixes_of (parent (sub_path out ''active.json'')))"
    unfolding pointer_paths by (cases out) (simp add: prefixes_of_def parent_def)
  note w = assms [unfolded write_json_def pointer_paths(2) Let_def]
  show "fs_resolve fs' = fs_resolve fs" "\<And>q. fs_dir fs q \<Longrightarrow> fs_dir fs' q"
    "\<And>q. q \<noteq> pointer_temporary out stamp \<Longrightarrow> q \<noteq> sub_path out ''active.json'' \<Longrightarrow> fs_file fs' q = fs_file fs q"
    "r = Inl e \<Longrightarrow> q \<noteq> pointer_temporary out stamp \<Longrightarrow> fs_file fs' q = fs_file fs q"
    using w by (auto simp: st_bnd_def mkdir_p_def write_file_def write_text_def os_replace_def replace_file_def split: if_splits)
  show "r = Inr () \<Longrightarrow> fs_file fs' (sub_path out ''active.json'') = Some (serialized_json v) \<and> fs_dir fs' out"
    using w out by (auto simp: st_bnd_def mkdir_p_def write_file_def write_text_def os_replace_def replace_file_def split: if_splits)
qed

section \<open>Activations\<close>

lemma activated_valid:
  assumes "activate_generation stamp out binding manifests raw fs = (fs', Inr ())"
    and "tree fs" and "fresh_stamp fs out stamp" and "plain_names manifests"
  shows "\<exists>b. binding_ok b \<and> py_eq b binding"
proof -
  obtain fs1 g where "stage_generation stamp out binding manifests raw fs = (fs1, Inr g)"
    using assms(1) by (auto simp: activate_generation_def st_bnd_def split: prod.splits sum.splits)
  from stage_generation_run [OF this assms(2-4)] show ?thesis by (auto simp: validate_generation_def bnd_eq_Inr chk_eq_Inr)
qed

lemma activate_run:
  assumes "activate_generation stamp out binding manifests raw fs = (fs', r)"
  obtains (staging) e where "stage_generation stamp out binding manifests raw fs = (fs', Inl e)" and "r = Inl e"
  | (publishing) g fs1 where "stage_generation stamp out binding manifests raw fs = (fs1, Inr g)"
      and "publish_generation stamp out g fs1 = (fs', r)"
  using assms by (auto simp: activate_generation_def st_bnd_def split: prod.splits sum.splits)

lemma publish_run:
  assumes "publish_generation stamp out g fs = (fs', r)"
  obtains (refused) "fs' = fs" and "\<exists>e. r = Inl e"
  | (switching) h where "validate_generation fs (generation_dir out g) None None = Inr ()"
      and "file_sha256 fs (sub_path (generation_dir out g) ''binding.json'') = Inr h"
      and "write_json stamp (sub_path out ''active.json'') (active_pointer g h) fs = (fs', r)"
proof -
  let ?v = "validate_generation fs (generation_dir out g) None None"
  let ?h = "file_sha256 fs (sub_path (generation_dir out g) ''binding.json'')"
  have run: "(fs', r) = (case ?v of Inl e \<Rightarrow> (fs, Inl e) | Inr u \<Rightarrow> case ?h of Inl e \<Rightarrow> (fs, Inl e)
     | Inr h \<Rightarrow> write_json stamp (sub_path out ''active.json'') (active_pointer g h) fs)"
    unfolding assms [symmetric] publish_generation_def Let_def st_bnd_def st_read_def by (simp split: sum.split)
  show thesis
  proof (cases ?v)
    case (Inl e)
    then show thesis using run refused by simp
  next
    case v: (Inr u)
    show thesis
    proof (cases ?h)
      case (Inl e)
      then show thesis using run v refused by simp
    next
      case (Inr h)
      then show thesis using run v by (intro switching) simp_all
    qed
  qed
qed

lemma pointer_not_below:
  assumes "plain g"
  shows "\<not> is_relative_to (pointer_temporary out stamp) (generation_dir out g)"
    and "\<not> is_relative_to (sub_path out ''active.json'') (generation_dir out g)"
  using assms by (cases out; simp add: generation_dir_plain pointer_temporary_def pointer_paths joinp_def is_relative_to_def)+

lemma activate_covers:
  assumes "activate_generation stamp out binding manifests raw fs = (fs', r)" and "tree fs" and "fresh_stamp fs out stamp"
    and "plain_names manifests" and "plain g"
  shows "covers (generation_dir out g) fs fs'"
  using assms(1)
proof (cases rule: activate_run)
  case (staging e)
  then show ?thesis using stage_generation_run [OF _ assms(2-4)] grows_covers by blast
next
  case (publishing g' fs1)
  have c: "covers (generation_dir out g) fs fs1" using stage_generation_run [OF publishing(1) assms(2-4)] grows_covers by blast
  from publishing(2) show ?thesis
  proof (cases rule: publish_run)
    case (switching h)
    have "fs_file fs' q = fs_file fs1 q" if "is_relative_to q (generation_dir out g)" for q
      by (rule write_pointer(3) [OF switching(3)]) (use pointer_not_below [OF assms(5)] that in blast)+
    then show ?thesis using c by (simp add: covers_def)
  qed (use c in simp)
qed

lemma failed_activation_grows:
  assumes "activate_generation stamp out binding manifests raw fs = (fs', Inl e)" and "tree fs" and "fresh_stamp fs out stamp"
    and "plain_names manifests"
  shows "grows fs fs'"
  using assms(1)
proof (cases rule: activate_run)
  case (staging e)
  then show ?thesis using stage_generation_run [OF _ assms(2-4)] by blast
next
  case (publishing g fs1)
  have g: "grows fs fs1" using stage_generation_run [OF publishing(1) assms(2-4)] by blast
  from publishing(2) show ?thesis
  proof (cases rule: publish_run)
    case (switching h)
    have "\<not> exists_path fs (pointer_temporary out stamp)" using assms(3) by (simp add: fresh_stamp_def)
    then have "q \<noteq> pointer_temporary out stamp" if "fs_file fs q = Some s" for q s
      using that by (auto simp: exists_path_def is_file_def)
    then show ?thesis using g write_pointer(1,2,4) [OF switching(3)] unfolding grows_def by metis
  qed (use g in simp)
qed

lemma active_pointer_fields [simp]:
  "fld (active_pointer g h) ''schema'' = VStr ACTIVE_SCHEMA" "fldd (active_pointer g h) ''generation'' d = VStr g"
  "fld (active_pointer g h) ''binding_sha256'' = VStr h" "is_dict (active_pointer g h)"
  by (simp_all add: active_pointer_def)

lemma switched_pointer:
  assumes "write_json stamp (sub_path out ''active.json'') (active_pointer g h) fs = (fs', Inr ())"
  shows "binding_load_json fs' (sub_path out ''active.json'') = Inr (active_pointer g h)"
proof -
  have "fs_file fs' (sub_path out ''active.json'') = Some (serialized_json (active_pointer g h))" using write_pointer(5) [OF assms] by simp
  moreover have "json_loads (serialized_json (active_pointer g h)) = Inr (active_pointer g h)"
    by (rule loads_serialized) (simp add: active_pointer_def)
  ultimately have "read_json fs' (sub_path out ''active.json'') = Inr (active_pointer g h)" by (auto simp: read_json_eq)
  then show ?thesis by (simp add: binding_load_json_def)
qed


lemma activation_makes_active:
  assumes run: "activate_generation stamp out binding manifests raw fs = (fs', Inr ())" and "tree fs" and "fresh_stamp fs out stamp"
    and "plain_names manifests"
    and resolved: "fs_resolve fs out = out" "fs_resolve fs (generation_dir out (generation_name binding manifests)) =
      generation_dir out (generation_name binding manifests)"
  shows "\<exists>b. load_active_binding fs' out = Inr b \<and> py_eq b binding"
  using run
proof (cases rule: activate_run)
  case (publishing g fs1)
  let ?D = "generation_dir out g"
  have g: "g = generation_name binding manifests" and v: "validate_generation fs1 ?D (Some binding) (Some manifests) = Inr ()"
    and dir: "fs_dir fs1 ?D" and r1: "fs_resolve fs1 = fs_resolve fs"
    using stage_generation_run [OF publishing(1) assms(2-4)] by (auto simp: grows_def)
  have pg: "plain g" by (simp add: g plain_generation)
  have pb: "plain ''binding.json''" by (simp add: plain_def slash_def)
  obtain b where b: "binding_load_json fs1 (sub_path ?D ''binding.json'') = Inr b" and eq: "py_eq b binding"
    using v by (auto simp: validate_generation_def bnd_eq_Inr chk_eq_Inr)
  from publishing(2) show ?thesis
  proof (cases rule: publish_run)
    case (switching h)
    have c: "covers ?D fs1 fs'"
      using write_pointer(3) [OF switching(3)] pointer_not_below [OF pg] unfolding covers_def by metis
    have r: "fs_resolve fs' = fs_resolve fs" and d: "fs_dir fs' ?D" "fs_dir fs' out"
      using write_pointer(1,2,5) [OF switching(3)] r1 dir by auto
    have "file_sha256 fs' (sub_path ?D ''binding.json'') = Inr h" by (rule covers_sha [OF c pb switching(2)])
    moreover have "validate_generation fs' ?D None None = Inr ()" by (rule covers_generation [OF c switching(1)])
    moreover have "is_file fs' (sub_path out ''active.json'')" using write_pointer(5) [OF switching(3)] by (simp add: is_file_def)
    moreover have "is_relative_to ?D out" by (simp add: generation_dir_plain [OF pg] is_relative_to_def)
    moreover have "g \<noteq> [] \<and> pname (path_of g) = g" using pg path_of_plain [OF pg] by (simp add: pname_def plain_def)
    ultimately have "active_generation_dir fs' out = Inr ?D"
      using switched_pointer [OF switching(3)] d resolved r
      by (simp add: active_generation_dir_def Let_def flip: g)
    then show ?thesis using covers_load [OF c pb b] eq r d(2) resolved(1) by (simp add: load_active_binding_def)
  qed simp
qed simp

end
