(* ===== verification/Contract.thy ===== *)
theory Contract
  imports Py_Text
begin

text \<open>
  \<open>contract.py\<close>: the machine contract of the suite. \<open>validate_contract\<close> accepts one contract shape
  only: the budgets, scopes, question counts and prohibitions are fixed in code; \<open>validate_report\<close>
  checks a report against the fields the contract requires of it.
\<close>

abbreviation ValErr :: "string \<Rightarrow> exn" where
  "ValErr m \<equiv> Exn ValueError m"

definition CONTRACT_SCHEMA :: string where
  "CONTRACT_SCHEMA = ''ownward.acceptance-suite-contract/v1''"

definition LAYER_NAMES :: "string list" where
  "LAYER_NAMES = [''core'', ''product'', ''community'']"

definition MODE_NAMES :: "string list" where
  "MODE_NAMES = [''targeted'', ''core'', ''frontier'', ''qualification'', ''full'', ''longmemeval'', ''summarize'',
     ''self-check'']"

definition ensure_mapping :: "val \<Rightarrow> string \<Rightarrow> val res" where
  "ensure_mapping v name = chk (is_dict v) (ValErr (name @ '' must be an object'')) (Inr v)"

definition mapping_of :: "val \<Rightarrow> string \<Rightarrow> val res" where
  "mapping_of v name = bnd (vget v name) (\<lambda>x. ensure_mapping x name)"

lemma mapping_of_eq [exn_elims]: "mapping_of v k = Inr x \<longleftrightarrow> is_dict v \<and> is_dict x \<and> x = fld v k"
  by (auto simp: mapping_of_def ensure_mapping_def exn_elims)

section \<open>The parts of \<open>validate_contract\<close>\<close>

definition validate_loop :: "val \<Rightarrow> unit res" where
  "validate_loop loop =
     checks [(py_eq (fld loop ''dimensions'') (VList (strs [''quality'', ''latency'', ''resources''])),
              ValErr ''the loop must judge quality, latency and resources separately''),
             (fld loop ''allow_compensating_score'' = VBool False, ValErr ''no compensating score'')]
     (bnd (mapping_of loop ''modes'') (\<lambda>modes.
      bnd (mapping_of modes ''targeted'') (\<lambda>targeted.
      chk (py_eq (fld targeted ''max_wall_seconds'') (VInt 180)) (ValErr ''targeted budget must be three minutes'')
      (bnd (mapping_of modes ''full'') (\<lambda>full.
      chk (py_eq (fld full ''max_wall_seconds'') (VInt 600)) (ValErr ''full budget must be ten minutes'')
      (bnd (mapping_of loop ''promotion'') (\<lambda>promotion.
      chk (list_all (\<lambda>n. is_true (fld promotion n)) [''requires_no_protected_regression'',
             ''requires_predeclared_material_improvement'', ''requires_product_qualification''])
          (ValErr ''incomplete promotion conditions'')
      (bnd (mapping_of loop ''external_frontier'') (\<lambda>frontier.
      checks [(is_true (fld frontier ''requires_same_inputs_protocol_environment''),
               ValErr ''external frontier must be reproduced alike''),
              (fld frontier ''allow_estimated_conversion'' = VBool False, ValErr ''no estimated conversion'')]
        (Inr ()))))))))))"

definition QUALITY_ASSESSMENT :: val where
  "QUALITY_ASSESSMENT = VDict [(''status'', VStr ''not_determined''),
     (''basis'', VStr ''no-equivalent-production-profile-reference''),
     (''first_version_condition_satisfied'', VNone)]"

definition COMMUNITY_INTELLIGENCE :: val where
  "COMMUNITY_INTELLIGENCE = VDict [(''contract'', VStr ''ownward.external-intelligence/v1''),
     (''roles'', VList (strs [''semantic'', ''reader'', ''judge''])),
     (''identity_source'', VStr ''frozen-execution-binding'')]"

definition EXPECTED_WALL :: val where
  "EXPECTED_WALL = VDict [(''calibration_status'', VStr ''cost-proof-passed-community-preflight-pending''),
     (''projected'', VFloat (round_double (1233962081875 / 100000000))),
     (''required_ceiling'', VFloat (round_double (196358501625 / 10000000))),
     (''target_ceiling'', VInt 20400), (''max'', VInt 20400), (''formal_ready'', VBool False)]"

definition COMMUNITY_CONCURRENCY :: val where
  "COMMUNITY_CONCURRENCY = VDict [(''question_workers'', VInt 4), (''external_intelligence_max_active'', VInt 8),
     (''semantic_batch_size'', VInt 20), (''semantic_analysis_max_works'', VInt 20),
     (''transport'', VStr ''selected-implementation'')]"

definition COST_CALIBRATION :: val where
  "COST_CALIBRATION = VDict [(''questions'', VInt 4), (''semantic_batches_per_question'', VInt 3),
     (''official_dry_plan_questions'', VInt 500), (''selected_max_active'', VInt 8),
     (''selection_rule'', VStr ''lowest-stable-required-ceiling-at-most-20400''),
     (''measurement_status'', VStr ''selected-runtime-community-preflight-required''),
     (''maximum_retry_ratio'', VFloat (round_double (1 / 10))), (''requires_zero_rate_limits'', VBool True),
     (''normal_variation_reserve_ratio'', VFloat (round_double (2 / 10))),
     (''bounded_retry_reserve_ratio'', VFloat (round_double (1 / 10))),
     (''checkpoint_recovery_reserve_seconds'', VInt 3600)]"

definition QUESTION_TYPES :: "string list" where
  "QUESTION_TYPES = [''single-session-user'', ''single-session-assistant'', ''single-session-preference'',
     ''multi-session'', ''temporal-reasoning'', ''knowledge-update'']"

definition PROFILE :: string where "PROFILE = ''Ownward LongMemEval-S Production Profile''"

definition validate_community_contract :: "val \<Rightarrow> unit res" where
  "validate_community_contract community =
     checks [(fld community ''version'' = VStr ''longmemeval-s/9e0b455f4ef0e2ab8f2e582289761153549043fc+d6f21ea9'',
              ValErr ''invalid official version''),
             (fld community ''benchmark'' = VStr ''LongMemEval-S cleaned'' \<and> py_eq (fld community ''questions'') (VInt 500),
              ValErr ''invalid data range'')]
     (bnd (py_set (fldd community ''question_types'' (VList []))) (\<lambda>types.
      checks [(set_eq types (strs QUESTION_TYPES), ValErr ''invalid question types''),
              (fld community ''profile'' = VStr PROFILE, ValErr ''invalid production profile''),
              (fld community ''comparison_policy'' = VStr ''equivalent-profile-only'', ValErr ''invalid comparison policy''),
              (\<not> has community ''minimum_accuracy'', ValErr ''no hard accuracy threshold across profiles'')]
      (bnd (mapping_of community ''quality_assessment'') (\<lambda>q.
      chk (py_eq q QUALITY_ASSESSMENT) (ValErr ''invalid quality assessment'')
      (bnd (mapping_of community ''external_intelligence'') (\<lambda>x.
      chk (py_eq x COMMUNITY_INTELLIGENCE) (ValErr ''invalid external intelligence roles'')
      (bnd (mapping_of community ''expected_wall_seconds'') (\<lambda>w.
      chk (py_eq w EXPECTED_WALL) (ValErr ''invalid time boundary'')
      (bnd (mapping_of community ''concurrency'') (\<lambda>c.
      chk (py_eq c COMMUNITY_CONCURRENCY) (ValErr ''invalid concurrency boundary'')
      (bnd (mapping_of community ''cost_calibration'') (\<lambda>c.
      chk (py_eq c COST_CALIBRATION) (ValErr ''invalid cost calibration'') (Inr ())))))))))))))"

definition validate_layers :: "val \<Rightarrow> unit res" where
  "validate_layers layers =
     chk (keyset_is layers LAYER_NAMES) (ValErr ''formal evidence has exactly three layers'')
     (bnd (mapping_of layers ''core'') (\<lambda>core.
      chk (fld core ''external_intelligence'' = VBool False \<and> py_eq (fld core ''max_wall_seconds'') (VInt 300))
          (ValErr ''the core baseline is local and takes at most five minutes'')
      (bnd (py_len (fldd core ''required_invariants'' (VList []))) (\<lambda>n.
      chk (n = 7) (ValErr ''incomplete core invariants'')
      (bnd (mapping_of layers ''product'') (\<lambda>product.
      checks [(py_eq (fld product ''full_scenarios'') (VInt 24) \<and> py_eq (fld product ''full_information'') (VInt 120),
               ValErr ''invalid full product size''),
              (py_eq (fld product ''qualification_scenarios'') (VInt 8) \<and>
               py_eq (fld product ''qualification_scenarios_per_category'') (VInt 2), ValErr ''invalid qualification size'')]
      (bnd (py_len (fldd product ''categories'' (VList []))) (\<lambda>m.
      chk (m = 4 \<and> is_true (fld product ''relation_organization_gain_required'')) (ValErr ''incomplete product coverage'')
      (bnd (mapping_of product ''modes'') (\<lambda>modes.
      bnd (mapping_of modes ''qualification'') (\<lambda>qualification.
      chk (py_eq (fld qualification ''max_wall_seconds'') (VInt 1800)) (ValErr ''qualification budget must be thirty minutes'')
      (bnd (mapping_of modes ''full'') (\<lambda>full.
      chk (py_eq (fld full ''max_wall_seconds'') (VInt 5400)) (ValErr ''full product budget must be ninety minutes'')
      (bnd (mapping_of layers ''community'') validate_community_contract))))))))))))))"

definition validate_execution :: "val \<Rightarrow> unit res" where
  "validate_execution execution =
     bnd (py_set (fldd execution ''modes'' (VList []))) (\<lambda>modes.
     checks [(set_eq modes (strs MODE_NAMES), ValErr ''modes incomplete or with extras''),
             (py_eq (fld execution ''relationship_authorities'')
                (VDict [(''report_execution'', VStr ''report_relationships.py''),
                        (''state_propagation'', VStr ''state_relationships.py'')]), ValErr ''one authority each'')]
     (bnd (py_set (fldd execution ''binding_fields'' (VList []))) (\<lambda>bindings.
     chk (set_eq bindings (strs [''schema'', ''suite_version'', ''product'', ''components'', ''lifecycle'', ''reporting'',
            ''scopes'', ''audit''])) (ValErr ''incomplete binding fields'')
     (bnd (py_set (fldd execution ''binding_scopes'' (VList []))) (\<lambda>scopes.
     checks [(set_eq scopes (strs [''frontier'', ''core'', ''product'', ''community'']), ValErr ''incomplete binding scopes''),
             (is_true (fld execution ''artifact_manifest_required''), ValErr ''reports must bind their raw evidence'')]
     (bnd (mapping_of execution ''self_check'') (\<lambda>self_check.
     chk (\<not> list_ex truthy (vvalues self_check)) (ValErr ''the self check must not produce formal results'')
       (Inr ()))))))))"

definition validate_report_contract :: "string list \<Rightarrow> string \<times> val \<Rightarrow> string list res" where
  "validate_report_contract schemas entry =
     (case entry of (name, report0) \<Rightarrow>
     bnd (ensure_mapping report0 (''reports.'' @ name)) (\<lambda>report.
     let schema = fld report ''schema''; required = fld report ''required'' in
     chk (is_str schema \<and> truthy schema \<and> str_val schema \<notin> set schemas) (ValErr (''report '' @ name @ '' schema invalid or repeated''))
     (bnd (if is_list required
           then bnd (py_set required) (\<lambda>s. bnd (py_len required) (\<lambda>n.
                  Inr (n = length s \<and> vmem (VStr ''schema'') s \<and> vmem (VStr ''suite_version'') s)))
           else Inr False) (\<lambda>ok.
     chk ok (ValErr (''report '' @ name @ '' required fields invalid'')) (Inr (str_val schema # schemas))))))"

definition validate_contract :: "val \<Rightarrow> unit res" where
  "validate_contract value =
     bnd (vget value ''schema'') (\<lambda>schema.
     checks [(schema = VStr CONTRACT_SCHEMA, ValErr ''invalid contract schema''),
             (fld value ''suite_version'' = VStr ''1.0.0'', ValErr ''the suite version is fixed to 1.0.0'')]
     (bnd (mapping_of value ''optimization_loop'') (\<lambda>loop.
      bnd (validate_loop loop) (\<lambda>_.
      bnd (mapping_of value ''evidence_layers'') (\<lambda>layers.
      bnd (validate_layers layers) (\<lambda>_.
      bnd (mapping_of value ''execution'') (\<lambda>execution.
      bnd (validate_execution execution) (\<lambda>_.
      bnd (mapping_of value ''reports'') (\<lambda>reports.
      chk (keyset_is reports [''frontier'', ''core'', ''product'', ''community'', ''suite'']) (ValErr ''incomplete report contracts'')
      (bnd (foldm validate_report_contract [] (items reports)) (\<lambda>_.
      bnd (py_in ''dynamic_post_freeze_generation'' (fldd value ''forbidden'' (VList []))) (\<lambda>b1.
      chk b1 (ValErr ''post-freeze generation must be forbidden'')
      (bnd (py_in ''test_only_product_path'' (fldd value ''forbidden'' (VList []))) (\<lambda>b2.
      chk b2 (ValErr ''test-only product paths must be forbidden'') (Inr ())))))))))))))))"

section \<open>\<open>validate_report\<close>\<close>

definition validate_report :: "val \<Rightarrow> string \<Rightarrow> val \<Rightarrow> unit res" where
  "validate_report contract report_name report =
     bnd (mapping_of contract ''reports'') (\<lambda>reports.
     bnd (mapping_of reports report_name) (\<lambda>report_contract.
     bnd (vget report ''schema'') (\<lambda>schema.
     checks [(py_eq schema (fld report_contract ''schema''), ValErr (report_name @ '' invalid report schema'')),
             (py_eq (fld report ''suite_version'') (fld contract ''suite_version''), ValErr (report_name @ '' invalid suite version''))]
     (bnd (py_iter (fldd report_contract ''required'' (VList []))) (\<lambda>required.
     chk (list_all hashable required) (Exn TypeError ''unhashable type'')
     (let missing = filter (\<lambda>name. \<not> (is_str name \<and> has report (str_val name))) required in
     chk (missing = [])
         (if list_all is_str missing then ValErr (report_name @ '' missing fields: '' @ join '', '' (map py_str missing))
          else Exn TypeError ''join'') (Inr ())))))))"

section \<open>What an accepted contract and report fix\<close>

lemma validate_report_iff:
  "validate_report contract name report = Inr () \<longleftrightarrow>
     is_dict contract \<and> is_dict (fld contract ''reports'') \<and> is_dict (fld (fld contract ''reports'') name) \<and>
     is_dict report \<and> py_eq (fld report ''schema'') (fld (fld (fld contract ''reports'') name) ''schema'') \<and>
     py_eq (fld report ''suite_version'') (fld contract ''suite_version'') \<and>
     (\<exists>rs. py_iter (fldd (fld (fld contract ''reports'') name) ''required'' (VList [])) = Inr rs \<and>
        list_all (\<lambda>r. is_str r \<and> has report (str_val r)) rs)"
  unfolding validate_report_def Let_def
  by (auto simp: exn_elims filter_empty_conv list_all_iff)

text \<open>The wall-clock budgets a validated contract can carry.\<close>

lemma validate_contract_parts:
  assumes "validate_contract value = Inr ()"
  shows "is_dict value" and "validate_loop (fld value ''optimization_loop'') = Inr ()"
    and "validate_layers (fld value ''evidence_layers'') = Inr ()"
    and "validate_execution (fld value ''execution'') = Inr ()"
  using assms unfolding validate_contract_def bnd_eq_Inr checks_eq_Inr chk_eq_Inr mapping_of_eq vgetd_eq_Inr
  by auto

lemma validate_layers_parts:
  assumes "validate_layers layers = Inr ()"
  shows "is_dict layers" and "set (keys layers) = set LAYER_NAMES"
    and "py_eq (fld (fld layers ''core'') ''max_wall_seconds'') (VInt 300)"
    and "py_eq (fld (fld (fld (fld layers ''product'') ''modes'') ''qualification'') ''max_wall_seconds'') (VInt 1800)"
    and "py_eq (fld (fld (fld (fld layers ''product'') ''modes'') ''full'') ''max_wall_seconds'') (VInt 5400)"
    and "validate_community_contract (fld layers ''community'') = Inr ()"
  using assms unfolding validate_layers_def bnd_eq_Inr checks_eq_Inr chk_eq_Inr mapping_of_eq keyset_is_def
  by blast+

lemma validate_loop_parts:
  assumes "validate_loop loop = Inr ()"
  shows "py_eq (fld (fld (fld loop ''modes'') ''targeted'') ''max_wall_seconds'') (VInt 180)"
    and "py_eq (fld (fld (fld loop ''modes'') ''full'') ''max_wall_seconds'') (VInt 600)"
    and "is_dict loop" and "is_dict (fld loop ''modes'')"
    and "is_dict (fld (fld loop ''modes'') ''targeted'')" and "is_dict (fld (fld loop ''modes'') ''full'')"
  using assms unfolding validate_loop_def bnd_eq_Inr checks_eq_Inr chk_eq_Inr mapping_of_eq
  by blast+

end
