(* ===== verification/Evidence.thy ===== *)
theory Evidence
  imports Contract Evidence_Identity
begin

text \<open>
  \<open>evidence.py\<close>: the manifest of raw evidence files attached to a report and its verification, the
  validators of the three formal layers (core, product, community), the adapter contract and the core
  report.
\<close>

abbreviation EvErr :: "string \<Rightarrow> exn" where
  "EvErr m \<equiv> Exn EvidenceError m"

definition ARTIFACT_SCHEMA :: string where "ARTIFACT_SCHEMA = ''ownward.acceptance-artifacts/v1''"

definition SENSITIVE_ARTIFACT_NAMES :: "string list" where
  "SENSITIVE_ARTIFACT_NAMES = [''auth.json'', ''credentials.json'', ''.env'']"

definition evidence_mapping :: "val \<Rightarrow> string \<Rightarrow> val res" where
  "evidence_mapping v name = bnd (vget v name) (\<lambda>x. chk (is_dict x) (EvErr (name @ '' must be an object'')) (Inr x))"

text \<open>\<open>_is_sha256\<close> of a text.\<close>

definition is_sha256_text :: "string \<Rightarrow> bool" where
  "is_sha256_text s = (py_len_str s = 64 \<and> list_all (\<lambda>c. c \<in> set hex_digits) s)"

section \<open>Raw evidence\<close>

definition artifact_base :: "filesystem \<Rightarrow> path \<Rightarrow> path" where
  "artifact_base fs report_path = parent (parent (fs_resolve fs report_path))"

definition artifact_entry :: "string \<Rightarrow> string \<Rightarrow> val" where
  "artifact_entry relative content =
     VDict [(''path'', VStr relative), (''sha256'', VStr (sha256_hex content)), (''bytes'', VInt (int (length content)))]"

text \<open>The inner loop of \<open>attach_artifacts\<close>: entries so far, in order of attachment.\<close>

definition attach_file :: "filesystem \<Rightarrow> path \<Rightarrow> (string \<times> val) list \<Rightarrow> path \<Rightarrow> (string \<times> val) list res" where
  "attach_file fs base files p =
     chk (\<not> fs_symlink fs p \<and> is_relative_to (fs_resolve fs p) base)
         (EvErr (''raw evidence leaves the workspace or is a link: '' @ path_str p))
     (chk (py_lower (pname p) \<notin> set SENSITIVE_ARTIFACT_NAMES) (EvErr (''raw evidence holds credentials: '' @ pname p))
     (let relative = path_str (relative_to p base) in
      if relative \<in> set (map fst files) then Inr files
      else bnd (read_bytes fs p) (\<lambda>content. Inr (files @ [(relative, artifact_entry relative content)]))))"

definition path_key :: "path \<Rightarrow> string list" where
  "path_key p = parts p"

definition attach_source :: "filesystem \<Rightarrow> path \<Rightarrow> (string \<times> val) list \<Rightarrow> path \<Rightarrow> (string \<times> val) list res" where
  "attach_source fs base files source0 =
     (let source = fs_resolve fs source0 in
     chk (is_relative_to source base) (EvErr (''raw evidence outside the workspace: '' @ path_str source))
     (let candidates = (if is_file fs source then [source]
                        else sort_key path_key (filter (is_file fs) (fs_rglob fs source))) in
     chk (candidates \<noteq> []) (EvErr (''raw evidence is empty: '' @ path_str source))
     (foldm (attach_file fs base) files candidates)))"

definition artifact_manifest :: "val list \<Rightarrow> val" where
  "artifact_manifest files =
     VDict [(''schema'', VStr ARTIFACT_SCHEMA), (''base'', VStr ''..''), (''files'', VList files),
            (''manifest_sha256'', VStr (canonical_sha256 (VList files)))]"

definition attach_artifacts :: "filesystem \<Rightarrow> val \<Rightarrow> path \<Rightarrow> path list \<Rightarrow> val res" where
  "attach_artifacts fs report report_path paths =
     (let base = artifact_base fs report_path in
      bnd (foldm (attach_source fs base) [] paths) (\<lambda>files.
      chk (files \<noteq> []) (EvErr ''the report has no raw evidence'')
      (Inr (vset ''artifacts'' (artifact_manifest (map snd (sort_key fst files))) report))))"

definition validate_artifact :: "filesystem \<Rightarrow> path \<Rightarrow> string list \<Rightarrow> val \<Rightarrow> string list res" where
  "validate_artifact fs base seen item =
     chk (is_dict item) (EvErr ''invalid raw evidence entry'')
     (let relative = py_str (fldd item ''path'' (VStr [])); relative_path = path_of relative in
     checks [(relative \<noteq> [] \<and> \<not> is_absolute relative_path \<and> ''..'' \<notin> set (parts relative_path),
              EvErr ''invalid raw evidence path''),
             (py_lower (pname relative_path) \<notin> set SENSITIVE_ARTIFACT_NAMES, EvErr ''raw evidence manifest holds credentials''),
             (relative \<notin> set seen, EvErr ''raw evidence path repeated'')]
     (let p = fs_resolve fs (joinp base relative_path) in
      chk (is_relative_to p base \<and> is_file fs p \<and> \<not> fs_symlink fs p) (EvErr (''raw evidence missing: '' @ relative))
      (bnd (read_bytes fs p) (\<lambda>content.
      checks [(py_eq (fld item ''bytes'') (VInt (int (length content))), EvErr (''raw evidence size changed: '' @ relative)),
              (fld item ''sha256'' = VStr (sha256_hex content), EvErr (''raw evidence content changed: '' @ relative))]
        (Inr (relative # seen))))))"

definition validate_report_artifacts :: "filesystem \<Rightarrow> path \<Rightarrow> val \<Rightarrow> string res" where
  "validate_report_artifacts fs report_path report =
     bnd (vget report ''artifacts'') (\<lambda>manifest.
     chk (is_dict manifest) (EvErr ''the report has no raw evidence manifest'')
     (let files = fld manifest ''files'' in
     checks [(fld manifest ''schema'' = VStr ARTIFACT_SCHEMA, EvErr ''invalid raw evidence schema''),
             (fld manifest ''base'' = VStr ''..'', EvErr ''invalid raw evidence base''),
             (is_list files \<and> truthy files, EvErr ''the raw evidence manifest is empty''),
             (fld manifest ''manifest_sha256'' = VStr (canonical_sha256 files), EvErr ''raw evidence manifest digest invalid'')]
     (bnd (py_iter files) (\<lambda>xs.
      bnd (foldm (validate_artifact fs (artifact_base fs report_path)) [] xs) (\<lambda>_.
      Inr (py_str (fld manifest ''manifest_sha256'')))))))"

section \<open>Layer reports\<close>

definition validate_core :: "val \<Rightarrow> val \<Rightarrow> unit res" where
  "validate_core contract report =
     bnd (vpath contract [''evidence_layers'', ''core'', ''required_invariants'']) (\<lambda>required.
     bnd (vget report ''invariants'') (\<lambda>invariants.
     bnd (if is_dict invariants then bnd (py_set required) (\<lambda>r. Inr (set_eq (strs (keys invariants)) r)) else Inr False) (\<lambda>ok.
     checks [(ok, EvErr ''invalid core invariant set''),
             (list_all is_bool (vvalues invariants), EvErr ''invalid core invariant verdicts''),
             (fld report ''passed'' = VBool (list_all truthy (vvalues invariants)), EvErr ''core verdict differs from its invariants'')]
       (Inr ()))))"

definition sum_scenarios :: "val list \<Rightarrow> int res" where
  "sum_scenarios values =
     foldm (\<lambda>n v. bnd (vgetd v ''scenarios'' (VInt 0)) (\<lambda>s. bnd (py_int s) (\<lambda>i. Inr (n + i)))) 0 values"

definition validate_track :: "val \<Rightarrow> string \<Rightarrow> bool res" where
  "validate_track report name =
     (let track = fld report name in
      chk (is_dict track \<and> is_bool (fld track ''passed'')) (EvErr (''product report '' @ name @ '' track invalid''))
      (Inr (is_true (fld track ''passed''))))"

definition validate_product :: "val \<Rightarrow> val \<Rightarrow> unit res" where
  "validate_product contract report =
     bnd (vpath contract [''evidence_layers'', ''product'']) (\<lambda>definition.
     bnd (vget report ''dataset_version'') (\<lambda>version.
     bnd (vsub definition ''version'') (\<lambda>expected_version.
     chk (py_eq version expected_version) (EvErr ''invalid product data version'')
     (let mode = fld report ''mode'' in
     bnd (in_set mode [''qualification'', ''full'']) (\<lambda>mode_ok.
     chk mode_ok (EvErr ''invalid product mode'')
     (let categories = fld report ''categories'' in
     bnd (if is_dict categories
          then bnd (vsub definition ''categories'') (\<lambda>cs. bnd (py_set cs) (\<lambda>r. Inr (set_eq (strs (keys categories)) r)))
          else Inr False) (\<lambda>ok.
     chk ok (EvErr ''invalid product categories'')
     (bnd (vsub definition (str_val mode @ ''_scenarios'')) (\<lambda>expected_scenarios.
      bnd (sum_scenarios (vvalues categories)) (\<lambda>n.
     chk (py_eq (VInt n) expected_scenarios) (EvErr ''invalid product scenario count'')
     (let gain = fld report ''organization_gain'' in
     checks [(list_all (\<lambda>v. is_bool (fld v ''passed'')) (vvalues categories), EvErr ''invalid category verdict''),
             (is_dict gain \<and> is_bool (fld gain ''passed''), EvErr ''invalid organisation gain verdict'')]
     (bnd (mapm (validate_track report) [''quality'', ''latency'', ''resources'']) (\<lambda>tracks.
     chk (fld report ''passed'' =
            VBool (list_all (\<lambda>v. is_true (fld v ''passed'')) (vvalues categories) \<and> is_true (fld gain ''passed'') \<and> list_all id tracks))
         (EvErr ''product verdict differs from its tracks'') (Inr ()))))))))))))))"

definition nonempty_str :: "val \<Rightarrow> bool" where
  "nonempty_str v = (is_str v \<and> truthy v)"

definition positive_num :: "val \<Rightarrow> bool" where
  "positive_num v = (case num_of v of Some x \<Rightarrow> fl_less (Fin 0) x | None \<Rightarrow> False)"

definition unit_num :: "val \<Rightarrow> bool" where
  "unit_num v = (case num_of v of Some x \<Rightarrow> fl_le (Fin 0) x \<and> fl_le x (Fin 1) | None \<Rightarrow> False)"

text \<open>\<open>a is b\<close> for the singletons that \<open>json.loads\<close> yields; the contract fixes \<open>b\<close> to \<open>None\<close>.\<close>

definition same_singleton :: "val \<Rightarrow> val \<Rightarrow> bool" where
  "same_singleton a b = ((b = VNone \<or> is_bool b) \<and> a = b)"

definition validate_community :: "val \<Rightarrow> val \<Rightarrow> unit res" where
  "validate_community contract report =
     bnd (vpath contract [''evidence_layers'', ''community'']) (\<lambda>definition.
     bnd (vget report ''official_version'') (\<lambda>official.
     bnd (vsub definition ''version'') (\<lambda>version.
     chk (py_eq official version) (EvErr ''invalid official version'')
     (bnd (vsub definition ''profile'') (\<lambda>profile.
     chk (py_eq (fld report ''profile'') profile) (EvErr ''invalid production profile'')
     (let capabilities = fld report ''capabilities'' in
     bnd (if is_dict capabilities
          then bnd (vpath definition [''external_intelligence'', ''roles'']) (\<lambda>rs. bnd (py_set rs) (\<lambda>r. Inr (set_eq (strs (keys capabilities)) r)))
          else Inr False) (\<lambda>roles_ok.
     chk roles_ok (EvErr ''incomplete external intelligence roles'')
     (bnd (each (\<lambda>(name, c). chk (is_dict c \<and> nonempty_str (fld c ''source'') \<and> nonempty_str (fld c ''model'') \<and>
                                 nonempty_str (fld c ''reasoning_effort''))
                                (EvErr (''invalid external intelligence role: '' @ name)) (Inr ())) (items capabilities)) (\<lambda>_.
     let benchmark = fld report ''benchmark''; quality = fld report ''quality''; execution = fld report ''execution'';
         retrieval = fld report ''retrieval''; cost = fld report ''cost''; diagnostics = fld report ''diagnostics'';
         submission = fld report ''submission''; completion = fld report ''completion'' in
     bnd (vsub definition ''questions'') (\<lambda>questions.
     chk (is_dict benchmark \<and> py_eq (fld benchmark ''questions'') questions \<and> is_true (fld benchmark ''complete''))
         (EvErr ''incomplete benchmark range'')
     (bnd (py_set (fldd benchmark ''question_types'' (VList []))) (\<lambda>types.
      bnd (vsub definition ''question_types'') (\<lambda>qt. bnd (py_set qt) (\<lambda>expected_types.
     checks [(set_eq types expected_types, EvErr ''incomplete question types''),
             (is_dict quality \<and> unit_num (fld quality ''accuracy''), EvErr ''invalid accuracy''),
             (\<not> has quality ''minimum_accuracy'', EvErr ''no hard accuracy threshold'')]
     (bnd (vsub definition ''comparison_policy'') (\<lambda>policy.
     chk (py_eq (fld quality ''comparison_policy'') policy) (EvErr ''invalid comparison policy'')
     (bnd (vsub definition ''quality_assessment'') (\<lambda>assessment.
     chk (fld quality ''hard_accuracy_threshold'' = VNone \<and> is_true (fld quality ''score_complete''))
         (EvErr ''no threshold across profiles'')
     (bnd (vsub assessment ''status'') (\<lambda>status. bnd (vsub assessment ''basis'') (\<lambda>basis.
      bnd (vsub assessment ''first_version_condition_satisfied'') (\<lambda>first_version.
     checks [(py_eq (fld quality ''assessment_status'') status \<and> py_eq (fld quality ''assessment_basis'') basis \<and>
              same_singleton (fld quality ''first_version_condition_satisfied'') first_version \<and> fld quality ''passed'' = VNone,
              EvErr ''community quality must not be claimed passed''),
             (is_dict execution \<and> is_true (fld execution ''complete'') \<and> is_true (fld execution ''protocol_valid'') \<and>
              is_true (fld execution ''evidence_complete'') \<and> is_true (fld execution ''passed''),
              EvErr ''formal execution or evidence incomplete''),
             (is_dict retrieval \<and> list_all (\<lambda>n. positive_num (fld retrieval n)) [''mean_ms'', ''p95_ms'', ''max_ms''],
              EvErr ''invalid retrieval latency''),
             (is_dict cost \<and> is_true (fld cost ''within_budget'') \<and> is_num (fld cost ''wall_seconds''),
              EvErr ''invalid cost boundary''),
             (is_dict diagnostics \<and> py_eq (fld diagnostics ''questions'') questions \<and> is_true (fld diagnostics ''complete''),
              EvErr ''incomplete diagnostics''),
             (is_true (fld diagnostics ''post_answer_only'') \<and>
              is_true (fld diagnostics ''excluded_from_product_execution_and_scoring''), EvErr ''diagnostics cross the scoring boundary''),
             (is_dict submission, EvErr ''no frozen submission''),
             (list_all (\<lambda>f. is_sha256_text (py_str (fldd submission f (VStr []))))
                [''package_sha256'', ''official_evaluation_sha256'', ''hypotheses_sha256'', ''diagnostics_sha256'',
                 ''diagnostic_summary_sha256'', ''checkpoint_manifest_sha256''], EvErr ''invalid submission digests''),
             (is_dict completion \<and> fld completion ''status'' = VStr ''completed'' \<and>
              fld completion ''reason'' = VStr ''official-benchmark-evidence-complete'', EvErr ''invalid completion state''),
             (is_true (fld report ''passed''), EvErr ''complete community evidence forms a passed checkpoint'')]
       (Inr ())))))))))))))))))))))))"

definition validate_layer_report :: "val \<Rightarrow> string \<Rightarrow> val \<Rightarrow> dict \<Rightarrow> unit res" where
  "validate_layer_report contract layer report expected_binding =
     chk (layer \<in> {''core'', ''product'', ''community''}) (EvErr (''unknown evidence layer: '' @ layer))
     (bnd (validate_report contract layer report) (\<lambda>_.
      bnd (if expected_binding \<noteq> [] then
             each (\<lambda>field. chk (py_eq (fld report field) (fld (VDict expected_binding) field))
                             (EvErr (layer @ '' report '' @ field @ '' differs from the candidate'')) (Inr ()))
               [''candidate'', ''binary_sha256'']
           else Inr ()) (\<lambda>_.
      checks [(is_sha256_text (py_str (fldd report ''binary_sha256'' (VStr []))), EvErr (layer @ '' report binary digest invalid'')),
              (is_dict (fld report ''environment'') \<and> truthy (fld report ''environment''), EvErr (layer @ '' report lacks environment'')),
              (is_dict (fld report ''inputs'') \<and> truthy (fld report ''inputs''), EvErr (layer @ '' report lacks inputs''))]
      (if layer = ''core'' then validate_core contract report
       else if layer = ''product'' then validate_product contract report
       else validate_community contract report))))"

definition build_core_report :: "val \<Rightarrow> val \<Rightarrow> dict \<Rightarrow> string \<Rightarrow> string \<Rightarrow> val res" where
  "build_core_report contract binding invariants started_at finished_at =
     bnd (vpath contract [''evidence_layers'', ''core'', ''output_schema'']) (\<lambda>schema.
     bnd (vsub contract ''suite_version'') (\<lambda>suite_version.
     bnd (vsub binding ''candidate'') (\<lambda>candidate. bnd (vsub binding ''binary_sha256'') (\<lambda>binary.
     bnd (vsub binding ''environment'') (\<lambda>environment. bnd (vsub binding ''inputs'') (\<lambda>inputs.
     let report = VDict [(''schema'', schema), (''suite_version'', suite_version), (''candidate'', candidate),
           (''binary_sha256'', binary), (''environment'', environment), (''inputs'', inputs),
           (''invariants'', VDict invariants), (''passed'', VBool (list_all truthy (map snd invariants))),
           (''started_at'', VStr started_at), (''finished_at'', VStr finished_at)] in
     bnd (validate_layer_report contract ''core'' report []) (\<lambda>_. Inr report)))))))"

section \<open>Adapters\<close>

definition validate_adapters :: "filesystem \<Rightarrow> path \<Rightarrow> val \<Rightarrow> val \<Rightarrow> val res" where
  "validate_adapters fs suite_root contract adapters =
     checks [(fld adapters ''schema'' = VStr ''ownward.acceptance-adapters/v1'', EvErr ''invalid adapter schema''),
             (py_eq (fld adapters ''suite_version'') (fld contract ''suite_version''), EvErr ''invalid adapter suite version'')]
     (bnd (evidence_mapping adapters ''product_interface'') (\<lambda>interface.
     checks [(py_eq (fld interface ''allowed'') (VList (strs [''ownward_cli'', ''ownward_mcp''])), EvErr ''only the public interfaces''),
             (fld interface ''test_only_product_path'' = VBool False, EvErr ''no test-only path'')]
     (bnd (evidence_mapping adapters ''optimization_loop'') (\<lambda>loop.
      bnd (vpath contract [''optimization_loop'', ''benchmark_version'']) (\<lambda>benchmark_version.
     checks [(py_eq (fld loop ''version'') benchmark_version, EvErr ''invalid observer version''),
             (fld loop ''output_schema'' = VStr ''ownward.core-frontier-observation/v1'', EvErr ''invalid observer output''),
             (fld loop ''external_intelligence'' = VBool False, EvErr ''the observer must not call external intelligence''),
             (is_file fs (fs_resolve fs (joinp suite_root (path_of (py_str (fld loop ''implementation''))))), EvErr ''observer missing'')]
     (bnd (evidence_mapping adapters ''layers'') (\<lambda>layers.
      bnd (vsub contract ''evidence_layers'') (\<lambda>contract_layers.
     chk (set (keys layers) = set (keys contract_layers)) (EvErr ''adapters must cover exactly the three layers'')
     (bnd (each (\<lambda>(name, definition).
             bnd (evidence_mapping layers name) (\<lambda>adapter.
             bnd (vget definition ''version'') (\<lambda>v.
             checks [(py_eq (fld adapter ''version'') v, EvErr (name @ '' adapter version invalid'')),
                     (py_eq (fld adapter ''report_schema'') (fld definition ''output_schema''), EvErr (name @ '' report contract invalid''))]
               (Inr ())))) (items contract_layers)) (\<lambda>_.
      bnd (vsub layers ''core'') (\<lambda>core. bnd (vsub layers ''product'') (\<lambda>product.
      bnd (each (\<lambda>relative. chk (is_str relative \<and> is_file fs (joinp suite_root (path_of (str_val relative))))
                               (EvErr (''adapter implementation missing: '' @ py_str relative)) (Inr ()))
             [fld core ''implementation'', fld product ''implementation'', fld product ''scorer'', fld product ''resource_adapter'']) (\<lambda>_.
      bnd (evidence_mapping layers ''community'') (\<lambda>community.
     checks [(fld community ''official_revision'' = VStr ''9e0b455f4ef0e2ab8f2e582289761153549043fc'', EvErr ''official revision not fixed''),
             (fld community ''data_revision'' = VStr ''98d7416c24c778c2fee6e6f3006e7a073259d48f'', EvErr ''data revision not fixed''),
             (fld community ''data_sha256'' = VStr ''d6f21ea9d60a0d56f34a05b609c79c88a451d2ae03597821ea3d5a9678c3a442'', EvErr ''data digest not fixed''),
             (py_eq (fld community ''questions'') (VInt 500), EvErr ''invalid question count''),
             (fld community ''external_intelligence_contract'' = VStr ''ownward.external-intelligence/v1'', EvErr ''invalid intelligence contract''),
             (py_eq (fld community ''capability_roles'') (VList (strs [''semantic'', ''reader'', ''judge''])), EvErr ''incomplete roles'')]
     (let adapter_path = fs_resolve fs (joinp suite_root (path_of (py_str (fld community ''adapter''))));
          protocol_path = fs_resolve fs (joinp suite_root (path_of (py_str (fld community ''protocol'')))) in
     chk (is_file fs adapter_path \<and> is_file fs protocol_path) (EvErr ''adapter or protocol missing'')
     (bnd (read_bytes fs adapter_path) (\<lambda>source.
     chk (infix_of (''OFFICIAL_CODE_REVISION = '' @ [quote2] @ py_str (fld community ''official_revision'') @ [quote2]) source)
         (EvErr ''the adapter does not bind the official revision'') (Inr adapters))))))))))))))))))"

end
