(* ===== verification/Report_Semantics.thy ===== *)
theory Report_Semantics
  imports Binding Evidence
begin

text \<open>
  \<open>report_semantics.py\<close>, \<open>summary_reporting.py\<close> and the state validator of \<open>lifecycle.py\<close>: what a checkpoint of a
  mode depends on, when a mode may start, when a report is accepted as the checkpoint of its mode, when a
  checkpoint can be reused, and the summary of the three layers. The state is the JSON object that the suite
  keeps on disk. \<open>repository\<close> is the root of the checkout (\<open>Path(__file__).resolve().parents[3]\<close>) and
  \<open>now\<close> the text of the clock.
\<close>

abbreviation LifeErr :: "string \<Rightarrow> exn" where
  "LifeErr m \<equiv> Exn LifecycleError m"

definition REPORT_KIND :: "(string \<times> string) list" where
  "REPORT_KIND = [(''targeted'', ''frontier''), (''frontier'', ''frontier''), (''core'', ''core''),
     (''qualification'', ''product''), (''full'', ''product''), (''longmemeval'', ''community''), (''summarize'', ''suite'')]"

section \<open>Dependencies and reporting identities\<close>

definition prefixed :: "string \<Rightarrow> dict \<Rightarrow> dict" where
  "prefixed scope dependencies = map (\<lambda>(name, identity). (scope @ ''.'' @ name, identity)) dependencies"

definition dependencies_for_mode :: "val \<Rightarrow> string \<Rightarrow> dict res" where
  "dependencies_for_mode binding mode =
     bnd (vget binding ''schema'') (\<lambda>schema.
     if schema \<noteq> VStr BINDING_SCHEMA then Inr []
     else if mode = ''summarize'' then
       bnd (mapm (\<lambda>scope. bnd (scope_dependencies binding scope) (\<lambda>d. Inr (prefixed scope d)))
              [''core'', ''product'', ''community'']) (\<lambda>ds.
       bnd (reporting_identity binding ''summary'') (\<lambda>summary.
       Inr (AList.update ''summary-generation'' (VStr summary) (dupdate [] (concat ds)))))
     else bnd (binding_scope_for_mode mode) (\<lambda>scope. scope_dependencies binding scope))"

definition verify_current_reporting :: "filesystem \<Rightarrow> path \<Rightarrow> val \<Rightarrow> bool \<Rightarrow> unit res" where
  "verify_current_reporting fs repository binding include_summary =
     bnd (reporting_identities fs repository) (\<lambda>current.
     each (\<lambda>kind.
       bnd (vgetd binding ''reporting'' (VDict [])) (\<lambda>reporting. bnd (vget reporting kind) (\<lambda>bound.
       chk (py_eq bound (fld (VDict current) kind))
           (LifeErr (kind @ '' report semantics changed, rebind first'')) (Inr ()))))
       ([''reception'', ''relationships''] @ (if include_summary then [''summary''] else [])))"

definition max_wall_path :: "string \<Rightarrow> string list option" where
  "max_wall_path mode =
     (if mode = ''targeted'' then Some [''optimization_loop'', ''modes'', ''targeted'', ''max_wall_seconds'']
      else if mode = ''frontier'' then Some [''optimization_loop'', ''modes'', ''full'', ''max_wall_seconds'']
      else if mode = ''core'' then Some [''evidence_layers'', ''core'', ''max_wall_seconds'']
      else if mode \<in> {''qualification'', ''full''} then
        Some [''evidence_layers'', ''product'', ''modes'', mode, ''max_wall_seconds'']
      else if mode = ''longmemeval'' then Some [''evidence_layers'', ''community'', ''expected_wall_seconds'', ''max'']
      else None)"

definition max_wall_seconds :: "val \<Rightarrow> string \<Rightarrow> pyfloat option res" where
  "max_wall_seconds contract mode =
     (case max_wall_path mode of None \<Rightarrow> Inr None
      | Some ks \<Rightarrow> bnd (vpath contract ks) (\<lambda>v. bnd (py_float v) (\<lambda>x. Inr (Some x))))"

section \<open>Accepting a report\<close>

definition SUMMARY_FIELDS :: "(string \<times> string) list" where
  "SUMMARY_FIELDS = [(''core_report_sha256'', ''core''), (''product_report_sha256'', ''full''),
     (''community_report_sha256'', ''longmemeval'')]"

definition validate_summary :: "val \<Rightarrow> val \<Rightarrow> dict \<Rightarrow> unit res" where
  "validate_summary state report active_binding =
     bnd (vget report ''tool_sha256'') (\<lambda>tool.
     chk (py_eq tool (fld (VDict active_binding) ''tool_sha256'')) (LifeErr ''the summary tool binding differs'')
     (bnd (vsub state ''checkpoints'') (\<lambda>checkpoints.
      bnd (each (\<lambda>(field, checkpoint_name).
             bnd (vget checkpoints checkpoint_name) (\<lambda>checkpoint.
             checks [(is_dict checkpoint, LifeErr (''the summary lacks the checkpoint '' @ checkpoint_name)),
                     (py_eq (fld report field) (fld checkpoint ''report_sha256''), LifeErr (field @ '' differs from the checkpoint''))]
               (Inr ()))) SUMMARY_FIELDS) (\<lambda>_.
      let expected = list_all (\<lambda>(_, name). is_true (fld (fld checkpoints name) ''passed'')) SUMMARY_FIELDS in
      chk (fld report ''passed'' = VBool expected) (LifeErr ''the summary verdict differs from the checkpoints'') (Inr ())))))"

definition validate_report_for_mode :: "val \<Rightarrow> val \<Rightarrow> string \<Rightarrow> val \<Rightarrow> unit res" where
  "validate_report_for_mode contract state mode report =
     bnd (vsub state ''binding'') (\<lambda>binding.
     bnd (for_mode binding mode) (\<lambda>active_binding.
     let active = VDict active_binding in
     bnd (case map_of REPORT_KIND mode of None \<Rightarrow> Inl (Exn KeyError mode) | Some kind \<Rightarrow> Inr kind) (\<lambda>kind.
     bnd (if kind \<in> {''core'', ''product'', ''community''} then validate_layer_report contract kind report active_binding
          else bnd (validate_report contract kind report) (\<lambda>_.
               bnd (vget report ''candidate'') (\<lambda>candidate.
               chk (py_eq candidate (fld active ''candidate'')) (LifeErr (mode @ '' report of another candidate'')) (Inr ())))) (\<lambda>_.
     checks [(mode \<in> {''targeted'', ''frontier''} \<longrightarrow>
                fld report ''mode'' = VStr (if mode = ''targeted'' then ''targeted'' else ''full''),
              LifeErr (mode @ '' report mode invalid'')),
             (mode \<in> {''qualification'', ''full''} \<longrightarrow> fld report ''mode'' = VStr mode, LifeErr (mode @ '' report mode invalid''))]
     (bnd (vget (fldd report ''environment'' (VDict [])) ''sha256'') (\<lambda>environment.
     chk (py_eq environment (fld active ''environment_sha256'')) (LifeErr (mode @ '' report of another environment''))
     (bnd (vget (fldd report ''inputs'' (VDict [])) ''sha256'') (\<lambda>inputs.
     chk (py_eq inputs (fld active ''input_manifest_sha256'')) (LifeErr (mode @ '' report of other inputs''))
     (if mode = ''summarize'' then validate_summary state report active_binding else Inr ()))))))))) "

text \<open>The identity of a checkpoint's evidence, as \<open>validate_state\<close>, \<open>checkpoint_report\<close> and \<open>reusable_report\<close>
  check it.\<close>

definition validate_checkpoint_identity :: "val \<Rightarrow> string \<Rightarrow> val \<Rightarrow> unit res" where
  "validate_checkpoint_identity binding mode checkpoint =
     bnd (dependencies_for_mode binding mode) (\<lambda>dependencies.
     validate_evidence_identity (fld checkpoint ''evidence_identity'') mode
       (py_str (fldd checkpoint ''report_sha256'' (VStr []))) dependencies)"

text \<open>\<open>path.is_file() and file_sha256(path) == digest\<close>.\<close>

definition file_digest_is :: "filesystem \<Rightarrow> path \<Rightarrow> val \<Rightarrow> bool" where
  "file_digest_is fs p digest = (case file_sha256 fs p of Inr d \<Rightarrow> py_eq (VStr d) digest | Inl _ \<Rightarrow> False)"

definition checkpoint_of :: "val \<Rightarrow> string \<Rightarrow> val res" where
  "checkpoint_of state mode =
     bnd (vgetd state ''checkpoints'' (VDict [])) (\<lambda>checkpoints. vget checkpoints mode)"

definition checkpoint_report :: "filesystem \<Rightarrow> val \<Rightarrow> val \<Rightarrow> string \<Rightarrow> val res" where
  "checkpoint_report fs contract state mode =
     bnd (checkpoint_of state mode) (\<lambda>checkpoint.
     chk (is_dict checkpoint) (LifeErr (''no checkpoint '' @ mode))
     (let p = path_of (py_str (fldd checkpoint ''report_path'' (VStr []))) in
     chk (is_file fs p) (LifeErr (mode @ '' checkpoint report missing''))
     (bnd (file_sha256 fs p) (\<lambda>digest.
     chk (py_eq (VStr digest) (fld checkpoint ''report_sha256'')) (LifeErr (mode @ '' checkpoint report changed''))
     (bnd (catch (read_json fs p) (\<lambda>e. exn_cls e \<in> {OSError, JSONDecodeError})
             (\<lambda>_. Inl (LifeErr (mode @ '' checkpoint report unreadable'')))) (\<lambda>report.
     chk (is_dict report) (LifeErr (mode @ '' checkpoint report must be an object''))
     (bnd (validate_report_for_mode contract state mode report) (\<lambda>_.
      bnd (validate_report_artifacts fs p report) (\<lambda>manifest.
     chk (py_eq (VStr manifest) (fld checkpoint ''artifact_manifest_sha256'')) (LifeErr (mode @ '' raw evidence differs from the checkpoint''))
     (bnd (if fld state ''schema'' = VStr STATE_SCHEMA then
             bnd (vsub state ''binding'') (\<lambda>binding.
             reraise EvidenceIdentityError LifecycleError (validate_checkpoint_identity binding mode checkpoint))
           else Inr ()) (\<lambda>_. Inr report)))))))))))"

section \<open>The state\<close>

definition BASELINE_FIELDS :: "(string \<times> string) list" where
  "BASELINE_FIELDS = [(''core'', ''core_report_sha256''), (''frontier'', ''frontier_report_sha256''),
     (''qualification'', ''qualification_report_sha256'')]"

definition validate_baseline_checkpoint :: "val \<Rightarrow> val \<Rightarrow> string \<times> string \<Rightarrow> unit res" where
  "validate_baseline_checkpoint checkpoints baseline mf =
     (case mf of (mode, field) \<Rightarrow>
      let checkpoint = fld checkpoints mode in
      chk (is_dict checkpoint \<and> py_eq (fld checkpoint ''report_sha256'') (fld baseline field))
          (LifeErr (''the active baseline '' @ mode @ '' report is not the checkpoint'')) (Inr ()))"

fun validate_history :: "nat \<Rightarrow> val list \<Rightarrow> unit res" where
  "validate_history index [] = Inr ()"
| "validate_history index (value # rest) =
     bnd (catch (validate_baseline_identity value None) (\<lambda>e. exn_cls e = EvidenceIdentityError)
            (\<lambda>e. Inl (LifeErr (''baseline history '' @ dec_nat index @ '': '' @ exn_msg e)))) (\<lambda>_.
     validate_history (Suc index) rest)"

definition validate_state :: "val \<Rightarrow> val \<Rightarrow> unit res" where
  "validate_state contract state =
     bnd (vget state ''schema'') (\<lambda>schema.
     chk (schema = VStr STATE_SCHEMA) (LifeErr ''invalid state schema'')
     (bnd (vsub contract ''suite_version'') (\<lambda>suite_version.
      let binding = fld state ''binding''; checkpoints = fld state ''checkpoints''; baseline = fld state ''baseline'';
          history = fld state ''baseline_history'' in
      chk (py_eq (fld state ''suite_version'') suite_version) (LifeErr ''invalid state suite version'')
     (chk (is_dict binding) (LifeErr ''the state lacks a binding'')
     (bnd (binding_validate_binding binding) (\<lambda>_.
      checks [(is_dict checkpoints, LifeErr ''the state lacks checkpoints''),
              (is_dict (fld state ''invalidated_reports''), LifeErr ''the state lacks invalidated reports''),
              (fld binding ''schema'' = VStr BINDING_SCHEMA, LifeErr ''the state must use a direct dependency binding'')]
     (bnd (each (\<lambda>(mode, checkpoint).
             chk (is_dict checkpoint) (LifeErr (mode @ '' checkpoint invalid''))
             (reraise EvidenceIdentityError LifecycleError (validate_checkpoint_identity binding mode checkpoint)))
             (items checkpoints)) (\<lambda>_.
      bnd (if baseline = VNone then Inr ()
           else bnd (reraise EvidenceIdentityError LifecycleError (validate_baseline_identity baseline (Some binding))) (\<lambda>_.
                each (validate_baseline_checkpoint checkpoints baseline) BASELINE_FIELDS)) (\<lambda>_.
      chk (is_list history) (LifeErr ''the baseline history must be an array'')
     (bnd (py_iter history) (validate_history 0)))))))))))"

section \<open>Starting, recording, reusing and summarising\<close>

definition can_start :: "filesystem \<Rightarrow> path \<Rightarrow> val \<Rightarrow> val \<Rightarrow> string \<Rightarrow> unit res" where
  "can_start fs repository contract state mode =
     bnd (validate_state contract state) (\<lambda>_.
     chk (mode \<in> set (map fst REPORT_KIND) \<or> mode = ''self-check'') (LifeErr (''unknown mode: '' @ mode))
     (bnd (if fld state ''schema'' = VStr STATE_SCHEMA \<and> mode \<noteq> ''self-check'' then
             verify_current_reporting fs repository (fld state ''binding'') (mode = ''summarize'')
           else Inr ()) (\<lambda>_.
      each (\<lambda>prerequisite.
        let checkpoint = fld (fld state ''checkpoints'') prerequisite in
        checks [(is_dict checkpoint, LifeErr (mode @ '' lacks the prerequisite '' @ prerequisite)),
                (is_true (fld checkpoint ''passed''), LifeErr (''prerequisite '' @ prerequisite @ '' has not passed''))]
        (bnd (checkpoint_report fs contract state prerequisite) (\<lambda>_. Inr ())))
        (tbl START_ELIGIBILITY mode))))"

definition PASSED_DECISIONS :: "string list" where
  "PASSED_DECISIONS = [''eligible_for_qualification'', ''bootstrap_reference'']"

text \<open>\<open>state["checkpoints"][mode] = checkpoint\<close> and \<open>state["invalidated_reports"].pop(mode, None)\<close>.\<close>

definition put_checkpoint :: "string \<Rightarrow> val \<Rightarrow> val \<Rightarrow> val" where
  "put_checkpoint mode checkpoint state =
     vset ''invalidated_reports'' (vdel mode (fld state ''invalidated_reports''))
       (vset ''checkpoints'' (vset mode checkpoint (fld state ''checkpoints'')) state)"

definition same_checkpoint :: "val \<Rightarrow> string \<Rightarrow> dict \<Rightarrow> string \<Rightarrow> val \<Rightarrow> val \<Rightarrow> bool" where
  "same_checkpoint existing report_sha256 active_binding manifest selection identity =
     (truthy existing \<and> fld existing ''report_sha256'' = VStr report_sha256 \<and>
      py_eq (fld existing ''binding'') (VDict active_binding) \<and>
      fldd existing ''artifact_manifest_sha256'' (VStr []) = VStr manifest \<and>
      py_eq (fld existing ''selection'') selection \<and>
      py_eq (fld existing ''evidence_identity'') identity)"

definition new_checkpoint ::
    "dict \<Rightarrow> string \<Rightarrow> val \<Rightarrow> pyfloat \<Rightarrow> string \<Rightarrow> string \<Rightarrow> string \<Rightarrow> val \<Rightarrow> val \<Rightarrow> val" where
  "new_checkpoint active_binding report_sha256 passed elapsed_seconds report_path manifest now identity selection =
     VDict ([(''binding'', VDict active_binding), (''report_sha256'', VStr report_sha256), (''passed'', passed),
             (''elapsed_seconds'', VFloat elapsed_seconds), (''report_path'', VStr report_path),
             (''artifact_manifest_sha256'', VStr manifest), (''recorded_at'', VStr now), (''evidence_identity'', identity)] @
            (if selection \<noteq> VNone then [(''selection'', selection)] else []))"

text \<open>\<open>record\<close> returns the state it leaves and its outcome; it changes the state only after the last statement
  that can raise. \<open>can_start\<close> has established the v3 schema, so the evidence is always identified.\<close>

definition record_report ::
    "filesystem \<Rightarrow> path \<Rightarrow> string \<Rightarrow> val \<Rightarrow> val \<Rightarrow> string \<Rightarrow> val \<Rightarrow> string \<Rightarrow> pyfloat \<Rightarrow> string \<Rightarrow> val \<Rightarrow> (val \<times> string) res" where
  "record_report fs repository now contract state mode report report_sha256 elapsed_seconds report_path selection =
     bnd (can_start fs repository contract state mode) (\<lambda>_.
     chk (mode \<noteq> ''self-check'') (LifeErr ''a self-check is no checkpoint'')
     (bnd (validate_report_for_mode contract state mode report) (\<lambda>_.
      bnd (max_wall_seconds contract mode) (\<lambda>maximum.
     chk (case maximum of None \<Rightarrow> True | Some m \<Rightarrow> fl_le elapsed_seconds m) (LifeErr (mode @ '' exceeds its cost bound''))
     (chk (report_path \<noteq> []) (LifeErr (mode @ '' checkpoint lacks a report on disk''))
     (let p = path_of report_path in
     chk (file_digest_is fs p (VStr report_sha256)) (LifeErr (mode @ '' report on disk missing or of another digest''))
     (bnd (catch (read_json fs p) (\<lambda>e. exn_cls e \<in> {OSError, JSONDecodeError})
             (\<lambda>_. Inl (LifeErr (mode @ '' report on disk unreadable'')))) (\<lambda>persisted.
     chk (py_eq persisted report) (LifeErr (mode @ '' report in memory differs from the one on disk''))
     (bnd (validate_report_artifacts fs p report) (\<lambda>manifest.
      bnd (for_mode (fld state ''binding'') mode) (\<lambda>active_binding.
      bnd (dependencies_for_mode (fld state ''binding'') mode) (\<lambda>direct_dependencies.
      bnd (evidence_identity mode report_sha256 direct_dependencies) (\<lambda>direct_identity.
      if same_checkpoint (fld (fld state ''checkpoints'') mode) report_sha256 active_binding manifest selection direct_identity
      then Inr (state, ''reused'')
      else
        bnd (in_set (fld report ''decision'') PASSED_DECISIONS) (\<lambda>eligible.
        let checkpoint = new_checkpoint active_binding report_sha256 (fldd report ''passed'' (VBool eligible))
              elapsed_seconds report_path manifest now direct_identity selection in
        Inr (put_checkpoint mode checkpoint state, ''recorded'')))))))))))))))"

definition reusable_report :: "filesystem \<Rightarrow> path \<Rightarrow> val \<Rightarrow> val \<Rightarrow> string \<Rightarrow> val \<Rightarrow> path option res" where
  "reusable_report fs repository contract state mode selection =
     bnd (vget state ''schema'') (\<lambda>schema.
     bnd (if schema = VStr STATE_SCHEMA then
            bnd (vsub state ''binding'') (\<lambda>binding.
            catch (bnd (verify_current_reporting fs repository binding (mode = ''summarize'')) (\<lambda>_. Inr True))
              (\<lambda>e. exn_cls e = LifecycleError) (\<lambda>_. Inr False))
          else Inr True) (\<lambda>reporting_current.
     if \<not> reporting_current then Inr None
     else
       bnd (checkpoint_of state mode) (\<lambda>checkpoint.
       if \<not> is_dict checkpoint then Inr None
       else
         bnd (vsub state ''binding'') (\<lambda>binding.
         bnd (for_mode binding mode) (\<lambda>active_binding.
         if \<not> py_eq (fld checkpoint ''binding'') (VDict active_binding) \<or> \<not> py_eq (fld checkpoint ''selection'') selection
         then Inr None
         else
           bnd (if schema = VStr STATE_SCHEMA then
                  catch (bnd (validate_checkpoint_identity binding mode checkpoint) (\<lambda>_. Inr True))
                    (\<lambda>e. exn_cls e \<in> {EvidenceIdentityError, TypeError}) (\<lambda>_. Inr False)
                else Inr True) (\<lambda>identity_valid.
           let location = py_strip (py_str (fldd checkpoint ''report_path'' (VStr []))); p = path_of location in
           if \<not> identity_valid \<or> location = [] \<or>
              \<not> file_digest_is fs p (fld checkpoint ''report_sha256'')
           then Inr None
           else
             catch
               (bnd (read_json fs p) (\<lambda>report.
                chk (is_dict report) (LifeErr (mode @ '' checkpoint report must be an object''))
                (bnd (validate_report_for_mode contract state mode report) (\<lambda>_.
                 bnd (if mode = ''summarize'' then
                        each (\<lambda>dependency. bnd (checkpoint_report fs contract state dependency) (\<lambda>_. Inr ())) SUMMARY_AGGREGATES
                      else Inr ()) (\<lambda>_.
                 bnd (validate_report_artifacts fs p report) (\<lambda>manifest.
                 chk (py_eq (VStr manifest) (fld checkpoint ''artifact_manifest_sha256''))
                     (LifeErr (mode @ '' raw evidence differs from the checkpoint'')) (Inr (Some p))))))))
               (\<lambda>e. exn_cls e = OSError \<or> is_value_error e) (\<lambda>_. Inr None)))))))"

definition summarize :: "filesystem \<Rightarrow> path \<Rightarrow> string \<Rightarrow> val \<Rightarrow> val \<Rightarrow> val res" where
  "summarize fs repository now contract state =
     bnd (can_start fs repository contract state ''summarize'') (\<lambda>_.
     let checkpoints = fld state ''checkpoints''; binding = fld state ''binding'' in
     bnd (each (\<lambda>mode. bnd (checkpoint_report fs contract state mode) (\<lambda>_. Inr ())) SUMMARY_AGGREGATES) (\<lambda>_.
     bnd (for_mode binding ''summarize'') (\<lambda>summary_binding0.
     let summary_binding = VDict summary_binding0 in
     bnd (vpath contract [''reports'', ''suite'', ''schema'']) (\<lambda>schema.
     bnd (vsub contract ''suite_version'') (\<lambda>suite_version.
     bnd (source_git binding) (\<lambda>candidate.
     bnd (vpath checkpoints [''core'', ''report_sha256'']) (\<lambda>core.
     bnd (vpath checkpoints [''full'', ''report_sha256'']) (\<lambda>product.
     bnd (vpath checkpoints [''longmemeval'', ''report_sha256'']) (\<lambda>community.
     bnd (mapm (\<lambda>name. vpath checkpoints [name, ''passed'']) SUMMARY_AGGREGATES) (\<lambda>passed.
     let report = VDict [(''schema'', schema), (''suite_version'', suite_version), (''candidate'', VStr candidate),
           (''binary_sha256'', fld summary_binding ''binary_sha256''),
           (''environment'', VDict [(''sha256'', fld summary_binding ''environment_sha256'')]),
           (''inputs'', VDict [(''sha256'', fld summary_binding ''input_manifest_sha256'')]),
           (''tool_sha256'', fld summary_binding ''tool_sha256''),
           (''core_report_sha256'', core), (''product_report_sha256'', product), (''community_report_sha256'', community),
           (''passed'', VBool (list_all truthy passed)), (''created_at'', VStr now)] in
     bnd (validate_report contract ''suite'' report) (\<lambda>_. Inr report)))))))))))"

end
