(* ===== verification/Lifecycle.thy ===== *)
theory Lifecycle
  imports Report_Semantics
begin

text \<open>
  \<open>lifecycle.py\<close>: the operations that create, invalidate, rebind and promote the acceptance state and its
  file on disk. An operation returns the state it leaves; \<open>promote_baseline\<close> returns it beside the exception
  too, since it changes the state before its last check.
\<close>

section \<open>Plans\<close>

definition lifecycle_plan_for_impacts :: "string list \<Rightarrow> string list res" where
  "lifecycle_plan_for_impacts impacts = reraise RelationshipError LifecycleError (plan_for_impacts impacts)"

definition lifecycle_stages_for_impacts :: "string list \<Rightarrow> string list res" where
  "lifecycle_stages_for_impacts impacts = reraise RelationshipError LifecycleError (stages_for_impacts impacts)"

definition lifecycle_plan_for_stage :: "string \<Rightarrow> string list res" where
  "lifecycle_plan_for_stage stage = reraise RelationshipError LifecycleError (plan_for_stage stage)"

section \<open>State transitions\<close>

definition new_state :: "val \<Rightarrow> val \<Rightarrow> val res" where
  "new_state contract binding =
     bnd (binding_validate_binding binding) (\<lambda>_.
     bnd (vsub contract ''suite_version'') (\<lambda>suite_version.
     chk (py_eq (fld binding ''suite_version'') suite_version) (LifeErr ''invalid suite version of the binding'')
     (Inr (VDict [(''schema'', VStr STATE_SCHEMA), (''suite_version'', suite_version), (''binding'', binding),
                  (''checkpoints'', VDict []), (''invalidated_reports'', VDict []), (''baseline'', VNone),
                  (''baseline_history'', VList [])]))))"

text \<open>The body of the loops over \<open>removed\<close>: the checkpoint goes and the digest of its report is remembered.\<close>

definition drop_checkpoint :: "string \<Rightarrow> val \<Rightarrow> val" where
  "drop_checkpoint name state =
     (let digest = fld (fld (fld state ''checkpoints'') name) ''report_sha256'' in
      vset ''checkpoints'' (vdel name (fld state ''checkpoints''))
        (if is_str digest \<and> truthy digest
         then vset ''invalidated_reports'' (vset name digest (fld state ''invalidated_reports'')) state
         else state))"

text \<open>\<open>state.setdefault("baseline_history", []).append(state["baseline"]); state["baseline"] = None\<close>.\<close>

definition push_baseline :: "val \<Rightarrow> val" where
  "push_baseline state =
     vset ''baseline_history'' (VList (
       (case fldd state ''baseline_history'' (VList []) of VList xs \<Rightarrow> xs | _ \<Rightarrow> []) @ [fld state ''baseline''])) state"

definition retire_baseline :: "val \<Rightarrow> val" where
  "retire_baseline state = vset ''baseline'' VNone (push_baseline state)"

definition invalidate :: "val \<Rightarrow> val \<Rightarrow> string \<Rightarrow> (val \<times> string list) res" where
  "invalidate contract state mode =
     bnd (validate_state contract state) (\<lambda>_.
     case map_of MODE_INVALIDATION mode of
       None \<Rightarrow> Inl (LifeErr (''mode '' @ mode @ '' has no invalidation rule''))
     | Some affected \<Rightarrow>
         (let removed = filter (has (fld state ''checkpoints'')) affected;
              state1 = fold drop_checkpoint removed state;
              state2 = (if mode \<in> set BASELINE_AGGREGATES \<and> fld state1 ''baseline'' \<noteq> VNone
                        then retire_baseline state1 else state1)
          in Inr (state2, removed)))"

definition scope_identity :: "val \<Rightarrow> string \<Rightarrow> val" where
  "scope_identity binding name = fld (fld (fld binding ''scopes'') name) ''identity''"

definition changed_scopes :: "val \<Rightarrow> val \<Rightarrow> string list" where
  "changed_scopes current binding =
     filter (\<lambda>name. \<not> py_eq (scope_identity current name) (scope_identity binding name))
       (remdups (keys (fld current ''scopes'') @ keys (fld binding ''scopes'')))"

definition affected_modes :: "string list \<Rightarrow> string list" where
  "affected_modes changed =
     remdups (concat (map (\<lambda>name. concat (map (tbl MODE_INVALIDATION) (tbl SCOPE_RESULTS name))) changed))"

definition rebind :: "val \<Rightarrow> val \<Rightarrow> val \<Rightarrow> (val \<times> string list) res" where
  "rebind contract state binding =
     bnd (validate_state contract state) (\<lambda>_.
     bnd (binding_validate_binding binding) (\<lambda>_.
     bnd (vsub contract ''suite_version'') (\<lambda>suite_version.
     chk (py_eq (fld binding ''suite_version'') suite_version) (LifeErr ''invalid suite version of the new binding'')
     (let current = fld state ''binding''; changed = changed_scopes current binding;
          state1 = vset ''binding'' binding state in
      if changed = [] then
        (if \<not> py_eq (fld (fld current ''reporting'') ''summary'') (fld (fld binding ''reporting'') ''summary'') \<and>
            has (fld state ''checkpoints'') ''summarize''
         then Inr (drop_checkpoint ''summarize'' state1, [''summarize''])
         else Inr (state1, []))
      else
        (let removed = sort (filter (has (fld state ''checkpoints'')) (affected_modes changed));
             state2 = (if fld state ''baseline'' \<noteq> VNone \<and> set changed \<inter> {''frontier'', ''core'', ''product''} \<noteq> {}
                       then retire_baseline state else state)
         in Inr (fold drop_checkpoint removed (vset ''binding'' binding state2), removed))))))"

definition report_was_invalidated :: "filesystem \<Rightarrow> val \<Rightarrow> string \<Rightarrow> path \<Rightarrow> bool res" where
  "report_was_invalidated fs state mode p =
     bnd (vgetd state ''invalidated_reports'' (VDict [])) (\<lambda>invalidated.
     bnd (vget invalidated mode) (\<lambda>digest. Inr (is_str digest \<and> file_digest_is fs p digest)))"

section \<open>Promotion\<close>

definition passed_checkpoint :: "val \<Rightarrow> string \<Rightarrow> string \<Rightarrow> val res" where
  "passed_checkpoint checkpoints mode message =
     bnd (vget checkpoints mode) (\<lambda>checkpoint.
     bnd (if checkpoint = VNone then Inr VNone else vget checkpoint ''passed'') (\<lambda>passed.
     chk (checkpoint \<noteq> VNone \<and> is_true passed) (LifeErr message) (Inr checkpoint)))"

definition sealed_report :: "val \<Rightarrow> val" where
  "sealed_report report = VDict [(''canonical_sha256'', VStr (canonical_sha256 report)), (''value'', report)]"

text \<open>The three checkpoints and their reports, in the order core, frontier, qualification.\<close>

definition promotion_evidence :: "filesystem \<Rightarrow> val \<Rightarrow> val \<Rightarrow> ((val \<times> val) \<times> (val \<times> val) \<times> (val \<times> val)) res" where
  "promotion_evidence fs contract state =
     bnd (vsub state ''checkpoints'') (\<lambda>checkpoints.
     bnd (passed_checkpoint checkpoints ''core'' ''promotion needs the core to pass'') (\<lambda>core.
     bnd (passed_checkpoint checkpoints ''frontier'' ''promotion needs the frontier to pass'') (\<lambda>frontier.
     bnd (passed_checkpoint checkpoints ''qualification'' ''promotion needs the qualification to pass'') (\<lambda>qualification.
     bnd (checkpoint_report fs contract state ''core'') (\<lambda>core_report.
     bnd (checkpoint_report fs contract state ''frontier'') (\<lambda>frontier_report.
     bnd (checkpoint_report fs contract state ''qualification'') (\<lambda>qualification_report.
     Inr ((core, core_report), (frontier, frontier_report), (qualification, qualification_report)))))))))"

definition digest_table :: "val \<Rightarrow> val \<Rightarrow> val \<Rightarrow> string \<Rightarrow> string" where
  "digest_table core frontier qualification mode =
     str_val (fld (if mode = ''core'' then core else if mode = ''frontier'' then frontier else qualification) ''report_sha256'')"

definition promoted_baseline :: "string \<Rightarrow> val \<Rightarrow> val \<times> val \<Rightarrow> val \<times> val \<Rightarrow> val \<times> val \<Rightarrow> dict res" where
  "promoted_baseline now state c f q =
     bnd (vsub state ''binding'') (\<lambda>binding.
     bnd (for_mode binding ''core'') (\<lambda>core_binding.
     bnd (for_mode binding ''frontier'') (\<lambda>frontier_binding.
     bnd (for_mode binding ''qualification'') (\<lambda>product_binding.
     bnd (runtime_identity binding) (\<lambda>candidate.
     let promoted =
       [(''candidate'', VStr candidate), (''binary_sha256'', fld (VDict core_binding) ''binary_sha256''),
        (''bindings'', VDict [(''core'', VDict core_binding), (''frontier'', VDict frontier_binding), (''product'', VDict product_binding)]),
        (''core_report_sha256'', fld (fst c) ''report_sha256''), (''frontier_report_sha256'', fld (fst f) ''report_sha256''),
        (''qualification_report_sha256'', fld (fst q) ''report_sha256''),
        (''reports'', VDict [(''core'', sealed_report (snd c)), (''frontier'', sealed_report (snd f)),
                             (''qualification'', sealed_report (snd q))]),
        (''promoted_at'', VStr now)] in
     if fld state ''schema'' = VStr STATE_SCHEMA then
       bnd (mapm (\<lambda>mode. bnd (dependencies_for_mode binding mode) (\<lambda>d. Inr (mode, VDict d))) [''core'', ''frontier'', ''qualification'']) (\<lambda>dependencies.
       bnd (product_identity binding) (\<lambda>product.
       bnd (baseline_identity_fields (VStr product) (VDict dependencies) (digest_table (fst c) (fst f) (fst q))) (\<lambda>fields.
       Inr (dupdate promoted fields))))
     else Inr promoted)))))"

definition baseline_observation :: "filesystem \<Rightarrow> val \<Rightarrow> val option res" where
  "baseline_observation fs frontier =
     (let location = fld frontier ''observation_path''; digest = fld frontier ''observation_sha256'' in
      if truthy location \<and> truthy digest then
        chk (is_str location) (Exn TypeError ''argument should be a str'')
        (let p = path_of (str_val location) in
        chk (file_digest_is fs p digest) (LifeErr ''the observation of the baseline is missing or changed'')
        (bnd (read_json fs p) (\<lambda>value.
        chk (is_dict value) (LifeErr ''the observation of the baseline must be an object'')
        (Inr (Some (VDict [(''full'', VDict [(''source_sha256'', digest), (''canonical_sha256'', VStr (canonical_sha256 value)),
                                            (''value'', value)])]))))))
      else Inr None)"

definition promote_baseline :: "filesystem \<Rightarrow> string \<Rightarrow> val \<Rightarrow> val \<Rightarrow> val \<times> unit res" where
  "promote_baseline fs now contract state =
     (case promotion_evidence fs contract state of
        Inl e \<Rightarrow> (state, Inl e)
      | Inr (c, f, q) \<Rightarrow>
          if fld state ''baseline'' \<noteq> VNone \<and> \<not> is_list (fldd state ''baseline_history'' (VList []))
          then (state, Inl (Exn AttributeError ''append''))
          else
            (let state1 = (if fld state ''baseline'' \<noteq> VNone then push_baseline state else state) in
             case promoted_baseline now state c f q of
               Inl e \<Rightarrow> (state1, Inl e)
             | Inr promoted \<Rightarrow>
                 (let state2 = vset ''baseline'' (VDict promoted) state1 in
                  case baseline_observation fs (fst f) of
                    Inl e \<Rightarrow> (state2, Inl e)
                  | Inr None \<Rightarrow> (state2, Inr ())
                  | Inr (Some observations) \<Rightarrow>
                      (vset ''baseline'' (vset ''observations'' observations (VDict promoted)) state2, Inr ()))))"

section \<open>The state file\<close>

definition load_state :: "filesystem \<Rightarrow> path \<Rightarrow> val res" where
  "load_state fs p = bnd (read_json fs p) (\<lambda>value.
     chk (is_dict value) (LifeErr ''the state file must be an object'')
     (Inr (if has value ''invalidated_reports'' then value else vset ''invalidated_reports'' (VDict []) value)))"

definition save_state :: "path \<Rightarrow> val \<Rightarrow> unit io" where
  "save_state p state =
     st_bnd (mkdir_p (parent p)) (\<lambda>_.
     let temporary = joinp (parent p) (Path False [pname p @ ''.tmp'']) in
     st_bnd (write_file temporary (serialized_json state)) (\<lambda>_. os_replace temporary p))"

end
