(* ===== verification/Lifecycle_Invariants.thy ===== *)
theory Lifecycle_Invariants
  imports Lifecycle Binding_Facts
begin

text \<open>
  The invariant of the acceptance state (\<open>validate_state\<close>) and what each lifecycle operation keeps of it.
\<close>

section \<open>What an accepted state is\<close>

lemma validate_history_iff:
  "validate_history i xs = Inr u \<longleftrightarrow> (\<forall>v \<in> set xs. validate_baseline_identity v None = Inr ())"
  by (induction xs arbitrary: i) (auto simp: exn_elims)

definition checkpoint_ok :: "val \<Rightarrow> string \<times> val \<Rightarrow> bool" where
  "checkpoint_ok b mc = (is_dict (snd mc) \<and> validate_checkpoint_identity b (fst mc) (snd mc) = Inr ())"

definition baseline_current :: "val \<Rightarrow> val \<Rightarrow> bool" where
  "baseline_current checkpoints baseline =
     (\<forall>(m, f) \<in> set BASELINE_FIELDS. is_dict (fld checkpoints m) \<and>
        py_eq (fld (fld checkpoints m) ''report_sha256'') (fld baseline f))"

definition baseline_ok :: "val \<Rightarrow> val \<Rightarrow> val \<Rightarrow> bool" where
  "baseline_ok b checkpoints baseline =
     (baseline \<noteq> VNone \<longrightarrow> validate_baseline_identity baseline (Some b) = Inr () \<and> baseline_current checkpoints baseline)"

definition history_ok :: "val \<Rightarrow> bool" where
  "history_ok h = (\<exists>xs. h = VList xs \<and> (\<forall>v \<in> set xs. validate_baseline_identity v None = Inr ()))"

lemma each_checkpoint_iff:
  "each (\<lambda>(mode, checkpoint). chk (is_dict checkpoint) (LifeErr (mode @ m))
          (reraise EvidenceIdentityError LifecycleError (validate_checkpoint_identity b mode checkpoint))) es = Inr u \<longleftrightarrow>
   (\<forall>mc \<in> set es. checkpoint_ok b mc)"
  by (simp add: each_eq_Inr split_def chk_eq_Inr reraise_eq_Inr checkpoint_ok_def)

lemma each_baseline_iff:
  "each (validate_baseline_checkpoint cs baseline) BASELINE_FIELDS = Inr u \<longleftrightarrow> baseline_current cs baseline"
  by (simp add: each_eq_Inr split_def validate_baseline_checkpoint_def Let_def chk_eq_Inr baseline_current_def)

lemma baseline_check_iff:
  "(if baseline = VNone then Inr ()
    else bnd (reraise EvidenceIdentityError LifecycleError (validate_baseline_identity baseline (Some b)))
           (\<lambda>_. each (validate_baseline_checkpoint cs baseline) BASELINE_FIELDS)) = Inr u \<longleftrightarrow> baseline_ok b cs baseline"
  by (auto simp: bnd_eq_Inr reraise_eq_Inr each_baseline_iff baseline_ok_def)

lemma history_check_iff:
  "is_list h \<and> (\<exists>xs. py_iter h = Inr xs \<and> validate_history 0 xs = Inr u) \<longleftrightarrow> history_ok h"
  by (cases h) (auto simp: history_ok_def validate_history_iff)

lemma validate_state_iff:
  "validate_state contract state = Inr u \<longleftrightarrow>
     is_dict state \<and> fld state ''schema'' = VStr STATE_SCHEMA \<and> has contract ''suite_version'' \<and>
     py_eq (fld state ''suite_version'') (fld contract ''suite_version'') \<and>
     binding_ok (fld state ''binding'') \<and> is_dict (fld state ''checkpoints'') \<and> is_dict (fld state ''invalidated_reports'') \<and>
     (\<forall>mc \<in> set (items (fld state ''checkpoints'')). checkpoint_ok (fld state ''binding'') mc) \<and>
     baseline_ok (fld state ''binding'') (fld state ''checkpoints'') (fld state ''baseline'') \<and>
     history_ok (fld state ''baseline_history'')"
  unfolding validate_state_def Let_def bnd_eq_Inr [of "if _ then _ else _"] bnd_eq_Inr chk_eq_Inr checks_eq_Inr
    vsub_eq_Inr vgetd_eq_Inr each_checkpoint_iff baseline_check_iff history_check_iff binding_validate_binding_iff
  by (auto simp: binding_is_dict binding_schema has_is_dict)

lemma baseline_identity_weaken:
  "validate_baseline_identity v (Some b) = Inr () \<Longrightarrow> validate_baseline_identity v None = Inr ()"
  unfolding validate_baseline_identity_def Let_def bnd_eq_Inr chk_eq_Inr by auto

section \<open>Removing checkpoints\<close>

lemma items_vdel: "items (vdel k v) = filter (\<lambda>e. fst e \<noteq> k) (items v)"
  by (cases v) (auto simp: AList.delete_eq split_def intro: filter_cong)

lemma drop_checkpoint_dict [simp]: "is_dict (drop_checkpoint n s) = is_dict s"
  by (simp add: drop_checkpoint_def Let_def)

lemma drop_checkpoint_checkpoints [simp]:
  "is_dict s \<Longrightarrow> fld (drop_checkpoint n s) ''checkpoints'' = vdel n (fld s ''checkpoints'')"
  by (simp add: drop_checkpoint_def Let_def)

lemma drop_checkpoint_other [simp]:
  "k \<noteq> ''checkpoints'' \<Longrightarrow> k \<noteq> ''invalidated_reports'' \<Longrightarrow> fldd (drop_checkpoint n s) k x = fldd s k x"
  by (simp add: drop_checkpoint_def Let_def)

text \<open>The digest that \<open>drop_checkpoint\<close> remembers.\<close>

definition report_digest :: "val \<Rightarrow> val option" where
  "report_digest checkpoint =
     (let d = fld checkpoint ''report_sha256'' in if is_str d \<and> truthy d then Some d else None)"

lemma drop_checkpoint_invalidated [simp]:
  "is_dict s \<Longrightarrow> fld (drop_checkpoint n s) ''invalidated_reports'' =
     (case report_digest (fld (fld s ''checkpoints'') n) of
        Some d \<Rightarrow> vset n d (fld s ''invalidated_reports'') | None \<Rightarrow> fld s ''invalidated_reports'')"
  by (simp add: drop_checkpoint_def Let_def report_digest_def)

lemma drops_dict [simp]: "is_dict (fold drop_checkpoint ns s) = is_dict s"
  by (induction ns arbitrary: s) auto

lemma drops_checkpoints:
  "is_dict s \<Longrightarrow> fld (fold drop_checkpoint ns s) ''checkpoints'' = fold vdel ns (fld s ''checkpoints'')"
  by (induction ns arbitrary: s) auto

lemma drops_other [simp]:
  "k \<noteq> ''checkpoints'' \<Longrightarrow> k \<noteq> ''invalidated_reports'' \<Longrightarrow> fldd (fold drop_checkpoint ns s) k x = fldd s k x"
  by (induction ns arbitrary: s) auto

lemma vdels_items: "items (fold vdel ns v) = filter (\<lambda>e. fst e \<notin> set ns) (items v)"
proof (induction ns arbitrary: v)
  case (Cons n ns)
  have "(\<lambda>e. fst e \<notin> set ns \<and> fst e \<noteq> n) = (\<lambda>e. fst e \<notin> set (n # ns))" by auto
  then show ?case using Cons [of "vdel n v"] by (simp add: items_vdel)
qed simp

lemma vdels_dict [simp]: "is_dict (fold vdel ns v) = is_dict v"
  by (induction ns arbitrary: v) auto

lemma vdels_fld: "fldd (fold vdel ns v) k x = (if k \<in> set ns then x else fldd v k x)"
proof (induction ns arbitrary: v)
  case (Cons n ns)
  then show ?case by (cases "k = n") auto
qed simp

lemma vdels_has: "has (fold vdel ns v) k \<longleftrightarrow> k \<notin> set ns \<and> has v k"
  by (induction ns arbitrary: v) auto

lemma drops_invalidated:
  assumes "is_dict s" and "is_dict (fld s ''invalidated_reports'')" and "distinct ns"
  shows "is_dict (fld (fold drop_checkpoint ns s) ''invalidated_reports'') \<and>
    fld (fld (fold drop_checkpoint ns s) ''invalidated_reports'') k =
     (if k \<in> set ns \<and> report_digest (fld (fld s ''checkpoints'') k) \<noteq> None
      then the (report_digest (fld (fld s ''checkpoints'') k))
      else fld (fld s ''invalidated_reports'') k)"
  using assms
proof (induction ns arbitrary: s)
  case (Cons n ns)
  let ?s = "drop_checkpoint n s"
  have d: "is_dict ?s" "is_dict (fld ?s ''invalidated_reports'')"
    using Cons.prems by (auto split: option.splits)
  have IH: "is_dict (fld (fold drop_checkpoint ns ?s) ''invalidated_reports'') \<and>
    fld (fld (fold drop_checkpoint ns ?s) ''invalidated_reports'') k =
     (if k \<in> set ns \<and> report_digest (fld (fld ?s ''checkpoints'') k) \<noteq> None
      then the (report_digest (fld (fld ?s ''checkpoints'') k)) else fld (fld ?s ''invalidated_reports'') k)"
    using Cons.IH [OF d] Cons.prems(3) by simp
  show ?case
  proof (cases "k = n")
    case True
    then show ?thesis using IH Cons.prems by (auto split: option.splits)
  next
    case False
    then show ?thesis using IH Cons.prems by (auto split: option.splits)
  qed
qed simp

section \<open>Retiring a baseline\<close>

lemma retire_baseline_fields [simp]:
  "is_dict (retire_baseline s) = is_dict s"
  "is_dict s \<Longrightarrow> fld (retire_baseline s) ''baseline'' = VNone"
  "k \<noteq> ''baseline'' \<Longrightarrow> k \<noteq> ''baseline_history'' \<Longrightarrow> fldd (retire_baseline s) k x = fldd s k x"
  by (simp_all add: retire_baseline_def push_baseline_def)

lemma push_history:
  assumes "is_dict s" and "fld s ''baseline_history'' = VList xs"
  shows "fld (push_baseline s) ''baseline_history'' = VList (xs @ [fld s ''baseline''])"
proof -
  have "has s ''baseline_history''" using assms(2) fld_nonNone_has by blast
  then have "fldd s ''baseline_history'' (VList []) = VList xs" using assms(2) fldd_has by metis
  then show ?thesis using assms(1) by (simp add: push_baseline_def)
qed

lemma retire_history:
  "is_dict s \<Longrightarrow> fld s ''baseline_history'' = VList xs \<Longrightarrow>
   fld (retire_baseline s) ''baseline_history'' = VList (xs @ [fld s ''baseline''])"
  by (simp add: retire_baseline_def push_history)

section \<open>Invalidation keeps the invariant\<close>

definition without :: "string list \<Rightarrow> val \<Rightarrow> val" where
  "without ns v = fold vdel ns v"

lemma baseline_ok_drop:
  assumes "baseline_ok b cs baseline" and "set ns \<inter> set BASELINE_AGGREGATES = {}"
  shows "baseline_ok b (without ns cs) baseline"
  using assms unfolding baseline_ok_def baseline_current_def without_def
  by (auto simp: vdels_fld BASELINE_FIELDS_def BASELINE_AGGREGATES_def)

lemma history_ok_retire:
  assumes "is_dict s" and "history_ok (fld s ''baseline_history'')"
    and "validate_baseline_identity (fld s ''baseline'') None = Inr ()"
  shows "history_ok (fld (retire_baseline s) ''baseline_history'')"
proof -
  obtain xs where xs: "fld s ''baseline_history'' = VList xs" "\<forall>v \<in> set xs. validate_baseline_identity v None = Inr ()"
    using assms(2) by (auto simp: history_ok_def)
  then show ?thesis using retire_history [OF assms(1) xs(1)] assms(3) by (auto simp: history_ok_def)
qed

lemma invalidate_eq_Inr:
  "invalidate contract state mode = Inr (state', removed) \<longleftrightarrow>
     validate_state contract state = Inr () \<and>
     (\<exists>affected. map_of MODE_INVALIDATION mode = Some affected \<and>
        removed = filter (has (fld state ''checkpoints'')) affected \<and>
        state' = (let s1 = fold drop_checkpoint removed state in
                  if mode \<in> set BASELINE_AGGREGATES \<and> fld s1 ''baseline'' \<noteq> VNone then retire_baseline s1 else s1))"
  unfolding invalidate_def Let_def bnd_eq_Inr by (auto split: option.splits)

lemma affected_of_mode:
  "map_of MODE_INVALIDATION mode = Some affected \<Longrightarrow> distinct affected \<and>
     (mode \<notin> set BASELINE_AGGREGATES \<longrightarrow> set affected \<inter> set BASELINE_AGGREGATES = {})"
  by (auto simp: MODE_INVALIDATION_def BASELINE_AGGREGATES_def split: if_splits)

lemma invalidate_valid:
  assumes "invalidate contract state mode = Inr (state', removed)"
  shows "validate_state contract state' = Inr ()"
proof -
  obtain affected where v: "validate_state contract state = Inr ()"
    and a: "map_of MODE_INVALIDATION mode = Some affected" and r: "removed = filter (has (fld state ''checkpoints'')) affected"
    and s': "state' = (let s1 = fold drop_checkpoint removed state in
                  if mode \<in> set BASELINE_AGGREGATES \<and> fld s1 ''baseline'' \<noteq> VNone then retire_baseline s1 else s1)"
    using assms unfolding invalidate_eq_Inr by blast
  let ?s1 = "fold drop_checkpoint removed state" and ?b = "fld state ''binding''"
  from v have d: "is_dict state" "is_dict (fld state ''invalidated_reports'')" "is_dict (fld state ''checkpoints'')"
    and ck: "\<forall>mc \<in> set (items (fld state ''checkpoints'')). checkpoint_ok ?b mc"
    and bl: "baseline_ok ?b (fld state ''checkpoints'') (fld state ''baseline'')"
    and h: "history_ok (fld state ''baseline_history'')"
    unfolding validate_state_iff by auto
  have dis: "distinct removed" using affected_of_mode [OF a] r by simp
  have cs: "fld ?s1 ''checkpoints'' = without removed (fld state ''checkpoints'')"
    using drops_checkpoints [OF d(1)] by (simp add: without_def)
  have ck1: "\<forall>mc \<in> set (items (fld ?s1 ''checkpoints'')). checkpoint_ok ?b mc"
    using ck unfolding cs without_def vdels_items by auto
  have inv: "is_dict (fld ?s1 ''invalidated_reports'')"
    using drops_invalidated [OF d(1,2) dis] by blast
  have dcs: "is_dict (fld ?s1 ''checkpoints'')" using d(3) by (simp add: cs without_def)
  show ?thesis
  proof (cases "mode \<in> set BASELINE_AGGREGATES \<and> fld state ''baseline'' \<noteq> VNone")
    case True
    have "validate_baseline_identity (fld ?s1 ''baseline'') None = Inr ()"
      using bl True by (auto simp: baseline_ok_def intro: baseline_identity_weaken)
    then have "history_ok (fld (retire_baseline ?s1) ''baseline_history'')"
      using h d(1) by (intro history_ok_retire) auto
    then show ?thesis
      using True v ck1 inv dcs d(1) s' unfolding validate_state_iff by (simp add: baseline_ok_def)
  next
    case False
    have "baseline_ok ?b (fld ?s1 ''checkpoints'') (fld state ''baseline'')"
    proof (cases "fld state ''baseline'' = VNone")
      case True
      then show ?thesis by (simp add: baseline_ok_def)
    next
      case ne: False
      with False have "set removed \<inter> set BASELINE_AGGREGATES = {}"
        using affected_of_mode [OF a] r by auto
      then show ?thesis unfolding cs by (rule baseline_ok_drop [OF bl])
    qed
    moreover have "state' = ?s1" using s' False by (auto simp: Let_def)
    ultimately show ?thesis using v ck1 inv dcs h unfolding validate_state_iff by simp
  qed
qed

section \<open>Dependencies depend on the scopes as dictionaries\<close>

lemma dsorted_set: "dsorted d = dsorted e \<Longrightarrow> set d = set e"
  by (metis dsorted_def set_sort)

lemma dsorted_eqI:
  assumes "distinct (map fst d)" and "distinct (map fst e)" and "map_of d = map_of e"
  shows "dsorted d = dsorted e"
proof -
  have "set d = set e" using map_of_inject_set [OF assms(1,2)] assms(3) by simp
  then have "mset d = mset e" using assms(1,2) by (simp add: distinct_map set_eq_iff_mset_eq_distinct)
  then show ?thesis unfolding dsorted_def by (rule sort_key_perm [OF _ assms(1)])
qed

lemma map_of_perm:
  "distinct (map fst d) \<Longrightarrow> distinct (map fst e) \<Longrightarrow> set d = set e \<Longrightarrow> map_of d = map_of e"
  by (simp add: map_of_inject_set)

lemma dsorted_distinct: "dsorted d = dsorted e \<Longrightarrow> distinct (map fst d) \<Longrightarrow> distinct (map fst e)"
  by (metis dsorted_def mset_map mset_sort mset_eq_imp_distinct_iff)

lemma py_eq_VDict_perm:
  assumes "dsorted d = dsorted e" and "distinct (map fst d)"
  shows "py_eq x (VDict d) \<longleftrightarrow> py_eq x (VDict e)"
proof -
  have "length d = length e" using assms(1) by (metis dsorted_def length_sort)
  moreover have "map_of d = map_of e"
    using map_of_perm [OF assms(2) dsorted_distinct [OF assms]] dsorted_set [OF assms(1)] by simp
  ultimately show ?thesis by (cases x) simp_all
qed

lemma evidence_identity_dsorted:
  "dsorted d = dsorted e \<Longrightarrow> evidence_identity k r d = evidence_identity k r e"
  by (simp add: evidence_identity_def evidence_fields_def)

lemma map_of_dupdate: "map_of (dupdate d e) = map_of d ++ map_of (rev e)"
proof (induction e arbitrary: d)
  case (Cons x e)
  obtain k v where x: "x = (k, v)" by force
  have dd: "dupdate d (x # e) = dupdate (AList.update k v d) e" by (simp add: dupdate_def x)
  have mu: "map_of (AList.update k v d) = (map_of d)(k \<mapsto> v)" by (rule ext) (simp add: update_conv')
  have "map_of (dupdate d (x # e)) = (map_of d)(k \<mapsto> v) ++ map_of (rev e)" by (simp only: dd Cons mu)
  also have "\<dots> = map_of d ++ map_of (rev (x # e))"
    by (rule ext) (auto simp: x map_add_def split: option.splits)
  finally show ?case .
qed (simp add: dupdate_def)

lemma distinct_dupdate: "distinct (map fst d) \<Longrightarrow> distinct (map fst (dupdate d e))"
proof (induction e arbitrary: d)
  case (Cons x e)
  obtain k v where x: "x = (k, v)" by force
  have "dupdate d (x # e) = dupdate (AList.update k v d) e" by (simp add: dupdate_def x)
  then show ?case using Cons by (simp add: distinct_update)
qed (simp add: dupdate_def)

lemma map_of_rev_prefixed:
  assumes "set d = set e" and "distinct (map fst d)" and "distinct (map fst e)"
  shows "map_of (rev (prefixed s d)) = map_of (rev (prefixed s e))"
proof (rule map_of_perm)
  have "distinct (map fst (prefixed s x))" if "distinct (map fst x)" for x
  proof -
    have "map fst (prefixed s x) = map (\<lambda>n. s @ ''.'' @ n) (map fst x)" by (auto simp: prefixed_def)
    then show ?thesis using that by (simp only: distinct_map) (auto intro: inj_onI)
  qed
  then show "distinct (map fst (rev (prefixed s d)))" "distinct (map fst (rev (prefixed s e)))"
    using assms by (simp_all add: rev_map [symmetric])
  show "set (rev (prefixed s d)) = set (rev (prefixed s e))"
    using assms(1) by (simp add: prefixed_def)
qed

definition same_scope :: "val \<Rightarrow> val \<Rightarrow> string \<Rightarrow> bool" where
  "same_scope a b s = (has (fld b ''scopes'') s \<and> dsorted (scope_deps a s) = dsorted (scope_deps b s))"

definition summary_deps :: "val \<Rightarrow> string \<Rightarrow> dict" where
  "summary_deps b summary =
     AList.update ''summary-generation'' (VStr summary)
       (dupdate [] (prefixed ''core'' (scope_deps b ''core'') @ prefixed ''product'' (scope_deps b ''product'') @
                    prefixed ''community'' (scope_deps b ''community'')))"

lemma wf_scope_deps:
  assumes "wf_val b" shows "distinct (map fst (scope_deps b s))"
proof -
  have "wf_val (fld (fld (fld b ''scopes'') s) ''direct_dependencies'')"
    using assms by (intro wf_val_fldd) auto
  then show ?thesis
    by (cases "fld (fld (fld b ''scopes'') s) ''direct_dependencies''") (auto simp: scope_deps_def)
qed

lemma summary_deps_same:
  assumes "wf_val a" and "wf_val b" and "\<And>s. s \<in> set AGGREGATE_SCOPES \<Longrightarrow> same_scope a b s"
  shows "dsorted (summary_deps a u) = dsorted (summary_deps b u)"
proof (rule dsorted_eqI)
  have m: "map_of (rev (prefixed s (scope_deps a s))) = map_of (rev (prefixed s (scope_deps b s)))"
    if "s \<in> set AGGREGATE_SCOPES" for s
    using assms(3) [OF that] wf_scope_deps [OF assms(1)] wf_scope_deps [OF assms(2)]
    by (intro map_of_rev_prefixed) (auto simp: same_scope_def dest: dsorted_set)
  show "map_of (summary_deps a u) = map_of (summary_deps b u)"
    using m by (simp add: summary_deps_def update_conv' map_of_dupdate AGGREGATE_SCOPES_def)
qed (simp_all add: summary_deps_def distinct_update distinct_dupdate)

definition summary_identity :: "val \<Rightarrow> string" where
  "summary_identity b = py_str (fld (fld (fld b ''reporting'') ''summary'') ''identity'')"

lemma reporting_has: "binding_ok b \<Longrightarrow> has (fld b ''reporting'') k \<longleftrightarrow> k \<in> {''reception'', ''relationships'', ''summary''}"
  using binding_reporting [of b] by (auto simp: validate_reporting_def chk_eq_Inr keyset_is_def has_def)

lemma dependencies_summarize:
  assumes "binding_ok b"
  shows "dependencies_for_mode b ''summarize'' = Inr d \<longleftrightarrow>
     (\<forall>s \<in> set AGGREGATE_SCOPES. has (fld b ''scopes'') s) \<and> d = summary_deps b (summary_identity b)"
  using assms
  by (auto simp: dependencies_for_mode_def binding_is_dict binding_schema exn_elims scope_dependencies_eq
      reporting_identity_def reporting_has AGGREGATE_SCOPES_def summary_deps_def summary_identity_def)

lemma dependencies_scope:
  assumes "binding_ok b" and "mode \<noteq> ''summarize''"
  shows "dependencies_for_mode b mode = Inr d \<longleftrightarrow>
     (\<exists>s. map_of MODE_SCOPES mode = Some s \<and> has (fld b ''scopes'') s \<and> d = scope_deps b s)"
  using assms
  by (auto simp: dependencies_for_mode_def binding_is_dict binding_schema exn_elims scope_dependencies_eq)

text \<open>A checkpoint stays valid under a binding with the same direct dependencies.\<close>

lemma checkpoint_ok_rebind:
  assumes ok: "binding_ok a" "binding_ok b" and wf: "wf_val a" "wf_val b" and c: "checkpoint_ok a (mode, ck)"
    and scope: "\<And>s. map_of MODE_SCOPES mode = Some s \<Longrightarrow> has (fld a ''scopes'') s \<Longrightarrow> same_scope a b s"
    and sum: "mode = ''summarize'' \<Longrightarrow> summary_identity a = summary_identity b \<and>
       (\<forall>s \<in> set AGGREGATE_SCOPES. has (fld a ''scopes'') s \<longrightarrow> same_scope a b s)"
  shows "checkpoint_ok b (mode, ck)"
proof -
  obtain d where d: "dependencies_for_mode a mode = Inr d"
    and v: "validate_evidence_identity (fld ck ''evidence_identity'') mode
              (py_str (fldd ck ''report_sha256'' (VStr []))) d = Inr ()" and ck: "is_dict ck"
    using c by (auto simp: checkpoint_ok_def validate_checkpoint_identity_def bnd_eq_Inr)
  have "\<exists>e. dependencies_for_mode b mode = Inr e \<and> dsorted d = dsorted e"
  proof (cases "mode = ''summarize''")
    case True
    with d sum have "\<And>s. s \<in> set AGGREGATE_SCOPES \<Longrightarrow> same_scope a b s" "d = summary_deps a (summary_identity b)"
      using dependencies_summarize [OF ok(1)] by auto
    then show ?thesis
      using True summary_deps_same [OF wf] dependencies_summarize [OF ok(2)] by (auto simp: same_scope_def)
  next
    case False
    with d obtain s where "map_of MODE_SCOPES mode = Some s" "has (fld a ''scopes'') s" "d = scope_deps a s"
      using dependencies_scope [OF ok(1)] by auto
    then show ?thesis using scope dependencies_scope [OF ok(2) False] by (auto simp: same_scope_def)
  qed
  then obtain e where e: "dependencies_for_mode b mode = Inr e" "dsorted d = dsorted e" by blast
  show ?thesis
    using v ck e(1) evidence_identity_dsorted [OF e(2), of mode "py_str (fldd ck ''report_sha256'' (VStr []))"]
    by (simp add: checkpoint_ok_def validate_checkpoint_identity_def validate_evidence_identity_def)
qed

section \<open>Rebinding\<close>

text \<open>\<open>rebind\<close> compares scopes by the digest of their dependencies. What it needs of the digest is that two
  bindings with the same identity of a scope have the same dependencies there.\<close>

definition scope_collision_free :: "val \<Rightarrow> val \<Rightarrow> bool" where
  "scope_collision_free a b =
     (\<forall>s. has (fld a ''scopes'') s \<and> has (fld b ''scopes'') s \<and>
        dependency_identity s (scope_deps a s) = dependency_identity s (scope_deps b s) \<longrightarrow>
        dsorted (scope_deps a s) = dsorted (scope_deps b s))"

lemma unchanged_same_scope:
  assumes ok: "binding_ok a" "binding_ok b" and cf: "scope_collision_free a b"
    and un: "s \<notin> set (changed_scopes a b)" and h: "has (fld a ''scopes'') s"
  shows "same_scope a b s"
proof -
  have eq: "py_eq (scope_identity a s) (scope_identity b s)"
    using un h by (auto simp: changed_scopes_def has_def)
  have ia: "scope_identity a s = VStr (dependency_identity s (scope_deps a s))"
    unfolding scope_identity_def by (rule scope_identity_digest [OF ok(1) h])
  with eq have ib: "scope_identity b s = VStr (dependency_identity s (scope_deps a s))" by simp
  then have "fld (fld b ''scopes'') s \<noteq> VNone" by (auto simp: scope_identity_def)
  then have hb: "has (fld b ''scopes'') s" using fld_nonNone_has by blast
  have "scope_identity b s = VStr (dependency_identity s (scope_deps b s))"
    unfolding scope_identity_def by (rule scope_identity_digest [OF ok(2) hb])
  with ib have "dependency_identity s (scope_deps a s) = dependency_identity s (scope_deps b s)" by simp
  then show ?thesis using cf h hb unfolding same_scope_def scope_collision_free_def by blast
qed

lemma scope_results_inverse:
  "map_of MODE_SCOPES mode = Some s \<Longrightarrow> mode \<in> set (tbl SCOPE_RESULTS s) \<and> mode \<in> set (tbl MODE_INVALIDATION mode)"
  by (auto simp: tbl_def MODE_SCOPES_def SCOPE_RESULTS_def MODE_INVALIDATION_def split: if_splits)

lemma affected_scope:
  "map_of MODE_SCOPES mode = Some s \<Longrightarrow> s \<in> set changed \<Longrightarrow> mode \<in> set (affected_modes changed)"
  using scope_results_inverse [of mode s] unfolding affected_modes_def by (simp del: map_of.simps) blast

lemma affected_summarize:
  "s \<in> set AGGREGATE_SCOPES \<Longrightarrow> s \<in> set changed \<Longrightarrow> ''summarize'' \<in> set (affected_modes changed)"
  by (auto simp: affected_modes_def tbl_def AGGREGATE_SCOPES_def SCOPE_RESULTS_def MODE_INVALIDATION_def)

lemma affected_baseline:
  "set changed \<inter> {''frontier'', ''core'', ''product''} = {} \<Longrightarrow> set (affected_modes changed) \<inter> set BASELINE_AGGREGATES = {}"
  by (auto simp: affected_modes_def tbl_def BASELINE_AGGREGATES_def SCOPE_RESULTS_def MODE_INVALIDATION_def split: if_splits option.splits)

text \<open>The bindings agree on what the active baseline names besides its direct dependencies.\<close>

definition same_candidate :: "val \<Rightarrow> val \<Rightarrow> bool" where
  "same_candidate a b = (audit_git a = audit_git b \<and> py_str (fld a ''product'') = py_str (fld b ''product''))"

lemma baseline_identity_rebind:
  assumes ok: "binding_ok a" "binding_ok b" and wf: "wf_val a" and same: "same_candidate a b"
    and sc: "\<And>s. s \<in> {''frontier'', ''core'', ''product''} \<Longrightarrow> has (fld a ''scopes'') s \<Longrightarrow> same_scope a b s"
    and v: "validate_baseline_identity bl (Some a) = Inr ()"
  shows "validate_baseline_identity bl (Some b) = Inr ()"
proof -
  have last: "\<forall>(mode, scope) \<in> set BASELINE_SCOPES. has (fld a ''scopes'') scope \<and>
      py_eq (fld (fld bl ''direct_dependencies'') mode) (VDict (scope_deps a scope))"
    using v ok(1) unfolding validate_baseline_identity_def Let_def bnd_eq_Inr chk_eq_Inr
    by (auto simp: each_eq_Inr source_git_eq product_identity_eq scope_dependencies_eq exn_elims split_def)
  have "\<forall>(mode, scope) \<in> set BASELINE_SCOPES. has (fld b ''scopes'') scope \<and>
      py_eq (fld (fld bl ''direct_dependencies'') mode) (VDict (scope_deps b scope))"
  proof clarify
    fix mode scope assume m: "(mode, scope) \<in> set BASELINE_SCOPES"
    with last have h: "has (fld a ''scopes'') scope"
      and e: "py_eq (fld (fld bl ''direct_dependencies'') mode) (VDict (scope_deps a scope))" by auto
    have "same_scope a b scope" using sc m h by (auto simp: BASELINE_SCOPES_def)
    then show "has (fld b ''scopes'') scope \<and> py_eq (fld (fld bl ''direct_dependencies'') mode) (VDict (scope_deps b scope))"
      using e py_eq_VDict_perm [OF _ wf_scope_deps [OF wf]] by (auto simp: same_scope_def)
  qed
  then show ?thesis
    using v ok same unfolding validate_baseline_identity_def Let_def bnd_eq_Inr chk_eq_Inr
    by (auto simp: each_eq_Inr source_git_eq product_identity_eq scope_dependencies_eq exn_elims same_candidate_def split_def)
qed


definition summary_reporting :: "val \<Rightarrow> val" where
  "summary_reporting b = fld (fld b ''reporting'') ''summary''"

lemma summary_reporting_identity:
  assumes "binding_ok a" "binding_ok b" "wf_val a" and "py_eq (summary_reporting a) (summary_reporting b)"
  shows "summary_identity a = summary_identity b"
proof -
  have r: "is_dict (summary_reporting x) \<and> has (summary_reporting x) ''identity'' \<and> is_str (fld (summary_reporting x) ''identity'')"
    if ok: "binding_ok x" for x
  proof -
    have "(''summary'', summary_reporting x) \<in> set (items (fld x ''reporting''))"
      using reporting_has [OF ok] fld_in_set by (auto simp: summary_reporting_def)
    then have "is_dict (summary_reporting x) \<and> keyset_is (summary_reporting x) [''identity'', ''schema'', ''content''] \<and>
        is_str (fld (summary_reporting x) ''identity'')"
      using binding_reporting [OF ok] by (auto simp: validate_reporting_def chk_eq_Inr each_eq_Inr Let_def)
    then show ?thesis by (auto simp: keyset_is_def has_def)
  qed
  obtain e where e: "summary_reporting b = VDict e" "''identity'' \<in> fst ` set e"
    using r [OF assms(2)] by (auto simp: is_dict_iff)
  have "wf_val (summary_reporting a)" using assms(3) by (auto simp: summary_reporting_def intro!: wf_val_fldd)
  then have "py_eq (fld (summary_reporting a) ''identity'') (fld (summary_reporting b) ''identity'')"
    using py_eq_fldd [of "summary_reporting a" e "''identity''" VNone] assms(4) e by simp
  then have "fld (summary_reporting a) ''identity'' = fld (summary_reporting b) ''identity''"
    using r [OF assms(2)] by (auto simp: is_str_iff)
  then show ?thesis by (simp add: summary_identity_def summary_reporting_def)
qed

text \<open>What \<open>rebind\<close> returns.\<close>

definition rebound :: "val \<Rightarrow> val \<Rightarrow> val \<times> string list" where
  "rebound state b =
     (let changed = changed_scopes (fld state ''binding'') b;
          removed = (if changed = []
                     then filter (\<lambda>m. \<not> py_eq (summary_reporting (fld state ''binding'')) (summary_reporting b) \<and>
                                      has (fld state ''checkpoints'') m) [''summarize'']
                     else sort (filter (has (fld state ''checkpoints'')) (affected_modes changed)));
          retired = (fld state ''baseline'' \<noteq> VNone \<and> set changed \<inter> {''frontier'', ''core'', ''product''} \<noteq> {})
      in (fold drop_checkpoint removed (vset ''binding'' b (if retired then retire_baseline state else state)), removed))"

lemma rebind_eq_Inr:
  "rebind contract state b = Inr r \<longleftrightarrow>
     validate_state contract state = Inr () \<and> binding_ok b \<and>
     py_eq (fld b ''suite_version'') (fld contract ''suite_version'') \<and> r = rebound state b"
proof -
  have "validate_state contract state = Inr () \<Longrightarrow> has contract ''suite_version''"
    by (simp add: validate_state_iff)
  then show ?thesis
    unfolding rebind_def Let_def bnd_eq_Inr chk_eq_Inr vsub_eq_Inr
    by (auto simp: rebound_def summary_reporting_def has_is_dict Let_def)
qed

lemma rebound_fields:
  assumes d: "is_dict state" and r: "rebound state b = (state', removed)"
  shows "is_dict state'" and "fld state' ''binding'' = b"
    and "fld state' ''checkpoints'' = without removed (fld state ''checkpoints'')"
    and "fld state' ''schema'' = fld state ''schema''" and "fld state' ''suite_version'' = fld state ''suite_version''"
    and "is_dict (fld state ''invalidated_reports'') \<Longrightarrow> is_dict (fld state' ''invalidated_reports'')"
    and "distinct removed"
proof -
  obtain s where s: "state' = fold drop_checkpoint removed (vset ''binding'' b s)" "s = state \<or> s = retire_baseline state"
    using r by (auto simp: rebound_def Let_def split: if_splits)
  have ds: "is_dict (vset ''binding'' b s)" using s(2) d by auto
  show "is_dict state'" using ds by (simp add: s(1))
  show "fld state' ''binding'' = b" "fld state' ''schema'' = fld state ''schema''"
    "fld state' ''suite_version'' = fld state ''suite_version''"
    using s(2) d ds by (auto simp: s(1))
  show "fld state' ''checkpoints'' = without removed (fld state ''checkpoints'')"
    unfolding s(1) drops_checkpoints [OF ds] without_def using s(2) d by auto
  show di: "distinct removed"
    using r by (auto simp: rebound_def Let_def affected_modes_def split: if_splits)
  show "is_dict (fld state ''invalidated_reports'') \<Longrightarrow> is_dict (fld state' ''invalidated_reports'')"
    using drops_invalidated [OF ds _ di] s(2) by (auto simp: s(1))
qed

lemma rebound_baseline:
  assumes d: "is_dict state" and r: "rebound state b = (state', removed)"
  shows "fld state' ''baseline'' =
      (if set (changed_scopes (fld state ''binding'') b) \<inter> {''frontier'', ''core'', ''product''} \<noteq> {} then VNone
       else fld state ''baseline'')"
    and "fld state ''baseline_history'' = VList xs \<Longrightarrow> fld state' ''baseline_history'' =
      VList (if fld state ''baseline'' \<noteq> VNone \<and> fld state' ''baseline'' = VNone then xs @ [fld state ''baseline''] else xs)"
  using r d retire_history [OF d, of xs] by (auto simp: rebound_def Let_def split: if_splits)

text \<open>What \<open>rebind\<close> does not arrange by itself: that an active baseline it keeps is a baseline of the new
  candidate, and that a summary checkpoint it keeps was generated by the current summary code.\<close>

definition rebind_safe :: "val \<Rightarrow> val \<Rightarrow> bool" where
  "rebind_safe state b =
     (let a = fld state ''binding''; changed = changed_scopes a b in
      (fld state ''baseline'' \<noteq> VNone \<and> set changed \<inter> {''frontier'', ''core'', ''product''} = {} \<longrightarrow> same_candidate a b) \<and>
      (has (fld state ''checkpoints'') ''summarize'' \<and> changed \<noteq> [] \<and> set changed \<inter> set AGGREGATE_SCOPES = {} \<longrightarrow>
         py_eq (summary_reporting a) (summary_reporting b)))"

lemma rebound_kept_checkpoint:
  assumes v: "validate_state contract state = Inr ()" and ok: "binding_ok b"
    and wf: "wf_val (fld state ''binding'')" "wf_val b" and cf: "scope_collision_free (fld state ''binding'') b"
    and safe: "rebind_safe state b" and r: "rebound state b = (state', removed)"
    and mc: "mc \<in> set (items (fld state ''checkpoints''))" "fst mc \<notin> set removed"
  shows "checkpoint_ok b mc"
proof -
  let ?a = "fld state ''binding''" and ?ch = "changed_scopes (fld state ''binding'') b"
  obtain mode ck where m: "mc = (mode, ck)" by force
  have oka: "binding_ok ?a" and c: "checkpoint_ok ?a (mode, ck)" using v mc(1) m by (auto simp: validate_state_iff)
  have h: "has (fld state ''checkpoints'') mode" using mc(1) m by (force simp: has_def keys_def)
  have kept: "mode \<notin> set (affected_modes ?ch)"
    using r mc(2) m h by (auto simp: rebound_def Let_def affected_modes_def split: if_splits)
  show ?thesis unfolding m
  proof (rule checkpoint_ok_rebind [OF oka ok wf c])
    fix s assume "map_of MODE_SCOPES mode = Some s" and "has (fld ?a ''scopes'') s"
    then show "same_scope ?a b s" using affected_scope kept unchanged_same_scope [OF oka ok cf] by blast
  next
    assume mode: "mode = ''summarize''"
    then have un: "set ?ch \<inter> set AGGREGATE_SCOPES = {}" using affected_summarize kept by blast
    have "py_eq (summary_reporting ?a) (summary_reporting b)"
    proof (cases "?ch = []")
      case True
      then show ?thesis using r mc(2) m mode h by (auto simp: rebound_def Let_def split: if_splits)
    next
      case False
      then show ?thesis using safe h mode un by (auto simp: rebind_safe_def Let_def)
    qed
    then show "summary_identity ?a = summary_identity b \<and>
       (\<forall>s \<in> set AGGREGATE_SCOPES. has (fld ?a ''scopes'') s \<longrightarrow> same_scope ?a b s)"
      using summary_reporting_identity [OF oka ok wf(1)] unchanged_same_scope [OF oka ok cf] un by blast
  qed
qed

lemma rebind_valid:
  assumes r: "rebind contract state b = Inr (state', removed)"
    and wf: "wf_val (fld state ''binding'')" "wf_val b" and cf: "scope_collision_free (fld state ''binding'') b"
    and safe: "rebind_safe state b"
  shows "validate_state contract state' = Inr ()"
proof -
  let ?a = "fld state ''binding''" and ?ch = "changed_scopes (fld state ''binding'') b"
  from r have v: "validate_state contract state = Inr ()" and ok: "binding_ok b" and rb: "rebound state b = (state', removed)"
    unfolding rebind_eq_Inr by auto
  from v have d: "is_dict state" and oka: "binding_ok ?a" and bl: "baseline_ok ?a (fld state ''checkpoints'') (fld state ''baseline'')"
    and h: "history_ok (fld state ''baseline_history'')" by (auto simp: validate_state_iff)
  note f = rebound_fields [OF d rb] and fb = rebound_baseline [OF d rb]
  have cks: "\<forall>mc \<in> set (items (fld state' ''checkpoints'')). checkpoint_ok b mc"
    using rebound_kept_checkpoint [OF v ok wf cf safe rb] by (simp add: f(3) without_def vdels_items)
  have bl': "baseline_ok b (fld state' ''checkpoints'') (fld state' ''baseline'')"
  proof (cases "fld state' ''baseline'' = VNone")
    case True
    then show ?thesis by (simp add: baseline_ok_def)
  next
    case False
    then have un: "set ?ch \<inter> {''frontier'', ''core'', ''product''} = {}" and e: "fld state' ''baseline'' = fld state ''baseline''"
      using fb(1) by (auto split: if_splits)
    have sc: "same_candidate ?a b" using safe False un e by (auto simp: rebind_safe_def Let_def)
    have "validate_baseline_identity (fld state ''baseline'') (Some b) = Inr ()"
      using bl False e un unchanged_same_scope [OF oka ok cf]
      by (intro baseline_identity_rebind [OF oka ok wf(1) sc]) (auto simp: baseline_ok_def)
    moreover have "set removed \<inter> set BASELINE_AGGREGATES = {}"
      using rb affected_baseline [OF un]
      by (auto simp: rebound_def Let_def BASELINE_AGGREGATES_def split: if_splits)
    ultimately show ?thesis
      using baseline_ok_drop [OF bl] by (auto simp: f(3) e baseline_ok_def)
  qed
  have "history_ok (fld state' ''baseline_history'')"
  proof -
    obtain xs where xs: "fld state ''baseline_history'' = VList xs" "\<forall>x \<in> set xs. validate_baseline_identity x None = Inr ()"
      using h by (auto simp: history_ok_def)
    have "fld state ''baseline'' \<noteq> VNone \<Longrightarrow> validate_baseline_identity (fld state ''baseline'') None = Inr ()"
      using bl by (auto simp: baseline_ok_def intro: baseline_identity_weaken)
    then show ?thesis using fb(2) [OF xs(1)] xs(2) by (auto simp: history_ok_def)
  qed
  then show ?thesis
    using v ok cks bl' f unfolding validate_state_iff by (simp add: without_def)
qed


section \<open>What rebinding leaves behind\<close>

lemma baseline_identity_source:
  "validate_baseline_identity bl (Some b) = Inr () \<Longrightarrow> fld bl ''candidate'' = VStr (audit_git b)"
  unfolding validate_baseline_identity_def Let_def bnd_eq_Inr chk_eq_Inr
  by (auto simp: source_git_eq exn_elims)

lemma rebind_stale_baseline:
  assumes r: "rebind contract state b = Inr (state', removed)" and bl: "fld state ''baseline'' \<noteq> VNone"
    and un: "set (changed_scopes (fld state ''binding'') b) \<inter> {''frontier'', ''core'', ''product''} = {}"
    and g: "audit_git (fld state ''binding'') \<noteq> audit_git b"
  shows "validate_state contract state' \<noteq> Inr ()"
proof
  assume v': "validate_state contract state' = Inr ()"
  from r have v: "validate_state contract state = Inr ()" and rb: "rebound state b = (state', removed)"
    unfolding rebind_eq_Inr by auto
  have d: "is_dict state" using v by (simp add: validate_state_iff)
  have e: "fld state' ''baseline'' = fld state ''baseline''" using rebound_baseline(1) [OF d rb] un by simp
  have "fld (fld state ''baseline'') ''candidate'' = VStr (audit_git (fld state ''binding''))"
    using v bl by (intro baseline_identity_source) (auto simp: validate_state_iff baseline_ok_def)
  moreover have "fld (fld state ''baseline'') ''candidate'' = VStr (audit_git b)"
    using v' bl e rebound_fields(2) [OF d rb]
    by (intro baseline_identity_source) (auto simp: validate_state_iff baseline_ok_def)
  ultimately show False using g by simp
qed

text \<open>The identity of a checkpoint determines the summary code it names.\<close>

lemma summary_in_identity:
  assumes ok: "binding_ok a" and wf: "wf_val v" and h: "validate_evidence_identity v ''summarize'' r (summary_deps a u) = Inr ()"
  shows "fld (fld v ''direct_dependencies'') ''summary-generation'' = VStr u"
proof -
  let ?d = "dsorted (summary_deps a u)"
  let ?f = "evidence_fields ''summarize'' r (summary_deps a u)"
  have p: "py_eq v (VDict (?f @ [(''identity'', VStr (canonical_sha256 (VDict ?f)))]))"
    using h by (auto simp: validate_evidence_identity_def evidence_identity_def exn_elims Let_def)
  have "py_eq (fld v ''direct_dependencies'') (VDict ?d)"
    using py_eq_fldd [OF p wf, of "''direct_dependencies''" VNone] by (simp add: evidence_fields_def)
  moreover have "wf_val (fld v ''direct_dependencies'')" using wf by (simp add: wf_val_fldd)
  moreover have mem: "(''summary-generation'', VStr u) \<in> set ?d"
  proof -
    have "map_of (summary_deps a u) ''summary-generation'' = Some (VStr u)" by (simp add: summary_deps_def update_conv')
    then show ?thesis by (auto simp: dsorted_def dest: map_of_SomeD)
  qed
  moreover have "fld (VDict ?d) ''summary-generation'' = VStr u"
  proof -
    have "distinct (map fst ?d)"
      using dsorted_distinct [of "summary_deps a u" ?d]
      by (simp add: dsorted_def sort_key_id_if_sorted summary_deps_def distinct_update distinct_dupdate)
    then show ?thesis using mem by (simp add: fldd.simps(1))
  qed
  ultimately show ?thesis
    using py_eq_fldd [of "fld v ''direct_dependencies''" ?d "''summary-generation''" VNone] by force
qed

lemma rebind_stale_summary:
  assumes r: "rebind contract state b = Inr (state', removed)" and wf: "wf_val state"
    and h: "has (fld state ''checkpoints'') ''summarize''"
    and ch: "changed_scopes (fld state ''binding'') b \<noteq> []"
    and un: "set (changed_scopes (fld state ''binding'') b) \<inter> set AGGREGATE_SCOPES = {}"
    and g: "summary_identity (fld state ''binding'') \<noteq> summary_identity b"
  shows "validate_state contract state' \<noteq> Inr ()"
proof
  assume v': "validate_state contract state' = Inr ()"
  let ?a = "fld state ''binding''" and ?ck = "fld (fld state ''checkpoints'') ''summarize''"
  from r have v: "validate_state contract state = Inr ()" and ok: "binding_ok b" and rb: "rebound state b = (state', removed)"
    unfolding rebind_eq_Inr by auto
  have d: "is_dict state" and oka: "binding_ok ?a" using v by (auto simp: validate_state_iff)
  have "''summarize'' \<notin> set (affected_modes (changed_scopes ?a b))"
    using un binding_scopes(2) [OF oka] binding_scopes(2) [OF ok]
    by (fastforce simp: affected_modes_def changed_scopes_def tbl_def AGGREGATE_SCOPES_def SCOPE_COMPONENTS_def
        SCOPE_RESULTS_def MODE_INVALIDATION_def split: if_splits)
  then have kept: "''summarize'' \<notin> set removed" using rb ch by (auto simp: rebound_def Let_def)
  have mem: "(''summarize'', ?ck) \<in> set (items (fld state ''checkpoints''))" using fld_in_set [OF _ h] by blast
  then have "(''summarize'', ?ck) \<in> set (items (fld state' ''checkpoints''))"
    using kept by (simp add: rebound_fields(3) [OF d rb] without_def vdels_items)
  with v' have c': "checkpoint_ok b (''summarize'', ?ck)"
    using rebound_fields(2) [OF d rb] by (auto simp: validate_state_iff)
  have c: "checkpoint_ok ?a (''summarize'', ?ck)" using v mem by (auto simp: validate_state_iff)
  have w: "wf_val (fld ?ck ''evidence_identity'')" using wf by (intro wf_val_fldd) auto
  have n: "fld (fld (fld ?ck ''evidence_identity'') ''direct_dependencies'') ''summary-generation'' = VStr (summary_identity x)"
    if "binding_ok x" "checkpoint_ok x (''summarize'', ?ck)" for x
    using that dependencies_summarize [OF that(1)]
    by (auto simp: checkpoint_ok_def validate_checkpoint_identity_def bnd_eq_Inr intro: summary_in_identity [OF that(1) w])
  from n [OF oka c] n [OF ok c'] g show False by simp
qed

end
