(* ===== verification/Lifecycle_Promotion.thy ===== *)
theory Lifecycle_Promotion
  imports Lifecycle_Invariants
begin

text \<open>
  Recording a report and promoting a baseline: when the state they leave is accepted again.
\<close>

section \<open>Recording\<close>

lemma set_update: "set (AList.update k x d) \<subseteq> insert (k, x) (set d)"
  by (induction d) auto

lemma items_vset: "set (items (vset k x v)) \<subseteq> insert (k, x) (set (items v))"
  by (cases v) (auto dest: set_update [THEN subsetD])

lemma wf_scope_deps_val:
  assumes "wf_val b" shows "wf_val (VDict (scope_deps b s))"
proof -
  have "wf_val (fld (fld (fld b ''scopes'') s) ''direct_dependencies'')" using assms by (intro wf_val_fldd) auto
  then show ?thesis
    by (cases "fld (fld (fld b ''scopes'') s) ''direct_dependencies''") (auto simp: scope_deps_def)
qed

lemma dependencies_wf:
  assumes ok: "binding_ok b" and wf: "wf_val b" and d: "dependencies_for_mode b mode = Inr d"
  shows "wf_val (VDict d)"
proof -
  note sc = wf_scope_deps_val [OF wf]
  show ?thesis
  proof (cases "mode = ''summarize''")
    case False
    then show ?thesis using sc d dependencies_scope [OF ok False] by auto
  next
    case True
    have up: "wf_val (VDict (dupdate d0 e))" if "wf_val (VDict d0)" "list_all (\<lambda>(k, x). wf_val x) e" for d0 e
      using that
    proof (induction e arbitrary: d0)
      case (Cons kx e)
      obtain k x where kx: "kx = (k, x)" by force
      have "wf_val (vset k x (VDict d0))" using Cons.prems kx by (intro wf_val_vset) auto
      then show ?case using Cons by (simp add: kx dupdate_def)
    qed (simp add: dupdate_def)
    have pf: "list_all (\<lambda>(k, x). wf_val x) (prefixed s (scope_deps b s))" for s
      using sc [of s] by (auto simp: prefixed_def list_all_iff)
    have "wf_val (VDict (summary_deps b u))" for u
    proof -
      have "wf_val (VDict (dupdate [] (prefixed ''core'' (scope_deps b ''core'') @ prefixed ''product'' (scope_deps b ''product'') @
                    prefixed ''community'' (scope_deps b ''community''))))"
        using pf by (intro up) auto
      then have "wf_val (vset ''summary-generation'' (VStr u) (VDict (dupdate [] (prefixed ''core'' (scope_deps b ''core'') @
          prefixed ''product'' (scope_deps b ''product'') @ prefixed ''community'' (scope_deps b ''community'')))))"
        by (rule wf_val_vset) simp
      then show ?thesis by (simp add: summary_deps_def)
    qed
    then show ?thesis using True d dependencies_summarize [OF ok] by auto
  qed
qed

lemma wf_dsorted: "wf_val (VDict d) \<Longrightarrow> wf_val (VDict (dsorted d))"
  by (auto simp: dsorted_def list_all_iff distinct_map)

lemma evidence_identity_wf:
  "evidence_identity k r d = Inr v \<Longrightarrow> wf_val (VDict d) \<Longrightarrow> wf_val v"
  using wf_dsorted [of d] by (auto simp: evidence_identity_def evidence_fields_def chk_eq_Inr Let_def)

lemma validate_evidence_identity_self:
  "evidence_identity k r d = Inr v \<Longrightarrow> wf_val (VDict d) \<Longrightarrow> validate_evidence_identity v k r d = Inr ()"
  using evidence_identity_wf [of k r d v] py_eq_refl [of v] by (simp add: validate_evidence_identity_def)

lemma put_checkpoint_fields:
  assumes "is_dict s"
  shows "is_dict (put_checkpoint m c s)" and "fld (put_checkpoint m c s) ''checkpoints'' = vset m c (fld s ''checkpoints'')"
    and "fld (put_checkpoint m c s) ''invalidated_reports'' = vdel m (fld s ''invalidated_reports'')"
    and "k \<noteq> ''checkpoints'' \<Longrightarrow> k \<noteq> ''invalidated_reports'' \<Longrightarrow> fldd (put_checkpoint m c s) k x = fldd s k x"
  using assms by (simp_all add: put_checkpoint_def)

text \<open>A run of \<open>record\<close> that returns.\<close>

lemma record_report_eq_Inr:
  assumes "record_report fs repository now contract state mode report digest elapsed report_path selection = Inr (state', outcome)"
  shows "can_start fs repository contract state mode = Inr ()" and "mode \<noteq> ''self-check''"
    and "validate_report_for_mode contract state mode report = Inr ()"
    and "\<exists>maximum. max_wall_seconds contract mode = Inr maximum \<and> (\<forall>m. maximum = Some m \<longrightarrow> fl_le elapsed m)"
    and "file_digest_is fs (path_of report_path) (VStr digest)"
    and "\<exists>manifest active d i.
      validate_report_artifacts fs (path_of report_path) report = Inr manifest \<and> for_mode (fld state ''binding'') mode = Inr active \<and>
      dependencies_for_mode (fld state ''binding'') mode = Inr d \<and> evidence_identity mode digest d = Inr i \<and>
      (if same_checkpoint (fld (fld state ''checkpoints'') mode) digest active manifest selection i
       then state' = state \<and> outcome = ''reused''
       else (\<exists>passed. state' = put_checkpoint mode
               (new_checkpoint active digest passed elapsed report_path manifest now i selection) state \<and> outcome = ''recorded''))"
proof -
  obtain maximum persisted manifest active d i where
    a: "can_start fs repository contract state mode = Inr ()" "mode \<noteq> ''self-check''"
      "validate_report_for_mode contract state mode report = Inr ()" and
    m: "max_wall_seconds contract mode = Inr maximum" "case maximum of None \<Rightarrow> True | Some m \<Rightarrow> fl_le elapsed m" and
    f: "file_digest_is fs (path_of report_path) (VStr digest)" and
    x: "validate_report_artifacts fs (path_of report_path) report = Inr manifest" "for_mode (fld state ''binding'') mode = Inr active"
      "dependencies_for_mode (fld state ''binding'') mode = Inr d" "evidence_identity mode digest d = Inr i" and
    last: "(if same_checkpoint (fld (fld state ''checkpoints'') mode) digest active manifest selection i
        then Inr (state, ''reused'')
        else bnd (in_set (fld report ''decision'') PASSED_DECISIONS)
          (\<lambda>eligible. Inr (put_checkpoint mode (new_checkpoint active digest (fldd report ''passed'' (VBool eligible))
              elapsed report_path manifest now i selection) state, ''recorded''))) = Inr (state', outcome)"
    using assms unfolding record_report_def Let_def bnd_eq_Inr [of "can_start _ _ _ _ _"] chk_eq_Inr
      bnd_eq_Inr [of "validate_report_for_mode _ _ _ _"] bnd_eq_Inr [of "max_wall_seconds _ _"] bnd_eq_Inr [of "catch _ _ _"]
      bnd_eq_Inr [of "validate_report_artifacts _ _ _"] bnd_eq_Inr [of "for_mode _ _"]
      bnd_eq_Inr [of "dependencies_for_mode _ _"] bnd_eq_Inr [of "evidence_identity _ _ _"]
    by (elim exE conjE, intro that) (assumption | simp)+
  show "can_start fs repository contract state mode = Inr ()" "mode \<noteq> ''self-check''"
    "validate_report_for_mode contract state mode report = Inr ()" "file_digest_is fs (path_of report_path) (VStr digest)"
    using a f by blast+
  show "\<exists>maximum. max_wall_seconds contract mode = Inr maximum \<and> (\<forall>m. maximum = Some m \<longrightarrow> fl_le elapsed m)"
    using m by auto
  show "\<exists>manifest active d i.
      validate_report_artifacts fs (path_of report_path) report = Inr manifest \<and> for_mode (fld state ''binding'') mode = Inr active \<and>
      dependencies_for_mode (fld state ''binding'') mode = Inr d \<and> evidence_identity mode digest d = Inr i \<and>
      (if same_checkpoint (fld (fld state ''checkpoints'') mode) digest active manifest selection i
       then state' = state \<and> outcome = ''reused''
       else (\<exists>passed. state' = put_checkpoint mode
               (new_checkpoint active digest passed elapsed report_path manifest now i selection) state \<and> outcome = ''recorded''))"
    using x last by (intro exI [of _ manifest] exI [of _ active] exI [of _ d] exI [of _ i])
      (auto simp: bnd_eq_Inr split: if_split_asm)
qed

lemma new_checkpoint_fields [simp]:
  "is_dict (new_checkpoint a d p e rp m n i s)" "fldd (new_checkpoint a d p e rp m n i s) ''report_sha256'' x = VStr d"
  "fld (new_checkpoint a d p e rp m n i s) ''evidence_identity'' = i" "fld (new_checkpoint a d p e rp m n i s) ''passed'' = p"
  by (simp_all add: new_checkpoint_def)

text \<open>The new report does not replace a report of the active baseline.\<close>

definition record_safe :: "val \<Rightarrow> string \<Rightarrow> string \<Rightarrow> bool" where
  "record_safe state mode digest =
     (fld state ''baseline'' \<noteq> VNone \<longrightarrow>
        (\<forall>f. map_of BASELINE_FIELDS mode = Some f \<longrightarrow> fld (fld state ''baseline'') f = VStr digest))"

text \<open>Recording a report under the digest that an active baseline names leaves the baseline current.\<close>

lemma recorded_baseline_ok:
  assumes bo: "baseline_ok b cs (fld state ''baseline'')" and safe: "record_safe state mode digest" and d: "is_dict cs"
    and c: "is_dict c" "fld c ''report_sha256'' = VStr digest"
  shows "baseline_ok b (vset mode c cs) (fld state ''baseline'')"
proof (cases "fld state ''baseline'' = VNone")
  case True
  then show ?thesis by (simp add: baseline_ok_def)
next
  case False
  have cur: "validate_baseline_identity (fld state ''baseline'') (Some b) = Inr ()" "baseline_current cs (fld state ''baseline'')"
    using bo False by (auto simp: baseline_ok_def)
  have "is_dict (fld (vset mode c cs) m) \<and> py_eq (fld (fld (vset mode c cs) m) ''report_sha256'') (fld (fld state ''baseline'') field)"
    if mf: "(m, field) \<in> set BASELINE_FIELDS" for m field
  proof (cases "m = mode")
    case True
    then have "map_of BASELINE_FIELDS mode = Some field" using mf by (auto simp: BASELINE_FIELDS_def)
    then have "fld (fld state ''baseline'') field = VStr digest" using safe False by (simp add: record_safe_def)
    then show ?thesis using True d c by simp
  next
    case ne: False
    then show ?thesis using cur(2) mf by (auto simp: baseline_current_def)
  qed
  then show ?thesis using cur(1) by (auto simp: baseline_ok_def baseline_current_def)
qed

lemma record_valid:
  assumes r: "record_report fs repository now contract state mode report digest elapsed report_path selection = Inr (state', outcome)"
    and wf: "wf_val (fld state ''binding'')" and safe: "record_safe state mode digest"
  shows "validate_state contract state' = Inr ()"
proof -
  let ?b = "fld state ''binding''"
  have v: "validate_state contract state = Inr ()"
    using record_report_eq_Inr(1) [OF r] by (auto simp: can_start_def bnd_eq_Inr)
  then have d: "is_dict state" "is_dict (fld state ''checkpoints'')" "is_dict (fld state ''invalidated_reports'')"
    and ok: "binding_ok ?b" by (auto simp: validate_state_iff)
  obtain manifest active deps i where deps: "dependencies_for_mode ?b mode = Inr deps" "evidence_identity mode digest deps = Inr i"
    and out: "if same_checkpoint (fld (fld state ''checkpoints'') mode) digest active manifest selection i
       then state' = state \<and> outcome = ''reused''
       else (\<exists>passed. state' = put_checkpoint mode
               (new_checkpoint active digest passed elapsed report_path manifest now i selection) state \<and> outcome = ''recorded'')"
    using record_report_eq_Inr(6) [OF r] by blast
  show ?thesis
  proof (cases "state' = state")
    case True
    then show ?thesis using v by simp
  next
    case False
    then obtain passed where s': "state' = put_checkpoint mode
               (new_checkpoint active digest passed elapsed report_path manifest now i selection) state"
      using out by (auto split: if_splits)
    let ?c = "new_checkpoint active digest passed elapsed report_path manifest now i selection"
    note f = put_checkpoint_fields [OF d(1), where m = mode and c = ?c, folded s']
    have ck: "checkpoint_ok ?b (mode, ?c)"
      using deps validate_evidence_identity_self [OF deps(2) dependencies_wf [OF ok wf deps(1)]]
      by (simp add: checkpoint_ok_def validate_checkpoint_identity_def)
    have cks: "\<forall>mc \<in> set (items (fld state' ''checkpoints'')). checkpoint_ok ?b mc"
      using items_vset [of mode ?c "fld state ''checkpoints''"] v ck unfolding f(2) validate_state_iff by blast
    have "baseline_ok ?b (fld state' ''checkpoints'') (fld state ''baseline'')"
      unfolding f(2) using v d by (intro recorded_baseline_ok [OF _ safe]) (auto simp: validate_state_iff)
    then show ?thesis using v cks f d unfolding validate_state_iff by simp
  qed
qed

lemma record_replaces_baseline_report:
  assumes r: "record_report fs repository now contract state mode report digest elapsed report_path selection = Inr (state', ''recorded'')"
    and b: "fld state ''baseline'' \<noteq> VNone" and f: "map_of BASELINE_FIELDS mode = Some field"
    and ne: "fld (fld state ''baseline'') field \<noteq> VStr digest"
  shows "validate_state contract state' \<noteq> Inr ()"
proof
  assume v': "validate_state contract state' = Inr ()"
  have v: "validate_state contract state = Inr ()"
    using record_report_eq_Inr(1) [OF r] by (auto simp: can_start_def bnd_eq_Inr)
  then have d: "is_dict state" "is_dict (fld state ''checkpoints'')" by (auto simp: validate_state_iff)
  obtain active passed manifest i where s': "state' = put_checkpoint mode
               (new_checkpoint active digest passed elapsed report_path manifest now i selection) state"
    using record_report_eq_Inr(6) [OF r] by (auto split: if_splits)
  note g = put_checkpoint_fields [OF d(1), where m = mode and c = "new_checkpoint active digest passed elapsed report_path manifest now i selection", folded s']
  have "(mode, field) \<in> set BASELINE_FIELDS" using f by (rule map_of_SomeD)
  moreover have "baseline_current (fld state' ''checkpoints'') (fld state' ''baseline'')"
    using v' b g by (simp add: validate_state_iff baseline_ok_def)
  ultimately have "py_eq (VStr digest) (fld (fld state ''baseline'') field)"
    using d g by (fastforce simp: baseline_current_def)
  with ne show False by simp
qed


section \<open>Reports of a checkpoint\<close>

lemma report_kind_of_scope:
  "map_of MODE_SCOPES mode = Some s \<Longrightarrow> map_of REPORT_KIND mode = Some s"
  by (auto simp: MODE_SCOPES_def REPORT_KIND_def split: if_splits)

lemma validate_layer_report_candidate:
  "validate_layer_report contract kind report active = Inr () \<Longrightarrow> active \<noteq> [] \<Longrightarrow>
     py_eq (fld report ''candidate'') (fld (VDict active) ''candidate'')"
  unfolding validate_layer_report_def bnd_eq_Inr chk_eq_Inr checks_eq_Inr
  by (auto simp: each_eq_Inr chk_eq_Inr)

lemma report_candidate:
  assumes v: "validate_report_for_mode contract state mode report = Inr ()"
    and f: "for_mode (fld state ''binding'') mode = Inr active" and c: "fld (VDict active) ''candidate'' = VStr g"
  shows "fld report ''candidate'' = VStr g"
proof -
  have ne: "active \<noteq> []" using c by auto
  obtain kind where "map_of REPORT_KIND mode = Some kind" and
    "(if kind \<in> {''core'', ''product'', ''community''} then validate_layer_report contract kind report active
          else bnd (validate_report contract kind report) (\<lambda>_.
               bnd (vget report ''candidate'') (\<lambda>candidate.
               chk (py_eq candidate (fld (VDict active) ''candidate'')) (LifeErr (mode @ '' report of another candidate'')) (Inr ())))) = Inr ()"
    using v f unfolding validate_report_for_mode_def Let_def bnd_eq_Inr [of "vsub _ _"] bnd_eq_Inr [of "for_mode _ _"]
      bnd_eq_Inr [of "case _ of None \<Rightarrow> _ | Some x \<Rightarrow> _ x"] vsub_eq_Inr
      bnd_eq_Inr [of "if _ then validate_layer_report _ _ _ _ else _"]
    by (elim exE conjE) (auto split: option.splits)
  then show ?thesis using validate_layer_report_candidate [OF _ ne, of contract kind report] c
    by (auto simp: exn_elims split: if_splits)
qed

lemma checkpoint_report_facts:
  assumes "checkpoint_report fs contract state mode = Inr report"
  shows "is_dict report" and "validate_report_for_mode contract state mode report = Inr ()"
    and "is_dict (fld (fld state ''checkpoints'') mode)"
    and "\<exists>d. fld (fld (fld state ''checkpoints'') mode) ''report_sha256'' = VStr d \<and> is_hex 64 d"
proof -
  have cp: "checkpoint_of state mode = Inr c \<Longrightarrow> is_dict c \<Longrightarrow> c = fld (fld state ''checkpoints'') mode" for c
    by (auto simp: checkpoint_of_def exn_elims fldd_has fldd_no_has)
      (metis fldd_VDict(1) fldd_has fldd_no_has is_dict.simps(2))
  note u = assms [unfolded checkpoint_report_def Let_def bnd_eq_Inr chk_eq_Inr]
  show "is_dict report" "validate_report_for_mode contract state mode report = Inr ()"
    using u by (auto simp: exn_elims)
  show "is_dict (fld (fld state ''checkpoints'') mode)"
    using u cp by blast
  show "\<exists>d. fld (fld (fld state ''checkpoints'') mode) ''report_sha256'' = VStr d \<and> is_hex 64 d"
    using u cp by (fastforce simp: exn_elims is_hex_sha256)
qed


section \<open>Scalars\<close>

lemma hashable_euclid: "hashable a \<Longrightarrow> py_eq a c \<Longrightarrow> py_eq b c \<Longrightarrow> py_eq a b"
proof -
  have fe: "fl_eq x z \<Longrightarrow> fl_eq y z \<Longrightarrow> fl_eq x y" for x y z by (cases x; cases y; cases z) auto
  have ff: "fl_eq (Fin q) x = (x = Fin q)" "fl_eq x (Fin q) = (x = Fin q)" for q x by (cases x; auto)+
  assume h: "hashable a" "py_eq a c" "py_eq b c"
  show ?thesis
  proof (cases "\<exists>s. a = VStr s")
    case True
    then show ?thesis using h by auto
  next
    case False
    then show ?thesis
      using h by (cases a; cases c; cases b) (auto split: option.splits simp: ff dest: fe)
  qed
qed

lemma sha_str_hashable: "sha_str v \<Longrightarrow> hashable v"
proof (cases v)
  case (VList xs)
  have "CHR ''['' \<notin> set hex_digits" by (simp add: hex_digits_def)
  then show "sha_str v \<Longrightarrow> hashable v" using VList by (auto simp: is_sha256_iff is_hex_def)
next
  case (VDict d)
  have "CHR ''{'' \<notin> set hex_digits" by (simp add: hex_digits_def)
  then show "sha_str v \<Longrightarrow> hashable v" using VDict by (auto simp: is_sha256_iff is_hex_def)
qed auto

section \<open>The promoted baseline\<close>

lemma dsorted_idem: "dsorted (dsorted d) = dsorted d"
  by (simp add: dsorted_def sort_key_id_if_sorted)

lemma fldd_dsorted: "distinct (map fst d) \<Longrightarrow> fldd (VDict (dsorted d)) k x = fldd (VDict d) k x"
proof -
  assume d: "distinct (map fst d)"
  have "distinct (map fst (dsorted d))"
    using dsorted_distinct [of d "dsorted d"] d dsorted_idem by simp
  then have "map_of (dsorted d) = map_of d" using d by (intro map_of_perm) (auto simp: dsorted_def)
  then show ?thesis by (simp add: fldd.simps(1))
qed

text \<open>The three evidence identities of a baseline, from the dependencies of its modes.\<close>

definition baseline_entry :: "string \<Rightarrow> string \<Rightarrow> dict \<Rightarrow> val" where
  "baseline_entry mode digest d =
     VDict (evidence_fields mode digest d @ [(''identity'', VStr (canonical_sha256 (VDict (evidence_fields mode digest d))))])"

definition baseline_fields :: "string \<Rightarrow> (string \<Rightarrow> dict) \<Rightarrow> (string \<Rightarrow> string) \<Rightarrow> dict" where
  "baseline_fields product deps digest =
     [(''product_identity'', VStr product),
      (''direct_dependencies'', VDict (map (\<lambda>m. (m, VDict (dsorted (deps m)))) BASELINE_MODES)),
      (''evidence_identities'', VDict (map (\<lambda>m. (m, baseline_entry m (digest m) (deps m))) BASELINE_MODES)),
      (''identity'', VStr (canonical_sha256 (VDict [(''schema'', VStr BASELINE_IDENTITY_SCHEMA), (''product'', VStr product),
         (''evidence'', VDict (map (\<lambda>m. (m, VStr (canonical_sha256 (VDict (evidence_fields m (digest m) (deps m)))))) BASELINE_MODES))])))]"

lemma baseline_identity_fields_eq:
  assumes "is_hex 64 product" and "\<And>m. m \<in> set BASELINE_MODES \<Longrightarrow> is_hex 64 (digest m)"
    and "\<And>m. m \<in> set BASELINE_MODES \<Longrightarrow> deps m \<noteq> [] \<and> list_all sha_str (map snd (deps m))"
  shows "baseline_identity_fields (VStr product) (VDict (map (\<lambda>m. (m, VDict (deps m))) BASELINE_MODES)) digest =
     Inr (baseline_fields product deps digest)"
proof -
  have m: "baseline_mode_identity (VDict (map (\<lambda>m. (m, VDict (deps m))) BASELINE_MODES)) digest mode =
      Inr (mode, dsorted (deps mode), baseline_entry mode (digest mode) (deps mode))"
    if "mode \<in> set BASELINE_MODES" for mode
  proof -
    have "vsub (VDict (map (\<lambda>m. (m, VDict (deps m))) BASELINE_MODES)) mode = Inr (VDict (deps mode))"
      using that by (auto simp: BASELINE_MODES_def vsub.simps(1))
    moreover have "is_sha256 (VStr (digest mode))" using assms(2) [OF that] by (simp add: is_sha256_iff)
    ultimately show ?thesis
      using assms(3) [OF that]
      by (simp add: baseline_mode_identity_def evidence_identity_def evidence_fields_def dsorted_idem baseline_entry_def Let_def)
  qed
  have "mapm (baseline_mode_identity (VDict (map (\<lambda>m. (m, VDict (deps m))) BASELINE_MODES)) digest) BASELINE_MODES =
     Inr (map (\<lambda>m. (m, dsorted (deps m), baseline_entry m (digest m) (deps m))) BASELINE_MODES)"
    using m by (simp add: BASELINE_MODES_def)
  moreover have "is_sha256 (VStr product)" using assms(1) by (simp add: is_sha256_iff)
  moreover have "py_set (VDict (map (\<lambda>m. (m, VDict (deps m))) BASELINE_MODES)) = Inr (dedup (strs BASELINE_MODES))"
    unfolding py_set_dict by (simp add: comp_def)
  ultimately show ?thesis
    by (simp add: baseline_identity_fields_def baseline_fields_def comp_def baseline_entry_def evidence_fields_def)
qed

lemma baseline_fields_dsorted: "baseline_fields product (\<lambda>m. dsorted (deps m)) digest = baseline_fields product deps digest"
  by (simp add: baseline_fields_def baseline_entry_def evidence_fields_def dsorted_idem)

lemma baseline_fields_wf:
  assumes "\<And>m. wf_val (VDict (deps m))"
  shows "\<forall>(k, x) \<in> set (baseline_fields product deps digest). wf_val x"
proof -
  have "wf_val (VDict (dsorted (deps m)))" for m using wf_dsorted [OF assms] .
  then show ?thesis
    by (auto simp: baseline_fields_def baseline_entry_def evidence_fields_def BASELINE_MODES_def simp del: wf_val.simps(2))
      (auto simp: list_all_iff)
qed

definition mode_scope :: "string \<Rightarrow> string" where
  "mode_scope m = (if m = ''qualification'' then ''product'' else m)"

lemma baseline_mode_scope: "m \<in> set BASELINE_MODES \<Longrightarrow> map_of MODE_SCOPES m = Some (mode_scope m)"
  by (auto simp: BASELINE_MODES_def MODE_SCOPES_def mode_scope_def)

lemma mode_scope_cases: "m \<in> set BASELINE_MODES \<Longrightarrow> mode_scope m \<in> {''core'', ''frontier'', ''product''}"
  by (auto simp: BASELINE_MODES_def mode_scope_def)

lemma for_mode_baseline:
  assumes m: "m \<in> set BASELINE_MODES" and ok: "binding_ok b"
    and h: "\<And>s. s \<in> {''core'', ''frontier'', ''product''} \<Longrightarrow> has (fld b ''scopes'') s"
  shows "for_mode b m = Inr (report_binding_of b (mode_scope m))"
proof -
  have "m \<noteq> ''summarize''" using m by (auto simp: BASELINE_MODES_def)
  then show ?thesis using baseline_mode_scope [OF m] ok h [OF mode_scope_cases [OF m]] by (simp add: for_mode_eq_Inr)
qed

text \<open>The record that \<open>promote_baseline\<close> stores, for checkpoints \<open>c\<close> and reports \<open>r\<close> by mode.\<close>

definition baseline_record :: "string \<Rightarrow> val \<Rightarrow> (string \<Rightarrow> string) \<Rightarrow> (string \<Rightarrow> val) \<Rightarrow> dict" where
  "baseline_record now b digest report =
     [(''candidate'', VStr (run_identity b)), (''binary_sha256'', active_field b ''core'' ''artifact_sha256''),
      (''bindings'', VDict [(''core'', VDict (report_binding_of b ''core'')), (''frontier'', VDict (report_binding_of b ''frontier'')),
         (''product'', VDict (report_binding_of b ''product''))]),
      (''core_report_sha256'', VStr (digest ''core'')), (''frontier_report_sha256'', VStr (digest ''frontier'')),
      (''qualification_report_sha256'', VStr (digest ''qualification'')),
      (''reports'', VDict [(''core'', sealed_report (report ''core'')), (''frontier'', sealed_report (report ''frontier'')),
         (''qualification'', sealed_report (report ''qualification''))]),
      (''promoted_at'', VStr now)] @
     baseline_fields (py_str (fld b ''product'')) (\<lambda>m. scope_deps b (mode_scope m)) digest"


lemma sha_str_not_None: "sha_str v \<Longrightarrow> v \<noteq> VNone"
  by (auto simp: is_sha256_iff is_hex_def)

lemma scope_deps_ne:
  assumes "binding_ok b" and "has (fld b ''scopes'') s" shows "scope_deps b s \<noteq> []"
proof
  assume "scope_deps b s = []"
  then have "active_field b s ''environment_sha256'' = VNone"
    using scope_environment [OF assms] by simp
  moreover have "sha_str (active_field b s ''environment_sha256'')"
    by (rule scope_active_sha [OF assms]) (simp add: REPORT_BINDING_FIELDS_def)
  ultimately show False using sha_str_not_None by metis
qed

text \<open>Both sides of a component dependency are the identity of the component.\<close>

lemma scope_binary_dep:
  assumes ok: "binding_ok b" and h: "has (fld b ''scopes'') s" and s: "''binary'' \<in> set (tbl SCOPE_COMPONENTS s)" "s \<noteq> ''frontier''"
  shows "py_eq (fld (VDict (scope_deps b s)) ''binary'') (active_field b s ''artifact_sha256'')"
proof (rule hashable_euclid)
  show "py_eq (fld (VDict (scope_deps b s)) ''binary'') (fld (fld (fld b ''components'') ''binary'') ''identity'')"
    by (rule scope_component [OF ok h s(1)])
  show e: "py_eq (active_field b s ''artifact_sha256'') (fld (fld (fld b ''components'') ''binary'') ''identity'')"
    by (rule scope_binary [OF ok h s(2)])
  have a: "sha_str (active_field b s ''artifact_sha256'')"
    by (rule scope_active_sha [OF ok h]) (simp add: REPORT_BINDING_FIELDS_def)
  have "hashable (fld (fld (fld b ''components'') ''binary'') ''identity'')"
    using e sha_str_hashable [OF a]
    by (cases "active_field b s ''artifact_sha256''"; cases "fld (fld (fld b ''components'') ''binary'') ''identity''") auto
  then show "hashable (fld (VDict (scope_deps b s)) ''binary'')"
    using scope_component [OF ok h s(1)]
    by (cases "fld (VDict (scope_deps b s)) ''binary''"; cases "fld (fld (fld b ''components'') ''binary'') ''identity''") auto
qed

lemma artifacts_agree:
  assumes ok: "binding_ok b" and h: "has (fld b ''scopes'') s" "has (fld b ''scopes'') t" and "s \<noteq> ''frontier''" "t \<noteq> ''frontier''"
  shows "py_eq (active_field b s ''artifact_sha256'') (active_field b t ''artifact_sha256'')"
proof (rule hashable_euclid)
  show "hashable (active_field b s ''artifact_sha256'')"
    by (intro sha_str_hashable scope_active_sha [OF ok h(1)]) (simp add: REPORT_BINDING_FIELDS_def)
qed (use assms scope_binary [OF ok] in blast)+

lemma wf_active_field: "wf_val b \<Longrightarrow> wf_val (active_field b s f)"
  by (auto simp: active_field_def intro!: wf_val_fldd)

lemma fld_baseline_record [simp]:
  "fld (VDict (baseline_record now b digest report)) ''candidate'' = VStr (run_identity b)"
  "fld (VDict (baseline_record now b digest report)) ''binary_sha256'' = active_field b ''core'' ''artifact_sha256''"
  "fld (VDict (baseline_record now b digest report)) ''bindings'' =
     VDict [(''core'', VDict (report_binding_of b ''core'')), (''frontier'', VDict (report_binding_of b ''frontier'')),
         (''product'', VDict (report_binding_of b ''product''))]"
  "fld (VDict (baseline_record now b digest report)) ''reports'' =
     VDict [(''core'', sealed_report (report ''core'')), (''frontier'', sealed_report (report ''frontier'')),
         (''qualification'', sealed_report (report ''qualification''))]"
  "fldd (VDict (baseline_record now b digest report)) ''product_identity'' x = VStr (py_str (fld b ''product''))"
  "fld (VDict (baseline_record now b digest report)) ''direct_dependencies'' =
     VDict (map (\<lambda>m. (m, VDict (dsorted (scope_deps b (mode_scope m))))) BASELINE_MODES)"
  "fldd (VDict (baseline_record now b digest report)) ''core_report_sha256'' x = VStr (digest ''core'')"
  "fldd (VDict (baseline_record now b digest report)) ''frontier_report_sha256'' x = VStr (digest ''frontier'')"
  "fldd (VDict (baseline_record now b digest report)) ''qualification_report_sha256'' x = VStr (digest ''qualification'')"
  by (simp_all add: baseline_record_def baseline_fields_def)

lemma fld_baseline_record_fields:
  "(k, x) \<in> set (baseline_fields (py_str (fld b ''product'')) (\<lambda>m. scope_deps b (mode_scope m)) digest) \<Longrightarrow>
   fld (VDict (baseline_record now b digest report)) k = x"
  by (auto simp: baseline_record_def baseline_fields_def)

lemma report_digest_baseline_record:
  "m \<in> set BASELINE_MODES \<Longrightarrow> report_digest_of (VDict (baseline_record now b digest report)) m = digest m"
  by (auto simp: report_digest_of_def BASELINE_MODES_def REPORT_FIELDS_def)

text \<open>\<open>evidence_identity\<close> is asked only for the three modes.\<close>

lemma baseline_identity_fields_cong:
  "(\<And>m. m \<in> set BASELINE_MODES \<Longrightarrow> f m = g m) \<Longrightarrow> baseline_identity_fields p d f = baseline_identity_fields p d g"
  by (simp add: baseline_identity_fields_def baseline_mode_identity_def cong: mapm_cong)

lemma report_binding_of_fields:
  "fld (VDict (report_binding_of b s)) ''candidate'' = VStr (if s = ''frontier'' then audit_git b else run_identity b)"
  "fld (VDict (report_binding_of b s)) ''environment_sha256'' = active_field b s ''environment_sha256''"
  "fld (VDict (report_binding_of b s)) ''input_manifest_sha256'' = active_field b s ''input_manifest_sha256''"
  "s = ''frontier'' \<Longrightarrow> fld (VDict (report_binding_of b s)) ''observer_sha256'' = active_field b s ''artifact_sha256''"
  "s \<noteq> ''frontier'' \<Longrightarrow> fld (VDict (report_binding_of b s)) ''binary_sha256'' = active_field b s ''artifact_sha256''"
  by (simp_all add: report_binding_of_def)

lemma sealed_report_valid:
  "is_dict r \<Longrightarrow> fld r ''candidate'' = VStr g \<Longrightarrow> fld reports m = sealed_report r \<Longrightarrow>
   validate_baseline_report reports (VStr g) m = Inr ()"
  by (auto simp: validate_baseline_report_def sealed_report_def keyset_is_def)

lemma baseline_binding_valid:
  assumes ok: "binding_ok b" and wf: "wf_val b" and ms: "(m, s) \<in> set BASELINE_SCOPES" and h: "has (fld b ''scopes'') s"
    and same: "\<not> split_runtime b" and l: "fld legacy s = VDict (report_binding_of b s)"
    and e: "fld expected m = VDict (dsorted (scope_deps b s))"
  shows "validate_baseline_binding legacy expected (VStr (run_identity b)) (m, s) = Inr ()"
proof -
  have d: "fldd (VDict (dsorted (scope_deps b s))) k x = fldd (VDict (scope_deps b s)) k x" for k x
    by (rule fldd_dsorted [OF wf_scope_deps [OF wf]])
  have g: "run_identity b = audit_git b" using same by (simp add: run_identity_def)
  have "s \<noteq> ''frontier'' \<Longrightarrow> ''binary'' \<in> set (tbl SCOPE_COMPONENTS s)"
    using ms by (auto simp: BASELINE_SCOPES_def SCOPE_COMPONENTS_def tbl_def)
  then have art: "s \<noteq> ''frontier'' \<Longrightarrow> py_eq (fld (VDict (scope_deps b s)) ''binary'') (active_field b s ''artifact_sha256'')"
    using scope_binary_dep [OF ok h] by blast
  have mf: "m = ''frontier'' \<longleftrightarrow> s = ''frontier''" using ms by (auto simp: BASELINE_SCOPES_def)
  show ?thesis
    unfolding validate_baseline_binding_def Let_def prod.case l e d mf
    using scope_environment [OF ok h] scope_input [OF ok h] scope_observer [OF ok h] art
    by (auto simp: report_binding_of_fields g chk_eq_Inr)
qed

lemma baseline_record_reports:
  assumes "\<And>m. m \<in> set BASELINE_MODES \<Longrightarrow> is_dict (report m) \<and> fld (report m) ''candidate'' = VStr g"
  shows "each (validate_baseline_report (fld (VDict (baseline_record now b digest report)) ''reports'') (VStr g)) (map fst REPORT_FIELDS) = Inr ()"
proof -
  have "validate_baseline_report (fld (VDict (baseline_record now b digest report)) ''reports'') (VStr g) m = Inr ()" if m: "m \<in> set BASELINE_MODES" for m
  proof (rule sealed_report_valid)
    show "is_dict (report m)" "fld (report m) ''candidate'' = VStr g" using assms [OF m] by auto
    show "fld (fld (VDict (baseline_record now b digest report)) ''reports'') m = sealed_report (report m)" using m by (auto simp: BASELINE_MODES_def)
  qed
  moreover have "set (map fst REPORT_FIELDS) = set BASELINE_MODES" by (simp add: REPORT_FIELDS_def BASELINE_MODES_def)
  ultimately show ?thesis by (simp only: each_eq_Inr) blast
qed

lemma baseline_record_bindings:
  assumes ok: "binding_ok b" and wf: "wf_val b" and same: "\<not> split_runtime b"
    and h: "\<And>s. s \<in> {''core'', ''frontier'', ''product''} \<Longrightarrow> has (fld b ''scopes'') s"
    and ed: "deps = VDict (map (\<lambda>m. (m, VDict (dsorted (scope_deps b (mode_scope m))))) BASELINE_MODES)"
  shows "each (validate_baseline_binding (fld (VDict (baseline_record now b digest report)) ''bindings'') deps (VStr (run_identity b))) BASELINE_SCOPES = Inr ()"
proof -
  have "validate_baseline_binding (fld (VDict (baseline_record now b digest report)) ''bindings'') deps (VStr (run_identity b)) (m, s) = Inr ()"
    if ms: "(m, s) \<in> set BASELINE_SCOPES" for m s
  proof (rule baseline_binding_valid [OF ok wf ms _ same])
    have s: "s \<in> {''core'', ''frontier'', ''product''}" using ms by (auto simp: BASELINE_SCOPES_def)
    show "has (fld b ''scopes'') s" by (rule h [OF s])
    show "fld (fld (VDict (baseline_record now b digest report)) ''bindings'') s = VDict (report_binding_of b s)" using s by auto
    show "fld deps m = VDict (dsorted (scope_deps b s))"
      unfolding ed using ms by (auto simp: BASELINE_SCOPES_def BASELINE_MODES_def mode_scope_def)
  qed
  then show ?thesis by (auto simp: each_eq_Inr)
qed

lemma baseline_record_current:
  assumes ok: "binding_ok b" and wf: "wf_val b" and h: "\<And>s. s \<in> {''core'', ''frontier'', ''product''} \<Longrightarrow> has (fld b ''scopes'') s"
  shows "each (\<lambda>(mode, scope). bnd (scope_dependencies b scope) (\<lambda>d.
             chk (py_eq (fld (fld (VDict (baseline_record now b digest report)) ''direct_dependencies'') mode) (VDict d)) (E mode) (Inr ()))) BASELINE_SCOPES = Inr ()"
proof -
  have "py_eq (VDict (dsorted (scope_deps b s))) (VDict (scope_deps b s))" if "(m, s) \<in> set BASELINE_SCOPES" for m s
  proof -
    have w: "wf_val (VDict (scope_deps b s))" by (rule wf_scope_deps_val [OF wf])
    then show ?thesis
      using py_eq_VDict_perm [of "dsorted (scope_deps b s)" "scope_deps b s" "VDict (dsorted (scope_deps b s))"]
        wf_dsorted [OF w] py_eq_refl [OF wf_dsorted [OF w]] by (simp add: dsorted_idem)
  qed
  then show ?thesis
    using h by (simp add: BASELINE_SCOPES_def scope_dependencies_eq [OF ok] BASELINE_MODES_def mode_scope_def)
qed

lemma baseline_record_valid:
  assumes ok: "binding_ok b" and wf: "wf_val b" and same: "\<not> split_runtime b"
    and h: "\<And>s. s \<in> {''core'', ''frontier'', ''product''} \<Longrightarrow> has (fld b ''scopes'') s"
    and dig: "\<And>m. m \<in> set BASELINE_MODES \<Longrightarrow> is_hex 64 (digest m)"
    and rep: "\<And>m. m \<in> set BASELINE_MODES \<Longrightarrow> is_dict (report m) \<and> fld (report m) ''candidate'' = VStr (audit_git b)"
    and prod: "is_hex 64 (py_str (fld b ''product''))"
  shows "validate_baseline_identity (VDict (baseline_record now b digest report)) (Some b) = Inr ()"
proof -
  let ?v = "VDict (baseline_record now b digest report)" and ?deps = "\<lambda>m. scope_deps b (mode_scope m)"
  let ?p = "py_str (fld b ''product'')"
  let ?F = "baseline_fields ?p ?deps digest"
  have g: "run_identity b = audit_git b" using same by (simp add: run_identity_def)
  have hm: "has (fld b ''scopes'') (mode_scope m)" if "m \<in> set BASELINE_MODES" for m
    using that h by (auto simp: BASELINE_MODES_def mode_scope_def)
  have wd: "wf_val (VDict (?deps m))" for m by (rule wf_scope_deps_val [OF wf])
  have "baseline_identity_fields (VStr ?p) (VDict (map (\<lambda>m. (m, VDict (dsorted (?deps m)))) BASELINE_MODES)) digest =
      Inr (baseline_fields ?p (\<lambda>m. dsorted (?deps m)) digest)"
  proof (rule baseline_identity_fields_eq [OF prod dig])
    fix m assume m: "m \<in> set BASELINE_MODES"
    have "set (dsorted (?deps m)) = set (?deps m)" by (simp add: dsorted_def)
    moreover have "dsorted (?deps m) \<noteq> []" using scope_deps_ne [OF ok hm [OF m]] calculation by auto
    ultimately show "dsorted (?deps m) \<noteq> [] \<and> list_all sha_str (map snd (dsorted (?deps m)))"
      using scope_deps_sha [OF ok hm [OF m]] by (simp add: list_all_iff)
  qed
  then have fields: "baseline_identity_fields (VStr ?p) (fld ?v ''direct_dependencies'') (report_digest_of ?v) = Inr ?F"
    using baseline_identity_fields_cong [of "report_digest_of ?v" digest] report_digest_baseline_record
    by (simp add: baseline_fields_dsorted)
  have eqs: "\<forall>(k, x) \<in> set ?F. py_eq (fld ?v k) x"
  proof -
    have "\<forall>(k, x) \<in> set ?F. wf_val x" by (rule baseline_fields_wf [OF wd])
    then show ?thesis using fld_baseline_record_fields py_eq_refl by fastforce
  qed
  have ed: "fld (VDict ?F) ''direct_dependencies'' = VDict (map (\<lambda>m. (m, VDict (dsorted (?deps m)))) BASELINE_MODES)"
    by (simp add: baseline_fields_def)
  have reps: "each (validate_baseline_report (fld ?v ''reports'') (VStr (run_identity b))) (map fst REPORT_FIELDS) = Inr ()"
    by (rule baseline_record_reports) (simp add: rep g)
  note binds = baseline_record_bindings [OF ok wf same h ed] and cur = baseline_record_current [OF ok wf h]
  have "is_git_commit (VStr (run_identity b))" using audit_git_hex [OF ok] by (simp add: g is_git_commit_iff)
  moreover have "py_eq (fld ?v ''binary_sha256'') (fld (fld (fld ?v ''bindings'') ''core'') ''binary_sha256'')"
    using py_eq_refl [OF wf_active_field [OF wf]] by (simp add: report_binding_of_fields)
  moreover have "py_eq (fld (fld (fld ?v ''bindings'') ''core'') ''binary_sha256'') (fld (fld (fld ?v ''bindings'') ''product'') ''binary_sha256'')"
    using artifacts_agree [OF ok h h, of "''core''" "''product''"] by (simp add: report_binding_of_fields)
  moreover have "each (\<lambda>(field, expected_value). chk (py_eq (fld ?v field) expected_value) (E field) (Inr ())) ?F = Inr ()" for E
    using eqs by (auto simp: each_eq_Inr)
  ultimately show ?thesis
    unfolding validate_baseline_identity_def
    using fields reps binds cur ok
    by (simp add: source_git_eq product_identity_eq g REPORT_FIELDS_def)
qed

section \<open>Promotion\<close>

text \<open>The observations are an additional field of the record: no check reads them.\<close>

lemma baseline_observations_ignored:
  "is_dict v \<Longrightarrow> validate_baseline_identity (vset ''observations'' x v) b = validate_baseline_identity v b"
proof -
  assume "is_dict v"
  have "report_digest_of (vset ''observations'' x v) m = report_digest_of v m" if "m \<in> set BASELINE_MODES" for m
    using that by (auto simp: report_digest_of_def REPORT_FIELDS_def BASELINE_MODES_def)
  then have f: "baseline_identity_fields p d (report_digest_of (vset ''observations'' x v)) = baseline_identity_fields p d (report_digest_of v)" for p d
    by (rule baseline_identity_fields_cong)
  have e: "each (\<lambda>(field, y). chk (py_eq (fld (vset ''observations'' x v) field) y) (E field) (Inr ())) F =
      each (\<lambda>(field, y). chk (py_eq (fld v field) y) (E field) (Inr ())) F"
    if "\<forall>(k, y) \<in> set F. k \<noteq> ''observations''" for E F
    using that by (intro each_cong) auto
  have n: "baseline_identity_fields p d g = Inr F \<Longrightarrow> \<forall>(k, y) \<in> set F. k \<noteq> ''observations''" for p d g F
    by (auto simp: baseline_identity_fields_def exn_elims Let_def)
  show ?thesis
    unfolding validate_baseline_identity_def
    using \<open>is_dict v\<close> by (cases b) (simp_all add: f e n cong: bnd_cong)
qed

lemma promotion_evidence_facts:
  assumes "promotion_evidence fs contract state = Inr ((core, cr), (frontier, fr), (qualification, qr))"
  shows "core = fld (fld state ''checkpoints'') ''core''" and "frontier = fld (fld state ''checkpoints'') ''frontier''"
    and "qualification = fld (fld state ''checkpoints'') ''qualification''"
    and "checkpoint_report fs contract state ''core'' = Inr cr" and "checkpoint_report fs contract state ''frontier'' = Inr fr"
    and "checkpoint_report fs contract state ''qualification'' = Inr qr"
  using assms unfolding promotion_evidence_def passed_checkpoint_def bnd_eq_Inr chk_eq_Inr vsub_eq_Inr vgetd_eq_Inr
  by auto

text \<open>What \<open>promoted_baseline\<close> computes from the evidence.\<close>

lemma promoted_baseline_eq:
  assumes p: "promoted_baseline now state (core, report ''core'') (frontier, report ''frontier'') (qualification, report ''qualification'') = Inr d"
    and sch: "fld state ''schema'' = VStr STATE_SCHEMA"
    and dig: "fld core ''report_sha256'' = VStr (digest ''core'')" "fld frontier ''report_sha256'' = VStr (digest ''frontier'')"
      "fld qualification ''report_sha256'' = VStr (digest ''qualification'')"
      "\<And>m. m \<in> set BASELINE_MODES \<Longrightarrow> is_hex 64 (digest m)"
  defines "b \<equiv> fld state ''binding''"
  shows "binding_ok b" and "\<And>s. s \<in> {''core'', ''frontier'', ''product''} \<Longrightarrow> has (fld b ''scopes'') s"
    and "is_hex 64 (py_str (fld b ''product''))" and "d = baseline_record now b digest report"
proof -
  obtain deps fields where
    m: "for_mode b ''core'' = Inr (report_binding_of b ''core'')" "for_mode b ''frontier'' = Inr (report_binding_of b ''frontier'')"
      "for_mode b ''qualification'' = Inr (report_binding_of b ''product'')" and
    deps: "mapm (\<lambda>mode. bnd (dependencies_for_mode b mode) (\<lambda>d. Inr (mode, VDict d))) [''core'', ''frontier'', ''qualification''] = Inr deps" and
    fields: "baseline_identity_fields (VStr (py_str (fld b ''product''))) (VDict deps) (digest_table core frontier qualification) = Inr fields" and
    d: "d = dupdate
       [(''candidate'', VStr (run_identity b)), (''binary_sha256'', fld (VDict (report_binding_of b ''core'')) ''binary_sha256''),
        (''bindings'', VDict [(''core'', VDict (report_binding_of b ''core'')), (''frontier'', VDict (report_binding_of b ''frontier'')),
           (''product'', VDict (report_binding_of b ''product''))]),
        (''core_report_sha256'', VStr (digest ''core'')), (''frontier_report_sha256'', VStr (digest ''frontier'')),
        (''qualification_report_sha256'', VStr (digest ''qualification'')),
        (''reports'', VDict [(''core'', sealed_report (report ''core'')), (''frontier'', sealed_report (report ''frontier'')),
                             (''qualification'', sealed_report (report ''qualification''))]),
        (''promoted_at'', VStr now)] fields" and ok: "binding_ok b"
    using p sch dig unfolding promoted_baseline_def Let_def bnd_eq_Inr b_def vsub_eq_Inr
    by (auto simp: for_mode_eq_Inr MODE_SCOPES_def runtime_identity_eq product_identity_eq bnd_eq_Inr [of "mapm _ _"]
        bnd_eq_Inr [of "baseline_identity_fields _ _ _"] simp del: mapm.simps)
  show "binding_ok b" by (rule ok)
  show hs: "has (fld b ''scopes'') s" if "s \<in> {''core'', ''frontier'', ''product''}" for s
    using m that by (auto simp: for_mode_eq_Inr MODE_SCOPES_def)
  show hp: "is_hex 64 (py_str (fld b ''product''))"
    using fields by (auto simp: baseline_identity_fields_def chk_eq_Inr is_sha256_iff)
  have ds: "deps = map (\<lambda>m. (m, VDict (scope_deps b (mode_scope m)))) BASELINE_MODES"
    using deps hs by (auto simp: bnd_eq_Inr dependencies_scope [OF ok] MODE_SCOPES_def mode_scope_def BASELINE_MODES_def)
  have "fields = baseline_fields (py_str (fld b ''product'')) (\<lambda>m. scope_deps b (mode_scope m)) digest"
  proof -
    have "digest_table core frontier qualification m = digest m" if "m \<in> set BASELINE_MODES" for m
      using that dig by (auto simp: digest_table_def BASELINE_MODES_def)
    then have "baseline_identity_fields (VStr (py_str (fld b ''product''))) (VDict deps) digest = Inr fields"
      using fields baseline_identity_fields_cong by metis
    moreover have "scope_deps b (mode_scope m) \<noteq> [] \<and> list_all sha_str (map snd (scope_deps b (mode_scope m)))"
      if "m \<in> set BASELINE_MODES" for m
      using that hs scope_deps_ne [OF ok] scope_deps_sha [OF ok] by (auto simp: BASELINE_MODES_def mode_scope_def)
    ultimately show ?thesis
      using baseline_identity_fields_eq [OF hp dig(4), where deps = "\<lambda>m. scope_deps b (mode_scope m)"] by (simp add: ds)
  qed
  then show "d = baseline_record now b digest report"
    unfolding d baseline_record_def by (simp add: baseline_fields_def dupdate_def report_binding_of_fields)
qed


text \<open>A promotion that returns.\<close>

lemma promote_baseline_facts:
  assumes p: "promote_baseline fs now contract state = (state', Inr ())" and sch: "fld state ''schema'' = VStr STATE_SCHEMA"
  defines "b \<equiv> fld state ''binding''" and "cs \<equiv> fld state ''checkpoints''"
  obtains digest report bl where
    "binding_ok b" and "\<And>s. s \<in> {''core'', ''frontier'', ''product''} \<Longrightarrow> has (fld b ''scopes'') s"
    and "is_hex 64 (py_str (fld b ''product''))"
    and "\<And>m. m \<in> set BASELINE_MODES \<Longrightarrow> is_dict (fld cs m) \<and> fld (fld cs m) ''report_sha256'' = VStr (digest m) \<and> is_hex 64 (digest m)"
    and "\<And>m. m \<in> set BASELINE_MODES \<Longrightarrow> is_dict (report m) \<and> validate_report_for_mode contract state m (report m) = Inr ()"
    and "bl = VDict (baseline_record now b digest report) \<or>
         (\<exists>x. bl = vset ''observations'' x (VDict (baseline_record now b digest report)))"
    and "fld state ''baseline'' \<noteq> VNone \<Longrightarrow> is_list (fldd state ''baseline_history'' (VList []))"
    and "state' = vset ''baseline'' bl (if fld state ''baseline'' \<noteq> VNone then push_baseline state else state)"
proof -
  obtain core cr frontier fr qualification qr where
    e: "promotion_evidence fs contract state = Inr ((core, cr), (frontier, fr), (qualification, qr))"
    using p by (cases "promotion_evidence fs contract state") (auto simp: promote_baseline_def)
  note f = promotion_evidence_facts [OF e]
  define report where "report = (\<lambda>m. if m = ''core'' then cr else if m = ''frontier'' then fr else qr)"
  define digest where "digest = (\<lambda>m. str_val (fld (fld cs m) ''report_sha256''))"
  have rep: "checkpoint_report fs contract state m = Inr (report m)" if "m \<in> set BASELINE_MODES" for m
    using that f by (auto simp: report_def BASELINE_MODES_def)
  have ck: "is_dict (fld cs m) \<and> fld (fld cs m) ''report_sha256'' = VStr (digest m) \<and> is_hex 64 (digest m)"
    if "m \<in> set BASELINE_MODES" for m
    using checkpoint_report_facts(3,4) [OF rep [OF that]] by (auto simp: digest_def cs_def)
  let ?s1 = "if fld state ''baseline'' \<noteq> VNone then push_baseline state else state"
  obtain d where d: "promoted_baseline now state (core, report ''core'') (frontier, report ''frontier'') (qualification, report ''qualification'') = Inr d"
    using p e by (cases "promoted_baseline now state (core, cr) (frontier, fr) (qualification, qr)")
      (auto simp: promote_baseline_def report_def Let_def split: if_splits)
  have dig: "fld core ''report_sha256'' = VStr (digest ''core'')" "fld frontier ''report_sha256'' = VStr (digest ''frontier'')"
      "fld qualification ''report_sha256'' = VStr (digest ''qualification'')"
    using ck f by (auto simp: BASELINE_MODES_def cs_def)
  note pb = promoted_baseline_eq [OF d sch dig, folded b_def]
  have hexes: "\<And>m. m \<in> set BASELINE_MODES \<Longrightarrow> is_hex 64 (digest m)" using ck by blast
  have dr: "d = baseline_record now b digest report" by (rule pb(4) [OF hexes])
  have obs: "\<exists>bl. (bl = VDict d \<or> (\<exists>x. bl = vset ''observations'' x (VDict d))) \<and> state' = vset ''baseline'' bl ?s1"
  proof -
    have pd: "promoted_baseline now state (core, cr) (frontier, fr) (qualification, qr) = Inr d"
      using d by (simp add: report_def)
    have "vset ''baseline'' x (vset ''baseline'' y s) = vset ''baseline'' x s" for x y s
      by (cases s) (simp_all add: update_last)
    then show ?thesis
      using p e pd by (auto simp: promote_baseline_def Let_def split: if_splits sum.splits option.splits)
  qed
  have hl: "is_list (fldd state ''baseline_history'' (VList []))" if "fld state ''baseline'' \<noteq> VNone"
    using p e that by (auto simp: promote_baseline_def split: if_splits)
  from obs obtain bl where bl: "bl = VDict d \<or> (\<exists>x. bl = vset ''observations'' x (VDict d))" "state' = vset ''baseline'' bl ?s1"
    by blast
  show ?thesis
  proof (rule that)
    show "binding_ok b" by (rule pb(1) [OF hexes])
    show "has (fld b ''scopes'') s" if "s \<in> {''core'', ''frontier'', ''product''}" for s by (rule pb(2) [OF hexes that])
    show "is_hex 64 (py_str (fld b ''product''))" by (rule pb(3) [OF hexes])
    show "is_dict (fld cs m) \<and> fld (fld cs m) ''report_sha256'' = VStr (digest m) \<and> is_hex 64 (digest m)"
      if "m \<in> set BASELINE_MODES" for m by (rule ck [OF that])
    show "is_dict (report m) \<and> validate_report_for_mode contract state m (report m) = Inr ()" if "m \<in> set BASELINE_MODES" for m
      using checkpoint_report_facts(1,2) [OF rep [OF that]] by blast
  qed (use bl dr hl in auto)
qed

lemma pushed_history_ok:
  assumes d: "is_dict state" and bo: "baseline_ok b cs (fld state ''baseline'')" and h: "history_ok (fld state ''baseline_history'')"
  shows "history_ok (fld (if fld state ''baseline'' \<noteq> VNone then push_baseline state else state) ''baseline_history'')"
proof (cases "fld state ''baseline'' = VNone")
  case False
  obtain xs where xs: "fld state ''baseline_history'' = VList xs" "\<forall>x \<in> set xs. validate_baseline_identity x None = Inr ()"
    using h by (auto simp: history_ok_def)
  have "validate_baseline_identity (fld state ''baseline'') None = Inr ()"
    using bo False by (auto simp: baseline_ok_def intro: baseline_identity_weaken)
  then show ?thesis using False push_history [OF d xs(1)] xs(2) by (auto simp: history_ok_def)
qed (use h in simp)

lemma promote_valid:
  assumes v: "validate_state contract state = Inr ()" and p: "promote_baseline fs now contract state = (state', Inr ())"
    and wf: "wf_val (fld state ''binding'')" and same: "\<not> split_runtime (fld state ''binding'')"
  shows "validate_state contract state' = Inr ()"
proof -
  let ?b = "fld state ''binding''" and ?cs = "fld state ''checkpoints''"
  have d: "is_dict state" and sch: "fld state ''schema'' = VStr STATE_SCHEMA" and h: "history_ok (fld state ''baseline_history'')"
    and bo: "baseline_ok ?b ?cs (fld state ''baseline'')"
    using v by (auto simp: validate_state_iff)
  obtain digest report bl where ok: "binding_ok ?b" and hs: "\<And>s. s \<in> {''core'', ''frontier'', ''product''} \<Longrightarrow> has (fld ?b ''scopes'') s"
    and hp: "is_hex 64 (py_str (fld ?b ''product''))"
    and ck: "\<And>m. m \<in> set BASELINE_MODES \<Longrightarrow> is_dict (fld ?cs m) \<and> fld (fld ?cs m) ''report_sha256'' = VStr (digest m) \<and> is_hex 64 (digest m)"
    and rp: "\<And>m. m \<in> set BASELINE_MODES \<Longrightarrow> is_dict (report m) \<and> validate_report_for_mode contract state m (report m) = Inr ()"
    and bl: "bl = VDict (baseline_record now ?b digest report) \<or>
         (\<exists>x. bl = vset ''observations'' x (VDict (baseline_record now ?b digest report)))"
    and s': "state' = vset ''baseline'' bl (if fld state ''baseline'' \<noteq> VNone then push_baseline state else state)"
    using promote_baseline_facts [OF p sch] by metis
  have g: "run_identity ?b = audit_git ?b" using same by (simp add: run_identity_def)
  have cand: "fld (report m) ''candidate'' = VStr (audit_git ?b)" if m: "m \<in> set BASELINE_MODES" for m
  proof (rule report_candidate)
    show "validate_report_for_mode contract state m (report m) = Inr ()" using rp [OF m] by blast
    show "for_mode ?b m = Inr (report_binding_of ?b (mode_scope m))"
      by (rule for_mode_baseline [OF m ok hs])
    show "fld (VDict (report_binding_of ?b (mode_scope m))) ''candidate'' = VStr (audit_git ?b)"
      by (simp add: report_binding_of_fields g)
  qed
  have "validate_baseline_identity (VDict (baseline_record now ?b digest report)) (Some ?b) = Inr ()"
    by (rule baseline_record_valid [OF ok wf same hs _ _ hp]) (use ck rp cand in blast)+
  then have vb: "validate_baseline_identity bl (Some ?b) = Inr ()"
    using bl baseline_observations_ignored by (metis is_dict.simps(1))
  have cur: "baseline_current ?cs bl"
  proof -
    have "fld bl f = fld (VDict (baseline_record now ?b digest report)) f" if "f \<noteq> ''observations''" for f
      using bl that fldd_vset_other by metis
    then show ?thesis using ck by (simp add: baseline_current_def BASELINE_FIELDS_def BASELINE_MODES_def)
  qed
  note hist = pushed_history_ok [OF d bo h]
  have pf: "k \<noteq> ''baseline_history'' \<Longrightarrow> fld (push_baseline state) k = fld state k" "is_dict (push_baseline state)" for k
    using d by (simp_all add: push_baseline_def)
  show ?thesis
    using v vb cur hist pf d unfolding s' validate_state_iff by (auto simp: baseline_ok_def)
qed

text \<open>With a runtime identity of its own, the candidate named in the promoted baseline is no commit.\<close>

lemma promote_split_runtime_invalid:
  assumes p: "promote_baseline fs now contract state = (state', Inr ())" and sch: "fld state ''schema'' = VStr STATE_SCHEMA"
    and split: "split_runtime (fld state ''binding'')"
  shows "validate_state contract state' \<noteq> Inr ()"
proof
  assume v: "validate_state contract state' = Inr ()"
  let ?b = "fld state ''binding''"
  obtain digest report bl where ok: "binding_ok ?b"
    and bl: "bl = VDict (baseline_record now ?b digest report) \<or>
         (\<exists>x. bl = vset ''observations'' x (VDict (baseline_record now ?b digest report)))"
    and s': "state' = vset ''baseline'' bl (if fld state ''baseline'' \<noteq> VNone then push_baseline state else state)"
    using promote_baseline_facts [OF p sch] by metis
  have "is_dict state'" using v by (simp add: validate_state_iff)
  then have "fld state' ''baseline'' = bl" unfolding s' by simp
  moreover have "bl \<noteq> VNone" using bl by auto
  ultimately have "validate_baseline_identity bl (Some (fld state' ''binding'')) = Inr ()"
    using v by (auto simp: validate_state_iff baseline_ok_def)
  then have "validate_baseline_identity (VDict (baseline_record now ?b digest report)) (Some (fld state' ''binding'')) = Inr ()"
    using bl baseline_observations_ignored by (metis is_dict.simps(1))
  then have "is_git_commit (VStr (run_identity ?b))"
    unfolding validate_baseline_identity_def Let_def bnd_eq_Inr chk_eq_Inr by auto
  then have "is_hex 40 (run_identity ?b)" by (simp add: is_git_commit_iff)
  moreover have "is_hex 64 (run_identity ?b)" by (rule run_identity_hex [OF ok split])
  ultimately show False by (simp add: is_hex_def)
qed

section \<open>The summary\<close>

text \<open>What \<open>summarize\<close> writes: it names the audit source, while the reception expects the runtime identity.\<close>

definition summary_of :: "val \<Rightarrow> val \<Rightarrow> dict \<Rightarrow> val \<Rightarrow> string \<Rightarrow> string \<Rightarrow> val" where
  "summary_of schema version active checkpoints g now =
     VDict [(''schema'', schema), (''suite_version'', version), (''candidate'', VStr g),
       (''binary_sha256'', fld (VDict active) ''binary_sha256''),
       (''environment'', VDict [(''sha256'', fld (VDict active) ''environment_sha256'')]),
       (''inputs'', VDict [(''sha256'', fld (VDict active) ''input_manifest_sha256'')]),
       (''tool_sha256'', fld (VDict active) ''tool_sha256''),
       (''core_report_sha256'', fld (fld checkpoints ''core'') ''report_sha256''),
       (''product_report_sha256'', fld (fld checkpoints ''full'') ''report_sha256''),
       (''community_report_sha256'', fld (fld checkpoints ''longmemeval'') ''report_sha256''),
       (''passed'', VBool (list_all (\<lambda>m. truthy (fld (fld checkpoints m) ''passed'')) SUMMARY_AGGREGATES)), (''created_at'', VStr now)]"

lemma aggregate_active:
  "for_mode b ''summarize'' = Inr d \<Longrightarrow>
   \<exists>e i t. fld (VDict d) ''environment_sha256'' = VStr e \<and> fld (VDict d) ''input_manifest_sha256'' = VStr i \<and> fld (VDict d) ''tool_sha256'' = VStr t"
  by (auto simp: for_mode_def aggregate_def Let_def exn_elims)

lemma summary_prerequisites:
  assumes "can_start fs repository contract state ''summarize'' = Inr ()" and "m \<in> set SUMMARY_AGGREGATES"
  defines "c \<equiv> fld (fld state ''checkpoints'') m"
  shows "is_dict c" and "fld c ''passed'' = VBool True" and "\<exists>d. fld c ''report_sha256'' = VStr d"
proof -
  have t: "m \<in> set (tbl START_ELIGIBILITY ''summarize'')" using assms(2) by (simp add: START_ELIGIBILITY_def SUMMARY_AGGREGATES_def tbl_def)
  obtain r where c: "is_dict c" "is_true (fld c ''passed'')" and r: "checkpoint_report fs contract state m = Inr r"
    using assms(1) t unfolding can_start_def bnd_eq_Inr chk_eq_Inr each_eq_Inr checks_eq_Inr Let_def c_def by auto
  show "is_dict c" "fld c ''passed'' = VBool True" using c by (auto simp: is_true_def)
  show "\<exists>d. fld c ''report_sha256'' = VStr d" using checkpoint_report_facts(4) [OF r] by (auto simp: c_def)
qed

lemma summarize_report:
  assumes "summarize fs repository now contract state = Inr report"
  obtains active schema version where
    "can_start fs repository contract state ''summarize'' = Inr ()" and "for_mode (fld state ''binding'') ''summarize'' = Inr active"
    and "validate_report contract ''suite'' report = Inr ()"
    and "report = summary_of schema version active (fld state ''checkpoints'') (audit_git (fld state ''binding'')) now"
proof -
  have vp: "vpath v [k, l] = Inr x \<Longrightarrow> x = fld (fld v k) l" for v k l x by (auto simp: exn_elims)
  have mp: "mapm (\<lambda>name. vpath cs [name, ''passed'']) ms = Inr ps \<Longrightarrow> ps = map (\<lambda>m. fld (fld cs m) ''passed'') ms" for cs ms ps
    by (induction ms arbitrary: ps) (auto simp: exn_elims)
  obtain active schema version candidate core product community passed where
    a: "can_start fs repository contract state ''summarize'' = Inr ()" "for_mode (fld state ''binding'') ''summarize'' = Inr active"
      "validate_report contract ''suite'' report = Inr ()" and
    c: "source_git (fld state ''binding'') = Inr candidate" "vpath (fld state ''checkpoints'') [''core'', ''report_sha256''] = Inr core"
      "vpath (fld state ''checkpoints'') [''full'', ''report_sha256''] = Inr product"
      "vpath (fld state ''checkpoints'') [''longmemeval'', ''report_sha256''] = Inr community"
      "mapm (\<lambda>name. vpath (fld state ''checkpoints'') [name, ''passed'']) SUMMARY_AGGREGATES = Inr passed" and
    r: "report = VDict [(''schema'', schema), (''suite_version'', version), (''candidate'', VStr candidate),
           (''binary_sha256'', fld (VDict active) ''binary_sha256''),
           (''environment'', VDict [(''sha256'', fld (VDict active) ''environment_sha256'')]),
           (''inputs'', VDict [(''sha256'', fld (VDict active) ''input_manifest_sha256'')]),
           (''tool_sha256'', fld (VDict active) ''tool_sha256''),
           (''core_report_sha256'', core), (''product_report_sha256'', product), (''community_report_sha256'', community),
           (''passed'', VBool (list_all truthy passed)), (''created_at'', VStr now)]"
    using assms unfolding summarize_def Let_def bnd_eq_Inr by (clarsimp simp del: mapm.simps vpath.simps)
  have "candidate = audit_git (fld state ''binding'')" using c(1) for_mode_summarize [OF a(2)] source_git_eq by auto
  then show ?thesis
    using that [OF a] r vp [OF c(2)] vp [OF c(3)] vp [OF c(4)] mp [OF c(5)] by (simp add: list.pred_map comp_def summary_of_def)
qed

lemma summary_valid:
  assumes "can_start fs repository contract state ''summarize'' = Inr ()" and "for_mode b ''summarize'' = Inr active"
    and "is_dict state" "has state ''checkpoints''" "is_dict (fld state ''checkpoints'')"
  shows "validate_summary state (summary_of schema version active (fld state ''checkpoints'') g now) active = Inr ()"
proof -
  note pre = summary_prerequisites [OF assms(1)]
  have k: "is_dict (fld (fld state ''checkpoints'') m) \<and> fld (fld (fld state ''checkpoints'') m) ''passed'' = VBool True \<and>
      (\<exists>d. fld (fld (fld state ''checkpoints'') m) ''report_sha256'' = VStr d)" if "m \<in> set SUMMARY_AGGREGATES" for m
    using pre [OF that] by blast
  obtain t where t: "fld (VDict active) ''tool_sha256'' = VStr t" using aggregate_active [OF assms(2)] by blast
  show ?thesis
    using assms(3-) k [of "''core''"] k [of "''full''"] k [of "''longmemeval''"]
    by (auto simp: validate_summary_def summary_of_def SUMMARY_FIELDS_def SUMMARY_AGGREGATES_def t is_true_def
        bnd_eq_Inr chk_eq_Inr checks_eq_Inr vgetd_eq_Inr vsub_eq_Inr)
qed

lemma summary_received:
  assumes s: "summarize fs repository now contract state = Inr report"
  shows "validate_report_for_mode contract state ''summarize'' report = Inr () \<longleftrightarrow> \<not> split_runtime (fld state ''binding'')"
proof -
  let ?b = "fld state ''binding''"
  obtain active schema version where start: "can_start fs repository contract state ''summarize'' = Inr ()"
    and f: "for_mode ?b ''summarize'' = Inr active" and vr: "validate_report contract ''suite'' report = Inr ()"
    and r: "report = summary_of schema version active (fld state ''checkpoints'') (audit_git ?b) now"
    by (rule summarize_report [OF s])
  have v: "validate_state contract state = Inr ()" using start by (auto simp: can_start_def bnd_eq_Inr)
  then have d: "is_dict state" "is_dict (fld state ''checkpoints'')" "has state ''checkpoints''" "has state ''binding''" and ok: "binding_ok ?b"
    using fldd_no_has [of state _ VNone] binding_is_dict by (fastforce simp: validate_state_iff)+
  have "audit_git ?b = run_identity ?b \<longleftrightarrow> \<not> split_runtime ?b"
    using audit_git_hex [OF ok] run_identity_hex [OF ok] by (auto simp: run_identity_def is_hex_def)
  then have "py_eq (fld report ''candidate'') (fld (VDict active) ''candidate'') \<longleftrightarrow> \<not> split_runtime ?b"
    using for_mode_summarize [OF f] by (simp add: r summary_of_def)
  moreover have "is_dict report" "fldd report ''environment'' x = VDict [(''sha256'', fld (VDict active) ''environment_sha256'')]"
    "fldd report ''inputs'' x = VDict [(''sha256'', fld (VDict active) ''input_manifest_sha256'')]" for x
    by (simp_all add: r summary_of_def)
  moreover obtain e i where "fld (VDict active) ''environment_sha256'' = VStr e" "fld (VDict active) ''input_manifest_sha256'' = VStr i"
    using aggregate_active [OF f] by blast
  moreover have "vsub state ''binding'' = Inr ?b" using d by (simp add: vsub_eq_Inr)
  moreover have "validate_summary state report active = Inr ()" using summary_valid [OF start f d(1,3,2)] by (simp add: r)
  ultimately show ?thesis
    using vr f by (simp add: validate_report_for_mode_def REPORT_KIND_def bnd_eq_Inr chk_eq_Inr vgetd_eq_Inr)
qed

text \<open>What a promotion writes.\<close>

lemma promote_fields:
  assumes v: "validate_state contract state = Inr ()" and p: "promote_baseline fs now contract state = (state', Inr ())"
  shows "fld state' ''binding'' = fld state ''binding''" and "fld state' ''checkpoints'' = fld state ''checkpoints''"
    and "(m, f) \<in> set BASELINE_FIELDS \<Longrightarrow> fld (fld state' ''baseline'') f = fld (fld (fld state ''checkpoints'') m) ''report_sha256''"
    and "fld (fld state' ''baseline'') ''candidate'' = VStr (run_identity (fld state ''binding''))"
    and "\<exists>old. fld state ''baseline_history'' = VList old \<and>
           fld state' ''baseline_history'' = VList (if fld state ''baseline'' = VNone then old else old @ [fld state ''baseline''])"
proof -
  let ?b = "fld state ''binding''" and ?cs = "fld state ''checkpoints''"
  have d: "is_dict state" and sch: "fld state ''schema'' = VStr STATE_SCHEMA" and h: "history_ok (fld state ''baseline_history'')"
    using v by (auto simp: validate_state_iff)
  obtain xs where xs: "fld state ''baseline_history'' = VList xs" using h by (auto simp: history_ok_def)
  obtain digest report bl where
    ck: "\<And>m. m \<in> set BASELINE_MODES \<Longrightarrow> is_dict (fld ?cs m) \<and> fld (fld ?cs m) ''report_sha256'' = VStr (digest m) \<and> is_hex 64 (digest m)"
    and bl: "bl = VDict (baseline_record now ?b digest report) \<or>
         (\<exists>x. bl = vset ''observations'' x (VDict (baseline_record now ?b digest report)))"
    and s': "state' = vset ''baseline'' bl (if fld state ''baseline'' \<noteq> VNone then push_baseline state else state)"
    using promote_baseline_facts [OF p sch] by metis
  have pd: "is_dict (push_baseline state)" using d by (simp add: push_baseline_def)
  have pf: "k \<noteq> ''baseline_history'' \<Longrightarrow> fld (push_baseline state) k = fld state k" for k
    using d by (simp add: push_baseline_def)
  show "fld state' ''binding'' = ?b" "fld state' ''checkpoints'' = ?cs" using d pd pf by (simp_all add: s')
  have b: "fld state' ''baseline'' = bl" using d pd by (simp add: s')
  have fb: "fld bl f = fld (VDict (baseline_record now ?b digest report)) f" if "f \<noteq> ''observations''" for f
    using bl that fldd_vset_other by metis
  show "fld (fld state' ''baseline'') f = fld (fld ?cs m) ''report_sha256''" if "(m, f) \<in> set BASELINE_FIELDS"
  proof -
    have "m \<in> set BASELINE_MODES" "fld (VDict (baseline_record now ?b digest report)) f = VStr (digest m)" "f \<noteq> ''observations''"
      using that by (auto simp: BASELINE_FIELDS_def BASELINE_MODES_def)
    then show ?thesis using ck [of m] fb b by simp
  qed
  show "fld (fld state' ''baseline'') ''candidate'' = VStr (run_identity ?b)" by (simp add: b fb)
  have "fld state' ''baseline_history'' = VList (if fld state ''baseline'' = VNone then xs else xs @ [fld state ''baseline''])"
    using d pd xs push_history [OF d xs] by (simp add: s')
  then show "\<exists>old. fld state ''baseline_history'' = VList old \<and>
      fld state' ''baseline_history'' = VList (if fld state ''baseline'' = VNone then old else old @ [fld state ''baseline''])"
    using xs by blast
qed

end
