(* ===== verification/Binding_Build.thy ===== *)
theory Binding_Build
  imports Lifecycle_Promotion Json_Roundtrip
begin

text \<open>
  The builder of bindings accepts every well-formed candidate: digests for the ten component identities, a
  report binding of digests for each scope, a tool manifest with a tool identity, and validated lifecycle and
  reporting artefacts.
\<close>

lemma reporting_entry:
  assumes v: "validate_reporting r = Inr ()" and k: "k \<in> {''reception'', ''relationships'', ''summary''}"
  shows "is_sha256 (fld (fld r k) ''identity'')"
proof -
  have d: "is_dict r" "has r k" using v k by (auto simp: validate_reporting_def chk_eq_Inr keyset_is_def has_def)
  then have "(k, fld r k) \<in> set (items r)" using fld_in_set by blast
  then have "fld (fld r k) ''identity'' = VStr (reporting_digest (fld (fld r k) ''schema'') (fld (fld r k) ''content''))"
    using v by (auto simp: validate_reporting_def chk_eq_Inr each_eq_Inr Let_def)
  then show ?thesis by (simp add: reporting_digest_def)
qed

definition scope_fields_ok :: "dict \<Rightarrow> string \<times> val \<Rightarrow> bool" where
  "scope_fields_ok ids entry =
     (case entry of (s, old) \<Rightarrow>
        s \<in> set (map fst SCOPE_COMPONENTS) \<and> is_dict old \<and> keyset_is old REPORT_BINDING_FIELDS \<and> list_all is_sha256 (vvalues old) \<and>
        (s \<noteq> ''frontier'' \<longrightarrow> fld old ''artifact_sha256'' = fld (VDict ids) ''binary''))"

definition scope_input_ok :: "dict \<Rightarrow> val \<Rightarrow> string \<times> val \<Rightarrow> bool" where
  "scope_input_ok ids manifests entry =
     (scope_fields_ok ids entry \<and>
      (\<exists>tools t. vsub manifests (fst entry @ ''-tools.json'') = Inr tools \<and> tool_identity tools = Inr t))"

lemma scope_input_field:
  "is_dict old \<Longrightarrow> keyset_is old REPORT_BINDING_FIELDS \<Longrightarrow> list_all is_sha256 (vvalues old) \<Longrightarrow>
   f \<in> set REPORT_BINDING_FIELDS \<Longrightarrow> is_sha256 (fld old f)"
proof -
  assume a: "is_dict old" "keyset_is old REPORT_BINDING_FIELDS" "list_all is_sha256 (vvalues old)" "f \<in> set REPORT_BINDING_FIELDS"
  then have "has old f" by (simp add: keyset_is_def has_def)
  then have "(f, fld old f) \<in> set (items old)" using fld_in_set by blast
  then show ?thesis using a(3) by (force simp: vvalues_def list_all_iff)
qed

text \<open>The dependencies that \<open>build_current_binding\<close> gives a scope.\<close>

definition built_deps :: "dict \<Rightarrow> val \<Rightarrow> val \<Rightarrow> string \<Rightarrow> string \<Rightarrow> dict" where
  "built_deps ids reporting old tool scope =
     (let base = dupdate (map (\<lambda>n. (n, fld (VDict ids) n)) (tbl SCOPE_COMPONENTS scope))
            [(''environment'', fld old ''environment_sha256''), (''input'', fld old ''input_manifest_sha256''),
             (''acceptance-tool'', VStr tool),
             (''report-reception'', fld (fld reporting ''reception'') ''identity''),
             (''relationship-execution'', fld (fld reporting ''relationships'') ''identity'')]
      in if scope = ''frontier'' then AList.update ''observer'' (fld old ''artifact_sha256'') base else base)"

definition built_scope :: "dict \<Rightarrow> val \<Rightarrow> val \<Rightarrow> string \<Rightarrow> string \<Rightarrow> val" where
  "built_scope ids reporting old tool scope =
     VDict [(''identity'', VStr (dependency_identity scope (built_deps ids reporting old tool scope))),
            (''direct_dependencies'', VDict (dsorted (built_deps ids reporting old tool scope))),
            (''report_binding'', VDict (map (\<lambda>f. (f, fld old f)) REPORT_BINDING_FIELDS))]"

lemma scope_roles: "n \<in> set (tbl SCOPE_COMPONENTS s) \<Longrightarrow> n \<in> set (map fst GRAPH_DEPENDENCIES)"
  by (auto simp: tbl_def SCOPE_COMPONENTS_def GRAPH_DEPENDENCIES_def split: if_splits option.splits)

lemma scope_components_distinct: "distinct (tbl SCOPE_COMPONENTS s)"
  by (auto simp: tbl_def SCOPE_COMPONENTS_def split: option.splits if_splits)

lemma scope_components_fresh:
  "set (tbl SCOPE_COMPONENTS s) \<inter> {''environment'', ''input'', ''acceptance-tool'', ''report-reception'', ''relationship-execution'', ''observer''} = {}"
  by (auto simp: tbl_def SCOPE_COMPONENTS_def split: option.splits if_splits)

lemma built_deps_map:
  "map_of (built_deps ids reporting old tool s) =
     (map_of (map (\<lambda>n. (n, fld (VDict ids) n)) (tbl SCOPE_COMPONENTS s)))
       (''environment'' \<mapsto> fld old ''environment_sha256'', ''input'' \<mapsto> fld old ''input_manifest_sha256'',
        ''acceptance-tool'' \<mapsto> VStr tool, ''report-reception'' \<mapsto> fld (fld reporting ''reception'') ''identity'',
        ''relationship-execution'' \<mapsto> fld (fld reporting ''relationships'') ''identity'')
     ++ (if s = ''frontier'' then [''observer'' \<mapsto> fld old ''artifact_sha256''] else Map.empty)"
  by (rule ext) (simp add: built_deps_def Let_def update_conv' map_of_dupdate map_add_def)

lemma built_deps_distinct: "distinct (map fst (built_deps ids reporting old tool s))"
  unfolding built_deps_def Let_def
  by (auto intro!: distinct_update distinct_dupdate simp: comp_def scope_components_distinct)

lemma fld_map_of: "fld (VDict d) k = (case map_of d k of Some x \<Rightarrow> x | None \<Rightarrow> VNone)"
  by (simp add: fldd.simps(1))

lemma built_deps_fld:
  shows "n \<in> set (tbl SCOPE_COMPONENTS s) \<Longrightarrow> fld (VDict (built_deps ids reporting old tool s)) n = fld (VDict ids) n"
    and "fld (VDict (built_deps ids reporting old tool s)) ''environment'' = fld old ''environment_sha256''"
    and "fld (VDict (built_deps ids reporting old tool s)) ''input'' = fld old ''input_manifest_sha256''"
    and "fld (VDict (built_deps ids reporting old tool s)) ''report-reception'' = fld (fld reporting ''reception'') ''identity''"
    and "fld (VDict (built_deps ids reporting old tool s)) ''relationship-execution'' = fld (fld reporting ''relationships'') ''identity''"
    and "s = ''frontier'' \<Longrightarrow> fld (VDict (built_deps ids reporting old tool s)) ''observer'' = fld old ''artifact_sha256''"
proof -
  show "n \<in> set (tbl SCOPE_COMPONENTS s) \<Longrightarrow> fld (VDict (built_deps ids reporting old tool s)) n = fld (VDict ids) n"
    using scope_components_fresh [of s] by (auto simp: fld_map_of [of "built_deps _ _ _ _ _"] built_deps_map map_add_def map_of_map_restrict)
qed (auto simp: fld_map_of [of "built_deps _ _ _ _ _"] built_deps_map map_add_def)

lemma built_deps_values:
  assumes "x \<in> snd ` set (built_deps ids reporting old tool s)"
  shows "(\<exists>n \<in> set (tbl SCOPE_COMPONENTS s). x = fld (VDict ids) n) \<or> (\<exists>f \<in> set REPORT_BINDING_FIELDS. x = fld old f) \<or> x = VStr tool \<or>
     (\<exists>k \<in> {''reception'', ''relationships''}. x = fld (fld reporting k) ''identity'')"
proof -
  obtain k where "(k, x) \<in> set (built_deps ids reporting old tool s)" using assms by auto
  then have "map_of (built_deps ids reporting old tool s) k = Some x" using built_deps_distinct by simp
  then show ?thesis
    by (auto simp: built_deps_map map_add_def REPORT_BINDING_FIELDS_def split: if_splits dest!: map_of_SomeD)
qed


lemma current_scope_built:
  assumes ids: "\<And>n. n \<in> set (map fst GRAPH_DEPENDENCIES) \<Longrightarrow> is_sha256 (fld (VDict ids) n)"
    and ok: "scope_input_ok ids manifests (s, old)"
  obtains tools t where "vsub manifests (s @ ''-tools.json'') = Inr tools" and "tool_identity tools = Inr t" and
    "current_scope (component_graph ids) manifests reporting (s, old) = Inr (s, built_scope ids reporting old t s)"
proof -
  from ok obtain tools t where t: "vsub manifests (s @ ''-tools.json'') = Inr tools" "tool_identity tools = Inr t"
    by (auto simp: scope_input_ok_def)
  have o: "is_dict old" "keyset_is old REPORT_BINDING_FIELDS" "list_all sha_str (vvalues old)"
    using ok sha_str_is_sha256 by (auto simp: scope_input_ok_def scope_fields_ok_def list_all_iff)
  have sub: "vsub (component_graph ids) n = Inr (node (fld (VDict ids) n) (pick_ids ids (tbl GRAPH_DEPENDENCIES n)))"
    if "n \<in> set (map fst GRAPH_DEPENDENCIES)" for n
    using that component_graph_fld [OF that, of ids] keys_component_graph [of ids]
    by (simp add: vsub_eq_Inr has_def component_graph_def)
  have comp: "mapm (\<lambda>name. bnd (vsub (component_graph ids) name) (\<lambda>c. bnd (vsub c ''identity'') (\<lambda>i. Inr (name, i))))
      (tbl SCOPE_COMPONENTS s) = Inr (map (\<lambda>n. (n, fld (VDict ids) n)) (tbl SCOPE_COMPONENTS s))"
  proof -
    have "bnd (vsub (component_graph ids) n) (\<lambda>c. bnd (vsub c ''identity'') (\<lambda>i. Inr (n, i))) = Inr (n, fld (VDict ids) n)"
      if "n \<in> set (tbl SCOPE_COMPONENTS s)" for n
      by (simp add: sub [OF scope_roles [OF that]])
    then have "mapm (\<lambda>name. bnd (vsub (component_graph ids) name) (\<lambda>c. bnd (vsub c ''identity'') (\<lambda>i. Inr (name, i))))
      (tbl SCOPE_COMPONENTS s) = mapm (\<lambda>n. Inr (n, fld (VDict ids) n)) (tbl SCOPE_COMPONENTS s)"
      by (intro mapm_cong refl)
    then show ?thesis by simp
  qed
  have b: "s \<noteq> ''frontier'' \<Longrightarrow> py_eq (fld old ''artifact_sha256'') (fld (VDict ids) ''binary'')"
    using ok ids [of "''binary''"] py_eq_is_sha256 by (auto simp: scope_input_ok_def scope_fields_ok_def GRAPH_DEPENDENCIES_def)
  have bin: "vsub (component_graph ids) ''binary'' = Inr (node (fld (VDict ids) ''binary'') (pick_ids ids (tbl GRAPH_DEPENDENCIES ''binary'')))"
    by (rule sub) (simp add: GRAPH_DEPENDENCIES_def)
  have "current_scope (component_graph ids) manifests reporting (s, old) = Inr (s, built_scope ids reporting old t s)"
    using o t b comp bin by (simp add: current_scope_def built_scope_def built_deps_def Let_def)
  then show ?thesis using that t by blast
qed

lemma built_scope_valid:
  assumes ids: "\<And>n. n \<in> set (map fst GRAPH_DEPENDENCIES) \<Longrightarrow> is_sha256 (fld (VDict ids) n)"
    and rep: "validate_reporting reporting = Inr ()" and ok: "scope_fields_ok ids (s, old)" and th: "is_sha256 (VStr t)"
  shows "validate_scope (component_graph ids) reporting (s, built_scope ids reporting old t s) = Inr ()"
proof -
  let ?d = "built_deps ids reporting old t s" and ?sc = "built_scope ids reporting old t s"
  have o: "is_dict old" "keyset_is old REPORT_BINDING_FIELDS" "list_all is_sha256 (vvalues old)"
    using ok by (auto simp: scope_fields_ok_def)
  note of = scope_input_field [OF o]
  have vals: "is_sha256 x" if "x \<in> snd ` set ?d" for x
    using built_deps_values [OF that] ids scope_roles of th reporting_entry [OF rep] by auto
  have fd: "fld (VDict (dsorted ?d)) k = fld (VDict ?d) k" for k by (rule fldd_dsorted [OF built_deps_distinct])
  have fdf: "fld (VDict (dsorted (built_deps ids reporting old t ''frontier''))) k = fld (VDict (built_deps ids reporting old t ''frontier'')) k" for k
    by (rule fldd_dsorted [OF built_deps_distinct])
  have c: "fld (fld (component_graph ids) n) ''identity'' = fld (VDict ids) n" if "n \<in> set (map fst GRAPH_DEPENDENCIES)" for n
    using component_graph_fld [OF that] by simp
  have comps: "py_eq (fld (VDict ?d) n) (fld (fld (component_graph ids) n) ''identity'')" if "n \<in> set (tbl SCOPE_COMPONENTS s)" for n
    using built_deps_fld(1) [OF that] c [OF scope_roles [OF that]] py_eq_is_sha256 ids [OF scope_roles [OF that]] by simp
  have rbf: "fld (VDict (map (\<lambda>f. (f, fld old f)) REPORT_BINDING_FIELDS)) f = fld old f" if "f \<in> set REPORT_BINDING_FIELDS" for f
    using that by (auto simp: REPORT_BINDING_FIELDS_def)
  have e: "py_eq (fld old f) (fld old f)" if "f \<in> set REPORT_BINDING_FIELDS" for f
    using py_eq_is_sha256 [OF of [OF that]] .
  have bin: "s \<noteq> ''frontier'' \<Longrightarrow> py_eq (fld old ''artifact_sha256'') (fld (fld (component_graph ids) ''binary'') ''identity'')"
    using ok c [of "''binary''"] ids [of "''binary''"] py_eq_is_sha256 by (auto simp: scope_fields_ok_def GRAPH_DEPENDENCIES_def)
  have sd: "list_all sha_str (map snd (dsorted ?d))" "list_all sha_str (map (fld old) REPORT_BINDING_FIELDS)"
    using vals of sha_str_is_sha256 by (auto simp: list_all_iff dsorted_def)
  have rp: "py_eq (fld (fld reporting k) ''identity'') (fld (fld reporting k) ''identity'')" if "k \<in> {''reception'', ''relationships''}" for k
    using py_eq_is_sha256 reporting_entry [OF rep] that by auto
  have dd: "dependency_identity s (dsorted ?d) = dependency_identity s ?d"
    by (simp add: dependency_identity_def dsorted_idem)
  have R: "REPORT_BINDING_FIELDS = [''environment_sha256'', ''input_manifest_sha256'', ''tool_sha256'', ''artifact_sha256'']"
    by (rule REPORT_BINDING_FIELDS_def)
  have flds: "fld ?sc ''identity'' = VStr (dependency_identity s ?d)" "fld ?sc ''direct_dependencies'' = VDict (dsorted ?d)"
    "fld ?sc ''report_binding'' = VDict (map (\<lambda>f. (f, fld old f)) REPORT_BINDING_FIELDS)"
    "is_dict ?sc" "keyset_is ?sc [''identity'', ''direct_dependencies'', ''report_binding'']"
    by (simp_all add: built_scope_def keyset_is_def)
  have each1: "each (\<lambda>n. chk (py_eq (fld (VDict (dsorted ?d)) n) (fld (fld (component_graph ids) n) ''identity'')) (E n) (Inr ())) (tbl SCOPE_COMPONENTS s) = Inr ()" for E
    unfolding each_eq_Inr fd using comps by simp
  have ks: "keyset_is (VDict (map (\<lambda>f. (f, fld old f)) REPORT_BINDING_FIELDS)) REPORT_BINDING_FIELDS"
    by (simp add: keyset_is_def comp_def)
  have rb: "fld (VDict (map (\<lambda>f. (f, fld old f)) REPORT_BINDING_FIELDS)) ''environment_sha256'' = fld old ''environment_sha256''"
    "fld (VDict (map (\<lambda>f. (f, fld old f)) REPORT_BINDING_FIELDS)) ''input_manifest_sha256'' = fld old ''input_manifest_sha256''"
    "fld (VDict (map (\<lambda>f. (f, fld old f)) REPORT_BINDING_FIELDS)) ''artifact_sha256'' = fld old ''artifact_sha256''"
    by (simp_all add: R)
  have es: "py_eq (fld old ''environment_sha256'') (fld old ''environment_sha256'')" "py_eq (fld old ''input_manifest_sha256'') (fld old ''input_manifest_sha256'')"
    "py_eq (fld old ''artifact_sha256'') (fld old ''artifact_sha256'')"
    using e by (simp_all add: R)
  show ?thesis
    unfolding validate_scope_def prod.case Let_def flds(1-3) each1 rb items.simps dd
    using flds(4,5) sd ks es rp bin
    by (simp add: fd fdf built_deps_fld(2-6) comp_def)
qed

text \<open>The binding the builder returns.\<close>

definition built_audit :: "string \<Rightarrow> val \<Rightarrow> dict" where
  "built_audit g rt = (if rt = VNone then [(''source_git'', VStr g)] else [(''source_git'', VStr g), (''runtime_identity'', rt)])"

definition built_binding :: "dict \<Rightarrow> val \<Rightarrow> val \<Rightarrow> (string \<times> val \<times> string) list \<Rightarrow> string \<Rightarrow> val \<Rightarrow> val" where
  "built_binding ids lifecycle reporting sc g rt =
     VDict [(''schema'', VStr BINDING_SCHEMA), (''suite_version'', VStr ''1.0.0''), (''product'', fld (VDict ids) ''product''),
        (''components'', component_graph ids), (''lifecycle'', lifecycle), (''reporting'', reporting),
        (''scopes'', VDict (map (\<lambda>(s, old, t). (s, built_scope ids reporting old t s)) sc)),
        (''audit'', VDict (built_audit g rt))]"

lemma graph_role:
  assumes "n \<in> set (map fst GRAPH_DEPENDENCIES)"
  shows "has (component_graph ids) n" and "fld (fld (component_graph ids) n) ''identity'' = fld (VDict ids) n"
    and "has (fld (component_graph ids) n) ''identity''"
  using assms component_graph_fld [OF assms, of ids] keys_component_graph [of ids]
  by (simp_all add: has_def [of "component_graph ids"])

lemma built_binding_valid:
  assumes ids: "\<And>n. n \<in> set (map fst GRAPH_DEPENDENCIES) \<Longrightarrow> is_sha256 (fld (VDict ids) n)"
    and g: "is_hex 40 g" and lc: "validate_lifecycle lifecycle = Inr ()" and rep: "validate_reporting reporting = Inr ()"
    and sc: "sc \<noteq> []" "\<forall>(s, old, t) \<in> set sc. scope_fields_ok ids (s, old) \<and> is_sha256 (VStr t)"
    and rt: "rt = VNone \<or> rt = fld (VDict ids) ''kernel-generation''"
  shows "validate_binding (built_binding ids lifecycle reporting sc g rt) = Inr ()"
proof -
  let ?g = "component_graph ids" and ?scopes = "map (\<lambda>(s, old, t). (s, built_scope ids reporting old t s)) sc"
  have gv: "validate_component_graph ?g = Inr ()" by (rule component_graph_valid [OF ids])
  have vs: "each (validate_scope ?g reporting) ?scopes = Inr ()"
    using sc(2) built_scope_valid [OF ids rep] by (auto simp: each_eq_Inr)
  have names: "set (map fst ?scopes) \<subseteq> set (map fst SCOPE_COMPONENTS)" using sc(2) by (auto simp: scope_fields_ok_def)
  have roles: "keyset_is ?g COMPONENT_ROLES"
    by (auto simp: keyset_is_def keys_component_graph COMPONENT_ROLES_def GRAPH_DEPENDENCIES_def)
  have gd: "is_dict ?g" by (simp add: component_graph_def)
  have kg: "''kernel-generation'' \<in> set (map fst GRAPH_DEPENDENCIES)" "''product'' \<in> set (map fst GRAPH_DEPENDENCIES)"
    by (simp_all add: GRAPH_DEPENDENCIES_def)
  have rtv: "rt \<noteq> VNone \<Longrightarrow> is_sha256 rt \<and> py_eq rt (fld (VDict ids) ''kernel-generation'')"
    using rt ids [OF kg(1)] py_eq_is_sha256 by auto
  have audit: "validate_audit ?g (VDict (built_audit g rt)) = Inr ()"
    using g rtv graph_role(2) [OF kg(1)] by (auto simp: validate_audit_def built_audit_def keyset_is_def is_git_commit_iff)
  show ?thesis
    using gv gd roles lc rep audit vs sc(1) names graph_role(2) [OF kg(2)] py_eq_is_sha256 [OF ids [OF kg(2)]]
    by (simp add: built_binding_def validate_binding_def keyset_is_def [of "VDict _"] BINDING_FIELDS_def)
qed

lemma current_scopes_chosen:
  assumes ids: "\<And>n. n \<in> set (map fst GRAPH_DEPENDENCIES) \<Longrightarrow> is_sha256 (fld (VDict ids) n)"
    and sc: "\<forall>e \<in> set sc. scope_input_ok ids manifests e"
  obtains f where "\<And>e. e \<in> set sc \<Longrightarrow> (\<exists>tools. vsub manifests (fst e @ ''-tools.json'') = Inr tools \<and> tool_identity tools = Inr (f e)) \<and>
      current_scope (component_graph ids) manifests reporting e = Inr (fst e, built_scope ids reporting (snd e) (f e) (fst e))"
proof -
  let ?g = "component_graph ids"
  have "\<exists>t. (\<exists>tools. vsub manifests (fst e @ ''-tools.json'') = Inr tools \<and> tool_identity tools = Inr t) \<and>
      current_scope ?g manifests reporting e = Inr (fst e, built_scope ids reporting (snd e) t (fst e))" if "e \<in> set sc" for e
  proof -
    have "scope_input_ok ids manifests (fst e, snd e)" using sc that by simp
    from current_scope_built [OF ids this, where reporting = reporting]
    obtain tools t where "vsub manifests (fst e @ ''-tools.json'') = Inr tools" "tool_identity tools = Inr t"
      "current_scope ?g manifests reporting (fst e, snd e) = Inr (fst e, built_scope ids reporting (snd e) t (fst e))"
      by metis
    then show ?thesis by (intro exI [of _ t] conjI exI [of _ tools]) simp_all
  qed
  then have "\<forall>e. \<exists>t. e \<in> set sc \<longrightarrow> (\<exists>tools. vsub manifests (fst e @ ''-tools.json'') = Inr tools \<and> tool_identity tools = Inr t) \<and>
      current_scope ?g manifests reporting e = Inr (fst e, built_scope ids reporting (snd e) t (fst e))"
    by blast
  then obtain f where "\<And>e. e \<in> set sc \<Longrightarrow> (\<exists>tools. vsub manifests (fst e @ ''-tools.json'') = Inr tools \<and> tool_identity tools = Inr (f e)) \<and>
      current_scope ?g manifests reporting e = Inr (fst e, built_scope ids reporting (snd e) (f e) (fst e))"
    by (metis choice)
  then show thesis by (rule that)
qed

lemma built_audit_eq:
  assumes ids: "\<And>n. n \<in> set (map fst GRAPH_DEPENDENCIES) \<Longrightarrow> is_sha256 (fld (VDict ids) n)"
    and rt: "rt = VNone \<or> rt = fld (VDict ids) ''kernel-generation''"
  shows "(if rt \<noteq> VNone then
       chk (is_sha256 rt) (EIErr ''invalid runtime identity'')
       (bnd (vsub (component_graph ids) ''kernel-generation'') (\<lambda>g. bnd (vsub g ''identity'') (\<lambda>gi.
        chk (py_eq rt gi) (EIErr ''runtime identity is not the kernel generation'')
        (Inr (AList.update ''runtime_identity'' rt [(''source_git'', VStr h)])))))
     else Inr [(''source_git'', VStr h)]) = Inr (built_audit h rt)"
proof -
  have kg: "''kernel-generation'' \<in> set (map fst GRAPH_DEPENDENCIES)" by (simp add: GRAPH_DEPENDENCIES_def)
  have "rt \<noteq> VNone \<Longrightarrow> is_sha256 rt \<and> py_eq rt (fld (VDict ids) ''kernel-generation'')"
    using rt ids [OF kg] py_eq_is_sha256 by auto
  then show ?thesis using graph_role [OF kg] by (simp add: built_audit_def)
qed

lemma build_current_binding_ok:
  assumes ids: "\<And>n. n \<in> set (map fst GRAPH_DEPENDENCIES) \<Longrightarrow> is_sha256 (fld (VDict ids) n)"
    and g: "is_hex 40 g" and lc: "validate_lifecycle lifecycle = Inr ()" and rep: "validate_reporting reporting = Inr ()"
    and sc: "sc \<noteq> []" "\<forall>e \<in> set sc. scope_input_ok ids manifests e"
    and rt: "rt = VNone \<or> rt = fld (VDict ids) ''kernel-generation''"
  shows "\<exists>ts. list_all2 (\<lambda>(s, old) t. \<exists>tools. vsub manifests (s @ ''-tools.json'') = Inr tools \<and> tool_identity tools = Inr t) sc ts \<and>
     (let b = built_binding ids lifecycle reporting (map2 (\<lambda>(s, old) t. (s, old, t)) sc ts) g rt in
      validate_binding b = Inr () \<and>
      build_current_binding (VStr g) (VStr ''1.0.0'') (VDict sc) (component_graph ids) manifests lifecycle reporting
        [(''source_git'', VStr g)] rt = Inr b)"
proof -
  let ?g = "component_graph ids"
  obtain f where f: "\<And>e. e \<in> set sc \<Longrightarrow> (\<exists>tools. vsub manifests (fst e @ ''-tools.json'') = Inr tools \<and> tool_identity tools = Inr (f e)) \<and>
      current_scope ?g manifests reporting e = Inr (fst e, built_scope ids reporting (snd e) (f e) (fst e))"
    by (rule current_scopes_chosen [OF ids sc(2), where reporting = reporting]) blast+
  let ?sc = "map2 (\<lambda>(s, old) t. (s, old, t)) sc (map f sc)"
  have mp: "?sc = map (\<lambda>e. (fst e, snd e, f e)) sc" by (simp add: zip_map2 zip_same_conv_map split_def)
  have m: "mapm (current_scope ?g manifests reporting) sc = Inr (map (\<lambda>(s, old, t). (s, built_scope ids reporting old t s)) ?sc)"
  proof -
    have "mapm (current_scope ?g manifests reporting) sc = mapm (\<lambda>e. Inr (fst e, built_scope ids reporting (snd e) (f e) (fst e))) sc"
      by (rule mapm_cong [OF refl]) (use f in blast)
    then show ?thesis unfolding mp by (simp add: comp_def)
  qed
  have vb: "validate_binding (built_binding ids lifecycle reporting ?sc g rt) = Inr ()"
  proof (rule built_binding_valid [OF ids g lc rep _ _ rt])
    show "?sc \<noteq> []" using sc(1) by (simp add: mp)
    have "is_sha256 (VStr (f e))" if "e \<in> set sc" for e using f [OF that] by (auto simp: tool_identity_iff)
    then show "\<forall>(s, old, t) \<in> set ?sc. scope_fields_ok ids (s, old) \<and> is_sha256 (VStr t)"
      using sc(2) by (auto simp: mp scope_input_ok_def)
  qed
  have names: "set (map fst sc) \<subseteq> set (map fst SCOPE_COMPONENTS)" using sc(2) by (auto simp: scope_input_ok_def scope_fields_ok_def)
  have p: "''product'' \<in> set (map fst GRAPH_DEPENDENCIES)" by (simp add: GRAPH_DEPENDENCIES_def)
  note built_audit_eq [OF ids rt]
  moreover have "is_git_commit (VStr g)" using g by (simp add: is_git_commit_iff)
  ultimately have "build_current_binding (VStr g) (VStr ''1.0.0'') (VDict sc) ?g manifests lifecycle reporting [(''source_git'', VStr g)] rt =
      Inr (built_binding ids lifecycle reporting ?sc g rt)"
    using component_graph_valid [OF ids] lc rep m sc(1) names vb graph_role [OF p]
    by (simp add: build_current_binding_def built_binding_def)
  moreover have "list_all2 (\<lambda>(s, old) t. \<exists>tools. vsub manifests (s @ ''-tools.json'') = Inr tools \<and> tool_identity tools = Inr t) sc (map f sc)"
    unfolding list_all2_conv_all_nth using f by (auto simp: split_def)
  ultimately show ?thesis using vb by (auto simp: Let_def)
qed

end
