(* ===== verification/Sample_Candidate.thy ===== *)
theory Sample_Candidate
  imports Binding_Build Reuse
begin

text \<open>
  A candidate for the witnesses: a binding of the four scopes, checkpoints whose evidence identities
  are computed by the code, an active baseline, and the states that hold them.
\<close>

definition sample_sha :: string where "sample_sha = replicate 64 (CHR ''a'')"
definition sample_git :: string where "sample_git = replicate 40 (CHR ''b'')"
definition other_git :: string where "other_git = replicate 40 (CHR ''c'')"

definition sample_ids :: dict where
  "sample_ids = map (\<lambda>(n, _). (n, VStr sample_sha)) GRAPH_DEPENDENCIES"

definition sample_lifecycle :: val where
  "sample_lifecycle = VDict (map (\<lambda>n. (n, VDict [(''identity'', VStr sample_sha), (''plan_schema'', VStr ''plan/v1''), (''content'', VList [VStr n])]))
     [''evidence'', ''stateless'', ''derived'', ''authority''])"

text \<open>The reporting artefacts of a checkout in which every file holds its own name.\<close>

definition sample_reporting_item :: "string \<Rightarrow> string \<Rightarrow> val" where
  "sample_reporting_item schema relative =
     (let content = VDict [(''path'', VStr relative), (''sha256'', VStr (sha256_hex relative))]
      in VDict [(''identity'', VStr (reporting_digest (VStr schema) content)), (''schema'', VStr schema), (''content'', content)])"

definition sample_reporting :: val where
  "sample_reporting = VDict (map (\<lambda>(n, schema, relative). (n, sample_reporting_item schema relative)) REPORTING_DEFINITIONS)"

definition sample_input :: val where
  "sample_input = VDict (map (\<lambda>f. (f, VStr sample_sha)) REPORT_BINDING_FIELDS)"

text \<open>The binding, with or without a runtime identity of its own.\<close>

definition run_binding :: "val \<Rightarrow> string \<Rightarrow> string list \<Rightarrow> val" where
  "run_binding rt g scopes =
     built_binding sample_ids sample_lifecycle sample_reporting (map (\<lambda>s. (s, sample_input, sample_sha)) scopes) g rt"

abbreviation sample_binding :: "string \<Rightarrow> string list \<Rightarrow> val" where
  "sample_binding \<equiv> run_binding VNone"

lemma sample_hex [simp]: "is_hex 64 sample_sha" "is_hex 40 sample_git" "is_hex 40 other_git"
  by (simp_all add: sample_sha_def sample_git_def other_git_def is_hex_def hex_digits_def)

lemma fld_map_keys: "s \<in> set ks \<Longrightarrow> fld (VDict (map (\<lambda>s. (s, f s)) ks)) s = f s"
  by (auto simp: fld_map_of map_of_eq_None_iff image_image split: option.splits dest: map_of_SomeD)

lemma sample_id [simp]:
  "n \<in> set (map fst GRAPH_DEPENDENCIES) \<Longrightarrow> fld (VDict sample_ids) n = VStr sample_sha"
  unfolding sample_ids_def by (auto simp: fld_map_of split_def map_of_eq_None_iff image_image split: option.splits dest: map_of_SomeD)

lemma sample_lifecycle_ok: "validate_lifecycle sample_lifecycle = Inr ()"
  by (simp add: sample_lifecycle_def validate_lifecycle_def keyset_is_def keys_def is_sha256_iff)

lemma sample_reporting_ok: "validate_reporting sample_reporting = Inr ()"
  by (simp add: sample_reporting_def validate_reporting_def sample_reporting_item_def REPORTING_DEFINITIONS_def Let_def keyset_is_def keys_def is_sha256_iff
      reporting_digest_def is_hex_canonical_sha256 is_hex_sha256)

lemma sample_binding_ok:
  assumes "is_hex 40 g" and "scopes \<noteq> []" and "set scopes \<subseteq> set (map fst SCOPE_COMPONENTS)" and "rt \<in> {VNone, VStr sample_sha}"
  shows "binding_ok (run_binding rt g scopes)"
  unfolding run_binding_def
proof (rule built_binding_valid [OF _ assms(1) sample_lifecycle_ok sample_reporting_ok])
  have "''kernel-generation'' \<in> set (map fst GRAPH_DEPENDENCIES)" by (simp add: GRAPH_DEPENDENCIES_def)
  then show "rt = VNone \<or> rt = fld (VDict sample_ids) ''kernel-generation''" using assms(4) by simp
  show "is_sha256 (fld (VDict sample_ids) n)" if "n \<in> set (map fst GRAPH_DEPENDENCIES)" for n
    using that by (simp add: is_sha256_iff)
  have b: "''binary'' \<in> set (map fst GRAPH_DEPENDENCIES)" by (simp add: GRAPH_DEPENDENCIES_def)
  have i: "is_dict sample_input" "keyset_is sample_input REPORT_BINDING_FIELDS" "list_all is_sha256 (vvalues sample_input)"
    "fld sample_input ''artifact_sha256'' = VStr sample_sha"
    by (simp_all add: sample_input_def keyset_is_def keys_def vvalues_def REPORT_BINDING_FIELDS_def is_sha256_iff)
  show "\<forall>(s, old, t) \<in> set (map (\<lambda>s. (s, sample_input, sample_sha)) scopes). scope_fields_ok sample_ids (s, old) \<and> is_sha256 (VStr t)"
    using assms(3) i sample_id [OF b] by (auto simp: scope_fields_ok_def is_sha256_iff)
qed (use assms(2) in simp_all)

section \<open>Distinct keys\<close>

lemma wf_node: "wf_val i \<Longrightarrow> distinct (map fst d) \<Longrightarrow> list_all (\<lambda>(k, x). wf_val x) d \<Longrightarrow> wf_val (node i d)"
  using wf_dsorted [of d] by (simp add: node_def)

lemma graph_deps_distinct: "(r, ds) \<in> set GRAPH_DEPENDENCIES \<Longrightarrow> distinct ds"
  by (auto simp: GRAPH_DEPENDENCIES_def)

lemma wf_component_graph:
  assumes "\<And>n. wf_val (fld (VDict ids) n)"
  shows "wf_val (component_graph ids)"
proof -
  have "wf_val (node (fld (VDict ids) r) (pick_ids ids ds))" if "(r, ds) \<in> set GRAPH_DEPENDENCIES" for r ds
    using assms graph_deps_distinct [OF that] by (intro wf_node) (auto simp: pick_ids_def comp_def list_all_iff)
  then show ?thesis using distinct_graph_roles by (auto simp: component_graph_def list_all_iff comp_def split_def)
qed

lemma wf_built_scope:
  assumes "\<And>n. wf_val (fld (VDict ids) n)" and "wf_val old" and "wf_val reporting"
  shows "wf_val (built_scope ids reporting old tool s)"
proof -
  have "wf_val x" if "(k, x) \<in> set (built_deps ids reporting old tool s)" for k x
    using built_deps_values [of x ids reporting old tool s] that assms(1) wf_val_fldd [OF assms(2)] wf_val_fldd [OF assms(3)]
      wf_val_fldd [OF wf_val_fldd [OF assms(3)]]
    by (metis image_eqI snd_conv wf_val.simps(4,7))
  then have "wf_val (VDict (dsorted (built_deps ids reporting old tool s)))"
    using built_deps_distinct by (intro wf_dsorted) (auto simp: list_all_iff)
  moreover have "wf_val (fld old f)" for f by (rule wf_val_fldd [OF assms(2)]) simp
  ultimately show ?thesis by (simp add: built_scope_def REPORT_BINDING_FIELDS_def)
qed

lemma sample_reporting_wf: "wf_val sample_reporting"
  by (simp add: sample_reporting_def REPORTING_DEFINITIONS_def sample_reporting_item_def Let_def)

lemma sample_binding_wf:
  assumes "distinct scopes" and "wf_val rt"
  shows "wf_val (run_binding rt g scopes)"
proof -
  have ids: "wf_val (fld (VDict sample_ids) n)" for n
    by (rule wf_val_fldd) (simp_all add: sample_ids_def distinct_graph_roles comp_def split_def list_all_iff)
  note rep = sample_reporting_wf
  have lc: "wf_val sample_lifecycle" by (simp add: sample_lifecycle_def)
  have inp: "wf_val sample_input" by (simp add: sample_input_def REPORT_BINDING_FIELDS_def)
  have "list_all (\<lambda>(k, x). wf_val x) (map (\<lambda>s. (s, built_scope sample_ids sample_reporting sample_input sample_sha s)) scopes)"
    using wf_built_scope [OF ids inp rep] by (simp add: list_all_iff)
  then show ?thesis using assms wf_component_graph [OF ids] ids rep lc
    by (simp add: run_binding_def built_binding_def built_audit_def comp_def)
qed

lemma sample_binding_fields [simp]:
  "fld (run_binding rt g scopes) ''scopes'' =
     VDict (map (\<lambda>s. (s, built_scope sample_ids sample_reporting sample_input sample_sha s)) scopes)"
  "fld (run_binding rt g scopes) ''suite_version'' = VStr ''1.0.0''"
  "fld (run_binding rt g scopes) ''schema'' = VStr BINDING_SCHEMA"
  "fldd (run_binding rt g scopes) ''reporting'' x = sample_reporting"
  "fld (run_binding rt g scopes) ''product'' = VStr sample_sha"
  "audit_git (run_binding rt g scopes) = g" "split_runtime (run_binding rt g scopes) \<longleftrightarrow> rt \<noteq> VNone"
  "run_identity (run_binding rt g scopes) = (if rt = VNone then g else str_val rt)"
proof -
  have p: "''product'' \<in> set (map fst GRAPH_DEPENDENCIES)" by (simp add: GRAPH_DEPENDENCIES_def)
  show "fld (run_binding rt g scopes) ''product'' = VStr sample_sha"
    using sample_id [OF p] by (simp add: run_binding_def built_binding_def)
qed (simp_all add: run_binding_def built_binding_def built_audit_def audit_git_def split_runtime_def run_identity_def comp_def)

section \<open>States\<close>

definition passed_with :: "val \<Rightarrow> string \<Rightarrow> string \<Rightarrow> dict \<Rightarrow> val" where
  "passed_with b mode digest extra =
     VDict ([(''report_sha256'', VStr digest), (''passed'', VBool True),
       (''evidence_identity'', case bnd (dependencies_for_mode b mode) (evidence_identity mode digest) of Inr v \<Rightarrow> v | Inl _ \<Rightarrow> VNone)] @ extra)"

abbreviation sample_checkpoint :: "val \<Rightarrow> string \<Rightarrow> val" where
  "sample_checkpoint b mode \<equiv> passed_with b mode sample_sha []"

definition sample_contract :: val where
  "sample_contract = VDict [(''suite_version'', VStr ''1.0.0'')]"

lemma passed_with_fields [simp]:
  "is_dict (passed_with b mode digest extra)" "fldd (passed_with b mode digest extra) ''report_sha256'' x = VStr digest"
  "fldd (passed_with b mode digest extra) ''passed'' x = VBool True" "has (passed_with b mode digest extra) ''passed''"
  "k \<notin> {''report_sha256'', ''passed'', ''evidence_identity''} \<Longrightarrow> fldd (passed_with b mode digest extra) k x = fldd (VDict extra) k x"
  by (simp_all add: passed_with_def has_def keys_def)

definition sample_state :: "val \<Rightarrow> string list \<Rightarrow> val \<Rightarrow> val" where
  "sample_state b modes baseline =
     VDict [(''schema'', VStr STATE_SCHEMA), (''suite_version'', VStr ''1.0.0''), (''binding'', b),
       (''checkpoints'', VDict (map (\<lambda>m. (m, sample_checkpoint b m)) modes)), (''invalidated_reports'', VDict []),
       (''baseline'', baseline), (''baseline_history'', VList [])]"

definition sample_baseline :: "val \<Rightarrow> val" where
  "sample_baseline b = VDict (baseline_record ''2026-09-20'' b (\<lambda>_. sample_sha) (\<lambda>_. VDict [(''candidate'', VStr (audit_git b))]))"

lemma passed_with_ok:
  assumes "binding_ok b" and "wf_val b" and "dependencies_for_mode b mode = Inr d" and "is_hex 64 digest"
  shows "checkpoint_ok b (mode, passed_with b mode digest extra)"
proof -
  obtain v where v: "evidence_identity mode digest d = Inr v"
    using assms(4) by (auto simp: evidence_identity_def is_sha256_iff Let_def)
  from validate_evidence_identity_self [OF this dependencies_wf [OF assms(1-3)]] show ?thesis
    by (simp add: checkpoint_ok_def validate_checkpoint_identity_def passed_with_def assms(3) v)
qed

lemma sample_baseline_ok:
  assumes "binding_ok b" and "wf_val b" and "\<not> split_runtime b" and "fld b ''product'' = VStr sample_sha"
    and "\<And>s. s \<in> {''core'', ''frontier'', ''product''} \<Longrightarrow> has (fld b ''scopes'') s"
  shows "validate_baseline_identity (sample_baseline b) (Some b) = Inr ()"
  unfolding sample_baseline_def by (rule baseline_record_valid [OF assms(1,2,3,5)]) (simp_all add: assms(4))

lemma sample_state_ok:
  assumes ok: "binding_ok b" and wf: "wf_val b" and deps: "\<forall>m \<in> set modes. \<exists>d. dependencies_for_mode b m = Inr d"
    and bl: "baseline = VNone \<or> baseline = sample_baseline b \<and> \<not> split_runtime b \<and> fld b ''product'' = VStr sample_sha \<and>
      set BASELINE_AGGREGATES \<subseteq> set modes \<and> (\<forall>s \<in> {''core'', ''frontier'', ''product''}. has (fld b ''scopes'') s)"
  shows "validate_state sample_contract (sample_state b modes baseline) = Inr ()"
proof -
  have ck: "fld (VDict (map (\<lambda>m. (m, sample_checkpoint b m)) modes)) m = sample_checkpoint b m" if "m \<in> set modes" for m
    by (rule fld_map_keys [OF that])
  have "baseline_ok b (VDict (map (\<lambda>m. (m, sample_checkpoint b m)) modes)) baseline"
    using bl
  proof
    assume a: "baseline = sample_baseline b \<and> \<not> split_runtime b \<and> fld b ''product'' = VStr sample_sha \<and>
      set BASELINE_AGGREGATES \<subseteq> set modes \<and> (\<forall>s \<in> {''core'', ''frontier'', ''product''}. has (fld b ''scopes'') s)"
    then have "validate_baseline_identity baseline (Some b) = Inr ()" using sample_baseline_ok [OF ok wf] by blast
    then show ?thesis using a ck
      by (auto simp: baseline_ok_def baseline_current_def BASELINE_FIELDS_def BASELINE_AGGREGATES_def sample_baseline_def)
  qed (simp add: baseline_ok_def)
  moreover have "\<forall>mc \<in> set (map (\<lambda>m. (m, sample_checkpoint b m)) modes). checkpoint_ok b mc"
    using deps passed_with_ok [OF ok wf _ sample_hex(1)] by auto
  ultimately show ?thesis
    using ok by (simp add: validate_state_iff sample_state_def sample_contract_def history_ok_def)
qed

lemma sample_dependencies:
  assumes "binding_ok (sample_binding g scopes)" and "map_of MODE_SCOPES mode = Some s" and "s \<in> set scopes" and "mode \<noteq> ''summarize''"
  shows "\<exists>d. dependencies_for_mode (sample_binding g scopes) mode = Inr d"
  using assms dependencies_scope [OF assms(1,4)] by (auto simp: has_def keys_def)

text \<open>The candidate with its four scopes, or without the frontier; a full set of checkpoints, with an active baseline.\<close>

definition ALL_SCOPES :: "string list" where
  "ALL_SCOPES = [''frontier'', ''core'', ''product'', ''community'']"

lemma all_scopes_ok: "is_hex 40 g \<Longrightarrow> binding_ok (sample_binding g ALL_SCOPES)" "wf_val (sample_binding g ALL_SCOPES)"
  by (rule sample_binding_ok) (simp_all add: ALL_SCOPES_def SCOPE_COMPONENTS_def sample_binding_wf)

lemma core_scopes_ok: "is_hex 40 g \<Longrightarrow> binding_ok (sample_binding g (tl ALL_SCOPES))" "wf_val (sample_binding g (tl ALL_SCOPES))"
  by (rule sample_binding_ok) (simp_all add: ALL_SCOPES_def SCOPE_COMPONENTS_def sample_binding_wf)

definition promoted_state :: "string \<Rightarrow> val" where
  "promoted_state g = sample_state (sample_binding g ALL_SCOPES) [''core'', ''frontier'', ''qualification'', ''full'']
     (sample_baseline (sample_binding g ALL_SCOPES))"

lemma promoted_state_ok:
  assumes "is_hex 40 g"
  shows "validate_state sample_contract (promoted_state g) = Inr ()"
  unfolding promoted_state_def
proof (rule sample_state_ok [OF all_scopes_ok(1) [OF assms] all_scopes_ok(2)])
  show "\<forall>m \<in> set [''core'', ''frontier'', ''qualification'', ''full'']. \<exists>d. dependencies_for_mode (sample_binding g ALL_SCOPES) m = Inr d"
    using sample_dependencies [OF all_scopes_ok(1) [OF assms]] by (simp add: MODE_SCOPES_def ALL_SCOPES_def)
qed (simp add: has_def keys_def BASELINE_AGGREGATES_def ALL_SCOPES_def)

text \<open>Scope identities do not depend on the audited source; the scopes of two such bindings differ only where one has the
  scope and the other has not.\<close>

lemma sample_scope_identity:
  "scope_identity (sample_binding g scopes) s =
     (if s \<in> set scopes then VStr (dependency_identity s (built_deps sample_ids sample_reporting sample_input sample_sha s)) else VNone)"
proof (cases "s \<in> set scopes")
  case True
  then have "fld (fld (sample_binding g scopes) ''scopes'') s = built_scope sample_ids sample_reporting sample_input sample_sha s"
    by (simp add: fld_map_keys)
  then show ?thesis using True by (simp add: scope_identity_def built_scope_def)
next
  case False
  then have "fld (fld (sample_binding g scopes) ''scopes'') s = VNone"
    by (auto simp: fld_map_of split: option.splits dest: map_of_SomeD)
  then show ?thesis using False by (simp add: scope_identity_def)
qed

lemma sample_changed_scopes:
  "changed_scopes (sample_binding g as) (sample_binding h bs) = filter (\<lambda>s. (s \<in> set as) \<noteq> (s \<in> set bs)) (remdups (as @ bs))"
  by (rule trans [OF _ filter_cong]) (auto simp: changed_scopes_def keys_def comp_def sample_scope_identity intro!: filter_cong)

lemma sample_collision_free: "scope_collision_free (sample_binding g as) (sample_binding h bs)"
proof -
  have "fld (fld (sample_binding g as) ''scopes'') s = built_scope sample_ids sample_reporting sample_input sample_sha s"
    if "has (fld (sample_binding g as) ''scopes'') s" for g as s
    using that by (auto simp: has_def keys_def comp_def fld_map_keys)
  then show ?thesis unfolding scope_collision_free_def scope_deps_def by metis
qed

section \<open>Operations on the promoted state\<close>

lemma promoted_binding: "fld (promoted_state g) ''binding'' = sample_binding g ALL_SCOPES"
  by (simp add: promoted_state_def sample_state_def)

lemma promoted_checkpoints:
  "has (fld (promoted_state g) ''checkpoints'') m \<longleftrightarrow> m \<in> {''core'', ''frontier'', ''qualification'', ''full''}"
  by (auto simp: promoted_state_def sample_state_def has_def keys_def)

lemma promoted_changes:
  "changed_scopes (fld (promoted_state g) ''binding'') (sample_binding g (tl ALL_SCOPES)) = [''frontier'']"
  "changed_scopes (fld (promoted_state g) ''binding'') (sample_binding h ALL_SCOPES) = []"
  unfolding promoted_binding sample_changed_scopes by (simp_all add: ALL_SCOPES_def)

lemma sample_gits: "sample_git \<noteq> other_git"
  by (simp add: sample_git_def other_git_def)

lemma sample_suite_version: "fld sample_contract ''suite_version'' = VStr ''1.0.0''"
  by (simp add: sample_contract_def)

text \<open>Rebound to the candidate without its frontier, and to one of another commit.\<close>

lemma promoted_narrowed:
  "\<exists>state'. rebind sample_contract (promoted_state sample_git) (sample_binding sample_git (tl ALL_SCOPES)) = Inr (state', [''frontier''])"
proof -
  let ?s = "promoted_state sample_git" and ?b = "sample_binding sample_git (tl ALL_SCOPES)"
  have "snd (rebound ?s ?b) = [''frontier'']"
    unfolding rebound_def Let_def promoted_changes
    by (simp add: promoted_checkpoints affected_modes_def tbl_def SCOPE_RESULTS_def MODE_INVALIDATION_def)
  then obtain state' where "rebound ?s ?b = (state', [''frontier''])" by (cases "rebound ?s ?b") auto
  then show ?thesis
    unfolding rebind_eq_Inr using promoted_state_ok [OF sample_hex(2)] core_scopes_ok(1) [OF sample_hex(2)] sample_suite_version by simp
qed

lemma promoted_rebuilt:
  "\<exists>state'. rebind sample_contract (promoted_state sample_git) (sample_binding other_git ALL_SCOPES) = Inr (state', [])"
proof -
  let ?s = "promoted_state sample_git" and ?b = "sample_binding other_git ALL_SCOPES"
  have "py_eq (summary_reporting (fld ?s ''binding'')) (summary_reporting ?b)"
    unfolding promoted_binding by (simp add: summary_reporting_def py_eq_refl wf_val_fldd sample_reporting_wf)
  then have "snd (rebound ?s ?b) = []" unfolding rebound_def Let_def promoted_changes by simp
  then obtain state' where "rebound ?s ?b = (state', [])" by (cases "rebound ?s ?b") auto
  then show ?thesis
    unfolding rebind_eq_Inr using promoted_state_ok [OF sample_hex(2)] all_scopes_ok(1) [OF sample_hex(3)] sample_suite_version by simp
qed

text \<open>An invalidation of an accepted state, in general and of the core.\<close>

lemma sample_invalidated:
  assumes "validate_state contract state = Inr ()" and "map_of MODE_INVALIDATION mode = Some affected"
    and "removed = filter (has (fld state ''checkpoints'')) affected"
  shows "\<exists>state'. invalidate contract state mode = Inr (state', removed) \<and>
     fld state' ''checkpoints'' = fold vdel removed (fld state ''checkpoints'') \<and>
     (mode \<in> set BASELINE_AGGREGATES \<longrightarrow> fld state' ''baseline'' = VNone)"
proof -
  let ?s1 = "fold drop_checkpoint removed state"
  let ?s = "if mode \<in> set BASELINE_AGGREGATES \<and> fld ?s1 ''baseline'' \<noteq> VNone then retire_baseline ?s1 else ?s1"
  have "is_dict state" using assms(1) by (simp add: validate_state_iff)
  then have "fld ?s ''checkpoints'' = fold vdel removed (fld state ''checkpoints'')"
    "mode \<in> set BASELINE_AGGREGATES \<longrightarrow> fld ?s ''baseline'' = VNone" by (simp_all add: drops_checkpoints)
  moreover have "invalidate contract state mode = Inr (?s, removed)" unfolding invalidate_eq_Inr Let_def using assms by blast
  ultimately show ?thesis by blast
qed

lemma promoted_invalidated:
  "\<exists>state'. invalidate sample_contract (promoted_state sample_git) ''core'' = Inr (state', [''core'']) \<and>
     fld state' ''checkpoints'' = vdel ''core'' (fld (promoted_state sample_git) ''checkpoints'') \<and> fld state' ''baseline'' = VNone"
  using sample_invalidated [OF promoted_state_ok [OF sample_hex(2)], of "''core''" "[''core'', ''summarize'']" "[''core'']"]
  by (simp add: promoted_checkpoints MODE_INVALIDATION_def BASELINE_AGGREGATES_def)

text \<open>A state with a summary.\<close>

definition summarized_state :: val where
  "summarized_state = sample_state (sample_binding sample_git ALL_SCOPES) [''core'', ''full'', ''longmemeval'', ''summarize''] VNone"

lemma summarized_checkpoints:
  "has (fld summarized_state ''checkpoints'') m \<longleftrightarrow> m \<in> {''core'', ''full'', ''longmemeval'', ''summarize''}"
  by (auto simp: summarized_state_def sample_state_def has_def keys_def)

lemma summarized_state_ok: "validate_state sample_contract summarized_state = Inr ()"
  unfolding summarized_state_def
proof (rule sample_state_ok [OF all_scopes_ok(1) [OF sample_hex(2)] all_scopes_ok(2)])
  have "\<exists>d. dependencies_for_mode (sample_binding sample_git ALL_SCOPES) ''summarize'' = Inr d"
    unfolding dependencies_summarize [OF all_scopes_ok(1) [OF sample_hex(2)]]
    by (simp add: AGGREGATE_SCOPES_def has_def keys_def ALL_SCOPES_def)
  then show "\<forall>m \<in> set [''core'', ''full'', ''longmemeval'', ''summarize'']. \<exists>d. dependencies_for_mode (sample_binding sample_git ALL_SCOPES) m = Inr d"
    using sample_dependencies [OF all_scopes_ok(1) [OF sample_hex(2)]] by (simp add: MODE_SCOPES_def ALL_SCOPES_def)
qed simp

lemma summarized_invalidated:
  "\<exists>state'. invalidate sample_contract summarized_state ''full'' = Inr (state', [''full'', ''summarize'']) \<and>
     \<not> has (fld state' ''checkpoints'') ''full''"
  using sample_invalidated [OF summarized_state_ok, of "''full''" "[''full'', ''summarize'']" "[''full'', ''summarize'']"]
  by (auto simp: summarized_checkpoints MODE_INVALIDATION_def)

section \<open>Manifests and a file system\<close>

text \<open>A tool manifest of a report-producing file and a lifecycle file of digest \<open>d\<close>.\<close>

definition sample_tools :: "string \<Rightarrow> val" where
  "sample_tools d = VDict [(''scope'', VStr ''core''),
     (''files'', VList (map file_entry [(''benchmarks/acceptance/suite/lifecycle.py'', d), (''benchmarks/acceptance/suite/evidence.py'', sample_sha)]))]"

lemma sample_tools_identity:
  assumes "is_hex 64 d"
  shows "\<exists>t. tool_identity (sample_tools d) = Inr t" and "producing (as_list (fld (sample_tools d) ''files'')) = [(''benchmarks/acceptance/suite/evidence.py'', sample_sha)]"
proof -
  have l: "lifecycle_only ''benchmarks/acceptance/suite/lifecycle.py''" "\<not> lifecycle_only ''benchmarks/acceptance/suite/evidence.py''"
    by (simp_all add: lifecycle_only_def EVIDENCE_LIFECYCLE_ONLY_def LEGACY_EVIDENCE_LIFECYCLE_ONLY_def)
  show p: "producing (as_list (fld (sample_tools d) ''files'')) = [(''benchmarks/acceptance/suite/evidence.py'', sample_sha)]"
    by (simp add: sample_tools_def producing_def entry_of_def file_entry_def l)
  have "list_all entry_ok (as_list (fld (sample_tools d) ''files'')) \<and> distinct (map (fst \<circ> entry_of) (as_list (fld (sample_tools d) ''files'')))"
    using assms by (simp add: sample_tools_def entry_ok_def entry_of_def file_entry_def keyset_is_def keys_def is_sha256_iff)
  then show "\<exists>t. tool_identity (sample_tools d) = Inr t" using p by (auto simp: tool_identity_iff sample_tools_def)
qed

text \<open>A file system with one directory, in which \<open>state.json\<close> holds a text.\<close>

definition sample_path :: path where "sample_path = Path True [''suite'', ''state.json'']"

definition sample_fs :: filesystem where
  "sample_fs = \<lparr>fs_file = [sample_path \<mapsto> ''{}''], fs_dir = (\<lambda>p. p = Path True [] \<or> p = Path True [''suite'']),
     fs_symlink = (\<lambda>_. False), fs_resolve = (\<lambda>p. p), fs_rglob = (\<lambda>_. []), fs_git_show = (\<lambda>_ _. None)\<rparr>"

end
