(* ===== verification/Sample_Generation.thy ===== *)
theory Sample_Generation
  imports Generations Sample_Candidate
begin

text \<open>
  A generation on disk, for the witnesses: a binding of one scope whose digests are those of its manifests,
  and a file system that holds it, with or without the pointer to it.
\<close>

definition sample_environment :: val where "sample_environment = VDict [(''os'', VStr ''linux'')]"
definition sample_inputs :: val where "sample_inputs = VDict [(''files'', VList [])]"

definition sample_tool :: string where
  "sample_tool = (case tool_identity (sample_tools sample_sha) of Inr t \<Rightarrow> t | Inl _ \<Rightarrow> [])"

definition generation_input :: val where
  "generation_input = VDict [(''artifact_sha256'', VStr sample_sha),
     (''environment_sha256'', VStr (serialized_json_sha256 sample_environment)),
     (''input_manifest_sha256'', VStr (serialized_json_sha256 sample_inputs)), (''tool_sha256'', VStr sample_sha)]"

definition generation_binding :: val where
  "generation_binding =
     built_binding sample_ids sample_lifecycle sample_reporting [(''core'', generation_input, sample_tool)] sample_git VNone"

definition generation_manifests :: val where
  "generation_manifests = VDict [(''core-environment.json'', sample_environment), (''core-inputs.json'', sample_inputs),
     (''core-tools.json'', sample_tools sample_sha)]"

lemma sample_tool_identity: "tool_identity (sample_tools sample_sha) = Inr sample_tool"
  using sample_tools_identity(1) [of sample_sha] by (auto simp: sample_tool_def)

lemma sample_tool_hex: "is_hex 64 sample_tool"
proof -
  have "\<exists>v. sample_tool = canonical_sha256 v" using sample_tool_identity unfolding tool_identity_iff by blast
  then show ?thesis using is_hex_canonical_sha256 by metis
qed

lemma generation_binding_ok: "binding_ok generation_binding"
  unfolding generation_binding_def
proof (rule built_binding_valid [OF _ sample_hex(2) sample_lifecycle_ok sample_reporting_ok])
  show "is_sha256 (fld (VDict sample_ids) n)" if "n \<in> set (map fst GRAPH_DEPENDENCIES)" for n
    using that by (simp add: is_sha256_iff)
  have b: "''binary'' \<in> set (map fst GRAPH_DEPENDENCIES)" by (simp add: GRAPH_DEPENDENCIES_def)
  show "\<forall>(s, old, t) \<in> set [(''core'', generation_input, sample_tool)]. scope_fields_ok sample_ids (s, old) \<and> is_sha256 (VStr t)"
    using sample_id [OF b] sample_tool_hex
    by (simp add: scope_fields_ok_def generation_input_def keyset_is_def keys_def vvalues_def REPORT_BINDING_FIELDS_def
        is_sha256_iff SCOPE_COMPONENTS_def serialized_json_sha256_def is_hex_sha256 insert_commute)
qed simp_all

lemma json_dsorted [simp]: "json_ok (VDict (dsorted d)) = json_ok (VDict d)"
proof -
  have "mset (map fst (dsorted d)) = mset (map fst d)" by (simp add: dsorted_def)
  then have "distinct (map fst (dsorted d)) = distinct (map fst d)" by (metis mset_eq_imp_distinct_iff)
  then show ?thesis by (simp add: list_all_iff mset_dsorted)
qed

lemma json_node: "json_ok (node i d) = (json_ok i \<and> json_ok (VDict d))"
  using json_dsorted [of d] by (auto simp: node_def)

lemma json_built_scope:
  "json_ok (built_scope ids reporting old t s) =
     (json_ok (VDict (built_deps ids reporting old t s)) \<and> json_ok (VDict (map (\<lambda>f. (f, fld old f)) REPORT_BINDING_FIELDS)))"
  using json_dsorted [of "built_deps ids reporting old t s"] by (auto simp: built_scope_def)

lemma generation_binding_json: "json_ok generation_binding"
proof -
  have g: "json_ok (component_graph sample_ids)"
    by (simp add: component_graph_def json_node pick_ids_def GRAPH_DEPENDENCIES_def)
  have r: "json_ok sample_reporting" by (simp add: sample_reporting_def sample_reporting_item_def REPORTING_DEFINITIONS_def Let_def)
  have l: "json_ok sample_lifecycle" by (simp add: sample_lifecycle_def)
  have s: "json_ok (built_scope sample_ids sample_reporting generation_input sample_tool ''core'')"
    by (simp add: json_built_scope built_deps_def dupdate_def Let_def tbl_def SCOPE_COMPONENTS_def generation_input_def REPORT_BINDING_FIELDS_def
        sample_reporting_def sample_reporting_item_def REPORTING_DEFINITIONS_def GRAPH_DEPENDENCIES_def)
  show ?thesis using g r l s by (simp add: generation_binding_def built_binding_def built_audit_def GRAPH_DEPENDENCIES_def)
qed

definition sample_out :: path where "sample_out = Path True [''acceptance'']"

abbreviation sample_generation :: path where
  "sample_generation \<equiv> generation_dir sample_out (generation_name generation_binding generation_manifests)"

definition generation_store :: "string option \<Rightarrow> filesystem" where
  "generation_store pointer =
     \<lparr>fs_file = (map_of (map (\<lambda>(n, v). (sub_path sample_generation n, serialized_json v))
          ((''binding.json'', generation_binding) # items generation_manifests)))(sub_path sample_out ''active.json'' := pointer),
      fs_dir = (\<lambda>p. p \<in> set (prefixes_of sample_generation)),
      fs_symlink = (\<lambda>_. False), fs_resolve = (\<lambda>p. p), fs_rglob = (\<lambda>_. []), fs_git_show = (\<lambda>_ _. None)\<rparr>"

lemma json_sample:
  "json_ok sample_environment" "json_ok sample_inputs" "json_ok (sample_tools sample_sha)"
  "is_dict sample_environment" "is_dict sample_inputs" "is_dict (sample_tools sample_sha)" "is_dict generation_binding"
  by (simp_all add: sample_environment_def sample_inputs_def sample_tools_def file_entry_def generation_binding_def built_binding_def)

lemma generation_plain:
  "plain ''binding.json''" "plain ''core-environment.json''" "plain ''core-inputs.json''" "plain ''core-tools.json''" "plain ''active.json''"
  by (simp_all add: plain_def slash_def)

lemma generation_files:
  "fs_file (generation_store pointer) (sub_path sample_generation ''binding.json'') = Some (serialized_json generation_binding)"
  "fs_file (generation_store pointer) (sub_path sample_generation ''core-environment.json'') = Some (serialized_json sample_environment)"
  "fs_file (generation_store pointer) (sub_path sample_generation ''core-inputs.json'') = Some (serialized_json sample_inputs)"
  "fs_file (generation_store pointer) (sub_path sample_generation ''core-tools.json'') = Some (serialized_json (sample_tools sample_sha))"
  by (simp_all add: generation_store_def sub_path_plain generation_plain generation_dir_plain plain_generation generation_manifests_def)

lemma generation_loads:
  "fs_file fs p = Some (serialized_json v) \<Longrightarrow> json_ok v \<Longrightarrow> is_dict v \<Longrightarrow> binding_load_json fs p = Inr v"
  using loads_serialized [of v] by (auto simp: binding_load_json_def bnd_eq_Inr chk_eq_Inr read_json_eq)

lemma generation_fields:
  "fld generation_binding ''scopes'' = VDict [(''core'', built_scope sample_ids sample_reporting generation_input sample_tool ''core'')]"
  "fld (fld generation_binding ''audit'') ''source_git'' = VStr sample_git"
  by (simp_all add: generation_binding_def built_binding_def built_audit_def)

lemma generation_scope_paths:
  "vpath (built_scope sample_ids sample_reporting generation_input sample_tool ''core'') [''report_binding'', ''environment_sha256''] =
     Inr (VStr (serialized_json_sha256 sample_environment))"
  "vpath (built_scope sample_ids sample_reporting generation_input sample_tool ''core'') [''report_binding'', ''input_manifest_sha256''] =
     Inr (VStr (serialized_json_sha256 sample_inputs))"
  "vpath (built_scope sample_ids sample_reporting generation_input sample_tool ''core'') [''direct_dependencies'', ''acceptance-tool''] =
     Inr (VStr sample_tool)"
proof -
  have d: "distinct (map fst (built_deps sample_ids sample_reporting generation_input sample_tool ''core''))" by (rule built_deps_distinct)
  have m: "map_of (dsorted (built_deps sample_ids sample_reporting generation_input sample_tool ''core'')) ''acceptance-tool'' = Some (VStr sample_tool)"
  proof -
    have "distinct (map fst (dsorted (built_deps sample_ids sample_reporting generation_input sample_tool ''core'')))"
      using d by (simp add: dsorted_def distinct_map)
    moreover have "(''acceptance-tool'', VStr sample_tool) \<in> set (dsorted (built_deps sample_ids sample_reporting generation_input sample_tool ''core''))"
      unfolding mset_dsorted by (rule map_of_SomeD) (simp add: built_deps_map)
    ultimately show ?thesis by (simp add: map_of_eq_Some_iff)
  qed
  then show "vpath (built_scope sample_ids sample_reporting generation_input sample_tool ''core'') [''direct_dependencies'', ''acceptance-tool''] =
     Inr (VStr sample_tool)" by (simp add: built_scope_def vsub.simps)
qed (simp_all add: built_scope_def REPORT_BINDING_FIELDS_def generation_input_def)

lemma json_wf: "json_ok v \<Longrightarrow> wf_val v"
  by (induction v rule: json_ok.induct) (auto simp: list_all_iff)

lemma generation_eq [simp]: "json_ok v \<Longrightarrow> py_eq v v"
  by (intro py_eq_refl json_wf)

lemma generation_validates:
  "validate_generation (generation_store pointer) sample_generation (Some generation_binding) (Some generation_manifests) = Inr ()"
  "validate_generation (generation_store pointer) sample_generation None None = Inr ()"
proof -
  let ?fs = "generation_store pointer"
  note f = generation_files [of pointer]
  note l = generation_loads [OF f(1) generation_binding_json json_sample(7)] generation_loads [OF f(4) json_sample(3,6)]
    generation_loads [OF f(2) json_sample(1,4)] generation_loads [OF f(3) json_sample(2,5)]
  have t: "tool_manifest_identity_valid (sample_tools sample_sha) (VStr sample_tool) = Inr True"
    using sample_tool_hex by (simp add: tool_manifest_identity_valid_def sample_tool_identity is_sha256_iff)
  have v: "validate_generation_file ?fs sample_generation e ''core'' (built_scope sample_ids sample_reporting generation_input sample_tool ''core'') kf = Inr ()"
    if "kf \<in> set GENERATION_KINDS" and "e = None \<or> e = Some generation_manifests" for e kf
    using that f l t
    by (auto simp: validate_generation_file_def Let_def GENERATION_KINDS_def is_file_def file_sha256_def read_bytes_def generation_scope_paths
        generation_manifests_def json_sample serialized_json_sha256_def reraise_def simp del: vpath.simps)
  show "validate_generation ?fs sample_generation (Some generation_binding) (Some generation_manifests) = Inr ()"
    "validate_generation ?fs sample_generation None None = Inr ()"
    using v by (simp_all add: validate_generation_def l(1) generation_fields bnd_eq_Inr generation_binding_ok each_eq_Inr generation_binding_json)
qed


section \<open>The store\<close>

lemma store_paths:
  "generation_dir sample_out g' = Path True [''acceptance'', ''generations'', g']" if "plain g'" for g'
  using that by (simp add: generation_dir_plain sample_out_def)

lemma sample_generation_eq:
  "sample_generation = Path True [''acceptance'', ''generations'', generation_name generation_binding generation_manifests]"
  by (rule store_paths [OF plain_generation])

lemma sample_pointer_eq: "sub_path sample_out ''active.json'' = Path True [''acceptance'', ''active.json'']"
  by (simp add: pointer_paths sample_out_def)

lemma store_dirs: "fs_dir (generation_store pointer) p \<longleftrightarrow>
    p \<in> {Path True [], Path True [''acceptance''], Path True [''acceptance'', ''generations''],
      Path True [''acceptance'', ''generations'', generation_name generation_binding generation_manifests]}"
  by (simp add: generation_store_def sample_generation_eq prefixes_of_def upt_rec)

lemma store_file:
  "fs_file (generation_store pointer) p = Some s \<Longrightarrow> p = Path True [''acceptance'', ''active.json''] \<or>
     parent p = Path True [''acceptance'', ''generations'', generation_name generation_binding generation_manifests]"
  unfolding generation_store_def sample_generation_eq sample_pointer_eq
  by (auto simp: sub_path_plain generation_plain parent_def generation_manifests_def split: if_splits dest!: map_of_SomeD)

lemma store_tree: "tree (generation_store pointer)"
  unfolding tree_def
proof (intro allI impI, elim conjE)
  fix p assume e: "exists_path (generation_store pointer) p" and n: "parts p \<noteq> []"
  have "parent p \<in> {Path True [], Path True [''acceptance''], Path True [''acceptance'', ''generations''],
      Path True [''acceptance'', ''generations'', generation_name generation_binding generation_manifests]}"
  proof (cases "fs_dir (generation_store pointer) p")
    case True
    then show ?thesis using n by (auto simp: store_dirs parent_def)
  next
    case False
    then obtain s where "fs_file (generation_store pointer) p = Some s" using e by (auto simp: exists_path_def is_file_def)
    then show ?thesis using store_file [of pointer p s] by (auto simp: parent_def)
  qed
  then show "fs_dir (generation_store pointer) (parent p)" by (simp add: store_dirs)
qed

lemma store_fresh: "fresh_stamp (generation_store pointer) sample_out ''1''"
proof -
  have t: "generation_dir sample_out ''.tmp-1'' = Path True [''acceptance'', ''generations'', ''.tmp-1'']"
    by (rule store_paths) (simp add: plain_def slash_def)
  have p: "pointer_temporary sample_out ''1'' = Path True [''acceptance'', ''.active.json.1.tmp'']"
    "sub_path sample_out ''active.json'' = Path True [''acceptance'', ''active.json'']"
    by (simp_all add: pointer_temporary_def sample_out_def joinp_def pointer_paths)
  have n: "generation_name generation_binding generation_manifests \<noteq> ''.tmp-1''"
    using generation_name_hex [of generation_binding generation_manifests] by (auto simp: hex_digits_def)
  have "fs_file (generation_store pointer) (Path True [''acceptance'', ''generations'', ''.tmp-1'']) = None"
    using store_file [of pointer "Path True [''acceptance'', ''generations'', ''.tmp-1'']"] n
    by (cases "fs_file (generation_store pointer) (Path True [''acceptance'', ''generations'', ''.tmp-1''])") (auto simp: parent_def)
  moreover have "fs_file (generation_store pointer) (Path True [''acceptance'', ''.active.json.1.tmp'']) = None"
    using store_file [of pointer "Path True [''acceptance'', ''.active.json.1.tmp'']"] n
    by (cases "fs_file (generation_store pointer) (Path True [''acceptance'', ''.active.json.1.tmp''])") (auto simp: parent_def)
  ultimately have "\<not> exists_path (generation_store pointer) (Path True [''acceptance'', ''generations'', ''.tmp-1''])"
    "\<not> exists_path (generation_store pointer) (Path True [''acceptance'', ''.active.json.1.tmp''])"
    using n by (simp_all add: exists_path_def is_file_def store_dirs)
  then show ?thesis by (simp add: fresh_stamp_def slash_def t p)
qed

lemma store_plain_names: "plain_names generation_manifests"
  by (simp add: plain_names_def generation_manifests_def generation_plain)

lemma store_resolve [simp]: "fs_resolve (generation_store pointer) p = p"
  by (simp add: generation_store_def)

text \<open>Activating the generation that is there switches the pointer; with the pointer it is the active one.\<close>

lemma store_mkdir:
  assumes "set (prefixes_of p) \<subseteq> {q. fs_dir (generation_store pointer) q}"
  shows "mkdir_p p (generation_store pointer) = (generation_store pointer, Inr ())"
proof -
  have "fs_file (generation_store pointer) q = None" if "fs_dir (generation_store pointer) q" for q
    using that store_file [of pointer q] by (cases "fs_file (generation_store pointer) q") (auto simp: store_dirs parent_def)
  then have "\<not> list_ex (is_file (generation_store pointer)) (prefixes_of p)" using assms by (auto simp: list_ex_iff is_file_def)
  moreover have "(\<lambda>q. q \<in> set (prefixes_of p) \<or> fs_dir (generation_store pointer) q) = fs_dir (generation_store pointer)"
    using assms by auto
  ultimately show ?thesis by (simp add: mkdir_p_def)
qed

lemma store_staged:
  "stage_generation stamp sample_out generation_binding generation_manifests raw (generation_store pointer) =
     (generation_store pointer, Inr (generation_name generation_binding generation_manifests))"
proof -
  have m: "mkdir_p (sub_path sample_out ''generations'') (generation_store pointer) = (generation_store pointer, Inr ())"
    by (rule store_mkdir) (auto simp: sub_path_plain plain_def slash_def sample_out_def prefixes_of_def store_dirs upt_rec)
  have "exists_path (generation_store pointer) sample_generation" by (simp add: exists_path_def store_dirs sample_generation_eq)
  then show ?thesis using m generation_validates(1) [of pointer]
    by (simp add: stage_generation_def Let_def st_bnd_def st_read_def)
qed

lemma store_activated:
  "\<exists>fs'. activate_generation ''1'' sample_out generation_binding generation_manifests raw (generation_store pointer) = (fs', Inr ())"
proof -
  let ?fs = "generation_store pointer"
  have p: "parent (sub_path sample_out ''active.json'') = Path True [''acceptance'']" by (simp add: sample_pointer_eq parent_def)
  have m: "mkdir_p (Path True [''acceptance'']) ?fs = (?fs, Inr ())"
    by (rule store_mkdir) (auto simp: prefixes_of_def store_dirs upt_rec)
  have "\<exists>fs'. write_json ''1'' (sub_path sample_out ''active.json'') v ?fs = (fs', Inr ())" for v
    using m by (simp add: write_json_def p st_bnd_def Let_def write_file_def write_text_def os_replace_def store_dirs joinp_def
        sample_pointer_eq pname_def parent_def is_file_def)
  then show ?thesis using generation_validates(2) [of pointer] generation_files(1) [of pointer] store_staged [of "''1''" raw pointer]
    by (simp add: activate_generation_def publish_generation_def Let_def st_bnd_def st_read_def file_sha256_def read_bytes_def)
qed

definition active_store :: filesystem where
  "active_store = generation_store (Some (serialized_json (active_pointer (generation_name generation_binding generation_manifests)
     (serialized_json_sha256 generation_binding))))"

lemma active_store_loads: "load_active_binding active_store sample_out = Inr generation_binding"
proof -
  let ?g = "generation_name generation_binding generation_manifests"
  let ?v = "active_pointer ?g (serialized_json_sha256 generation_binding)"
  have f: "fs_file active_store (sub_path sample_out ''active.json'') = Some (serialized_json ?v)"
    by (simp add: active_store_def generation_store_def)
  have j: "json_ok ?v" by (simp add: active_pointer_def)
  have "binding_load_json active_store (sub_path sample_out ''active.json'') = Inr ?v" by (rule generation_loads [OF f j]) simp
  moreover have "file_sha256 active_store (sub_path sample_generation ''binding.json'') = Inr (serialized_json_sha256 generation_binding)"
    using generation_files(1) by (simp add: file_sha256_def read_bytes_def active_store_def serialized_json_sha256_def)
  moreover have "is_relative_to sample_generation sample_out"
    unfolding sample_generation_eq by (simp add: sample_out_def is_relative_to_def)
  moreover have "?g \<noteq> [] \<and> pname (path_of ?g) = ?g"
    using plain_generation [of generation_binding generation_manifests] path_of_plain [OF plain_generation] by (simp add: pname_def plain_def)
  moreover have "fs_dir active_store sample_generation" by (simp add: active_store_def store_dirs sample_generation_eq)
  ultimately have "active_generation_dir active_store sample_out = Inr sample_generation"
    using f generation_validates(2) by (simp add: active_generation_dir_def Let_def is_file_def active_store_def)
  moreover have "binding_load_json active_store (sub_path sample_generation ''binding.json'') = Inr generation_binding"
    unfolding active_store_def by (rule generation_loads [OF generation_files(1) generation_binding_json json_sample(7)])
  moreover have "fs_dir active_store sample_out" by (simp add: active_store_def store_dirs sample_out_def)
  ultimately show ?thesis by (simp add: load_active_binding_def Let_def active_store_def)
qed

text \<open>The activation of an empty binding fails.\<close>

lemma empty_activation_fails:
  "\<exists>fs' e. activate_generation ''1'' sample_out (VDict []) (VDict []) (\<lambda>_. None) active_store = (fs', Inl e)"
proof -
  have s: "tree active_store" "fresh_stamp active_store sample_out ''1''" by (simp_all add: active_store_def store_tree store_fresh)
  have n: "plain_names (VDict [])" by (simp add: plain_names_def)
  obtain fs' r where r: "activate_generation ''1'' sample_out (VDict []) (VDict []) (\<lambda>_. None) active_store = (fs', r)" by (rule prod.exhaust)
  have "r \<noteq> Inr ()"
  proof
    assume "r = Inr ()"
    then obtain b where "binding_ok b" "py_eq b (VDict [])" using activated_valid [OF r [unfolded \<open>r = Inr ()\<close>] s n] by blast
    then show False using binding_schema [of b] binding_is_dict [of b] by (cases b) auto
  qed
  then show ?thesis using r by (cases r) auto
qed

end
