(* ===== verification/Retrieval_Setup.thy ===== *)
theory Retrieval_Setup
  imports Retrieval_Facts
begin

text \<open>
  The construction of an \<open>ActiveRetrievalSession\<close>: the rules of the connected product, the pages of its tool
  manifest, and the tools offered to the agent, with the limits of their arguments narrowed to the settings. A client
  is a product with the attributes the constructor looks for: \<open>list_tools\<close> and \<open>_request\<close> are \<open>None\<close> where they are
  not callable. The loop over the pages runs as long as the product names a next page, so it need not end: the result
  is \<open>None\<close> then.
\<close>

record 'c client = "'c product" +
  client_instructions :: "'c \<Rightarrow> val"
  client_list_tools :: "('c, val) st option"
  client_request :: "(string \<Rightarrow> val \<Rightarrow> ('c, val) st) option"

section \<open>Rules and manifest\<close>

definition product_instructions :: "'c client \<Rightarrow> ('c, val) st" where
  "product_instructions P =
     st_bnd (st_bnd (st_read (\<lambda>c. Inr (client_instructions P c))) (\<lambda>instructions.
        if instructions = VNone \<or> instructions = VStr [] then
          st_bnd (product_call P ''ownward_rules'' (VDict [])) (\<lambda>result.
          st_ret (Inr (if is_dict result then fld result ''rules'' else VNone)))
        else st_ret (Inr instructions))) (\<lambda>instructions.
     st_ret (chk (nonblank instructions) (Exn MCPError ''Ownward did not provide valid collaboration rules'') (Inr instructions)))"

definition invalid_manifest :: exn where
  "invalid_manifest = AdErr ''Ownward MCP returned an invalid tool manifest''"

definition next_cursor :: "val \<Rightarrow> string" where
  "next_cursor result =
     (let cursor = fldd result ''nextCursor'' (fldd result ''next_cursor'' (VStr [])) in if is_str cursor then str_val cursor else [])"

definition page_of :: "val \<Rightarrow> val list res" where
  "page_of result =
     (let page = (if is_dict result then fld result ''tools'' else VNone) in
      chk (is_list page \<and> list_all is_dict (as_list page)) invalid_manifest (Inr (as_list page)))"

text \<open>\<open>{"cursor": cursor} if cursor else {}\<close>.\<close>

definition page_request :: "string \<Rightarrow> val" where
  "page_request cursor = VDict (if cursor \<noteq> [] then [(''cursor'', VStr cursor)] else [])"

partial_function (option) list_pages ::
    "(string \<Rightarrow> val \<Rightarrow> ('c, val) st) \<Rightarrow> val list \<Rightarrow> string \<Rightarrow> 'c \<Rightarrow> ('c \<times> val list res) option" where
  "list_pages request tools cursor c =
     (case request ''tools/list'' (page_request cursor) c of
        (c', Inl e) \<Rightarrow> Some (c', Inl e)
      | (c', Inr result) \<Rightarrow>
          (case page_of result of
             Inl e \<Rightarrow> Some (c', Inl e)
           | Inr page \<Rightarrow>
               if next_cursor result = [] then Some (c', Inr (tools @ page))
               else list_pages request (tools @ page) (next_cursor result) c'))"

definition list_tools :: "'c client \<Rightarrow> 'c \<Rightarrow> ('c \<times> val res) option" where
  "list_tools P c =
     (case client_list_tools P of
        Some direct \<Rightarrow> Some (direct c)
      | None \<Rightarrow>
          (case client_request P of
             None \<Rightarrow> Some (c, Inl (AdErr ''Ownward MCP client cannot enumerate its tool contract''))
           | Some request \<Rightarrow> map_option (\<lambda>(c', r). (c', bnd r (\<lambda>tools. Inr (VList tools)))) (list_pages request [] [] c)))"

section \<open>The offered tools\<close>

definition LIMITS :: "(string \<times> string \<times> int) list" where
  "LIMITS = [(''ownward_search'', ''search_limit_per_call'', 10), (''ownward_navigate'', ''navigate_limit_per_call'', 50),
     (''ownward_evidence_search'', ''evidence_search_limit_per_source'', 3)]"

text \<open>\<open>"limit" in schema.get("properties", {})\<close>.\<close>

definition names_limit :: "val \<Rightarrow> bool res" where
  "names_limit properties =
     (case properties of
        VDict d \<Rightarrow> Inr (has properties ''limit'')
      | VList xs \<Rightarrow> Inr (vmem (VStr ''limit'') xs)
      | VStr s \<Rightarrow> Inr (infix_of ''limit'' s)
      | v \<Rightarrow> Inl (Exn TypeError ''argument is not iterable''))"

definition limit_fields :: "int \<Rightarrow> int \<Rightarrow> dict" where
  "limit_fields maximum usual =
     [(''minimum'', VInt 1), (''maximum'', VInt maximum), (''default'', VInt (min usual maximum)),
      (''description'', VStr (''Number of results: 1 to '' @ dec_int maximum @ ''; default '' @ dec_int (min usual maximum) @ ''.''))]"

definition narrow_limit :: "val \<Rightarrow> string \<Rightarrow> int \<Rightarrow> val \<Rightarrow> val res" where
  "narrow_limit settings key usual schema =
     bnd (vsub schema ''properties'') (\<lambda>properties. bnd (vsub properties ''limit'') (\<lambda>limit.
     bnd (bnd (vsub settings key) py_int) (\<lambda>setting.
     bnd (bnd (vsub settings key) (\<lambda>s. bnd (vgetd limit ''maximum'' s) py_int)) (\<lambda>published.
     Inr (vset ''properties'' (vset ''limit'' (VDict (dupdate (items limit) (limit_fields (min setting published) usual))) properties) schema)))))"

text \<open>The copy of the schema through \<open>json\<close> is the schema: values are not shared.\<close>

definition dynamic_spec :: "val \<Rightarrow> val \<Rightarrow> val res" where
  "dynamic_spec settings tool =
     bnd (vgetd tool ''inputSchema'' (fld tool ''input_schema'')) (\<lambda>schema.
     chk (is_dict schema) (AdErr ''Ownward tool has no input schema'')
     (chk (hashable (fld tool ''name'')) (Exn TypeError ''unhashable type'')
     (bnd (case fld tool ''name'' of
             VStr name \<Rightarrow>
               (case map_of LIMITS name of
                  Some (key, usual) \<Rightarrow>
                    bnd (names_limit (fldd schema ''properties'' (VDict []))) (\<lambda>b.
                    if b then narrow_limit settings key usual schema else Inr schema)
                | None \<Rightarrow> Inr schema)
           | _ \<Rightarrow> Inr schema) (\<lambda>schema.
     bnd (vsub tool ''name'') (\<lambda>name.
     Inr (VDict [(''type'', VStr ''function''), (''name'', VStr (py_str name)),
       (''description'', VStr (py_str (fldd tool ''description'' (VStr [])))), (''inputSchema'', schema), (''deferLoading'', VBool False)]))))))"

section \<open>The constructor\<close>

definition tools_by_name :: "val \<Rightarrow> (string \<times> val) list res" where
  "tools_by_name manifest =
     bnd (py_iter manifest) (mapm (\<lambda>item. bnd (vgetd item ''name'' (VStr [])) (\<lambda>name. Inr (py_str name, item))))"

definition offered_tools :: "val \<Rightarrow> string list \<Rightarrow> val \<Rightarrow> val list res" where
  "offered_tools settings allowed manifest =
     bnd (tools_by_name manifest) (\<lambda>by_name.
     chk (list_all (\<lambda>name. name \<in> set (map fst by_name)) allowed) (AdErr ''Ownward active retrieval tools are missing'')
     (mapm (\<lambda>name. dynamic_spec settings (the (map_of (rev by_name) name))) allowed))"

definition started_active :: "val \<Rightarrow> string list \<Rightarrow> val list \<Rightarrow> val \<Rightarrow> 'c \<Rightarrow> 'c active" where
  "started_active settings allowed tools instructions c =
     \<lparr>ac_client = c, ac_settings = settings, ac_allowed_tools = allowed, ac_dynamic_tools = tools,
      ac_instructions = instructions, ac_manifest_identity = canonical_sha256 (VList tools), ac_calls = [],
      ac_information_ids = [], ac_evidence_ids = [], ac_cursors = [], ac_returned_ids = [], ac_read_ids = [],
      ac_read_evidence_ids = [], ac_read_paths = [], ac_read_chars = 0\<rparr>"

definition new_active :: "'c client \<Rightarrow> val \<Rightarrow> 'c \<Rightarrow> ('c \<times> 'c active res) option" where
  "new_active P settings c =
     (case product_instructions P c of
        (c1, Inl e) \<Rightarrow> Some (c1, Inl e)
      | (c1, Inr instructions) \<Rightarrow>
          (case bnd (vsub settings ''allowed_tools'') py_iter of
             Inl e \<Rightarrow> Some (c1, Inl e)
           | Inr allowed \<Rightarrow>
               map_option (\<lambda>(c2, r). (c2, bnd r (\<lambda>manifest. bnd (offered_tools settings (map py_str allowed) manifest) (\<lambda>tools.
                   Inr (started_active settings (map py_str allowed) tools instructions c2)))))
                 (list_tools P c1)))"

section \<open>The pages\<close>

text \<open>A listing that ends: the product names a next page until the last one.\<close>

inductive listed :: "(string \<Rightarrow> val \<Rightarrow> ('c, val) st) \<Rightarrow> string \<Rightarrow> 'c \<Rightarrow> 'c \<Rightarrow> val list res \<Rightarrow> bool" for request where
  failed: "request ''tools/list'' (page_request cursor) c = (c', Inl e) \<Longrightarrow> listed request cursor c c' (Inl e)"
| invalid: "request ''tools/list'' (page_request cursor) c = (c', Inr result) \<Longrightarrow> page_of result = Inl e \<Longrightarrow>
    listed request cursor c c' (Inl e)"
| last: "request ''tools/list'' (page_request cursor) c = (c', Inr result) \<Longrightarrow> page_of result = Inr page \<Longrightarrow> next_cursor result = [] \<Longrightarrow>
    listed request cursor c c' (Inr page)"
| more: "request ''tools/list'' (page_request cursor) c = (c', Inr result) \<Longrightarrow> page_of result = Inr page \<Longrightarrow> next_cursor result \<noteq> [] \<Longrightarrow>
    listed request (next_cursor result) c' c'' r \<Longrightarrow> listed request cursor c c'' (bnd r (\<lambda>pages. Inr (page @ pages)))"

lemma listed_returns:
  "listed request cursor c c' r \<Longrightarrow> list_pages request tools cursor c = Some (c', bnd r (\<lambda>pages. Inr (tools @ pages)))"
proof (induction arbitrary: tools rule: listed.induct)
  case (more cursor c c' result page c'' r)
  then show ?case by (subst list_pages.simps) (cases r; simp)
qed (subst list_pages.simps; simp)+

lemma returns_listed:
  assumes "list_pages request tools cursor c = Some y"
  shows "\<exists>r. listed request cursor c (fst y) r \<and> snd y = bnd r (\<lambda>pages. Inr (tools @ pages))"
proof (rule list_pages.raw_induct [where P = "\<lambda>request tools cursor c y. \<exists>r. listed request cursor c (fst y) r \<and> snd y = bnd r (\<lambda>pages. Inr (tools @ pages))",
      OF _ assms], goal_cases)
  case (1 self request tools cursor c y)
  obtain c' x where x: "request ''tools/list'' (page_request cursor) c = (c', x)" by (rule prod.exhaust)
  show ?case
  proof (cases x)
    case (Inl e)
    then show ?thesis using 1(2) x listed.failed [of request cursor c c' e] by auto
  next
    case (Inr result)
    show ?thesis
    proof (cases "page_of result")
      case (Inl e)
      then show ?thesis using 1(2) x Inr listed.invalid [of request cursor c c' result e] by auto
    next
      case p: (Inr page)
      show ?thesis
      proof (cases "next_cursor result = []")
        case True
        then show ?thesis using 1(2) x Inr p listed.last [of request cursor c c' result page] by auto
      next
        case False
        then have "self request (tools @ page) (next_cursor result) c' = Some y" using 1(2) x Inr p by simp
        from 1(1) [OF this] obtain r where l: "listed request (next_cursor result) c' (fst y) r"
          and y: "snd y = bnd r (\<lambda>pages. Inr ((tools @ page) @ pages))" by blast
        have xr: "request ''tools/list'' (page_request cursor) c = (c', Inr result)" using x Inr by simp
        from l have "listed request cursor c (fst y) (bnd r (\<lambda>pages. Inr (page @ pages)))" by (rule listed.more [of request, OF xr p False])
        then show ?thesis using y by (cases r) auto
      qed
    qed
  qed
qed

lemma list_pages_iff: "list_pages request [] cursor c = Some (c', r) \<longleftrightarrow> listed request cursor c c' r"
proof
  assume "list_pages request [] cursor c = Some (c', r)"
  from returns_listed [OF this] show "listed request cursor c c' r" by auto
next
  assume "listed request cursor c c' r"
  from listed_returns [OF this, of "[]"] show "list_pages request [] cursor c = Some (c', r)" by simp
qed

text \<open>A product that names a next page in every answer is listed for ever.\<close>

lemma endless_listing:
  assumes "\<And>a c. \<exists>c' result page. request ''tools/list'' a c = (c', Inr result) \<and> page_of result = Inr page \<and> next_cursor result \<noteq> []"
  shows "list_pages request [] cursor c = None"
proof -
  have "\<not> listed request cursor c c' r" for cursor c c' r
  proof
    assume "listed request cursor c c' r"
    then show False
    proof induction
      case (failed cursor c c' e)
      then show False using assms [of "page_request cursor" c] by auto
    next
      case (invalid cursor c c' result e)
      then show False using assms [of "page_request cursor" c] by auto
    next
      case (last cursor c c' result page)
      then show False using assms [of "page_request cursor" c] by auto
    qed
  qed
  then show ?thesis by (cases "list_pages request [] cursor c") (auto simp: list_pages_iff)
qed

section \<open>The limits on offer\<close>

definition offered_limit :: "val \<Rightarrow> val" where
  "offered_limit spec = fld (fld (fld spec ''inputSchema'') ''properties'') ''limit''"

lemma limit_fields_update:
  "fld (VDict (dupdate d (limit_fields m usual))) ''minimum'' = VInt 1"
  "fld (VDict (dupdate d (limit_fields m usual))) ''maximum'' = VInt m"
  "fld (VDict (dupdate d (limit_fields m usual))) ''default'' = VInt (min usual m)"
  by (simp_all add: dupdate_def limit_fields_def fldd.simps(1) update_conv')

lemma dynamic_spec_limit:
  assumes "dynamic_spec settings tool = Inr spec" and "fld tool ''name'' = VStr name" and "map_of LIMITS name = Some (key, usual)"
    and "offered_limit spec \<noteq> VNone"
  shows "\<exists>limit published. bnd (vsub settings key) py_int = Inr limit \<and>
    fld (offered_limit spec) ''minimum'' = VInt 1 \<and> fld (offered_limit spec) ''maximum'' = VInt (min limit published) \<and>
    fld (offered_limit spec) ''default'' = VInt (min usual (min limit published))"
proof -
  let ?schema = "fldd tool ''inputSchema'' (fld tool ''input_schema'')"
  obtain b schema where d: "is_dict ?schema" and b: "names_limit (fldd ?schema ''properties'' (VDict [])) = Inr b"
    and n: "(if b then narrow_limit settings key usual ?schema else Inr ?schema) = Inr schema" and s: "fld spec ''inputSchema'' = schema"
    using assms(1-3) by (auto simp: dynamic_spec_def bnd_eq_Inr chk_eq_Inr vgetd_eq_Inr)
  show ?thesis
  proof (cases b)
    case True
    then obtain limit published where l: "bnd (vsub settings key) py_int = Inr limit"
      and p: "has ?schema ''properties''" "has (fld ?schema ''properties'') ''limit''"
      and e: "schema = vset ''properties'' (vset ''limit'' (VDict (dupdate (items (fld (fld ?schema ''properties'') ''limit''))
        (limit_fields (min limit published) usual))) (fld ?schema ''properties'')) ?schema"
      using n by (auto simp: narrow_limit_def bnd_eq_Inr vsub_eq_Inr)
    have "offered_limit spec = VDict (dupdate (items (fld (fld ?schema ''properties'') ''limit'')) (limit_fields (min limit published) usual))"
      using d p by (simp add: offered_limit_def s e has_is_dict)
    then show ?thesis using l limit_fields_update by metis
  next
    case False
    then have "schema = ?schema" using n by simp
    then have "offered_limit spec = fld (fld ?schema ''properties'') ''limit''" by (simp add: offered_limit_def s)
    moreover have "fld (fld ?schema ''properties'') ''limit'' = VNone"
      using b False d by (cases "fldd ?schema ''properties'' (VDict [])"; cases ?schema)
        (auto simp: names_limit_def fldd.simps has_iff_map_of simp del: has_VDict split: option.splits)
    ultimately show ?thesis using assms(4) by simp
  qed
qed

text \<open>The tools of a fresh session, and that they come from the manifest.\<close>

lemma new_active_tools:
  assumes "new_active P settings c = Some (c', Inr s)"
  shows "\<exists>c1 manifest. list_tools P c1 = Some (c', Inr manifest) \<and>
     offered_tools settings (ac_allowed_tools s) manifest = Inr (ac_dynamic_tools s) \<and>
     s = started_active settings (ac_allowed_tools s) (ac_dynamic_tools s) (ac_instructions s) c'"
  using assms by (fastforce simp: new_active_def bnd_eq_Inr started_active_def split: prod.splits sum.splits)

lemma offered_tool:
  assumes "offered_tools settings allowed manifest = Inr tools" and "spec \<in> set tools"
  shows "\<exists>ts tool. py_iter manifest = Inr ts \<and> tool \<in> set ts \<and> is_dict tool \<and> dynamic_spec settings tool = Inr spec \<and>
    py_str (fldd tool ''name'' (VStr [])) \<in> set allowed"
proof -
  obtain by_name where b: "tools_by_name manifest = Inr by_name" and al: "\<forall>name \<in> set allowed. name \<in> set (map fst by_name)"
    and m: "mapm (\<lambda>name. dynamic_spec settings (the (map_of (rev by_name) name))) allowed = Inr tools"
    using assms(1) by (auto simp: offered_tools_def bnd_eq_Inr chk_eq_Inr list_all_iff)
  obtain name where n: "name \<in> set allowed" and d: "dynamic_spec settings (the (map_of (rev by_name) name)) = Inr spec"
    using mapm_member [OF m assms(2)] by blast
  have "map_of (rev by_name) name \<noteq> None" using al n by (simp add: map_of_eq_None_iff)
  then obtain tool where t: "map_of (rev by_name) name = Some tool" by blast
  then have "(name, tool) \<in> set by_name" by (auto dest: map_of_SomeD)
  obtain ts where ts: "py_iter manifest = Inr ts"
    and m': "mapm (\<lambda>item. bnd (vgetd item ''name'' (VStr [])) (\<lambda>name. Inr (py_str name, item))) ts = Inr by_name"
    using b by (auto simp: tools_by_name_def bnd_eq_Inr)
  have "tool \<in> set ts \<and> is_dict tool \<and> py_str (fldd tool ''name'' (VStr [])) = name"
    using mapm_member [OF m' map_of_SomeD [OF t, simplified]] by (auto simp: bnd_eq_Inr vgetd_eq_Inr)
  then show ?thesis using n d t ts by auto
qed

lemma search_limits:
  assumes "setting s ''search_limit_per_call'' = Inr M" and "''ownward_search'' \<in> set (ac_allowed_tools s)" and "nonblank q"
  shows "validate_arguments s ''ownward_search'' (VDict [(''query'', q), (''limit'', VInt L)]) = Inr () \<longleftrightarrow> 1 \<le> L \<and> L \<le> M"
    and "validate_arguments s ''ownward_search'' (VDict [(''query'', q)]) = Inr () \<longleftrightarrow> 10 \<le> M"
  using assms by (simp_all add: validate_arguments_def in_limits_def bnd_eq_Inr chk_eq_Inr)

text \<open>The product's manifest names its tools by texts.\<close>

definition named_tools :: "'c client \<Rightarrow> bool" where
  "named_tools P = (\<forall>c c' manifest ts tool. list_tools P c = Some (c', Inr manifest) \<longrightarrow> py_iter manifest = Inr ts \<longrightarrow> tool \<in> set ts \<longrightarrow>
     is_str (fld tool ''name''))"

lemma new_active_limits:
  assumes new: "new_active P settings c = Some (c', Inr s)" and names: "named_tools P"
    and spec: "spec \<in> set (ac_dynamic_tools s)" "fld spec ''name'' = VStr name" "offered_limit spec \<noteq> VNone"
    and lim: "map_of LIMITS name = Some (key, usual)"
  shows "\<exists>limit published. setting s key = Inr limit \<and> name \<in> set (ac_allowed_tools s) \<and>
    fld (offered_limit spec) ''minimum'' = VInt 1 \<and> fld (offered_limit spec) ''maximum'' = VInt (min limit published) \<and>
    fld (offered_limit spec) ''default'' = VInt (min usual (min limit published))"
proof -
  obtain c1 manifest where l: "list_tools P c1 = Some (c', Inr manifest)" and o: "offered_tools settings (ac_allowed_tools s) manifest = Inr (ac_dynamic_tools s)"
    and f: "s = started_active settings (ac_allowed_tools s) (ac_dynamic_tools s) (ac_instructions s) c'"
    using new_active_tools [OF new] by blast
  obtain ts tool where t: "py_iter manifest = Inr ts" "tool \<in> set ts" "is_dict tool" "dynamic_spec settings tool = Inr spec"
    "py_str (fldd tool ''name'' (VStr [])) \<in> set (ac_allowed_tools s)"
    using offered_tool [OF o spec(1)] by blast
  have str: "is_str (fld tool ''name'')" using names l t(1,2) unfolding named_tools_def by blast
  have h: "has tool ''name''" and "VStr (py_str (fld tool ''name'')) = VStr name"
    using t(4) spec(2) by (auto simp: dynamic_spec_def bnd_eq_Inr chk_eq_Inr vsub_eq_Inr)
  then have n: "fld tool ''name'' = VStr name" and a: "name \<in> set (ac_allowed_tools s)"
    using str t(5) fldd_has [OF h] by (cases "fld tool ''name''"; auto)+
  have "setting s key = bnd (vsub settings key) py_int" by (subst f) (simp add: setting_def started_active_def)
  then show ?thesis using dynamic_spec_limit [OF t(4) n lim spec(3)] a by auto
qed

section \<open>A client for the witnesses\<close>

text \<open>A product with one tool, whose limit is at most 50, behind settings that allow five results per search.\<close>

definition search_tool :: val where
  "search_tool = VDict [(''name'', VStr ''ownward_search''), (''inputSchema'', VDict [(''properties'',
     VDict [(''query'', VDict []), (''limit'', VDict [(''maximum'', VInt 50)])])])]"

definition search_client :: "nat client" where
  "search_client = \<lparr>product_call = (\<lambda>_ _ c. (c, Inr VNone)), elapsed_ms = (\<lambda>_. Fin 0), client_instructions = (\<lambda>_. VStr ''Rules''),
     client_list_tools = Some (\<lambda>c. (c, Inr (VList [search_tool]))), client_request = None\<rparr>"

definition search_settings :: val where
  "search_settings = VDict [(''allowed_tools'', VList [VStr ''ownward_search'']), (''search_limit_per_call'', VInt 5)]"

definition search_spec :: val where
  "search_spec = VDict [(''type'', VStr ''function''), (''name'', VStr ''ownward_search''), (''description'', VStr []),
     (''inputSchema'', VDict [(''properties'', VDict [(''query'', VDict []), (''limit'', VDict (dupdate [(''maximum'', VInt 50)] (limit_fields 5 10)))])]),
     (''deferLoading'', VBool False)]"

lemma search_client_built:
  "new_active search_client search_settings c =
     Some (c, Inr (started_active search_settings [''ownward_search''] [search_spec] (VStr ''Rules'') c))"
proof -
  have n: "nonblank (VStr ''Rules'')" by code_simp
  have d: "dynamic_spec search_settings search_tool = Inr search_spec"
    by (simp add: dynamic_spec_def search_tool_def LIMITS_def names_limit_def narrow_limit_def search_settings_def search_spec_def)
  have "offered_tools search_settings [''ownward_search''] (VList [search_tool]) = Inr [search_spec]"
    using d by (simp add: offered_tools_def tools_by_name_def search_tool_def)
  then show ?thesis using n
    by (simp add: new_active_def product_instructions_def st_bnd_def st_read_def st_ret_def search_client_def list_tools_def search_settings_def)
qed

lemma search_client_named: "named_tools search_client"
  by (auto simp: named_tools_def list_tools_def search_client_def search_tool_def)

end
