(* ===== verification/Frontier.thy ===== *)
theory Frontier
  imports Py_Text
begin

text \<open>
  \<open>frontier.py\<close>: the comparison of two observations of the core. A candidate is eligible for the qualification
  when no protected metric is worse than its baseline by more than the measurement error and some metric is better
  by at least its declared threshold; nothing is averaged over metrics. The metrics of a report are dictionaries
  with a name that is unique in the observation.
\<close>

abbreviation FrErr :: "string \<Rightarrow> exn" where
  "FrErr \<equiv> Exn FrontierError"

definition DIMENSIONS :: "string list" where
  "DIMENSIONS = [''quality'', ''latency'', ''resources'']"

definition STAGES :: "string list" where
  "STAGES = [''identity'', ''relations'', ''merge_split'', ''incremental_consistency'', ''organization'', ''indexing'',
     ''lexical'', ''vector'', ''graph'', ''context'', ''fusion'']"

section \<open>An observation\<close>

text \<open>\<open>float(item.get(k, 0)) >= 0\<close>.\<close>

definition metric_float :: "val \<Rightarrow> string \<Rightarrow> pyfloat res" where
  "metric_float item k = py_float (fldd item k (VInt 0))"

text \<open>The body of the loop over the metrics, with the sets of names, dimensions and stages seen so far.\<close>

definition observe_metric :: "string list \<times> string list \<times> string list \<Rightarrow> val \<Rightarrow> (string list \<times> string list \<times> string list) res" where
  "observe_metric seen item =
     (case seen of (names, dimensions, stages) \<Rightarrow>
     chk (is_dict item) (FrErr ''a metric must be an object'')
     (let name = fld item ''name''; dimension = fld item ''dimension''; stage = fld item ''stage'' in
     chk (is_str name \<and> truthy name \<and> str_val name \<notin> set names) (FrErr ''invalid or repeated metric name'')
     (bnd (in_set dimension DIMENSIONS) (\<lambda>b. chk b (FrErr ''invalid dimension'')
     (bnd (in_set stage STAGES) (\<lambda>b. chk b (FrErr ''invalid stage'')
     (bnd (in_set (fld item ''direction'') [''higher'', ''lower'']) (\<lambda>b. chk b (FrErr ''invalid direction'')
     (chk (is_num (fld item ''value'')) (FrErr ''the metric lacks a value'')
     (bnd (metric_float item ''repeatability_error'') (\<lambda>e. chk (fl_le (Fin 0) e) (FrErr ''invalid repeatability error'')
     (bnd (metric_float item ''materiality'') (\<lambda>m. chk (fl_le (Fin 0) m) (FrErr ''invalid materiality'')
     (Inr (List.insert (str_val name) names, List.insert (str_val dimension) dimensions,
           List.insert (str_val stage) stages)))))))))))))))"

definition validate_stages :: "val \<Rightarrow> val list res" where
  "validate_stages requested =
     (case requested of
        VList xs \<Rightarrow> chk (xs \<noteq> []) (FrErr ''invalid stages'')
          (chk (list_all hashable xs) (Exn TypeError ''unhashable type'')
          (chk (length xs = length (dedup xs) \<and> set_le xs (strs STAGES)) (FrErr ''invalid stages'') (Inr xs)))
      | _ \<Rightarrow> Inl (FrErr ''invalid stages''))"

definition validate_observation :: "val \<Rightarrow> val \<Rightarrow> unit res" where
  "validate_observation contract value =
     bnd (vget value ''schema'') (\<lambda>schema.
     chk (schema = VStr ''ownward.core-frontier-observation/v1'') (FrErr ''invalid observation schema'')
     (bnd (vget contract ''suite_version'') (\<lambda>version.
     chk (py_eq (fld value ''suite_version'') version) (FrErr ''invalid suite version'')
     (bnd (in_set (fld value ''mode'') [''targeted'', ''full'']) (\<lambda>b. chk b (FrErr ''invalid mode'')
     (checks [(truthy (fld value ''candidate'') \<and> truthy (fld value ''materials_sha256''), FrErr ''missing identity''),
              (truthy (fld value ''input_manifest_sha256''), FrErr ''missing inputs''),
              (is_str (fld value ''tool_sha256'') \<and> py_len_str (str_val (fld value ''tool_sha256'')) = 64, FrErr ''missing tools''),
              (is_dict (fld value ''environment'') \<and> truthy (fld value ''environment''), FrErr ''missing environment'')]
     (bnd (validate_stages (fld value ''requested_stages'')) (\<lambda>requested.
     chk (is_list (fld value ''metrics'') \<and> truthy (fld value ''metrics'')) (FrErr ''no metrics'')
     (bnd (bnd (py_iter (fld value ''metrics'')) (foldm observe_metric ([], [], []))) (\<lambda>(names, dimensions, stages).
     checks [(fld value ''mode'' = VStr ''full'' \<longrightarrow> set dimensions = set DIMENSIONS, FrErr ''a full observation has all dimensions''),
             (fld value ''mode'' = VStr ''full'' \<longrightarrow> set stages = set STAGES, FrErr ''a full observation has all stages''),
             (set_eq (strs stages) requested, FrErr ''metrics and requested stages differ'')]
       (Inr ())))))))))))"

section \<open>The report\<close>

definition metrics_of :: "val \<Rightarrow> val list" where
  "metrics_of observation = (case fld observation ''metrics'' of VList xs \<Rightarrow> xs | _ \<Rightarrow> [])"

definition of_dimension :: "string \<Rightarrow> val \<Rightarrow> val" where
  "of_dimension dimension candidate = VList (filter (\<lambda>item. fld item ''dimension'' = VStr dimension) (metrics_of candidate))"

definition frontier_report :: "string \<Rightarrow> val \<Rightarrow> val \<Rightarrow> val \<Rightarrow> string \<Rightarrow> val list \<Rightarrow> val list \<Rightarrow> val \<Rightarrow> val res" where
  "frontier_report now contract candidate baseline decision regressions improvements calibration =
     bnd (vpath contract [''optimization_loop'', ''output_schema'']) (\<lambda>schema.
     bnd (vsub contract ''suite_version'') (\<lambda>version.
     bnd (vpath contract [''optimization_loop'', ''benchmark_version'']) (\<lambda>benchmark.
     Inr (VDict
       [(''schema'', schema), (''suite_version'', version), (''benchmark_version'', benchmark), (''mode'', fld candidate ''mode''),
        (''candidate'', fld candidate ''candidate''), (''baseline'', baseline), (''environment'', fld candidate ''environment''),
        (''inputs'', VDict [(''sha256'', fld candidate ''input_manifest_sha256''), (''materials_sha256'', fld candidate ''materials_sha256'')]),
        (''quality'', of_dimension ''quality'' candidate), (''latency'', of_dimension ''latency'' candidate),
        (''resources'', of_dimension ''resources'' candidate),
        (''diagnostics'', VDict
          [(''stages'', VList (strs (sort (remdups (map (\<lambda>item. str_val (fld item ''stage'')) (metrics_of candidate)))))),
           (''regressions'', VList regressions), (''improvements'', VList improvements), (''external_frontier'', calibration)]),
        (''decision'', VStr decision), (''qualification_required'', VBool (decision = ''eligible_for_qualification'')),
        (''baseline_promoted'', VBool False), (''started_at'', VStr now), (''finished_at'', VStr now)]))))"

section \<open>The comparison\<close>

definition oriented_delta :: "val \<Rightarrow> val \<Rightarrow> pyfloat res" where
  "oriented_delta previous current =
     bnd (py_float (fld current ''value'')) (\<lambda>c. bnd (py_float (fld previous ''value'')) (\<lambda>p.
     Inr (if fld current ''direction'' = VStr ''higher'' then fl_sub c p else fl_neg (fl_sub c p))))"

definition metric_evidence :: "val \<Rightarrow> val \<Rightarrow> pyfloat \<Rightarrow> val" where
  "metric_evidence previous current delta = VDict
     [(''name'', fld current ''name''), (''dimension'', fld current ''dimension''), (''stage'', fld current ''stage''),
      (''baseline'', fld previous ''value''), (''candidate'', fld current ''value''), (''oriented_delta'', VFloat delta)]"

text \<open>One round of the loop over the candidate's metrics: what it adds to the regressions and to the improvements.\<close>

definition compare_metric :: "val list \<Rightarrow> val list \<times> val list \<Rightarrow> val \<Rightarrow> (val list \<times> val list) res" where
  "compare_metric baseline found current =
     (case found of (regressions, improvements) \<Rightarrow>
     (case find (\<lambda>item. fld item ''name'' = fld current ''name'') baseline of
        None \<Rightarrow> Inl (Exn KeyError (str_val (fld current ''name'')))
      | Some previous \<Rightarrow>
     chk (list_all (\<lambda>k. py_eq (fld current k) (fld previous k)) [''dimension'', ''stage'', ''direction'', ''protected''])
         (FrErr ''a metric changed its meaning'')
     (bnd (oriented_delta previous current) (\<lambda>delta.
     bnd (metric_float previous ''repeatability_error'') (\<lambda>e. bnd (metric_float current ''repeatability_error'') (\<lambda>e'.
     bnd (metric_float current ''materiality'') (\<lambda>materiality.
     (let evidence = metric_evidence previous current delta; error = fl_max e [e'] in
      Inr (if truthy (fld current ''protected'') \<and> fl_less delta (fl_neg error) then regressions @ [evidence] else regressions,
           if fl_le materiality delta \<and> fl_less (Fin 0) materiality then improvements @ [evidence] else improvements)))))))))"

definition decide :: "val list \<Rightarrow> val list \<Rightarrow> string" where
  "decide regressions improvements =
     (if regressions \<noteq> [] then ''rejected_regression''
      else if improvements = [] then ''rejected_no_material_improvement'' else ''eligible_for_qualification'')"

definition metric_names :: "val \<Rightarrow> string set" where
  "metric_names observation = set (map (\<lambda>item. str_val (fld item ''name'')) (metrics_of observation))"

definition frontier_compare :: "string \<Rightarrow> val \<Rightarrow> val \<Rightarrow> val \<Rightarrow> val \<Rightarrow> val res" where
  "frontier_compare now contract baseline candidate calibration =
     bnd (validate_observation contract candidate) (\<lambda>_.
     if baseline = VNone then frontier_report now contract candidate VNone ''bootstrap_reference'' [] [] calibration
     else
     bnd (validate_observation contract baseline) (\<lambda>_.
     chk (list_all (\<lambda>k. py_eq (fld candidate k) (fld baseline k)) [''materials_sha256'', ''input_manifest_sha256'', ''environment''])
         (FrErr ''candidate and baseline differ in materials, inputs or environment'')
     (checks [(fld candidate ''mode'' = VStr ''full'' \<longrightarrow> fld baseline ''mode'' = VStr ''full'', FrErr ''full mode needs a full baseline''),
              (fld candidate ''mode'' = VStr ''full'' \<longrightarrow> metric_names candidate = metric_names baseline, FrErr ''metric sets differ''),
              (fld candidate ''mode'' \<noteq> VStr ''full'' \<longrightarrow> metric_names candidate \<subseteq> metric_names baseline, FrErr ''a metric the baseline lacks'')]
     (bnd (foldm (compare_metric (metrics_of baseline)) ([], []) (metrics_of candidate)) (\<lambda>(regressions, improvements).
      frontier_report now contract candidate (VStr (py_str (fld baseline ''candidate''))) (decide regressions improvements)
        regressions improvements calibration)))))"

section \<open>What the comparison finds\<close>

text \<open>The metric of the baseline with the name of \<open>m\<close>, how much better \<open>m\<close> is, and the two findings about it.\<close>

definition partner :: "val list \<Rightarrow> val \<Rightarrow> val" where
  "partner baseline m = the (find (\<lambda>p. fld p ''name'' = fld m ''name'') baseline)"

definition gain :: "val list \<Rightarrow> val \<Rightarrow> pyfloat" where
  "gain baseline m = projr (oriented_delta (partner baseline m) m)"

definition repeat_error :: "val list \<Rightarrow> val \<Rightarrow> pyfloat" where
  "repeat_error baseline m =
     fl_max (projr (metric_float (partner baseline m) ''repeatability_error'')) [projr (metric_float m ''repeatability_error'')]"

definition regressed :: "val list \<Rightarrow> val \<Rightarrow> bool" where
  "regressed baseline m = (truthy (fld m ''protected'') \<and> fl_less (gain baseline m) (fl_neg (repeat_error baseline m)))"

definition improved :: "val list \<Rightarrow> val \<Rightarrow> bool" where
  "improved baseline m =
     (fl_le (projr (metric_float m ''materiality'')) (gain baseline m) \<and> fl_less (Fin 0) (projr (metric_float m ''materiality'')))"

definition finding :: "val list \<Rightarrow> val \<Rightarrow> val" where
  "finding baseline m = metric_evidence (partner baseline m) m (gain baseline m)"

lemma compare_metric_eq:
  assumes "compare_metric baseline (rs, is) m = Inr found"
  shows "found = (rs @ (if regressed baseline m then [finding baseline m] else []),
    is @ (if improved baseline m then [finding baseline m] else []))"
    and "\<exists>p \<in> set baseline. partner baseline m = p \<and> fld p ''name'' = fld m ''name'' \<and>
      (\<forall>k \<in> {''dimension'', ''stage'', ''direction'', ''protected''}. py_eq (fld m k) (fld p k))"
proof -
  obtain p where p: "find (\<lambda>item. fld item ''name'' = fld m ''name'') baseline = Some p"
    using assms by (auto simp: compare_metric_def split: option.splits)
  then have partner: "partner baseline m = p" by (simp add: partner_def)
  show "found = (rs @ (if regressed baseline m then [finding baseline m] else []),
      is @ (if improved baseline m then [finding baseline m] else []))"
    using assms by (auto simp: compare_metric_def p chk_eq_Inr bnd_eq_Inr Let_def regressed_def improved_def finding_def gain_def
        repeat_error_def partner)
  show "\<exists>p \<in> set baseline. partner baseline m = p \<and> fld p ''name'' = fld m ''name'' \<and>
      (\<forall>k \<in> {''dimension'', ''stage'', ''direction'', ''protected''}. py_eq (fld m k) (fld p k))"
    using assms p partner by (auto simp: compare_metric_def chk_eq_Inr find_Some_iff in_set_conv_nth)
qed

lemma compare_metrics_eq:
  assumes "foldm (compare_metric baseline) (rs, is) ms = Inr found"
  shows "found = (rs @ map (finding baseline) (filter (regressed baseline) ms), is @ map (finding baseline) (filter (improved baseline) ms)) \<and>
    (\<forall>m \<in> set ms. \<exists>p \<in> set baseline. partner baseline m = p \<and> fld p ''name'' = fld m ''name'' \<and>
      (\<forall>k \<in> {''dimension'', ''stage'', ''direction'', ''protected''}. py_eq (fld m k) (fld p k)))"
  using assms
proof (induction ms arbitrary: rs "is")
  case (Cons m ms)
  obtain f where f: "compare_metric baseline (rs, is) m = Inr f" and r: "foldm (compare_metric baseline) f ms = Inr found"
    using Cons.prems by (auto simp: bnd_eq_Inr)
  note e = compare_metric_eq [OF f]
  from Cons.IH [OF r [unfolded e(1)]] e(2) show ?case by auto
qed simp

lemma compare_gains:
  assumes "foldm (compare_metric baseline) found ms = Inr found'"
  shows "\<forall>m \<in> set ms. oriented_delta (partner baseline m) m = Inr (gain baseline m)"
  using assms
proof (induction ms arbitrary: found)
  case (Cons m ms)
  obtain rs "is" where f: "found = (rs, is)" by (rule prod.exhaust)
  obtain f' where c: "compare_metric baseline (rs, is) m = Inr f'" and r: "foldm (compare_metric baseline) f' ms = Inr found'"
    using Cons.prems f by (auto simp: bnd_eq_Inr)
  have "\<exists>d. oriented_delta (partner baseline m) m = Inr d"
    using c by (auto simp: compare_metric_def partner_def chk_eq_Inr bnd_eq_Inr split: option.splits)
  then show ?case using Cons.IH [OF r] by (auto simp: gain_def)
qed simp

lemma report_fields:
  assumes "frontier_report now contract candidate baseline decision regressions improvements calibration = Inr report"
  shows "fld report ''decision'' = VStr decision" "fld report ''baseline'' = baseline" "fld report ''baseline_promoted'' = VBool False"
    "fld report ''qualification_required'' = VBool (decision = ''eligible_for_qualification'')"
    "fld (fld report ''diagnostics'') ''regressions'' = VList regressions"
    "fld (fld report ''diagnostics'') ''improvements'' = VList improvements"
  using assms by (auto simp: frontier_report_def bnd_eq_Inr)

lemma compare_run:
  assumes "frontier_compare now contract baseline candidate calibration = Inr report" and "baseline \<noteq> VNone"
  shows "frontier_report now contract candidate (VStr (py_str (fld baseline ''candidate'')))
      (decide (map (finding (metrics_of baseline)) (filter (regressed (metrics_of baseline)) (metrics_of candidate)))
        (map (finding (metrics_of baseline)) (filter (improved (metrics_of baseline)) (metrics_of candidate))))
      (map (finding (metrics_of baseline)) (filter (regressed (metrics_of baseline)) (metrics_of candidate)))
      (map (finding (metrics_of baseline)) (filter (improved (metrics_of baseline)) (metrics_of candidate))) calibration = Inr report"
    and "\<forall>m \<in> set (metrics_of candidate). \<exists>p \<in> set (metrics_of baseline). partner (metrics_of baseline) m = p \<and>
      fld p ''name'' = fld m ''name'' \<and> (\<forall>k \<in> {''dimension'', ''stage'', ''direction'', ''protected''}. py_eq (fld m k) (fld p k))"
proof -
  obtain rs "is" where f: "foldm (compare_metric (metrics_of baseline)) ([], []) (metrics_of candidate) = Inr (rs, is)"
    and r: "frontier_report now contract candidate (VStr (py_str (fld baseline ''candidate''))) (decide rs is) rs is calibration = Inr report"
    using assms by (auto simp: frontier_compare_def bnd_eq_Inr chk_eq_Inr checks_eq_Inr split: prod.splits)
  from compare_metrics_eq [OF f] r show "frontier_report now contract candidate (VStr (py_str (fld baseline ''candidate'')))
      (decide (map (finding (metrics_of baseline)) (filter (regressed (metrics_of baseline)) (metrics_of candidate)))
        (map (finding (metrics_of baseline)) (filter (improved (metrics_of baseline)) (metrics_of candidate))))
      (map (finding (metrics_of baseline)) (filter (regressed (metrics_of baseline)) (metrics_of candidate)))
      (map (finding (metrics_of baseline)) (filter (improved (metrics_of baseline)) (metrics_of candidate))) calibration = Inr report"
    by simp
  from compare_metrics_eq [OF f] show "\<forall>m \<in> set (metrics_of candidate). \<exists>p \<in> set (metrics_of baseline). partner (metrics_of baseline) m = p \<and>
      fld p ''name'' = fld m ''name'' \<and> (\<forall>k \<in> {''dimension'', ''stage'', ''direction'', ''protected''}. py_eq (fld m k) (fld p k))"
    by blast
qed

text \<open>A measurement that is no number gains NaN, which compares with nothing.\<close>

lemma nan_not_regressed:
  assumes "oriented_delta p m = Inr d" and "fld m ''value'' = VFloat NaN"
  shows "\<not> fl_less d x"
proof -
  have "fl_sub NaN y = NaN" for y by (cases y) (simp_all add: fl_sub_def)
  then have "d = NaN" using assms by (auto simp: oriented_delta_def bnd_eq_Inr split: if_splits)
  then show ?thesis by (cases x) simp_all
qed

lemma compare_gain:
  assumes "frontier_compare now contract baseline candidate calibration = Inr report" and "baseline \<noteq> VNone" and "m \<in> set (metrics_of candidate)"
  shows "oriented_delta (partner (metrics_of baseline) m) m = Inr (gain (metrics_of baseline) m)"
proof -
  obtain found where "foldm (compare_metric (metrics_of baseline)) ([], []) (metrics_of candidate) = Inr found"
    using assms by (auto simp: frontier_compare_def bnd_eq_Inr chk_eq_Inr checks_eq_Inr split: prod.splits)
  then have "\<forall>m \<in> set (metrics_of candidate). oriented_delta (partner (metrics_of baseline) m) m = Inr (gain (metrics_of baseline) m)"
    by (rule compare_gains)
  then show ?thesis using assms(3) by blast
qed

section \<open>Observations for the witnesses\<close>

definition sample_metric :: "string \<Rightarrow> pyfloat \<Rightarrow> bool \<Rightarrow> val" where
  "sample_metric name value protected = VDict [(''name'', VStr name), (''dimension'', VStr ''quality''), (''stage'', VStr ''fusion''),
     (''direction'', VStr ''higher''), (''value'', VFloat value), (''materiality'', VFloat (Fin (1/2))), (''protected'', VBool protected)]"

definition sample_observation :: "string \<Rightarrow> val list \<Rightarrow> val" where
  "sample_observation candidate metrics = VDict [(''schema'', VStr ''ownward.core-frontier-observation/v1''), (''suite_version'', VStr ''1.0.0''),
     (''mode'', VStr ''targeted''), (''candidate'', VStr candidate), (''materials_sha256'', VStr ''m''), (''input_manifest_sha256'', VStr ''i''),
     (''tool_sha256'', VStr (replicate 64 CHR ''a'')), (''environment'', VDict [(''os'', VStr ''linux'')]),
     (''requested_stages'', VList [VStr ''fusion'']), (''metrics'', VList metrics)]"

definition frontier_contract :: val where
  "frontier_contract = VDict [(''suite_version'', VStr ''1.0.0''), (''optimization_loop'', VDict [(''output_schema'', VStr ''o''), (''benchmark_version'', VStr ''b'')])]"


lemma round_one: "round_double 1 = Fin 1"
proof -
  have b: "bitlen_nat 1 = 1" by (simp add: bitlen_nat.simps)
  have i: "ilog2 1 = 0" by (simp add: ilog2_def Let_def rpow_def b [simplified])
  have p: "rpow 2 (- 52) = 1 / 4503599627370496" by (simp add: rpow_def)
  have q: "\<not> rpow 2 1024 \<le> 1" by (simp add: rpow_def)
  have h: "round_half_even 4503599627370496 = 4503599627370496" by (simp add: round_half_even_def Let_def)
  show ?thesis using q by (simp add: round_double_def round_pos_def i Let_def p h)
qed

lemma round_small: "round_double 0 = Fin 0" "round_double (- 1) = Fin (- 1)"
  using round_one by (simp_all add: round_double_def)

lemma sample_metric_fields: "fld (sample_metric n v b) ''name'' = VStr n" "fld (sample_metric n v b) ''value'' = VFloat v"
  "fld (sample_metric n v b) ''protected'' = VBool b"
  by (simp_all add: sample_metric_def)


lemma sample_metric_observed:
  "n \<noteq> [] \<Longrightarrow> n \<notin> set names \<Longrightarrow> observe_metric (names, ds, ss) (sample_metric n v b) =
     Inr (List.insert n names, List.insert ''quality'' ds, List.insert ''fusion'' ss)"
  by (simp add: observe_metric_def sample_metric_def Let_def in_set_def vmem_def DIMENSIONS_def STAGES_def metric_float_def round_small)

lemma sample_observation_ok:
  "validate_observation frontier_contract (sample_observation c [sample_metric ''recall'' v False, sample_metric ''guard'' w True]) = Inr ()" if "c \<noteq> []"
  using that by (simp add: validate_observation_def sample_observation_def frontier_contract_def in_set_def py_len_str_def
     utf8_cont_def validate_stages_def STAGES_def sample_metric_observed set_eq_def set_le_def vmem_def dedup.simps)

lemma sample_compared:
  "compare_metric [sample_metric ''recall'' (Fin 1) False, sample_metric ''guard'' (Fin 1) True] (rs, is) (sample_metric ''recall'' (Fin 2) False) =
     Inr (rs, is @ [metric_evidence (sample_metric ''recall'' (Fin 1) False) (sample_metric ''recall'' (Fin 2) False) (Fin 1)])"
  "compare_metric [sample_metric ''recall'' (Fin 1) False, sample_metric ''guard'' (Fin 1) True] (rs, is) (sample_metric ''guard'' NaN True) =
     Inr (rs, is)"
  "compare_metric [sample_metric ''recall'' (Fin 1) False, sample_metric ''guard'' (Fin 1) True] (rs, is) (sample_metric ''guard'' (Fin 0) True) =
     Inr (rs @ [metric_evidence (sample_metric ''guard'' (Fin 1) True) (sample_metric ''guard'' (Fin 0) True) (Fin (- 1))], is)"
  by (simp_all add: compare_metric_def oriented_delta_def metric_float_def Let_def fl_sub_def fl_max_def round_one round_small sample_metric_def fl_le_def)

lemma sample_observation_metrics: "metrics_of (sample_observation c ms) = ms"
  by (simp add: metrics_of_def sample_observation_def)

text \<open>A gain hidden by a measurement that is no number, and a loss.\<close>

lemma sample_frontier_run:
  "\<exists>report. frontier_compare ''now'' frontier_contract
       (sample_observation ''b'' [sample_metric ''recall'' (Fin 1) False, sample_metric ''guard'' (Fin 1) True])
       (sample_observation ''c'' [sample_metric ''recall'' (Fin 2) False, sample_metric ''guard'' NaN True]) VNone = Inr report \<and>
     fld report ''decision'' = VStr ''eligible_for_qualification''"
  "\<exists>report. frontier_compare ''now'' frontier_contract
       (sample_observation ''b'' [sample_metric ''recall'' (Fin 1) False, sample_metric ''guard'' (Fin 1) True])
       (sample_observation ''c'' [sample_metric ''recall'' (Fin 2) False, sample_metric ''guard'' (Fin 0) True]) VNone = Inr report \<and>
     fld report ''decision'' = VStr ''rejected_regression''"
proof -
  have o: "fld (sample_observation c ms) ''mode'' = VStr ''targeted''" "fld (sample_observation c ms) ''materials_sha256'' = VStr ''m''"
    "fld (sample_observation c ms) ''input_manifest_sha256'' = VStr ''i''" "fld (sample_observation c ms) ''environment'' = VDict [(''os'', VStr ''linux'')]"
    "sample_observation c ms \<noteq> VNone" for c ms
    by (simp_all add: sample_observation_def)
  have rep: "\<exists>report. frontier_report now frontier_contract c b decision rs is k = Inr report \<and> fld report ''decision'' = VStr decision"
    for now c b decision rs "is" k
    by (simp add: frontier_report_def frontier_contract_def)
  show "\<exists>report. frontier_compare ''now'' frontier_contract
       (sample_observation ''b'' [sample_metric ''recall'' (Fin 1) False, sample_metric ''guard'' (Fin 1) True])
       (sample_observation ''c'' [sample_metric ''recall'' (Fin 2) False, sample_metric ''guard'' NaN True]) VNone = Inr report \<and>
     fld report ''decision'' = VStr ''eligible_for_qualification''"
    "\<exists>report. frontier_compare ''now'' frontier_contract
       (sample_observation ''b'' [sample_metric ''recall'' (Fin 1) False, sample_metric ''guard'' (Fin 1) True])
       (sample_observation ''c'' [sample_metric ''recall'' (Fin 2) False, sample_metric ''guard'' (Fin 0) True]) VNone = Inr report \<and>
     fld report ''decision'' = VStr ''rejected_regression''"
    using rep by (simp_all add: frontier_compare_def o sample_observation_ok sample_observation_metrics sample_compared metric_names_def
        sample_metric_fields decide_def)
qed

lemma sample_regressed: "regressed [sample_metric ''recall'' (Fin 1) False, sample_metric ''guard'' (Fin 1) True] (sample_metric ''guard'' (Fin 0) True)"
  by (simp add: regressed_def gain_def repeat_error_def partner_def oriented_delta_def metric_float_def fl_sub_def fl_max_def round_small sample_metric_def)

end
