(* ===== verification/Sample_Reports.thy ===== *)
theory Sample_Reports
  imports Generations Sample_Candidate
begin

text \<open>
  Reports on disk for the witnesses: a contract, the reports of the five formal modes for a candidate with or without a
  runtime identity of its own, a file system that holds them with their raw evidence beside a checkout, and the state
  whose checkpoints name them.
\<close>

section \<open>The contract and the reports\<close>

definition suite_contract :: val where
  "suite_contract = VDict [(''suite_version'', VStr ''1.0.0''),
     (''reports'', VDict (map (\<lambda>k. (k, VDict [(''schema'', VStr k), (''required'', VList [VStr ''schema'', VStr ''suite_version''])]))
        [''frontier'', ''core'', ''product'', ''community'', ''suite''])),
     (''evidence_layers'', VDict [
        (''core'', VDict [(''required_invariants'', VList [VStr ''recovery'']), (''max_wall_seconds'', VFloat (Fin 300))]),
        (''product'', VDict [(''version'', VStr ''v1''), (''categories'', VList [VStr ''relation'']),
           (''qualification_scenarios'', VInt 2), (''full_scenarios'', VInt 2)]),
        (''community'', VDict [(''version'', VStr ''v1''), (''profile'', VStr ''p''), (''questions'', VInt 500),
           (''question_types'', VList [VStr ''single'']), (''comparison_policy'', VStr ''equivalent-profile-only''),
           (''external_intelligence'', VDict [(''roles'', VList [VStr ''reader''])]),
           (''quality_assessment'', VDict [(''status'', VStr ''open''), (''basis'', VStr ''comparison''),
              (''first_version_condition_satisfied'', VNone)])])])]"

definition raw_artifacts :: val where
  "raw_artifacts = artifact_manifest [artifact_entry ''raw.txt'' ''raw'']"

definition passed_dict :: val where "passed_dict = VDict [(''passed'', VBool True)]"

definition core_part :: dict where
  "core_part = [(''invariants'', VDict [(''recovery'', VBool True)])]"

definition product_part :: dict where
  "product_part = [(''dataset_version'', VStr ''v1''),
     (''categories'', VDict [(''relation'', VDict [(''passed'', VBool True), (''scenarios'', VInt 2)])]),
     (''organization_gain'', passed_dict), (''quality'', passed_dict), (''latency'', passed_dict), (''resources'', passed_dict)]"

definition community_part :: dict where
  "community_part = [(''official_version'', VStr ''v1''), (''profile'', VStr ''p''),
     (''capabilities'', VDict [(''reader'', VDict [(''source'', VStr ''s''), (''model'', VStr ''m''), (''reasoning_effort'', VStr ''low'')])]),
     (''benchmark'', VDict [(''questions'', VInt 500), (''complete'', VBool True), (''question_types'', VList [VStr ''single''])]),
     (''quality'', VDict [(''accuracy'', VInt 1), (''comparison_policy'', VStr ''equivalent-profile-only''), (''hard_accuracy_threshold'', VNone),
        (''score_complete'', VBool True), (''assessment_status'', VStr ''open''), (''assessment_basis'', VStr ''comparison''),
        (''first_version_condition_satisfied'', VNone), (''passed'', VNone)]),
     (''execution'', VDict [(''complete'', VBool True), (''protocol_valid'', VBool True), (''evidence_complete'', VBool True), (''passed'', VBool True)]),
     (''retrieval'', VDict [(''mean_ms'', VInt 1), (''p95_ms'', VInt 1), (''max_ms'', VInt 1)]),
     (''cost'', VDict [(''within_budget'', VBool True), (''wall_seconds'', VInt 1)]),
     (''diagnostics'', VDict [(''questions'', VInt 500), (''complete'', VBool True), (''post_answer_only'', VBool True),
        (''excluded_from_product_execution_and_scoring'', VBool True)]),
     (''submission'', VDict (map (\<lambda>f. (f, VStr sample_sha)) [''package_sha256'', ''official_evaluation_sha256'', ''hypotheses_sha256'',
        ''diagnostics_sha256'', ''diagnostic_summary_sha256'', ''checkpoint_manifest_sha256''])),
     (''completion'', VDict [(''status'', VStr ''completed''), (''reason'', VStr ''official-benchmark-evidence-complete'')])]"

definition kind_part :: "string \<Rightarrow> dict" where
  "kind_part kind = (if kind = ''core'' then core_part else if kind = ''product'' then product_part
     else if kind = ''community'' then community_part else [])"

abbreviation report_scope :: "string \<Rightarrow> string" where
  "report_scope mode \<equiv> the (map_of MODE_SCOPES mode)"

definition stored_report :: "val \<Rightarrow> string \<Rightarrow> val" where
  "stored_report b mode =
     VDict ([(''schema'', VStr (report_scope mode)), (''suite_version'', VStr ''1.0.0''),
        (''candidate'', VStr (if report_scope mode = ''frontier'' then audit_git b else run_identity b)), (''binary_sha256'', VStr sample_sha),
        (''environment'', VDict [(''sha256'', VStr sample_sha)]), (''inputs'', VDict [(''sha256'', VStr sample_sha)]),
        (''artifacts'', raw_artifacts), (''mode'', VStr (if mode = ''frontier'' then ''full'' else mode)), (''passed'', VBool True)] @
        kind_part (report_scope mode))"

definition FORMAL_MODES :: "string list" where
  "FORMAL_MODES = [''core'', ''frontier'', ''qualification'', ''full'', ''longmemeval'']"

lemma sample_active_field:
  "s \<in> set scopes \<Longrightarrow> f \<in> set REPORT_BINDING_FIELDS \<Longrightarrow> active_field (run_binding rt g scopes) s f = VStr sample_sha"
  by (simp add: active_field_def fld_map_keys) (auto simp: built_scope_def sample_input_def REPORT_BINDING_FIELDS_def)

lemma sample_for_mode:
  assumes "m \<in> set FORMAL_MODES" and "is_hex 40 g" and "rt \<in> {VNone, VStr sample_sha}"
  shows "for_mode (run_binding rt g ALL_SCOPES) m = Inr (report_binding_of (run_binding rt g ALL_SCOPES) (report_scope m))"
proof -
  have "binding_ok (run_binding rt g ALL_SCOPES)"
    by (rule sample_binding_ok [OF assms(2) _ _ assms(3)]) (simp_all add: ALL_SCOPES_def SCOPE_COMPONENTS_def)
  then show ?thesis
    using assms(1) by (auto simp: for_mode_eq_Inr FORMAL_MODES_def MODE_SCOPES_def ALL_SCOPES_def has_def keys_def)
qed

lemma sample_report_binding:
  assumes "s \<in> set ALL_SCOPES"
  shows "report_binding_of (run_binding rt g ALL_SCOPES) s =
     [(''suite_version'', VStr ''1.0.0''),
      (''candidate'', VStr (if s = ''frontier'' then g else run_identity (run_binding rt g ALL_SCOPES))),
      (''environment_sha256'', VStr sample_sha), (''input_manifest_sha256'', VStr sample_sha), (''tool_sha256'', VStr sample_sha),
      (if s = ''frontier'' then ''observer_sha256'' else ''binary_sha256'', VStr sample_sha)]"
  using assms by (simp add: report_binding_of_def sample_active_field REPORT_BINDING_FIELDS_def)

section \<open>The reports are accepted\<close>

text \<open>A set of one text, and a chain of statements each of which is accepted.\<close>

lemma py_set_one: "py_set (VList [VStr x]) = Inr [VStr x]" "set_eq [VStr x] [VStr x]"
  by (simp_all add: py_set_def set_eq_def set_le_def vmem_def)

lemmas accepted_simps = bnd_eq_Inr chk_eq_Inr checks_eq_Inr vsub_eq_Inr vgetd_eq_Inr keys_def vvalues_def py_set_one is_true_def

lemma stored_core: "validate_core suite_contract (stored_report b ''core'') = Inr ()"
  by (simp add: validate_core_def suite_contract_def stored_report_def MODE_SCOPES_def kind_part_def core_part_def accepted_simps)

lemma stored_product:
  assumes "mode \<in> {''qualification'', ''full''}"
  shows "validate_product suite_contract (stored_report b mode) = Inr ()"
proof -
  have "in_set (VStr mode) [''qualification'', ''full''] = Inr True" using assms by (auto simp: in_set_eq)
  with assms show ?thesis
    by (elim insertE emptyE) (simp_all add: validate_product_def suite_contract_def stored_report_def MODE_SCOPES_def kind_part_def
        product_part_def passed_dict_def validate_track_def sum_scenarios_def accepted_simps Let_def)
qed

lemma sample_sha_text: "is_sha256_text sample_sha"
  by (simp add: is_sha256_text_def sample_sha_def hex_digits_def py_len_str_def utf8_cont_def list_all_iff)

lemma stored_community: "validate_community suite_contract (stored_report b ''longmemeval'') = Inr ()"
  by (simp add: validate_community_def suite_contract_def stored_report_def MODE_SCOPES_def kind_part_def community_part_def
      accepted_simps Let_def nonempty_str_def unit_num_def positive_num_def same_singleton_def sample_sha_text)

text \<open>The fields every report has.\<close>

lemma stored_report_fields [simp]:
  "is_dict (stored_report b mode)" "fld (stored_report b mode) ''schema'' = VStr (report_scope mode)"
  "fld (stored_report b mode) ''suite_version'' = VStr ''1.0.0''"
  "fld (stored_report b mode) ''candidate'' = VStr (if report_scope mode = ''frontier'' then audit_git b else run_identity b)"
  "fldd (stored_report b mode) ''binary_sha256'' x = VStr sample_sha"
  "fldd (stored_report b mode) ''environment'' x = VDict [(''sha256'', VStr sample_sha)]"
  "fldd (stored_report b mode) ''inputs'' x = VDict [(''sha256'', VStr sample_sha)]"
  "fld (stored_report b mode) ''mode'' = VStr (if mode = ''frontier'' then ''full'' else mode)"
  "fldd (stored_report b mode) ''passed'' x = VBool True" "fld (stored_report b mode) ''artifacts'' = raw_artifacts"
  "has (stored_report b mode) ''schema''" "has (stored_report b mode) ''suite_version''"
  by (simp_all add: stored_report_def has_def keys_def)

lemma stored_report_contract:
  assumes "mode \<in> set FORMAL_MODES"
  shows "validate_report suite_contract (report_scope mode) (stored_report b mode) = Inr ()"
  using assms by (auto simp: validate_report_iff suite_contract_def FORMAL_MODES_def MODE_SCOPES_def)

lemma stored_layer:
  assumes m: "mode \<in> set FORMAL_MODES" "mode \<noteq> ''frontier''" and "active \<noteq> []"
    and a: "fld (VDict active) ''candidate'' = VStr (run_identity b)" "fld (VDict active) ''binary_sha256'' = VStr sample_sha"
  shows "validate_layer_report suite_contract (report_scope mode) (stored_report b mode) active = Inr ()"
proof -
  have k: "report_scope mode \<in> {''core'', ''product'', ''community''}" "report_scope mode \<noteq> ''frontier''"
    using m by (auto simp: FORMAL_MODES_def MODE_SCOPES_def)
  have "(if report_scope mode = ''core'' then validate_core suite_contract (stored_report b mode)
       else if report_scope mode = ''product'' then validate_product suite_contract (stored_report b mode)
       else validate_community suite_contract (stored_report b mode)) = Inr ()"
    using m stored_core stored_product stored_community by (auto simp: FORMAL_MODES_def MODE_SCOPES_def)
  then show ?thesis
    using k a stored_report_contract [OF m(1), of b]
    by (simp add: validate_layer_report_def bnd_eq_Inr chk_eq_Inr checks_eq_Inr sample_sha_text)
qed

lemma stored_accepted:
  assumes m: "mode \<in> set FORMAL_MODES" and g: "is_hex 40 g" and rt: "rt \<in> {VNone, VStr sample_sha}"
    and s: "has state ''binding''" "fld state ''binding'' = run_binding rt g ALL_SCOPES"
  shows "validate_report_for_mode suite_contract state mode (stored_report (run_binding rt g ALL_SCOPES) mode) = Inr ()"
proof -
  let ?b = "run_binding rt g ALL_SCOPES"
  have sc: "report_scope mode \<in> set ALL_SCOPES" "map_of REPORT_KIND mode = Some (report_scope mode)"
    using m by (auto simp: FORMAL_MODES_def MODE_SCOPES_def ALL_SCOPES_def REPORT_KIND_def)
  note a = sample_for_mode [OF m g rt] sample_report_binding [OF sc(1), of rt g]
  have d: "is_dict state" using s(1) has_is_dict by blast
  show ?thesis
  proof (cases "mode = ''frontier''")
    case True
    then show ?thesis using a sc s d stored_report_contract [OF m, of ?b]
      by (simp add: validate_report_for_mode_def bnd_eq_Inr chk_eq_Inr checks_eq_Inr vsub_eq_Inr vgetd_eq_Inr MODE_SCOPES_def)
  next
    case False
    then have k: "report_scope mode \<in> {''core'', ''product'', ''community''}" "mode \<noteq> ''targeted''" "mode \<noteq> ''summarize''"
      using m by (auto simp: FORMAL_MODES_def MODE_SCOPES_def)
    have "validate_layer_report suite_contract (report_scope mode) (stored_report ?b mode) (report_binding_of ?b (report_scope mode)) = Inr ()"
      by (rule stored_layer [OF m False]) (use k in \<open>auto simp: a(2)\<close>)
    then show ?thesis using a k sc s d False
      by (auto simp: validate_report_for_mode_def bnd_eq_Inr chk_eq_Inr checks_eq_Inr vsub_eq_Inr vgetd_eq_Inr)
  qed
qed

section \<open>The reports on disk\<close>

definition checkout :: path where "checkout = Path True [''repo'']"

definition stored_path :: "string \<Rightarrow> path" where
  "stored_path mode = Path True [''suite'', ''reports'', mode @ ''.json'']"

definition report_store :: "val \<Rightarrow> filesystem" where
  "report_store b =
     \<lparr>fs_file = map_of (map (\<lambda>(_, _, relative). (joinp checkout (path_of relative), relative)) REPORTING_DEFINITIONS @
          [(Path True [''suite'', ''raw.txt''], ''raw'')] @
          map (\<lambda>mode. (stored_path mode, serialized_json (stored_report b mode))) FORMAL_MODES),
      fs_dir = (\<lambda>_. False), fs_symlink = (\<lambda>_. False), fs_resolve = (\<lambda>p. p), fs_rglob = (\<lambda>_. []), fs_git_show = (\<lambda>_ _. None)\<rparr>"

definition raw_digest :: string where
  "raw_digest = canonical_sha256 (VList [artifact_entry ''raw.txt'' ''raw''])"

definition stored_digest :: "val \<Rightarrow> string \<Rightarrow> string" where
  "stored_digest b mode = sha256_hex (serialized_json (stored_report b mode))"

lemma store_fields [simp]: "fs_symlink (report_store b) p = False" "fs_resolve (report_store b) p = p"
  by (simp_all add: report_store_def)

lemma map_of_inj: "inj f \<Longrightarrow> m \<in> set ms \<Longrightarrow> map_of (map (\<lambda>m. (f m, g m)) ms) (f m) = Some (g m)"
  by (induction ms) (auto dest: injD)

lemma store_files:
  "fs_file (report_store b) (Path True [''suite'', ''raw.txt'']) = Some ''raw''"
  "(n, schema, relative) \<in> set REPORTING_DEFINITIONS \<Longrightarrow> fs_file (report_store b) (joinp checkout (path_of relative)) = Some relative"
  "mode \<in> set FORMAL_MODES \<Longrightarrow> fs_file (report_store b) (stored_path mode) = Some (serialized_json (stored_report b mode))"
proof -
  have p: "joinp checkout (path_of ''benchmarks/acceptance/suite/report_semantics.py'') = Path True [''repo'', ''benchmarks'', ''acceptance'', ''suite'', ''report_semantics.py'']"
    "joinp checkout (path_of ''benchmarks/acceptance/suite/report_relationships.py'') = Path True [''repo'', ''benchmarks'', ''acceptance'', ''suite'', ''report_relationships.py'']"
    "joinp checkout (path_of ''benchmarks/acceptance/suite/summary_reporting.py'') = Path True [''repo'', ''benchmarks'', ''acceptance'', ''suite'', ''summary_reporting.py'']"
    by (simp_all add: checkout_def joinp_def path_of_def slash_def)
  show "fs_file (report_store b) (Path True [''suite'', ''raw.txt'']) = Some ''raw''"
    by (simp add: report_store_def REPORTING_DEFINITIONS_def p)
  show "(n, schema, relative) \<in> set REPORTING_DEFINITIONS \<Longrightarrow> fs_file (report_store b) (joinp checkout (path_of relative)) = Some relative"
  proof -
    assume d: "(n, schema, relative) \<in> set REPORTING_DEFINITIONS"
    let ?A = "map (\<lambda>(_, _, relative). (joinp checkout (path_of relative), relative)) REPORTING_DEFINITIONS"
    have "distinct (map fst ?A)" by (simp add: REPORTING_DEFINITIONS_def p)
    moreover have "(joinp checkout (path_of relative), relative) \<in> set ?A" using d by force
    ultimately have "map_of ?A (joinp checkout (path_of relative)) = Some relative" by (rule map_of_is_SomeI)
    then show ?thesis by (simp add: report_store_def map_of_append map_add_def)
  qed
  show "mode \<in> set FORMAL_MODES \<Longrightarrow> fs_file (report_store b) (stored_path mode) = Some (serialized_json (stored_report b mode))"
  proof -
    assume m: "mode \<in> set FORMAL_MODES"
    have "inj stored_path" by (auto simp: inj_def stored_path_def)
    then have "map_of (map (\<lambda>mode. (stored_path mode, serialized_json (stored_report b mode))) FORMAL_MODES) (stored_path mode) =
        Some (serialized_json (stored_report b mode))" using m by (rule map_of_inj)
    moreover have "stored_path mode \<notin> {Path True [''suite'', ''raw.txt'']} \<union> (\<lambda>(_, _, relative). joinp checkout (path_of relative)) ` set REPORTING_DEFINITIONS"
      by (simp add: REPORTING_DEFINITIONS_def p) (simp add: stored_path_def)
    ultimately show ?thesis
      by (simp add: report_store_def map_of_append map_add_def REPORTING_DEFINITIONS_def)
  qed
qed

lemma stored_path_text: "mode \<in> set FORMAL_MODES \<Longrightarrow> path_of (path_str (stored_path mode)) = stored_path mode"
  by (auto simp: FORMAL_MODES_def stored_path_def path_str_def path_of_def slash_def join_def)

lemma stored_report_json: "mode \<in> set FORMAL_MODES \<Longrightarrow> json_ok (stored_report b mode)"
  by (auto simp: FORMAL_MODES_def stored_report_def MODE_SCOPES_def kind_part_def core_part_def product_part_def community_part_def
      passed_dict_def raw_artifacts_def artifact_manifest_def artifact_entry_def)

lemma store_report:
  assumes "mode \<in> set FORMAL_MODES"
  shows "read_json (report_store b) (stored_path mode) = Inr (stored_report b mode)"
    and "file_sha256 (report_store b) (stored_path mode) = Inr (stored_digest b mode)" and "is_file (report_store b) (stored_path mode)"
    and "validate_report_artifacts (report_store b) (stored_path mode) (stored_report b mode) = Inr raw_digest"
proof -
  note f = store_files(3) [OF assms]
  show "read_json (report_store b) (stored_path mode) = Inr (stored_report b mode)"
    using loads_serialized [OF stored_report_json [OF assms]] by (simp add: read_json_def read_bytes_def f)
  show "file_sha256 (report_store b) (stored_path mode) = Inr (stored_digest b mode)"
    by (simp add: file_sha256_def read_bytes_def f stored_digest_def)
  show "is_file (report_store b) (stored_path mode)" by (simp add: is_file_def f)
  have r: "path_of ''raw.txt'' = Path False [''raw.txt'']" by (simp add: path_of_def slash_def)
  have raw: "read_bytes (report_store b) (Path True [''suite'', ''raw.txt'']) = Inr ''raw''"
    "is_file (report_store b) (Path True [''suite'', ''raw.txt''])"
    by (simp_all add: read_bytes_def is_file_def store_files)
  show "validate_report_artifacts (report_store b) (stored_path mode) (stored_report b mode) = Inr raw_digest"
  proof -
    have base: "artifact_base (report_store b) (stored_path mode) = Path True [''suite'']"
      by (simp add: artifact_base_def parent_def stored_path_def)
    have "validate_artifact (report_store b) (Path True [''suite'']) [] (artifact_entry ''raw.txt'' ''raw'') = Inr [''raw.txt'']"
      using raw by (simp add: validate_artifact_def artifact_entry_def r joinp_def is_relative_to_def pname_def py_lower_def
          SENSITIVE_ARTIFACT_NAMES_def bnd_eq_Inr chk_eq_Inr)
    then show ?thesis
      by (simp add: validate_report_artifacts_def raw_artifacts_def artifact_manifest_def bnd_eq_Inr base raw_digest_def)
  qed
qed

section \<open>The state that names them\<close>

definition stored_checkpoint :: "val \<Rightarrow> string \<Rightarrow> val" where
  "stored_checkpoint b mode = passed_with b mode (stored_digest b mode)
     [(''report_path'', VStr (path_str (stored_path mode))), (''artifact_manifest_sha256'', VStr raw_digest)]"

definition stored_state :: "val \<Rightarrow> string list \<Rightarrow> val" where
  "stored_state b modes = vset ''checkpoints'' (VDict (map (\<lambda>m. (m, stored_checkpoint b m)) modes)) (sample_state b [] VNone)"

lemma stored_state_fields [simp]:
  "is_dict (stored_state b modes)" "fld (stored_state b modes) ''schema'' = VStr STATE_SCHEMA"
  "fld (stored_state b modes) ''suite_version'' = VStr ''1.0.0''" "fld (stored_state b modes) ''binding'' = b"
  "fldd (stored_state b modes) ''checkpoints'' x = VDict (map (\<lambda>m. (m, stored_checkpoint b m)) modes)"
  "fld (stored_state b modes) ''invalidated_reports'' = VDict []" "fld (stored_state b modes) ''baseline'' = VNone"
  "fld (stored_state b modes) ''baseline_history'' = VList []" "has (stored_state b modes) ''binding''" "has (stored_state b modes) ''checkpoints''"
  by (simp_all add: stored_state_def sample_state_def has_def keys_def)

lemma stored_dependencies:
  assumes "m \<in> set FORMAL_MODES" and "is_hex 40 g" and "rt \<in> {VNone, VStr sample_sha}"
  shows "\<exists>d. dependencies_for_mode (run_binding rt g ALL_SCOPES) m = Inr d"
proof -
  have ok: "binding_ok (run_binding rt g ALL_SCOPES)"
    by (rule sample_binding_ok [OF assms(2) _ _ assms(3)]) (simp_all add: ALL_SCOPES_def SCOPE_COMPONENTS_def)
  have "map_of MODE_SCOPES m = Some (report_scope m)" "report_scope m \<in> set ALL_SCOPES" "m \<noteq> ''summarize''"
    using assms(1) by (auto simp: FORMAL_MODES_def MODE_SCOPES_def ALL_SCOPES_def)
  then show ?thesis using dependencies_scope [OF ok] by (auto simp: has_def keys_def comp_def)
qed

lemma stored_binding_ok:
  assumes "is_hex 40 g" and "rt \<in> {VNone, VStr sample_sha}"
  shows "binding_ok (run_binding rt g ALL_SCOPES)" and "wf_val (run_binding rt g ALL_SCOPES)"
  using sample_binding_ok [OF assms(1) _ _ assms(2), of ALL_SCOPES] sample_binding_wf [of ALL_SCOPES rt g] assms(2)
  by (auto simp: ALL_SCOPES_def SCOPE_COMPONENTS_def)

lemma stored_state_ok:
  assumes "is_hex 40 g" and "rt \<in> {VNone, VStr sample_sha}" and "set modes \<subseteq> set FORMAL_MODES"
  shows "validate_state suite_contract (stored_state (run_binding rt g ALL_SCOPES) modes) = Inr ()"
proof -
  let ?b = "run_binding rt g ALL_SCOPES"
  have "checkpoint_ok ?b (m, stored_checkpoint ?b m)" if "m \<in> set modes" for m
  proof -
    have "m \<in> set FORMAL_MODES" using assms(3) that by blast
    then obtain d where "dependencies_for_mode ?b m = Inr d" using stored_dependencies [OF _ assms(1,2)] by blast
    then show ?thesis unfolding stored_checkpoint_def
      by (rule passed_with_ok [OF stored_binding_ok [OF assms(1,2)]]) (simp add: stored_digest_def is_hex_sha256)
  qed
  then show ?thesis using stored_binding_ok [OF assms(1,2)]
    by (auto simp: validate_state_iff suite_contract_def has_def keys_def baseline_ok_def history_ok_def)
qed

lemma stored_checkpoint_report:
  assumes g: "is_hex 40 g" "rt \<in> {VNone, VStr sample_sha}" and modes: "set modes \<subseteq> set FORMAL_MODES" and m: "m \<in> set modes"
  defines "b \<equiv> run_binding rt g ALL_SCOPES"
  shows "checkpoint_report (report_store b) suite_contract (stored_state b modes) m = Inr (stored_report b m)"
proof -
  have fm: "m \<in> set FORMAL_MODES" using modes m by blast
  have c: "fld (fld (stored_state b modes) ''checkpoints'') m = stored_checkpoint b m" using m by (simp add: fld_map_keys)
  then have co: "checkpoint_of (stored_state b modes) m = Inr (stored_checkpoint b m)"
    by (simp add: checkpoint_of_def bnd_eq_Inr vgetd_eq_Inr)
  have "checkpoint_ok b (m, stored_checkpoint b m)"
    using stored_state_ok [OF g modes, folded b_def] m by (auto simp: validate_state_iff)
  then have ci: "validate_checkpoint_identity b m (stored_checkpoint b m) = Inr ()" by (simp add: checkpoint_ok_def)
  have k: "fldd (stored_checkpoint b m) ''report_path'' x = VStr (path_str (stored_path m))"
    "fld (stored_checkpoint b m) ''report_sha256'' = VStr (stored_digest b m)" "is_dict (stored_checkpoint b m)"
    "fld (stored_checkpoint b m) ''artifact_manifest_sha256'' = VStr raw_digest" for x
    by (simp_all add: stored_checkpoint_def)
  have "validate_report_for_mode suite_contract (stored_state b modes) m (stored_report b m) = Inr ()"
    unfolding b_def by (rule stored_accepted [OF fm g]) simp_all
  then show ?thesis
    using store_report [OF fm, of b] ci
    by (simp add: checkpoint_report_def co k stored_path_text [OF fm] bnd_eq_Inr chk_eq_Inr reraise_eq_Inr vsub_eq_Inr catch_def)
qed

section \<open>Promotion of the reports\<close>

lemma stored_promotion_evidence:
  assumes g: "is_hex 40 g" "rt \<in> {VNone, VStr sample_sha}" and modes: "set modes \<subseteq> set FORMAL_MODES" "set BASELINE_MODES \<subseteq> set modes"
  defines "b \<equiv> run_binding rt g ALL_SCOPES"
  shows "promotion_evidence (report_store b) suite_contract (stored_state b modes) =
     Inr ((stored_checkpoint b ''core'', stored_report b ''core''), (stored_checkpoint b ''frontier'', stored_report b ''frontier''),
          (stored_checkpoint b ''qualification'', stored_report b ''qualification''))"
proof -
  have "passed_checkpoint (VDict (map (\<lambda>m. (m, stored_checkpoint b m)) modes)) m e = Inr (stored_checkpoint b m)"
    if "m \<in> set BASELINE_MODES" for m e
    using that modes fld_map_keys [of m modes "stored_checkpoint b"]
    by (auto simp: passed_checkpoint_def bnd_eq_Inr vgetd_eq_Inr stored_checkpoint_def passed_with_def is_true_def)
  moreover have "checkpoint_report (report_store b) suite_contract (stored_state b modes) m = Inr (stored_report b m)"
    if "m \<in> set BASELINE_MODES" for m
    unfolding b_def by (rule stored_checkpoint_report [OF g modes(1)]) (use that modes in blast)
  ultimately show ?thesis
    by (simp add: promotion_evidence_def bnd_eq_Inr vsub_eq_Inr BASELINE_MODES_def)
qed

lemma stored_promotion:
  assumes g: "is_hex 40 g" "rt \<in> {VNone, VStr sample_sha}" and modes: "set modes \<subseteq> set FORMAL_MODES" "set BASELINE_MODES \<subseteq> set modes"
  defines "b \<equiv> run_binding rt g ALL_SCOPES"
  shows "\<exists>state'. promote_baseline (report_store b) now suite_contract (stored_state b modes) = (state', Inr ())"
proof -
  note ev = stored_promotion_evidence [OF g modes, folded b_def]
  have ok: "binding_ok b" unfolding b_def by (rule stored_binding_ok [OF g])
  have fm: "for_mode b m = Inr (report_binding_of b (report_scope m))" if "m \<in> set BASELINE_MODES" for m
    unfolding b_def by (rule sample_for_mode [OF _ g]) (use that modes in blast)
  have has: "has (fld b ''scopes'') s" if "s \<in> set ALL_SCOPES" for s
    using that by (simp add: b_def has_def keys_def comp_def)
  have deps: "dependencies_for_mode b m = Inr (scope_deps b (mode_scope m))" if "m \<in> set BASELINE_MODES" for m
  proof -
    have "map_of MODE_SCOPES m = Some (mode_scope m)" "m \<noteq> ''summarize''" "mode_scope m \<in> set ALL_SCOPES"
      using that by (auto simp: BASELINE_MODES_def MODE_SCOPES_def mode_scope_def ALL_SCOPES_def)
    then show ?thesis using dependencies_scope [OF ok] has by simp
  qed
  have hp: "is_hex 64 (py_str (fld b ''product''))" by (simp add: b_def)
  let ?digest = "digest_table (stored_checkpoint b ''core'') (stored_checkpoint b ''frontier'') (stored_checkpoint b ''qualification'')"
  have "is_hex 64 (?digest m)" for m
    by (auto simp: digest_table_def stored_checkpoint_def stored_digest_def is_hex_sha256)
  moreover have "scope_deps b (mode_scope m) \<noteq> [] \<and> list_all sha_str (map snd (scope_deps b (mode_scope m)))"
    if "m \<in> set BASELINE_MODES" for m
    using that has scope_deps_ne [OF ok] scope_deps_sha [OF ok] by (auto simp: BASELINE_MODES_def mode_scope_def ALL_SCOPES_def)
  ultimately have "\<exists>fields. baseline_identity_fields (VStr (py_str (fld b ''product'')))
      (VDict (map (\<lambda>m. (m, VDict (scope_deps b (mode_scope m)))) BASELINE_MODES)) ?digest = Inr fields"
    using baseline_identity_fields_eq [OF hp, of ?digest "\<lambda>m. scope_deps b (mode_scope m)"] by blast
  then have "\<exists>d. promoted_baseline now (stored_state b modes) (stored_checkpoint b ''core'', stored_report b ''core'')
      (stored_checkpoint b ''frontier'', stored_report b ''frontier'') (stored_checkpoint b ''qualification'', stored_report b ''qualification'') = Inr d"
    using fm deps
    by (simp add: promoted_baseline_def vsub_eq_Inr bnd_eq_Inr BASELINE_MODES_def runtime_identity_eq [OF ok] product_identity_eq [OF ok] Let_def)
  then show ?thesis
    using ev by (auto simp: promote_baseline_def baseline_observation_def stored_checkpoint_def Let_def)
qed

section \<open>Recording and summarising\<close>

lemma stored_reporting: "reporting_identities (report_store b) checkout = Inr (items sample_reporting)"
proof -
  have "repository_content (report_store b) checkout message relative = Inr (VDict [(''path'', VStr relative), (''sha256'', VStr (sha256_hex relative))])"
    if "(n, schema, relative) \<in> set REPORTING_DEFINITIONS" for n schema relative message
  proof -
    have "\<not> is_absolute (path_of relative)" using that by (auto simp: REPORTING_DEFINITIONS_def path_of_def slash_def)
    then have "is_relative_to (joinp checkout (path_of relative)) checkout" by (simp add: is_relative_to_def joinp_def)
    then show ?thesis using store_files(2) [OF that, of b]
      by (simp add: repository_content_def is_file_def file_sha256_def read_bytes_def)
  qed
  then have "mapm (\<lambda>(name, schema, relative).
        bnd (repository_content (report_store b) checkout ''reporting artefact content missing: '' relative) (\<lambda>content.
        Inr (name, VDict [(''identity'', VStr (reporting_digest (VStr schema) content)), (''schema'', VStr schema),
                          (''content'', content)]))) REPORTING_DEFINITIONS =
      Inr (map (\<lambda>(n, schema, relative). (n, sample_reporting_item schema relative)) REPORTING_DEFINITIONS)"
    by (simp add: REPORTING_DEFINITIONS_def sample_reporting_item_def Let_def)
  then show ?thesis by (simp add: reporting_identities_def sample_reporting_def)
qed

lemma stored_current: "verify_current_reporting (report_store b) checkout (run_binding rt g ALL_SCOPES) include = Inr ()"
proof -
  have r: "is_dict sample_reporting \<and> py_eq (fld sample_reporting k) (fld sample_reporting k)" for k
    using py_eq_refl [OF wf_val_fldd [OF sample_reporting_wf]] by (simp add: sample_reporting_def)
  have d: "is_dict (run_binding rt g ALL_SCOPES)" by (simp add: run_binding_def built_binding_def)
  have i: "VDict (items sample_reporting) = sample_reporting" by (simp add: sample_reporting_def)
  show ?thesis
    by (simp add: verify_current_reporting_def stored_reporting each_eq_Inr bnd_eq_Inr chk_eq_Inr vgetd_eq_Inr d i r)
qed

lemma stored_recording:
  assumes g: "is_hex 40 g" "rt \<in> {VNone, VStr sample_sha}" and modes: "set modes \<subseteq> set FORMAL_MODES" "''core'' \<notin> set modes"
  defines "b \<equiv> run_binding rt g ALL_SCOPES"
  shows "\<exists>state'. record_report (report_store b) checkout now suite_contract (stored_state b modes) ''core'' (stored_report b ''core'')
      (stored_digest b ''core'') (Fin 10) (path_str (stored_path ''core'')) VNone = Inr (state', ''recorded'')"
proof -
  let ?s = "stored_state b modes"
  have m: "''core'' \<in> set FORMAL_MODES" by (simp add: FORMAL_MODES_def)
  have st: "can_start (report_store b) checkout suite_contract ?s ''core'' = Inr ()"
    using stored_state_ok [OF g modes(1), folded b_def] stored_current [of b rt g False, folded b_def]
    by (simp add: can_start_def REPORT_KIND_def START_ELIGIBILITY_def tbl_def)
  have v: "validate_report_for_mode suite_contract ?s ''core'' (stored_report b ''core'') = Inr ()"
    unfolding b_def by (rule stored_accepted [OF m g]) simp_all
  have w: "max_wall_seconds suite_contract ''core'' = Inr (Some (Fin 300))"
    by (simp add: max_wall_seconds_def max_wall_path_def suite_contract_def bnd_eq_Inr vsub_eq_Inr has_def keys_def)
  have f: "for_mode b ''core'' = Inr (report_binding_of b ''core'')"
    using sample_for_mode [OF m g] by (simp add: b_def MODE_SCOPES_def)
  obtain d where d: "dependencies_for_mode b ''core'' = Inr d" using stored_dependencies [OF m g] by (auto simp: b_def)
  have "is_sha256 (VStr (stored_digest b ''core''))" by (simp add: stored_digest_def is_hex_sha256 is_sha256_iff)
  then obtain i where i: "evidence_identity ''core'' (stored_digest b ''core'') d = Inr i" by (auto simp: evidence_identity_def Let_def)
  have n: "fld (VDict (map (\<lambda>m. (m, stored_checkpoint b m)) modes)) ''core'' = VNone"
    using modes(2) by (auto simp: fld_map_of split: option.splits dest: map_of_SomeD)
  have e: "py_eq (stored_report b ''core'') (stored_report b ''core'')"
    by (rule py_eq_refl) (simp add: stored_report_def MODE_SCOPES_def kind_part_def core_part_def raw_artifacts_def artifact_manifest_def artifact_entry_def)
  have h: "path_str (stored_path ''core'') \<noteq> []" "hashable (fld (stored_report b ''core'') ''decision'')"
    by (simp_all add: path_str_def stored_path_def stored_report_def MODE_SCOPES_def kind_part_def core_part_def)
  show ?thesis
    using store_report [OF m, of b] st v w f d i n e h
    by (simp add: record_report_def bnd_eq_Inr chk_eq_Inr stored_path_text [OF m] file_digest_is_def catch_def Let_def same_checkpoint_def
        in_set_eq)
qed

lemma stored_aggregate:
  assumes g: "is_hex 40 g" "rt \<in> {VNone, VStr sample_sha}"
  defines "b \<equiv> run_binding rt g ALL_SCOPES"
  shows "\<exists>active. for_mode b ''summarize'' = Inr active"
proof -
  have ok: "binding_ok b" unfolding b_def by (rule stored_binding_ok [OF g])
  have f: "for_scope b s = Inr (report_binding_of b s)" if "s \<in> set ALL_SCOPES" for s
    using that ok by (simp add: b_def for_scope_eq_Inr has_def keys_def comp_def)
  have r: "report_binding_of b s = [(''suite_version'', VStr ''1.0.0''), (''candidate'', VStr (run_identity b)),
      (''environment_sha256'', VStr sample_sha), (''input_manifest_sha256'', VStr sample_sha), (''tool_sha256'', VStr sample_sha),
      (''binary_sha256'', VStr sample_sha)]" if "s \<in> set ALL_SCOPES" "s \<noteq> ''frontier''" for s
    using sample_report_binding [OF that(1)] that(2) by (simp add: b_def)
  have s: "\<exists>d. reporting_identity b ''summary'' = Inr d" using ok
    by (simp add: b_def reporting_identity_def sample_reporting_def REPORTING_DEFINITIONS_def sample_reporting_item_def Let_def bnd_eq_Inr vsub_eq_Inr
        vgetd_eq_Inr binding_is_dict)
  have d: "mapm (\<lambda>name. bnd (for_scope b name) (\<lambda>d. Inr (name, VDict d))) AGGREGATE_SCOPES =
      Inr (map (\<lambda>s. (s, VDict (report_binding_of b s))) AGGREGATE_SCOPES)"
    using f by (simp add: AGGREGATE_SCOPES_def ALL_SCOPES_def)
  show ?thesis
    using ok s d r [of "''core''"] r [of "''product''"] r [of "''community''"]
    by (auto simp: for_mode_def aggregate_def AGGREGATE_SCOPES_def ALL_SCOPES_def project_def vmem_def runtime_identity_eq [OF ok] bnd_eq_Inr chk_eq_Inr Let_def)
qed

lemma stored_summary:
  assumes g: "is_hex 40 g" "rt \<in> {VNone, VStr sample_sha}" and modes: "set modes \<subseteq> set FORMAL_MODES" "set SUMMARY_AGGREGATES \<subseteq> set modes"
  defines "b \<equiv> run_binding rt g ALL_SCOPES"
  shows "\<exists>report. summarize (report_store b) checkout now suite_contract (stored_state b modes) = Inr report"
proof -
  let ?s = "stored_state b modes" and ?cs = "VDict (map (\<lambda>m. (m, stored_checkpoint b m)) modes)"
  have r: "checkpoint_report (report_store b) suite_contract ?s m = Inr (stored_report b m)" if "m \<in> set SUMMARY_AGGREGATES" for m
    unfolding b_def by (rule stored_checkpoint_report [OF g modes(1)]) (use that modes in blast)
  have c: "fld ?cs m = stored_checkpoint b m \<and> has ?cs m" if "m \<in> set SUMMARY_AGGREGATES" for m
    using that modes(2) fld_map_keys [of m modes "stored_checkpoint b"] by (auto simp: has_def keys_def comp_def)
  have ck: "is_dict (stored_checkpoint b m)" "fldd (stored_checkpoint b m) ''passed'' x = VBool True"
    "has (stored_checkpoint b m) ''passed''" "has (stored_checkpoint b m) ''report_sha256''" for m x
    by (simp_all add: stored_checkpoint_def) (simp add: passed_with_def has_def keys_def)
  have st: "can_start (report_store b) checkout suite_contract ?s ''summarize'' = Inr ()"
    using stored_state_ok [OF g modes(1), folded b_def] stored_current [of b rt g True, folded b_def] r c ck
    by (simp add: can_start_def REPORT_KIND_def START_ELIGIBILITY_def SUMMARY_AGGREGATES_def tbl_def is_true_def bnd_eq_Inr checks_eq_Inr Let_def)
  obtain active where a: "for_mode b ''summarize'' = Inr active" using stored_aggregate [OF g] by (auto simp: b_def)
  obtain sg where sg: "source_git b = Inr sg" using source_git_eq stored_binding_ok [OF g] by (auto simp: b_def)
  have e: "each (\<lambda>mode. bnd (checkpoint_report (report_store b) suite_contract ?s mode) (\<lambda>_. Inr ())) SUMMARY_AGGREGATES = Inr ()"
    using r by (simp add: each_eq_Inr)
  have p: "vpath suite_contract [''reports'', ''suite'', ''schema''] = Inr (VStr ''suite'')" "vsub suite_contract ''suite_version'' = Inr (VStr ''1.0.0'')"
    by (simp_all add: suite_contract_def bnd_eq_Inr vsub_eq_Inr has_def keys_def)
  have vp: "vpath ?cs [m, ''report_sha256''] = Inr (fld (stored_checkpoint b m) ''report_sha256'')"
    "vpath ?cs [m, ''passed''] = Inr (VBool True)" if "m \<in> set SUMMARY_AGGREGATES" for m
    using c [OF that] ck by (simp_all add: bnd_eq_Inr vsub_eq_Inr)
  have three: "''core'' \<in> set SUMMARY_AGGREGATES" "''full'' \<in> set SUMMARY_AGGREGATES" "''longmemeval'' \<in> set SUMMARY_AGGREGATES"
    by (simp_all add: SUMMARY_AGGREGATES_def)
  have mp: "mapm (\<lambda>name. vpath ?cs [name, ''passed'']) SUMMARY_AGGREGATES = Inr (replicate 3 (VBool True))"
    using vp(2) [OF three(1)] vp(2) [OF three(2)] vp(2) [OF three(3)] by (simp add: SUMMARY_AGGREGATES_def numeral_3_eq_3 del: vpath.simps)
  have vr: "validate_report suite_contract ''suite'' (VDict ((''schema'', VStr ''suite'') # (''suite_version'', VStr ''1.0.0'') # rest)) = Inr ()" for rest
    by (simp add: validate_report_iff suite_contract_def has_def keys_def)
  show ?thesis
    by (simp add: summarize_def st e a p sg vp(1) [OF three(1)] vp(1) [OF three(2)] vp(1) [OF three(3)] mp vr Let_def
        del: vpath.simps mapm.simps)
qed

end
