(* ===== verification/Lifecycle_Board.thy ===== *)
theory Lifecycle_Board
  imports Lifecycle_Promotion
begin

text \<open>
  The lifecycle as a machine. The abstract state is a board: the digest of the accepted report of each mode. Reports
  are admitted to the board when their prerequisites are on it, and withdrawn together with what the tables of
  \<open>state_relationships.py\<close> say depends on them. The operations of \<open>lifecycle.py\<close> and \<open>report_semantics.py\<close> are the steps
  of the concrete machine; each is a step of the board, so that what holds of all boards holds of all states.
\<close>

section \<open>The board\<close>

type_synonym board = "string \<rightharpoonup> val"

inductive board_step :: "board \<Rightarrow> board \<Rightarrow> bool" where
  admit: "set (tbl START_ELIGIBILITY mode) \<subseteq> dom b \<Longrightarrow> board_step b (b(mode \<mapsto> digest))"
| withdraw: "modes \<subseteq> set (map fst MODE_INVALIDATION) \<Longrightarrow> board_step b (b |` (- (\<Union>m \<in> modes. set (tbl MODE_INVALIDATION m))))"
| withdraw_summary: "board_step b (b(''summarize'' := None))"
| keep: "board_step b b"

inductive_cases board_stepE: "board_step b b'"

text \<open>What a board with a summary holds.\<close>

definition supported :: "board \<Rightarrow> bool" where
  "supported b = (''summarize'' \<in> dom b \<longrightarrow> set SUMMARY_AGGREGATES \<subseteq> dom b)"

lemma withdrawn_summary:
  "m \<in> set (map fst MODE_INVALIDATION) \<Longrightarrow> set (tbl MODE_INVALIDATION m) \<inter> set SUMMARY_AGGREGATES \<noteq> {} \<Longrightarrow>
     ''summarize'' \<in> set (tbl MODE_INVALIDATION m)"
proof -
  have "list_all (\<lambda>m. list_ex (\<lambda>x. x \<in> set SUMMARY_AGGREGATES) (tbl MODE_INVALIDATION m) \<longrightarrow> ''summarize'' \<in> set (tbl MODE_INVALIDATION m))
      (map fst MODE_INVALIDATION)" by code_simp
  then show "m \<in> set (map fst MODE_INVALIDATION) \<Longrightarrow> set (tbl MODE_INVALIDATION m) \<inter> set SUMMARY_AGGREGATES \<noteq> {} \<Longrightarrow>
     ''summarize'' \<in> set (tbl MODE_INVALIDATION m)"
    unfolding list_all_iff list_ex_iff by blast
qed

lemma scope_results_invalidate: "set (tbl SCOPE_RESULTS n) \<subseteq> set (map fst MODE_INVALIDATION)"
  by (cases "n \<in> set (map fst SCOPE_RESULTS)") (auto simp: SCOPE_RESULTS_def MODE_INVALIDATION_def tbl_def)

lemma supported_step: "board_step b b' \<Longrightarrow> supported b \<Longrightarrow> supported b'"
proof (induction rule: board_step.induct)
  case (admit mode b digest)
  have "set (tbl START_ELIGIBILITY ''summarize'') = set SUMMARY_AGGREGATES"
    by (simp add: START_ELIGIBILITY_def SUMMARY_AGGREGATES_def tbl_def)
  then show ?case using admit by (auto simp: supported_def split: if_splits)
next
  case (withdraw modes b)
  have "m \<notin> (\<Union>m \<in> modes. set (tbl MODE_INVALIDATION m))"
    if "m \<in> set SUMMARY_AGGREGATES" "''summarize'' \<notin> (\<Union>m \<in> modes. set (tbl MODE_INVALIDATION m))" for m
    using that withdraw(1) withdrawn_summary by blast
  then show ?case using withdraw(2) by (auto simp: supported_def restrict_map_def split: if_splits)
qed (auto simp: supported_def)

section \<open>The lifecycle\<close>

inductive lifecycle_step :: "val \<Rightarrow> val \<Rightarrow> val \<Rightarrow> bool" for contract :: val where
  recorded: "record_report fs repository now contract s mode report digest elapsed report_path selection = Inr (s', outcome) \<Longrightarrow>
     lifecycle_step contract s s'"
| invalidated: "invalidate contract s mode = Inr (s', removed) \<Longrightarrow> lifecycle_step contract s s'"
| rebound: "rebind contract s binding = Inr (s', removed) \<Longrightarrow> lifecycle_step contract s s'"
| promoted: "promote_baseline fs now contract s = (s', result) \<Longrightarrow> lifecycle_step contract s s'"

definition board_of :: "val \<Rightarrow> board" where
  "board_of s m = (let checkpoints = fld s ''checkpoints'' in
     if has checkpoints m then Some (fld (fld checkpoints m) ''report_sha256'') else None)"

lemma board_of_cong: "fld s' ''checkpoints'' = fld s ''checkpoints'' \<Longrightarrow> board_of s' = board_of s"
  by (simp add: board_of_def fun_eq_iff)

lemma board_of_dom: "m \<in> dom (board_of s) \<longleftrightarrow> has (fld s ''checkpoints'') m"
  by (auto simp: board_of_def Let_def split: if_splits)

lemma board_without:
  assumes "fld s' ''checkpoints'' = fold vdel removed (fld s ''checkpoints'')"
    and "set removed = {m \<in> gone. has (fld s ''checkpoints'') m}"
  shows "board_of s' = board_of s |` (- gone)"
  using assms by (auto simp: board_of_def restrict_map_def vdels_has vdels_fld fun_eq_iff)

lemma board_recorded:
  assumes "record_report fs repository now contract s mode report digest elapsed report_path selection = Inr (s', outcome)"
  shows "board_step (board_of s) (board_of s')"
proof -
  have st: "can_start fs repository contract s mode = Inr ()" using record_report_eq_Inr(1) [OF assms] .
  then have "validate_state contract s = Inr ()" by (auto simp: can_start_def bnd_eq_Inr)
  then have d: "is_dict s" "is_dict (fld s ''checkpoints'')" by (auto simp: validate_state_iff)
  have pre: "set (tbl START_ELIGIBILITY mode) \<subseteq> dom (board_of s)"
  proof
    fix p assume "p \<in> set (tbl START_ELIGIBILITY mode)"
    then have "is_dict (fld (fld s ''checkpoints'') p)"
      using st unfolding can_start_def bnd_eq_Inr chk_eq_Inr each_eq_Inr checks_eq_Inr Let_def by auto
    then show "p \<in> dom (board_of s)" unfolding board_of_dom by (metis fldd_no_has is_dict.simps(2))
  qed
  from record_report_eq_Inr(6) [OF assms] consider "s' = s"
    | c where "s' = put_checkpoint mode c s" "fld c ''report_sha256'' = VStr digest"
    by (auto split: if_splits)
  then show ?thesis
  proof cases
    case 2
    have "board_of s' = (board_of s)(mode \<mapsto> VStr digest)"
      using 2 d put_checkpoint_fields(2) [OF d(1)] by (auto simp: board_of_def fun_eq_iff)
    then show ?thesis using board_step.admit [OF pre] by simp
  qed (simp add: board_step.keep)
qed

lemma board_invalidated:
  assumes "invalidate contract s mode = Inr (s', removed)"
  shows "board_step (board_of s) (board_of s')"
proof -
  obtain affected where v: "validate_state contract s = Inr ()" and a: "map_of MODE_INVALIDATION mode = Some affected"
    and r: "removed = filter (has (fld s ''checkpoints'')) affected"
    and s': "s' = (let s1 = fold drop_checkpoint removed s in
                  if mode \<in> set BASELINE_AGGREGATES \<and> fld s1 ''baseline'' \<noteq> VNone then retire_baseline s1 else s1)"
    using assms unfolding invalidate_eq_Inr by blast
  have "is_dict s" using v by (simp add: validate_state_iff)
  then have "fld s' ''checkpoints'' = fold vdel removed (fld s ''checkpoints'')"
    unfolding s' Let_def by (simp add: drops_checkpoints)
  moreover have "set removed = {m \<in> (\<Union>m \<in> {mode}. set (tbl MODE_INVALIDATION m)). has (fld s ''checkpoints'') m}"
    using a by (auto simp: r tbl_def)
  ultimately have "board_of s' = board_of s |` (- (\<Union>m \<in> {mode}. set (tbl MODE_INVALIDATION m)))" by (rule board_without)
  moreover have "mode \<in> set (map fst MODE_INVALIDATION)" using map_of_SomeD [OF a] by force
  ultimately show ?thesis using board_step.withdraw [of "{mode}"] by simp
qed

lemma board_rebound:
  assumes "rebind contract s b = Inr (s', removed)"
  shows "board_step (board_of s) (board_of s')"
proof -
  have d: "is_dict s" and r: "rebound s b = (s', removed)"
    using assms unfolding rebind_eq_Inr by (auto simp: validate_state_iff)
  have c: "fld s' ''checkpoints'' = fold vdel removed (fld s ''checkpoints'')"
    using rebound_fields(3) [OF d r] by (simp add: without_def)
  show ?thesis
  proof (cases "changed_scopes (fld s ''binding'') b = []")
    case True
    then consider "removed = []" | "removed = [''summarize'']"
      using r by (auto simp: rebound_def Let_def split: if_splits)
    then show ?thesis
    proof cases
      case 1
      then have "board_of s' = board_of s" using c by (intro board_of_cong) simp
      then show ?thesis by (simp add: board_step.keep)
    next
      case 2
      then have "board_of s' m = ((board_of s)(''summarize'' := None)) m" for m using c by (auto simp: board_of_def)
      then have "board_of s' = (board_of s)(''summarize'' := None)" by (rule ext)
      then show ?thesis using board_step.withdraw_summary by simp
    qed
  next
    case False
    let ?modes = "\<Union>n \<in> set (changed_scopes (fld s ''binding'') b). set (tbl SCOPE_RESULTS n)"
    have "removed = sort (filter (has (fld s ''checkpoints'')) (affected_modes (changed_scopes (fld s ''binding'') b)))"
      using r False unfolding rebound_def Let_def by simp
    then have "set removed = {m \<in> (\<Union>m \<in> ?modes. set (tbl MODE_INVALIDATION m)). has (fld s ''checkpoints'') m}"
      by (simp add: affected_modes_def)
    then have "board_of s' = board_of s |` (- (\<Union>m \<in> ?modes. set (tbl MODE_INVALIDATION m)))" by (rule board_without [OF c])
    moreover have "?modes \<subseteq> set (map fst MODE_INVALIDATION)" using scope_results_invalidate by blast
    ultimately show ?thesis using board_step.withdraw [of ?modes "board_of s"] by presburger
  qed
qed

lemma board_promoted:
  assumes "promote_baseline fs now contract s = (s', r)"
  shows "board_of s' = board_of s"
proof (rule board_of_cong)
  show "fld s' ''checkpoints'' = fld s ''checkpoints''"
    using assms by (auto simp: promote_baseline_def push_baseline_def Let_def split: if_splits sum.splits option.splits prod.splits)
qed

text \<open>Every step of the lifecycle is a step of the board.\<close>

lemma lifecycle_simulated: "lifecycle_step contract s s' \<Longrightarrow> board_step (board_of s) (board_of s')"
proof (induction rule: lifecycle_step.induct)
  case (promoted fs now s s' result)
  then show ?case using board_promoted board_step.keep by metis
qed (rule board_recorded board_invalidated board_rebound, assumption)+

lemma lifecycle_supported: "rtranclp (lifecycle_step contract) s s' \<Longrightarrow> supported (board_of s) \<Longrightarrow> supported (board_of s')"
  by (induction rule: rtranclp_induct) (blast intro: supported_step lifecycle_simulated)+

end
