(* ===== verification/Product_Scoring.thy ===== *)
theory Product_Scoring
  imports Evidence
begin

text \<open>
  The scoring of product results: \<open>score_product\<close> of \<open>evidence.py\<close> with its ranking metrics, and \<open>score_results\<close> of
  \<open>product_scoring.py\<close>, which checks the results against the tasks first. Identifiers are values that are compared with
  \<open>==\<close>; the names of the categories in the contract are texts. The ranking metric \<open>ndcg\<close> takes \<open>math.log2\<close> and the sum of a list of floats as parameters, because their
  last bit depends on the C library and on the version of Python; no verdict reads it. \<open>now\<close> is the text of the clock.
\<close>

section \<open>Ranking metrics\<close>

text \<open>Hashing the elements of a list.\<close>

definition hash_all :: "val list \<Rightarrow> unit res" where
  "hash_all xs = chk (list_all hashable xs) (Exn TypeError ''unhashable type'') (Inr ())"

text \<open>\<open>n / m\<close> of two integers.\<close>

definition ratio :: "nat \<Rightarrow> nat \<Rightarrow> pyfloat" where
  "ratio n m = round_double (of_nat n / of_nat m)"

definition recall_of :: "val list \<Rightarrow> val list \<Rightarrow> pyfloat res" where
  "recall_of returned expected =
     (if expected = [] then Inr (Fin 1)
      else bnd (hash_all returned) (\<lambda>_. bnd (hash_all expected) (\<lambda>_.
           Inr (ratio (length (filter (\<lambda>x. vmem x expected) (dedup returned))) (length expected)))))"

definition precision_of :: "val list \<Rightarrow> val list \<Rightarrow> val list \<Rightarrow> pyfloat res" where
  "precision_of returned expected forbidden =
     bnd (hash_all expected) (\<lambda>_. bnd (hash_all returned) (\<lambda>_.
     let considered = filter (\<lambda>x. vmem x expected \<or> vmem x forbidden) returned in
     Inr (if considered = [] then Fin 0
          else ratio (length (filter (\<lambda>x. vmem x expected) considered)) (length considered))))"

text \<open>\<open>1 / math.log2(index + 2)\<close> for the indices in question.\<close>

definition gains_at :: "(nat \<Rightarrow> pyfloat) \<Rightarrow> nat list \<Rightarrow> pyfloat list res" where
  "gains_at log2 indices = mapm (\<lambda>index. fl_div (Fin 1) (log2 (index + 2))) indices"

definition ndcg_of :: "(nat \<Rightarrow> pyfloat) \<Rightarrow> (pyfloat list \<Rightarrow> pyfloat) \<Rightarrow> val list \<Rightarrow> val list \<Rightarrow> pyfloat res" where
  "ndcg_of log2 fsum returned expected =
     bnd (hash_all expected) (\<lambda>_. bnd (hash_all returned) (\<lambda>_.
     bnd (gains_at log2 (filter (\<lambda>index. vmem (returned ! index) expected) [0..<length returned])) (\<lambda>gains.
     bnd (gains_at log2 [0..<length expected]) (\<lambda>ideals.
     if ideals \<noteq> [] \<and> \<not> fl_eq (fsum ideals) (Fin 0) then fl_div (if gains = [] then Fin 0 else fsum gains) (fsum ideals)
     else Inr (Fin 1)))))"

section \<open>One scenario\<close>

record scored =
  sc_category :: string
  sc_passed :: bool
  sc_recall :: pyfloat
  sc_precision :: pyfloat
  sc_ndcg :: pyfloat
  sc_gain :: pyfloat
  sc_relation_precision :: pyfloat
  sc_latency :: pyfloat
  sc_semantic :: pyfloat
  sc_agent_query :: pyfloat
  sc_end_to_end :: pyfloat
  sc_peak :: pyfloat
  sc_detail :: val

text \<open>\<open>list(v.get(k, []))\<close> and \<open>set(v.get(k, []))\<close>.\<close>

definition list_field :: "val \<Rightarrow> string \<Rightarrow> val list res" where
  "list_field v k = bnd (vgetd v k (VList [])) py_iter"

definition set_field :: "val \<Rightarrow> string \<Rightarrow> val list res" where
  "set_field v k = bnd (vgetd v k (VList [])) py_set"

definition inf_field :: "val \<Rightarrow> string \<Rightarrow> pyfloat res" where
  "inf_field v k = bnd (vgetd v k (VFloat PInf)) py_float"

definition relation_precision_of :: "val list \<Rightarrow> val list \<Rightarrow> pyfloat" where
  "relation_precision_of relation_set expected =
     (if relation_set = [] then Fin 1 else ratio (length (filter (\<lambda>x. vmem x expected) relation_set)) (length relation_set))"

definition score_scenario ::
    "(nat \<Rightarrow> pyfloat) \<Rightarrow> (pyfloat list \<Rightarrow> pyfloat) \<Rightarrow> string list \<Rightarrow> val \<Rightarrow> val \<Rightarrow> val \<Rightarrow> scored res" where
  "score_scenario log2 fsum categories identifier scenario result =
     bnd (vpath scenario [''truth'', ''query'']) (\<lambda>query.
     bnd (bnd (vsub query ''expected_ids'') py_iter) (\<lambda>expected.
     bnd (set_field query ''forbidden_ids'') (\<lambda>forbidden.
     bnd (list_field result ''returned_ids'') (\<lambda>returned.
     bnd (list_field result ''relation_ids'') (\<lambda>relation.
     bnd (set_field result ''navigation_ids'') (\<lambda>navigation.
     bnd (recall_of returned expected) (\<lambda>recall.
     bnd (precision_of returned expected forbidden) (\<lambda>precision.
     bnd (ndcg_of log2 fsum returned expected) (\<lambda>ndcg.
     bnd (set_field query ''answer_facts'') (\<lambda>expected_facts.
     bnd (set_field result ''answer_facts'') (\<lambda>actual_facts.
     bnd (recall_of relation expected) (\<lambda>gain.
     bnd (py_set (VList relation)) (\<lambda>relation_set.
     bnd (vpath scenario [''truth'', ''task_class'']) (\<lambda>task_class.
     let grounded = is_true (fld result ''grounded'');
         facts_passed = (set_eq actual_facts expected_facts \<and> grounded);
         passed = (fl_eq recall (Fin 1) \<and> \<not> list_ex (\<lambda>x. vmem x returned) forbidden \<and> facts_passed) in
     bnd (hash_key task_class) (\<lambda>_.
     chk (vmem task_class (strs categories)) (Exn KeyError (py_str task_class))
     (let category = str_val task_class; relation_precision = relation_precision_of relation_set expected;
          navigated = list_ex (\<lambda>x. vmem x expected \<and> vmem x navigation) relation_set in
     bnd (inf_field result ''latency_ms'') (\<lambda>latency. bnd (inf_field result ''semantic_ms'') (\<lambda>semantic.
     bnd (inf_field result ''agent_query_ms'') (\<lambda>agent_query. bnd (inf_field result ''end_to_end_ms'') (\<lambda>end_to_end.
     bnd (inf_field result ''peak_mib'') (\<lambda>peak.
     Inr \<lparr>sc_category = category, sc_passed = passed, sc_recall = recall, sc_precision = precision, sc_ndcg = ndcg, sc_gain = gain,
          sc_relation_precision = relation_precision, sc_latency = latency, sc_semantic = semantic, sc_agent_query = agent_query,
          sc_end_to_end = end_to_end, sc_peak = peak,
          sc_detail = VDict [(''scenario_id'', identifier), (''category'', VStr category), (''recall'', VFloat recall),
            (''precision'', VFloat precision), (''ndcg'', VFloat ndcg), (''relation_gain'', VFloat gain),
            (''relation_evidence_precision'', VFloat relation_precision), (''used_navigation'', VBool (is_true (fld result ''used_navigation''))),
            (''navigation_supported_gain'', VBool navigated), (''answer_facts_exact'', VBool facts_passed),
            (''grounded'', VBool grounded), (''passed'', VBool passed)]\<rparr>)))))))))))))))))))))"

section \<open>The report\<close>

record tally =
  ta_scenarios :: nat
  ta_passed :: bool
  ta_recall :: pyfloat
  ta_precision :: pyfloat
  ta_ndcg :: pyfloat

definition new_tally :: tally where
  "new_tally = \<lparr>ta_scenarios = 0, ta_passed = True, ta_recall = Fin 0, ta_precision = Fin 0, ta_ndcg = Fin 0\<rparr>"

definition add_scored :: "scored \<Rightarrow> tally \<Rightarrow> tally" where
  "add_scored sc t = t\<lparr>ta_scenarios := ta_scenarios t + 1, ta_passed := ta_passed t \<and> sc_passed sc,
     ta_recall := fl_add (ta_recall t) (sc_recall sc), ta_precision := fl_add (ta_precision t) (sc_precision sc),
     ta_ndcg := fl_add (ta_ndcg t) (sc_ndcg sc)\<rparr>"

definition tally_of :: "scored list \<Rightarrow> string \<Rightarrow> tally" where
  "tally_of scs category = fold add_scored (filter (\<lambda>sc. sc_category sc = category) scs) new_tally"

definition category_entry :: "scored list \<Rightarrow> string \<Rightarrow> (string \<times> val) res" where
  "category_entry scs category =
     (let t = tally_of scs category; count = ta_scenarios t in
     bnd (fl_div_nat (ta_recall t) count) (\<lambda>recall. bnd (fl_div_nat (ta_precision t) count) (\<lambda>precision.
     bnd (fl_div_nat (ta_ndcg t) count) (\<lambda>ndcg.
     Inr (category, VDict [(''scenarios'', VInt (int count)), (''passed'', VBool (ta_passed t)), (''recall'', VFloat recall),
            (''precision'', VFloat precision), (''ndcg'', VFloat ndcg)])))))"

text \<open>\<open>max(xs)\<close> and \<open>min(xs)\<close>.\<close>

fun maximum_of :: "pyfloat list \<Rightarrow> pyfloat res" where
  "maximum_of [] = Inl (Exn ValueError ''max() iterable argument is empty'')"
| "maximum_of (x # xs) = Inr (fl_max x xs)"

fun minimum_of :: "pyfloat list \<Rightarrow> pyfloat res" where
  "minimum_of [] = Inl (Exn ValueError ''min() iterable argument is empty'')"
| "minimum_of (x # xs) = Inr (fl_min x xs)"

definition or_else :: "pyfloat res \<Rightarrow> pyfloat \<Rightarrow> pyfloat" where
  "or_else r x = (case r of Inr y \<Rightarrow> y | Inl _ \<Rightarrow> x)"

definition gain_passed :: "scored list \<Rightarrow> bool" where
  "gain_passed scs =
     (fl_less (Fin 0) (or_else (maximum_of (map sc_gain scs)) (Fin 0)) \<and>
      fl_le (Fin 0) (or_else (minimum_of (map sc_gain scs)) (Fin 0)) \<and>
      fl_eq (or_else (minimum_of (map sc_relation_precision scs)) (Fin 1)) (Fin 1))"

text \<open>\<open>all(item.get(a) is True and item.get(b) is True for item in results)\<close>: the first failing item ends it.\<close>

fun within_budgets :: "val list \<Rightarrow> bool res" where
  "within_budgets [] = Inr True"
| "within_budgets (item # rest) =
     bnd (vget item ''within_latency_budget'') (\<lambda>latency.
     if is_true latency \<and> is_true (fld item ''within_resource_budget'') then within_budgets rest else Inr False)"

text \<open>The selected scenarios by identifier, in the order of the first scenario of each, and the results by theirs.\<close>

definition scenario_id :: "val \<Rightarrow> val res" where
  "scenario_id item = bnd (vpath item [''truth'', ''id'']) hash_key"

definition wanted_ids :: "val \<Rightarrow> val \<Rightarrow> val list \<Rightarrow> val list res" where
  "wanted_ids mode qualification scenarios =
     (if mode = VStr ''qualification'' then bnd (vsub qualification ''scenario_ids'') py_set
      else bnd (mapm scenario_id scenarios) (\<lambda>ids. Inr (dedup ids)))"

definition select_scenarios :: "val list \<Rightarrow> val list \<Rightarrow> vdict res" where
  "select_scenarios wanted scenarios =
     foldm (\<lambda>selected item. bnd (scenario_id item) (\<lambda>i. Inr (if vmem i wanted then vd_put i item selected else selected))) [] scenarios"

definition results_by_id :: "val list \<Rightarrow> vdict res" where
  "results_by_id results =
     foldm (\<lambda>by_id item. bnd (hash_key (fld item ''scenario_id'')) (\<lambda>i. Inr (vd_put i item by_id))) [] (filter is_dict results)"

definition product_report ::
    "string \<Rightarrow> val \<Rightarrow> val \<Rightarrow> val \<Rightarrow> val \<Rightarrow> (string \<times> val) list \<Rightarrow> scored list \<Rightarrow> bool \<Rightarrow> val res" where
  "product_report now contract df mode binding categories scs execution_passed =
     bnd (vsub df ''output_schema'') (\<lambda>schema. bnd (vsub contract ''suite_version'') (\<lambda>suite_version.
     bnd (vsub df ''version'') (\<lambda>version.
     bnd (vsub binding ''candidate'') (\<lambda>candidate. bnd (vsub binding ''binary_sha256'') (\<lambda>binary.
     bnd (vsub binding ''environment'') (\<lambda>environment. bnd (vsub binding ''inputs'') (\<lambda>inputs.
     bnd (minimum_of (map sc_gain scs)) (\<lambda>lowest. bnd (maximum_of (map sc_gain scs)) (\<lambda>highest.
     bnd (minimum_of (map sc_relation_precision scs)) (\<lambda>evidence_precision.
     bnd (maximum_of (map sc_latency scs)) (\<lambda>latency. bnd (maximum_of (map sc_semantic scs)) (\<lambda>semantic.
     bnd (maximum_of (map sc_agent_query scs)) (\<lambda>agent_query. bnd (maximum_of (map sc_end_to_end scs)) (\<lambda>end_to_end.
     bnd (maximum_of (map sc_peak scs)) (\<lambda>peak.
     let quality_passed = list_all (\<lambda>(_, c). truthy (fld c ''passed'')) categories in
     Inr (VDict [(''schema'', schema), (''suite_version'', suite_version), (''dataset_version'', version), (''mode'', mode),
       (''candidate'', candidate), (''binary_sha256'', binary), (''environment'', environment), (''inputs'', inputs),
       (''categories'', VDict categories),
       (''organization_gain'', VDict [(''passed'', VBool (gain_passed scs)), (''minimum'', VFloat lowest), (''maximum'', VFloat highest),
          (''evidence_precision_minimum'', VFloat evidence_precision)]),
       (''quality'', VDict [(''passed'', VBool quality_passed), (''scenarios'', VList (map sc_detail scs))]),
       (''latency'', VDict [(''passed'', VBool execution_passed), (''ownward_query_max_ms'', VFloat latency),
          (''semantic_collaboration_max_ms'', VFloat semantic), (''agent_query_max_ms'', VFloat agent_query),
          (''scenario_end_to_end_max_ms'', VFloat end_to_end)]),
       (''resources'', VDict [(''passed'', VBool execution_passed), (''peak_mib'', VFloat peak)]),
       (''passed'', VBool (quality_passed \<and> gain_passed scs \<and> execution_passed)),
       (''started_at'', VStr now), (''finished_at'', VStr now)]))))))))))))))))"

text \<open>The keys of a dictionary display, in the order of their first occurrence.\<close>

definition distinct_first :: "string list \<Rightarrow> string list" where
  "distinct_first ks = foldl (\<lambda>seen k. if k \<in> set seen then seen else seen @ [k]) [] ks"

definition score_selected ::
    "(nat \<Rightarrow> pyfloat) \<Rightarrow> (pyfloat list \<Rightarrow> pyfloat) \<Rightarrow> string list \<Rightarrow> vdict \<Rightarrow> vdict \<Rightarrow> scored list res" where
  "score_selected log2 fsum categories selected by_id =
     mapm (\<lambda>(identifier, scenario). case vd_get identifier by_id of
         None \<Rightarrow> Inl (Exn KeyError (py_str identifier))
       | Some result \<Rightarrow> score_scenario log2 fsum categories identifier scenario result) selected"

definition score_product ::
    "(nat \<Rightarrow> pyfloat) \<Rightarrow> (pyfloat list \<Rightarrow> pyfloat) \<Rightarrow> string \<Rightarrow> val \<Rightarrow> val \<Rightarrow> val \<Rightarrow> val \<Rightarrow> val list \<Rightarrow> val \<Rightarrow> val res" where
  "score_product log2 fsum now contract dataset qualification mode results binding =
     bnd (vpath contract [''evidence_layers'', ''product'']) (\<lambda>df.
     bnd (in_set mode [''qualification'', ''full'']) (\<lambda>mode_ok. chk mode_ok (EvErr ''invalid product scoring mode'')
     (bnd (vget dataset ''scenarios'') (\<lambda>scenarios_value. chk (is_list scenarios_value) (EvErr ''invalid scenarios'')
     (bnd (py_iter scenarios_value) (\<lambda>scenarios.
     bnd (wanted_ids mode qualification scenarios) (\<lambda>wanted.
     bnd (select_scenarios wanted scenarios) (\<lambda>selected.
     bnd (results_by_id results) (\<lambda>by_id.
     chk (set_eq (map fst by_id) (map fst selected)) (EvErr ''the results must cover exactly the selected scenarios'')
     (bnd (bnd (vsub df ''categories'') py_iter) (\<lambda>names.
     let categories = distinct_first (map str_val names) in
     bnd (score_selected log2 fsum categories selected by_id) (\<lambda>scs.
     bnd (mapm (category_entry scs) categories) (\<lambda>entries.
     bnd (within_budgets results) (\<lambda>execution_passed.
     bnd (product_report now contract df mode binding entries scs execution_passed) (\<lambda>report.
     bnd (validate_layer_report contract ''product'' report []) (\<lambda>_. Inr report))))))))))))))))"

section \<open>The results against the tasks\<close>

definition RESULT_ID_FIELDS :: "string list" where
  "RESULT_ID_FIELDS = [''direct_ids'', ''relation_ids'', ''returned_ids'', ''navigation_ids'']"

definition RESULT_MEASURES :: "string list" where
  "RESULT_MEASURES = [''latency_ms'', ''semantic_ms'', ''agent_query_ms'', ''end_to_end_ms'', ''peak_mib'']"

abbreviation PrErr :: "string \<Rightarrow> exn" where
  "PrErr \<equiv> Exn ProductExecutionError"

text \<open>The allowed identifiers of each task.\<close>

definition allowed_ids :: "val list \<Rightarrow> vdict res" where
  "allowed_ids tasks =
     foldm (\<lambda>allowed item.
       bnd (vsub item ''scenario_id'') (\<lambda>i.
       bnd (bnd (vsub item ''information'') py_iter) (\<lambda>information.
       bnd (mapm (\<lambda>value. bnd (vsub value ''node_id'') hash_key) information) (\<lambda>ids.
       bnd (hash_key i) (\<lambda>_. Inr (vd_put i (VList (dedup ids)) allowed)))))) [] tasks"

definition validate_ids :: "val \<Rightarrow> val list \<Rightarrow> string \<Rightarrow> unit res" where
  "validate_ids item allowed field =
     bnd (vget item field) (\<lambda>v. chk (is_list v) (PrErr (field @ '' invalid''))
     (bnd (py_iter v) (\<lambda>identifiers. bnd (py_set v) (\<lambda>s.
      checks [(length identifiers = length s, PrErr (field @ '' invalid'')),
              (set_le s allowed, PrErr (field @ '' not mapped to the frozen information''))] (Inr ())))))"

definition nonnegative :: "val \<Rightarrow> bool" where
  "nonnegative v = (case num_of v of Some x \<Rightarrow> fl_le (Fin 0) x | None \<Rightarrow> False)"

definition validate_result :: "vdict \<Rightarrow> val \<Rightarrow> unit res" where
  "validate_result allowed item =
     bnd (vsub item ''scenario_id'') (\<lambda>identifier.
     bnd (case vd_get identifier allowed of None \<Rightarrow> Inl (Exn KeyError (py_str identifier)) | Some v \<Rightarrow> py_iter v) (\<lambda>ids.
     bnd (each (validate_ids item ids) RESULT_ID_FIELDS) (\<lambda>_.
     bnd (py_set (fld item ''relation_ids'')) (\<lambda>relation. bnd (py_set (fld item ''direct_ids'')) (\<lambda>direct.
     chk (set_le relation direct) (PrErr ''relation evidence outside the direct results'')
     (let facts = fld item ''answer_facts'' in
      checks [(is_list facts \<and> list_all (\<lambda>v. is_str v \<and> truthy v) (case facts of VList xs \<Rightarrow> xs | _ \<Rightarrow> []), PrErr ''invalid answer_facts''),
              (is_true (fld item ''grounded''), PrErr ''the answer is not grounded in tool evidence''),
              (is_bool (fld item ''used_navigation''), PrErr ''invalid navigation evidence''),
              (\<not> truthy (fld item ''navigation_ids'') \<or> is_true (fld item ''used_navigation''), PrErr ''navigation without a call''),
              (list_all (\<lambda>f. nonnegative (fld item f)) RESULT_MEASURES, PrErr ''invalid measure''),
              (list_all (\<lambda>f. is_bool (fld item f)) [''within_latency_budget'', ''within_resource_budget''], PrErr ''invalid budget verdict'')]
      (Inr ())))))))"

definition score_results ::
    "(nat \<Rightarrow> pyfloat) \<Rightarrow> (pyfloat list \<Rightarrow> pyfloat) \<Rightarrow> string \<Rightarrow> val \<Rightarrow> val \<Rightarrow> val \<Rightarrow> val \<Rightarrow> val \<Rightarrow> val \<Rightarrow> val res" where
  "score_results log2 fsum now contract dataset qualification tasks results binding =
     bnd (vget tasks ''schema'') (\<lambda>task_schema. chk (task_schema = VStr ''ownward.product-tasks/v1'') (PrErr ''invalid task schema'')
     (bnd (vget results ''schema'') (\<lambda>result_schema. chk (result_schema = VStr ''ownward.product-results/v1'') (PrErr ''invalid result schema'')
     (checks [(py_eq (fld results ''dataset_version'') (fld tasks ''dataset_version''), PrErr ''another data version''),
              (py_eq (fld results ''mode'') (fld tasks ''mode''), PrErr ''another mode''),
              (is_list (fld tasks ''tasks'') \<and> is_list (fld results ''results''), PrErr ''invalid tasks or results'')]
     (bnd (py_iter (fld tasks ''tasks'')) (\<lambda>task_items. bnd (py_iter (fld results ''results'')) (\<lambda>result_items.
      bnd (allowed_ids task_items) (\<lambda>allowed.
      bnd (mapm (\<lambda>item. bnd (vget item ''scenario_id'') hash_key) result_items) (\<lambda>ids.
      chk (set_eq ids (map fst allowed)) (PrErr ''the results must cover exactly the tasks'')
     (bnd (each (validate_result allowed) result_items) (\<lambda>_.
      bnd (vsub tasks ''mode'') (\<lambda>mode.
      reraise EvidenceError ProductExecutionError
        (score_product log2 fsum now contract dataset qualification mode result_items binding)))))))))))))"

end
