(* ===== verification/Rounding.thy ===== *)
theory Rounding
  imports Py_Text
begin

text \<open>
  Facts about the rounding to doubles: how far it moves a number, and that a proper fraction with a small denominator is
  rounded neither to zero nor to one.
\<close>

lemma bitlen_bounds: "0 < n \<Longrightarrow> 2 ^ (bitlen_nat n - 1) \<le> n \<and> n < 2 ^ bitlen_nat n \<and> 0 < bitlen_nat n"
proof (induction n rule: less_induct)
  case (less n)
  show ?case
  proof (cases "n div 2 = 0")
    case True
    then have "n = 1" using less.prems by auto
    then show ?thesis by (simp add: bitlen_nat.simps)
  next
    case False
    then have ih: "2 ^ (bitlen_nat (n div 2) - 1) \<le> n div 2" "n div 2 < 2 ^ bitlen_nat (n div 2)" "0 < bitlen_nat (n div 2)"
      using less.IH [of "n div 2"] less.prems by auto
    have b: "bitlen_nat n = Suc (bitlen_nat (n div 2))" using less.prems by (subst bitlen_nat.simps) simp
    obtain k where k: "bitlen_nat (n div 2) = Suc k" using ih(3) by (cases "bitlen_nat (n div 2)") auto
    show ?thesis using ih(1,2) unfolding b k by simp linarith
  qed
qed

lemma rpow_powi: "rpow b i = power_int b i"
  by (simp add: rpow_def power_int_def power_inverse)

lemma rpow_add: "b \<noteq> 0 \<Longrightarrow> rpow b (i + j) = rpow b i * rpow b j"
  by (simp add: rpow_powi power_int_add)

lemma rpow_pos: "0 < b \<Longrightarrow> 0 < rpow b i"
  by (simp add: rpow_powi)

lemma rpow_mono: "i \<le> j \<Longrightarrow> rpow 2 i \<le> rpow 2 j"
  by (simp add: rpow_powi power_int_increasing)

lemma rpow_nat: "rpow b (int k) = b ^ k"
  by (simp add: rpow_def)

lemma ilog2_le:
  assumes "0 < x"
  shows "rpow 2 (ilog2 x) \<le> x"
proof -
  obtain n d where q: "quotient_of x = (n, d)" by (cases "quotient_of x")
  have d: "0 < d" "x = of_int n / of_int d" using quotient_of_denom_pos [OF q] quotient_of_div [OF q] by auto
  then have n: "0 < n" using assms by (simp add: zero_less_divide_iff)
  let ?e = "int (bitlen_nat (nat n)) - int (bitlen_nat (nat d))"
  have bn: "2 ^ (bitlen_nat (nat n) - 1) \<le> nat n" "0 < bitlen_nat (nat n)" using bitlen_bounds [of "nat n"] n by auto
  have bd: "nat d < 2 ^ bitlen_nat (nat d)" using bitlen_bounds [of "nat d"] d by auto
  have "rpow 2 (?e - 1) \<le> x"
  proof -
    let ?a = "bitlen_nat (nat n)" and ?c = "bitlen_nat (nat d)"
    have "rpow 2 (?e - 1) * rpow 2 (int ?c) = rpow 2 (int (?a - 1))"
      using bn(2) by (simp add: rpow_add [symmetric])
    then have "rpow 2 (?e - 1) * 2 ^ ?c = 2 ^ (?a - 1)" by (simp add: rpow_nat)
    moreover have "(2::rat) ^ (?a - 1) \<le> of_int n"
      using bn(1) n by (metis nat_0_le of_int_of_nat_eq of_nat_le_iff of_nat_numeral of_nat_power less_imp_le)
    moreover have "of_int d \<le> (2::rat) ^ ?c"
      using bd d(1) by (metis nat_0_le of_int_of_nat_eq of_nat_le_iff of_nat_numeral of_nat_power less_imp_le)
    moreover have "0 \<le> rpow 2 (?e - 1)" using rpow_pos [of 2 "?e - 1"] by simp
    ultimately have "rpow 2 (?e - 1) * of_int d \<le> of_int n"
      using mult_left_mono [of "of_int d" "2 ^ ?c" "rpow 2 (?e - 1)"] by linarith
    then show ?thesis using d by (simp add: pos_le_divide_eq)
  qed
  then show ?thesis by (simp add: ilog2_def q Let_def)
qed

lemma round_half_even_near: "\<bar>of_int (round_half_even z) - z\<bar> \<le> 1 / 2"
proof -
  define f d where "f = \<lfloor>z\<rfloor>" and "d = z - of_int f"
  have d: "0 \<le> d" "d < 1" unfolding d_def f_def by linarith+
  have z: "z = of_int f + d" by (simp add: d_def)
  have r: "round_half_even z = (if d < 1 / 2 then f else if 1 / 2 < d then f + 1 else if even f then f else f + 1)"
    by (simp add: round_half_even_def f_def d_def Let_def)
  consider "d < 1 / 2" | "1 / 2 < d" | "d = 1 / 2" by linarith
  then show ?thesis
  proof cases
    case 1
    then have "round_half_even z = f" using r by simp
    then have "of_int (round_half_even z) - z = - d" by (simp add: d_def)
    then show ?thesis using 1 d(1) by simp
  next
    case 2
    then have "round_half_even z = f + 1" using r by simp
    then have "of_int (round_half_even z) - z = 1 - d" by (simp add: d_def)
    then show ?thesis using 2 d(2) by simp
  next
    case 3
    then have "round_half_even z = f \<or> round_half_even z = f + 1" using r by simp
    then have "of_int (round_half_even z) - z = - d \<or> of_int (round_half_even z) - z = 1 - d" by (auto simp: d_def)
    then show ?thesis using 3 by auto
  qed
qed

lemma round_half_even_ge: "1 \<le> z \<Longrightarrow> 1 \<le> round_half_even z"
  unfolding round_half_even_def Let_def by (auto simp: le_floor_iff)

text \<open>A number between \<open>2 ^ -53\<close> and \<open>1 - 2 ^ -53\<close>.\<close>

lemma round_below_one:
  assumes "1 / 2 ^ 53 < x" and "x < 1 - 1 / 2 ^ 53"
  shows "\<exists>y. round_double x = Fin y \<and> 0 < y \<and> y < 1"
proof -
  have x: "0 < x" "x < 1" using assms by (simp_all add: field_simps)
  let ?q = "max (ilog2 x - 52) (- 1074)"
  define p where "p = rpow 2 ?q"
  define m where "m = round_half_even (x / p)"
  have p: "0 < p" by (simp add: p_def rpow_pos)
  have "ilog2 x < 0"
  proof (rule ccontr)
    assume "\<not> ilog2 x < 0"
    then have "rpow 2 0 \<le> rpow 2 (ilog2 x)" by (intro rpow_mono) simp
    then show False using ilog2_le [OF x(1)] x(2) by (simp add: rpow_powi)
  qed
  then have "p \<le> rpow 2 (- 53)" unfolding p_def by (intro rpow_mono) simp
  then have ph: "p \<le> 1 / 2 ^ 53" by (simp add: rpow_def inverse_eq_divide)
  have "p \<le> x"
  proof (cases "- 1074 \<le> ilog2 x - 52")
    case True
    then have "p \<le> rpow 2 (ilog2 x)" unfolding p_def by (intro rpow_mono) simp
    then show ?thesis using ilog2_le [OF x(1)] by simp
  next
    case False
    then have "p \<le> rpow 2 (- 53)" unfolding p_def by (intro rpow_mono) simp
    then show ?thesis using assms(1) by (simp add: rpow_def inverse_eq_divide)
  qed
  then have "1 \<le> x / p" using p by simp
  then have m1: "1 \<le> m" unfolding m_def by (rule round_half_even_ge)
  have "of_int m * p - x = (of_int m - x / p) * p" using p by (simp add: left_diff_distrib)
  also have "\<dots> \<le> \<bar>of_int m - x / p\<bar> * p" using p by (intro mult_right_mono abs_ge_self) simp
  also have "\<dots> \<le> 1 / 2 * p"
    using round_half_even_near [of "x / p"] p unfolding m_def by (intro mult_right_mono) simp_all
  finally have "of_int m * p - x \<le> 1 / 2 * p" .
  then have y: "of_int m * p < 1" using assms(2) ph p by linarith
  have "0 < of_int m * p" using m1 p by simp
  moreover have "\<not> rpow 2 1024 \<le> of_int m * p"
  proof -
    have "rpow 2 0 \<le> rpow 2 1024" by (rule rpow_mono) simp
    then show ?thesis using y by (simp add: rpow_powi)
  qed
  ultimately show ?thesis
    using x y unfolding round_double_def round_pos_def Let_def p_def [symmetric] m_def [symmetric] by simp
qed

end
