(* ===== verification/Scoring_Facts.thy ===== *)
theory Scoring_Facts
  imports Product_Scoring Rounding
begin

text \<open>
  What the scores say: a ratio of two counts is rounded, but it is one, and zero, exactly when the quotient is. From that
  the verdict of \<open>score_product\<close> follows without any arithmetic: \<open>answered\<close>, \<open>gained\<close> and \<open>judged\<close> state it
  over the sets of identifiers.
\<close>

section \<open>Ratios\<close>

lemma bitlen_1 [simp]: "bitlen_nat (Suc 0) = Suc 0"
  by (simp add: bitlen_nat.simps)

lemma round_double_1 [simp]: "round_double 1 = Fin 1"
proof -
  have q: "ilog2 1 = 0" by (simp add: ilog2_def rpow_def)
  have p: "rpow 2 (- 52) = 1 / 2 ^ 52" by (simp add: rpow_def inverse_eq_divide)
  have r: "round_half_even (2 ^ 52) = 2 ^ 52" by (simp add: round_half_even_def Let_def)
  have "rpow 2 0 < rpow 2 1024" by (simp add: rpow_powi)
  then have "\<not> rpow 2 1024 \<le> 1" by (simp add: rpow_def)
  then show ?thesis using r by (simp add: round_double_def round_pos_def q p Let_def)
qed

lemma round_double_0 [simp]: "round_double 0 = Fin 0"
  by (simp add: round_double_def)

lemma ratio_cases:
  assumes "n \<le> m" and "0 < m" and "m < 2 ^ 53"
  shows "\<exists>y. ratio n m = Fin y \<and> 0 \<le> y \<and> y \<le> 1 \<and> (y = 1 \<longleftrightarrow> n = m) \<and> (0 < y \<longleftrightarrow> 0 < n)"
proof -
  consider "n = 0" | "n = m" "0 < n" | "0 < n" "n < m" using assms(1) by linarith
  then show ?thesis
  proof cases
    case 1
    then show ?thesis using assms(2) by (simp add: ratio_def)
  next
    case 2
    then show ?thesis by (simp add: ratio_def)
  next
    case 3
    let ?n = "of_nat n :: rat" and ?m = "of_nat m :: rat"
    have m: "0 < ?m" "?m < 2 ^ 53" using assms(2,3) of_nat_less_iff [of m "2 ^ 53", where ?'a = rat] by simp_all
    have n: "1 \<le> ?n" "?n + 1 \<le> ?m" using 3 of_nat_mono [of "n + 1" m, where ?'a = rat] by simp_all
    have g: "1 / 2 ^ 53 < 1 / ?m" using m by (intro divide_strict_left_mono) simp_all
    have "1 / ?m \<le> ?n / ?m" using n m by (intro divide_right_mono) simp_all
    then have lo: "1 / 2 ^ 53 < ?n / ?m" using g by linarith
    have "?n / ?m \<le> (?m - 1) / ?m" using n m by (intro divide_right_mono) simp_all
    also have "\<dots> = 1 - 1 / ?m" using m by (simp add: diff_divide_distrib)
    finally have "?n / ?m < 1 - 1 / 2 ^ 53" using g by linarith
    then obtain y where "round_double (?n / ?m) = Fin y" "0 < y" "y < 1" using round_below_one [OF lo] by blast
    then show ?thesis using 3 by (simp add: ratio_def)
  qed
qed

section \<open>Maxima and minima of finite numbers\<close>

lemma fl_max_Fin: "fl_max (Fin x) (map Fin ys) = Fin (foldl max x ys)"
proof (induction ys arbitrary: x)
  case (Cons y ys)
  then show ?case by (cases "x < y") (simp_all add: fl_max_def max_def)
qed (simp add: fl_max_def)

lemma fl_min_Fin: "fl_min (Fin x) (map Fin ys) = Fin (foldl min x ys)"
proof (induction ys arbitrary: x)
  case (Cons y ys)
  then show ?case by (cases "y < x") (simp_all add: fl_min_def min_def)
qed (simp add: fl_min_def)

lemma foldl_max_less: "z < foldl max x ys \<longleftrightarrow> (\<exists>y \<in> set (x # ys). z < (y::rat))"
  by (induction ys arbitrary: x) (auto simp: less_max_iff_disj)

lemma foldl_min_ge: "z \<le> foldl min x ys \<longleftrightarrow> (\<forall>y \<in> set (x # ys). z \<le> (y::rat))"
  by (induction ys arbitrary: x) auto

lemma all_Fin: "(\<forall>x \<in> set xs. \<exists>y. x = Fin y) \<Longrightarrow> \<exists>ys. xs = map Fin ys"
proof (induction xs)
  case (Cons x xs)
  then obtain ys y where "xs = map Fin ys" "x = Fin y" by auto
  then show ?case by (intro exI [of _ "y # ys"]) simp
qed simp

lemma gain_passed_iff:
  assumes "scs \<noteq> []"
    and "\<And>sc. sc \<in> set scs \<Longrightarrow> \<exists>y. sc_gain sc = Fin y \<and> 0 \<le> y \<and> (0 < y \<longleftrightarrow> P sc)"
    and "\<And>sc. sc \<in> set scs \<Longrightarrow> \<exists>y. sc_relation_precision sc = Fin y \<and> y \<le> 1 \<and> (y = 1 \<longleftrightarrow> Q sc)"
  shows "gain_passed scs \<longleftrightarrow> (\<exists>sc \<in> set scs. P sc) \<and> (\<forall>sc \<in> set scs. Q sc)"
proof -
  obtain gs where gs: "map sc_gain scs = map Fin gs" using all_Fin [of "map sc_gain scs"] assms(2) by fastforce
  obtain rs where rs: "map sc_relation_precision scs = map Fin rs"
    using all_Fin [of "map sc_relation_precision scs"] assms(3) by fastforce
  obtain g gt r rt where c: "gs = g # gt" "rs = r # rt" using gs rs assms(1) by (cases gs; cases rs) auto
  have l: "length gs = length scs" "length rs = length scs" using gs rs by (metis length_map)+
  have ge: "0 \<le> gs ! i \<and> (0 < gs ! i \<longleftrightarrow> P (scs ! i))" if "i < length scs" for i
  proof -
    have "sc_gain (scs ! i) = Fin (gs ! i)" using gs that l by (metis nth_map)
    then show ?thesis using assms(2) [of "scs ! i"] that by auto
  qed
  have re: "rs ! i \<le> 1 \<and> (rs ! i = 1 \<longleftrightarrow> Q (scs ! i))" if "i < length scs" for i
  proof -
    have "sc_relation_precision (scs ! i) = Fin (rs ! i)" using rs that l by (metis nth_map)
    then show ?thesis using assms(3) [of "scs ! i"] that by auto
  qed
  have "gain_passed scs \<longleftrightarrow> (\<exists>y \<in> set gs. 0 < y) \<and> (\<forall>y \<in> set gs. 0 \<le> y) \<and> foldl min r rt = 1"
    unfolding gain_passed_def gs rs c by (simp add: or_else_def fl_max_Fin fl_min_Fin foldl_max_less foldl_min_ge)
  also have "(\<exists>y \<in> set gs. 0 < y) \<longleftrightarrow> (\<exists>sc \<in> set scs. P sc)" using ge l by (metis in_set_conv_nth)
  also have "(\<forall>y \<in> set gs. 0 \<le> y) \<longleftrightarrow> True" using ge l by (metis in_set_conv_nth)
  also have "foldl min r rt = 1 \<longleftrightarrow> (\<forall>sc \<in> set scs. Q sc)"
  proof -
    have up: "y \<le> 1" if "y \<in> set rs" for y using that re l by (metis in_set_conv_nth)
    have "foldl min r rt \<le> r" using foldl_min_ge [of "foldl min r rt" r rt] by simp
    then have "foldl min r rt = 1 \<longleftrightarrow> 1 \<le> foldl min r rt" using up [of r] c by auto
    also have "\<dots> \<longleftrightarrow> (\<forall>y \<in> set rs. y = 1)" unfolding foldl_min_ge using up c by (auto intro: antisym)
    also have "\<dots> \<longleftrightarrow> (\<forall>sc \<in> set scs. Q sc)" using re l by (metis in_set_conv_nth)
    finally show ?thesis .
  qed
  finally show ?thesis by simp
qed

section \<open>One scenario\<close>

text \<open>The identifiers or facts that a field of a value lists, texts all of them and not too many for exact counting.\<close>

definition text_items :: "val \<Rightarrow> string \<Rightarrow> string list" where
  "text_items v k = map str_val (case fldd v k (VList []) of VList xs \<Rightarrow> xs | _ \<Rightarrow> [])"

definition plain_texts :: "val \<Rightarrow> string \<Rightarrow> bool" where
  "plain_texts v k = (case fldd v k (VList []) of VList xs \<Rightarrow> list_all is_str xs \<and> length xs < 2 ^ 53 | _ \<Rightarrow> False)"

definition plain_case :: "val \<times> val \<Rightarrow> bool" where
  "plain_case = (\<lambda>(query, result). list_all (plain_texts query) [''expected_ids'', ''forbidden_ids'', ''answer_facts''] \<and>
     distinct (text_items query ''expected_ids'') \<and>
     list_all (plain_texts result) [''returned_ids'', ''relation_ids'', ''answer_facts''])"

text \<open>The task is answered; its relations contributed; its relations are all expected.\<close>

definition answered :: "val \<times> val \<Rightarrow> bool" where
  "answered = (\<lambda>(query, result).
     set (text_items query ''expected_ids'') \<subseteq> set (text_items result ''returned_ids'') \<and>
     set (text_items query ''forbidden_ids'') \<inter> set (text_items result ''returned_ids'') = {} \<and>
     set (text_items result ''answer_facts'') = set (text_items query ''answer_facts'') \<and> is_true (fld result ''grounded''))"

definition gained :: "val \<times> val \<Rightarrow> bool" where
  "gained = (\<lambda>(query, result). text_items query ''expected_ids'' = [] \<or>
     set (text_items query ''expected_ids'') \<inter> set (text_items result ''relation_ids'') \<noteq> {})"

definition on_target :: "val \<times> val \<Rightarrow> bool" where
  "on_target = (\<lambda>(query, result). set (text_items result ''relation_ids'') \<subseteq> set (text_items query ''expected_ids''))"

lemma plain_textsD:
  assumes "plain_texts v k"
  shows "fldd v k (VList []) = VList (strs (text_items v k)) \<and> length (text_items v k) < 2 ^ 53"
  using assms by (auto simp: plain_texts_def text_items_def all_str_strs comp_def split: val.splits)

lemma list_field_plain: "plain_texts v k \<Longrightarrow> list_field v k = Inr xs \<Longrightarrow> xs = strs (text_items v k)"
  by (auto simp: list_field_def exn_elims dest: plain_textsD)

lemma set_field_plain: "plain_texts v k \<Longrightarrow> set_field v k = Inr xs \<Longrightarrow> xs = dedup (strs (text_items v k))"
  by (auto simp: set_field_def exn_elims py_set_strs dest: plain_textsD)

lemma count_common:
  "length (filter (\<lambda>x. vmem x (strs ys)) (dedup (strs xs))) = card (set xs \<inter> set ys)"
proof -
  obtain zs where zs: "dedup (strs xs) = strs zs" "set zs = set xs" "distinct zs" using dedup_strs [of xs] by blast
  have "length (filter (\<lambda>x. vmem x (strs ys)) (strs zs)) = length (filter (\<lambda>z. z \<in> set ys) zs)"
    by (simp add: filter_map comp_def)
  also have "\<dots> = card (set zs \<inter> set ys)"
    using zs(3) distinct_card [of "filter (\<lambda>z. z \<in> set ys) zs"] by (simp add: Int_def)
  finally show ?thesis using zs by simp
qed

lemma recall_texts:
  assumes "recall_of (strs xs) (strs ys) = Inr r" and "distinct ys" and "length ys < 2 ^ 53"
  shows "\<exists>y. r = Fin y \<and> 0 \<le> y \<and> (y = 1 \<longleftrightarrow> set ys \<subseteq> set xs) \<and> (0 < y \<longleftrightarrow> ys = [] \<or> set ys \<inter> set xs \<noteq> {})"
proof (cases "ys = []")
  case True
  then show ?thesis using assms(1) by (simp add: recall_of_def)
next
  case False
  let ?c = "card (set xs \<inter> set ys)"
  have r: "r = ratio ?c (length ys)" using assms(1) False by (simp add: recall_of_def exn_elims count_common)
  have l: "length ys = card (set ys)" using assms(2) distinct_card by metis
  have "?c \<le> length ys" unfolding l by (intro card_mono) auto
  moreover have "?c = length ys \<longleftrightarrow> set ys \<subseteq> set xs"
  proof
    assume "?c = length ys"
    then have "set xs \<inter> set ys = set ys" unfolding l by (intro card_subset_eq) auto
    then show "set ys \<subseteq> set xs" by auto
  qed (simp add: l Int_absorb1)
  moreover have "0 < ?c \<longleftrightarrow> set ys \<inter> set xs \<noteq> {}" by (auto simp: card_gt_0_iff)
  ultimately show ?thesis using ratio_cases [of ?c "length ys"] False assms(3) r by auto
qed

lemma relation_precision_texts:
  assumes "length xs < 2 ^ 53"
  shows "\<exists>y. relation_precision_of (dedup (strs xs)) (strs ys) = Fin y \<and> y \<le> 1 \<and> (y = 1 \<longleftrightarrow> set xs \<subseteq> set ys)"
proof (cases "xs = []")
  case True
  then show ?thesis by (simp add: relation_precision_of_def)
next
  case False
  let ?c = "card (set xs \<inter> set ys)" and ?d = "card (set xs)"
  have "?c \<le> ?d" "0 < ?d" "?d < 2 ^ 53"
    using False assms card_length [of xs] by (auto intro: card_mono simp: card_gt_0_iff)
  moreover have "?c = ?d \<longleftrightarrow> set xs \<subseteq> set ys"
  proof
    assume "?c = ?d"
    then have "set xs \<inter> set ys = set xs" by (intro card_subset_eq) auto
    then show "set xs \<subseteq> set ys" by auto
  qed (simp add: Int_absorb2)
  moreover have "dedup (strs xs) \<noteq> []" using \<open>0 < ?d\<close> length_dedup_strs [of xs] by auto
  ultimately show ?thesis
    using ratio_cases [of ?c ?d] by (auto simp: relation_precision_of_def count_common length_dedup_strs)
qed

lemma vmem_dedup_strs: "vmem (VStr s) (dedup (strs xs)) \<longleftrightarrow> s \<in> set xs"
  using dedup_strs [of xs] by (metis vmem_strs)

lemma score_scenario_texts:
  assumes "score_scenario log2 fsum categories identifier scenario result = Inr sc"
    and "plain_case (fld (fld scenario ''truth'') ''query'', result)"
  defines "c \<equiv> (fld (fld scenario ''truth'') ''query'', result)"
  shows "sc_passed sc \<longleftrightarrow> answered c"
    and "\<exists>y. sc_gain sc = Fin y \<and> 0 \<le> y \<and> (0 < y \<longleftrightarrow> gained c)"
    and "\<exists>y. sc_relation_precision sc = Fin y \<and> y \<le> 1 \<and> (y = 1 \<longleftrightarrow> on_target c)"
    and "sc_category sc \<in> set categories"
proof -
  let ?q = "fld (fld scenario ''truth'') ''query''"
  let ?e = "text_items ?q ''expected_ids''" and ?f = "text_items ?q ''forbidden_ids''" and ?a = "text_items ?q ''answer_facts''"
  let ?n = "text_items result ''returned_ids''" and ?l = "text_items result ''relation_ids''" and ?b = "text_items result ''answer_facts''"
  have p: "plain_texts ?q ''expected_ids''" "plain_texts ?q ''forbidden_ids''" "plain_texts ?q ''answer_facts''" "distinct ?e"
    "plain_texts result ''returned_ids''" "plain_texts result ''relation_ids''" "plain_texts result ''answer_facts''"
    using assms(2) by (simp_all add: plain_case_def)
  obtain expected forbidden returned relation recall expected_facts actual_facts gain relation_set task_class where s:
      "bnd (vsub ?q ''expected_ids'') py_iter = Inr expected" "set_field ?q ''forbidden_ids'' = Inr forbidden"
      "list_field result ''returned_ids'' = Inr returned" "list_field result ''relation_ids'' = Inr relation"
      "recall_of returned expected = Inr recall" "set_field ?q ''answer_facts'' = Inr expected_facts"
      "set_field result ''answer_facts'' = Inr actual_facts" "recall_of relation expected = Inr gain"
      "py_set (VList relation) = Inr relation_set" "vmem task_class (strs categories)"
      "sc_passed sc = (fl_eq recall (Fin 1) \<and> \<not> list_ex (\<lambda>x. vmem x returned) forbidden \<and>
         set_eq actual_facts expected_facts \<and> is_true (fld result ''grounded''))"
      "sc_gain sc = gain" "sc_relation_precision sc = relation_precision_of relation_set expected"
      "sc_category sc = str_val task_class"
    using assms(1) unfolding score_scenario_def by (auto simp: exn_elims Let_def)
  have e: "expected = strs ?e"
    using s(1) plain_textsD [OF p(1)] by (auto simp: exn_elims fldd_has [of ?q "''expected_ids''" "VList []"])
  note f = set_field_plain [OF p(2) s(2)] and n = list_field_plain [OF p(5) s(3)] and l = list_field_plain [OF p(6) s(4)]
    and a = set_field_plain [OF p(3) s(6)] and b = set_field_plain [OF p(7) s(7)]
  have r: "relation_set = dedup (strs ?l)" using s(9) by (simp add: l py_set_strs)
  obtain y where y: "recall = Fin y" "y = 1 \<longleftrightarrow> set ?e \<subseteq> set ?n"
    using recall_texts [OF s(5) [unfolded e n] p(4)] plain_textsD [OF p(1)] by blast
  have fb: "list_ex (\<lambda>x. vmem x returned) forbidden \<longleftrightarrow> set ?f \<inter> set ?n \<noteq> {}"
  proof -
    obtain zs where "dedup (strs ?f) = strs zs" "set zs = set ?f" using dedup_strs by blast
    then show ?thesis unfolding f n by (auto simp: list_ex_iff)
  qed
  have fa: "set_eq actual_facts expected_facts \<longleftrightarrow> set ?b = set ?a"
  proof -
    obtain zs where "dedup (strs ?a) = strs zs" "set zs = set ?a" using dedup_strs by blast
    then show ?thesis unfolding a b by simp
  qed
  show "sc_passed sc \<longleftrightarrow> answered c" using y by (simp add: s(11) fb fa answered_def c_def)
  show "\<exists>y. sc_gain sc = Fin y \<and> 0 \<le> y \<and> (0 < y \<longleftrightarrow> gained c)"
    using recall_texts [OF s(8) [unfolded e l] p(4)] plain_textsD [OF p(1)] by (auto simp: s(12) gained_def c_def)
  show "\<exists>y. sc_relation_precision sc = Fin y \<and> y \<le> 1 \<and> (y = 1 \<longleftrightarrow> on_target c)"
    using relation_precision_texts [of ?l ?e] plain_textsD [OF p(6)] by (simp add: s(13) r e on_target_def c_def)
  show "sc_category sc \<in> set categories" using s(10,14) by (auto simp: vmem_strs_iff)
qed

section \<open>The report\<close>

text \<open>The query and the result of each selected scenario, and the budgets of a result.\<close>

definition selected_of :: "val \<Rightarrow> val \<Rightarrow> val \<Rightarrow> vdict res" where
  "selected_of dataset qualification mode =
     bnd (py_iter (fld dataset ''scenarios'')) (\<lambda>scenarios.
     bnd (wanted_ids mode qualification scenarios) (\<lambda>wanted. select_scenarios wanted scenarios))"

definition judged :: "val \<Rightarrow> val \<Rightarrow> val \<Rightarrow> val list \<Rightarrow> (val \<times> val) list" where
  "judged dataset qualification mode results =
     (case (selected_of dataset qualification mode, results_by_id results) of
        (Inr selected, Inr by_id) \<Rightarrow>
          map (\<lambda>(i, scenario). (fld (fld scenario ''truth'') ''query'', case vd_get i by_id of Some r \<Rightarrow> r | None \<Rightarrow> VNone)) selected
      | _ \<Rightarrow> [])"

definition in_budget :: "val \<Rightarrow> bool" where
  "in_budget item = (is_true (fld item ''within_latency_budget'') \<and> is_true (fld item ''within_resource_budget''))"

lemma within_budgets_all: "within_budgets rs = Inr b \<Longrightarrow> b = list_all in_budget rs"
  by (induction rs) (auto simp: exn_elims in_budget_def split: if_splits)

lemma set_distinct_first [simp]: "set (distinct_first ks) = set ks"
proof -
  have "set (foldl (\<lambda>seen k. if k \<in> set seen then seen else seen @ [k]) acc ks) = set acc \<union> set ks" for acc
    by (induction ks arbitrary: acc) auto
  then show ?thesis by (simp add: distinct_first_def)
qed

lemma ta_passed_fold: "ta_passed (fold add_scored scs t) \<longleftrightarrow> ta_passed t \<and> list_all sc_passed scs"
  by (induction scs arbitrary: t) (auto simp: add_scored_def)

lemma tally_passed: "ta_passed (tally_of scs category) \<longleftrightarrow> (\<forall>sc \<in> set scs. sc_category sc = category \<longrightarrow> sc_passed sc)"
  by (auto simp: tally_of_def ta_passed_fold new_tally_def list_all_iff)

lemma category_entry_eq:
  "category_entry scs category = Inr e \<Longrightarrow> fst e = category \<and> truthy (fld (snd e) ''passed'') = ta_passed (tally_of scs category)"
  by (auto simp: category_entry_def exn_elims Let_def)

lemma quality_iff:
  assumes "mapm (category_entry scs) categories = Inr entries"
    and "\<And>sc. sc \<in> set scs \<Longrightarrow> sc_category sc \<in> set categories"
  shows "list_all (\<lambda>(_, c). truthy (fld c ''passed'')) entries \<longleftrightarrow> (\<forall>sc \<in> set scs. sc_passed sc)"
proof -
  have "list_all2 (\<lambda>x e. category_entry scs x = Inr e) categories entries" using assms(1) by (simp add: mapm_eq_Inr)
  then have "list_all (\<lambda>(_, c). truthy (fld c ''passed'')) entries \<longleftrightarrow> list_all (\<lambda>x. ta_passed (tally_of scs x)) categories"
    by (induction rule: list_all2_induct) (auto dest: category_entry_eq)
  also have "\<dots> \<longleftrightarrow> (\<forall>sc \<in> set scs. sc_passed sc)" using assms(2) by (auto simp: list_all_iff tally_passed)
  finally show ?thesis .
qed

lemma report_passed:
  assumes "product_report now contract df mode binding entries scs execution_passed = Inr report"
  shows "fld report ''passed'' =
    VBool (list_all (\<lambda>(_, c). truthy (fld c ''passed'')) entries \<and> gain_passed scs \<and> execution_passed) \<and> scs \<noteq> []"
  using assms by (auto simp: product_report_def exn_elims Let_def)

text \<open>What a returned report of \<open>score_product\<close> was computed from.\<close>

lemma score_product_parts:
  assumes "score_product log2 fsum now contract dataset qualification mode results binding = Inr report"
  obtains df selected by_id categories scs entries execution_passed where
    "selected_of dataset qualification mode = Inr selected" "results_by_id results = Inr by_id"
    "score_selected log2 fsum categories selected by_id = Inr scs"
    "mapm (category_entry scs) categories = Inr entries" "within_budgets results = Inr execution_passed"
    "product_report now contract df mode binding entries scs execution_passed = Inr report"
  using assms unfolding score_product_def selected_of_def by (auto simp: exn_elims Let_def)

lemma score_selected_judged:
  assumes "score_selected log2 fsum categories selected by_id = Inr scs"
    and "selected_of dataset qualification mode = Inr selected" and "results_by_id results = Inr by_id"
  shows "list_all2 (\<lambda>c sc. \<exists>identifier scenario. c = (fld (fld scenario ''truth'') ''query'', snd c) \<and>
      score_scenario log2 fsum categories identifier scenario (snd c) = Inr sc) (judged dataset qualification mode results) scs"
proof -
  have "list_all2 (\<lambda>x sc. (case x of (identifier, scenario) \<Rightarrow> case vd_get identifier by_id of
         None \<Rightarrow> Inl (Exn KeyError (py_str identifier))
       | Some result \<Rightarrow> score_scenario log2 fsum categories identifier scenario result) = Inr sc) selected scs"
    using assms(1) by (simp add: score_selected_def mapm_eq_Inr)
  then show ?thesis unfolding judged_def assms(2,3)
    by (auto simp: list_all2_map1 split: option.splits elim!: list_all2_mono) blast
qed

lemma score_selected_plain:
  assumes "score_selected log2 fsum categories selected by_id = Inr scs"
    and "selected_of dataset qualification mode = Inr selected" and "results_by_id results = Inr by_id"
    and "list_all plain_case (judged dataset qualification mode results)"
  shows "list_all2 (\<lambda>c sc. (sc_passed sc \<longleftrightarrow> answered c) \<and> (\<exists>y. sc_gain sc = Fin y \<and> 0 \<le> y \<and> (0 < y \<longleftrightarrow> gained c)) \<and>
      (\<exists>y. sc_relation_precision sc = Fin y \<and> y \<le> 1 \<and> (y = 1 \<longleftrightarrow> on_target c)) \<and> sc_category sc \<in> set categories)
      (judged dataset qualification mode results) scs"
proof (rule list.rel_mono_strong [OF score_selected_judged [OF assms(1-3)]])
  fix c sc
  assume c: "c \<in> set (judged dataset qualification mode results)" and "\<exists>identifier scenario.
      c = (fld (fld scenario ''truth'') ''query'', snd c) \<and> score_scenario log2 fsum categories identifier scenario (snd c) = Inr sc"
  then obtain i scenario where x: "c = (fld (fld scenario ''truth'') ''query'', snd c)"
    "score_scenario log2 fsum categories i scenario (snd c) = Inr sc" by blast
  have "plain_case (fld (fld scenario ''truth'') ''query'', snd c)" using c assms(4) x(1) by (simp add: list_all_iff)
  note t = score_scenario_texts [OF x(2) this, folded x(1)]
  show "(sc_passed sc \<longleftrightarrow> answered c) \<and> (\<exists>y. sc_gain sc = Fin y \<and> 0 \<le> y \<and> (0 < y \<longleftrightarrow> gained c)) \<and>
      (\<exists>y. sc_relation_precision sc = Fin y \<and> y \<le> 1 \<and> (y = 1 \<longleftrightarrow> on_target c)) \<and> sc_category sc \<in> set categories"
    using t by blast
qed

lemma all2_all: "list_all2 (\<lambda>x y. P x \<longleftrightarrow> Q y) xs ys \<Longrightarrow> list_all P xs \<longleftrightarrow> list_all Q ys"
  by (induction rule: list_all2_induct) auto

lemma all2_ex: "list_all2 (\<lambda>x y. P x \<longleftrightarrow> Q y) xs ys \<Longrightarrow> list_ex P xs \<longleftrightarrow> list_ex Q ys"
  by (induction rule: list_all2_induct) auto

text \<open>The verdict of a returned report.\<close>

lemma product_verdict_holds:
  assumes "score_product log2 fsum now contract dataset qualification mode results binding = Inr report"
    and "list_all plain_case (judged dataset qualification mode results)"
  shows "fld report ''passed'' = VBool (list_all answered (judged dataset qualification mode results) \<and>
    list_ex gained (judged dataset qualification mode results) \<and> list_all on_target (judged dataset qualification mode results) \<and>
    list_all in_budget results)"
proof -
  let ?js = "judged dataset qualification mode results"
  obtain df selected by_id categories scs entries execution_passed where p:
    "selected_of dataset qualification mode = Inr selected" "results_by_id results = Inr by_id"
    "score_selected log2 fsum categories selected by_id = Inr scs"
    "mapm (category_entry scs) categories = Inr entries" "within_budgets results = Inr execution_passed"
    "product_report now contract df mode binding entries scs execution_passed = Inr report"
    by (rule score_product_parts [OF assms(1)])
  note sp = score_selected_plain [OF p(3,1,2) assms(2)]
  have cat: "sc_category sc \<in> set categories" if "sc \<in> set scs" for sc
    using sp that by (force simp: list_all2_conv_all_nth in_set_conv_nth)
  have gain: "\<exists>y. sc_gain sc = Fin y \<and> 0 \<le> y \<and> (0 < y \<longleftrightarrow> fl_less (Fin 0) (sc_gain sc))"
    and rel: "\<exists>y. sc_relation_precision sc = Fin y \<and> y \<le> 1 \<and> (y = 1 \<longleftrightarrow> fl_eq (sc_relation_precision sc) (Fin 1))"
    if "sc \<in> set scs" for sc
    using sp that by (force simp: list_all2_conv_all_nth in_set_conv_nth)+
  have "list_all answered ?js \<longleftrightarrow> list_all sc_passed scs"
    by (rule all2_all, rule list_all2_mono [OF sp]) blast
  moreover have "list_ex gained ?js \<longleftrightarrow> list_ex (\<lambda>sc. fl_less (Fin 0) (sc_gain sc)) scs"
    by (rule all2_ex, rule list_all2_mono [OF sp]) auto
  moreover have "list_all on_target ?js \<longleftrightarrow> list_all (\<lambda>sc. fl_eq (sc_relation_precision sc) (Fin 1)) scs"
    by (rule all2_all, rule list_all2_mono [OF sp]) auto
  ultimately show ?thesis
    using report_passed [OF p(6)] quality_iff [OF p(4) cat] gain_passed_iff [OF _ gain rel] within_budgets_all [OF p(5)]
    by (simp add: list_all_iff list_ex_iff)
qed

text \<open>A result that lists only information of its own task, reaches it by searching, and navigates only when it says so.\<close>

definition backed :: "vdict \<Rightarrow> val \<Rightarrow> bool" where
  "backed allowed item =
     (case vd_get (fld item ''scenario_id'') allowed of
        Some (VList ids) \<Rightarrow>
          list_all (\<lambda>f. case py_set (fld item f) of Inr s \<Rightarrow> set_le s ids | Inl _ \<Rightarrow> False) RESULT_ID_FIELDS \<and>
          (case (py_set (fld item ''relation_ids''), py_set (fld item ''direct_ids'')) of
             (Inr relation, Inr direct) \<Rightarrow> set_le relation direct | _ \<Rightarrow> False) \<and>
          is_true (fld item ''grounded'') \<and> (truthy (fld item ''navigation_ids'') \<longrightarrow> is_true (fld item ''used_navigation''))
      | _ \<Rightarrow> False)"

definition elements :: "val \<Rightarrow> val list" where
  "elements v = (case v of VList xs \<Rightarrow> xs | _ \<Rightarrow> [])"

lemma vd_get_put: "vd_get k (vd_put j v d) = Some w \<Longrightarrow> w = v \<or> vd_get k d = Some w"
  by (induction d) (auto simp: vd_get_def split: if_splits option.splits)

lemma allowed_ids_lists:
  assumes "allowed_ids task_items = Inr allowed" and "vd_get k allowed = Some w"
  shows "is_list w"
proof -
  have "\<forall>w. vd_get k allowed = Some w \<longrightarrow> is_list w"
    using assms(1) unfolding allowed_ids_def
    by (rule foldm_invariant) (auto simp: vd_get_def [of _ "[]"] exn_elims dest: vd_get_put)
  then show ?thesis using assms(2) by blast
qed

lemma validate_result_backed:
  assumes "validate_result allowed item = Inr ()" and "\<And>k w. vd_get k allowed = Some w \<Longrightarrow> is_list w"
  shows "backed allowed item"
proof -
  obtain ids relation direct where v: "bnd (vsub item ''scenario_id'') (\<lambda>identifier. case vd_get identifier allowed of
        None \<Rightarrow> Inl (Exn KeyError (py_str identifier)) | Some v \<Rightarrow> py_iter v) = Inr ids"
    "\<forall>f \<in> set RESULT_ID_FIELDS. validate_ids item ids f = Inr ()"
    "py_set (fld item ''relation_ids'') = Inr relation" "py_set (fld item ''direct_ids'') = Inr direct" "set_le relation direct"
    "is_true (fld item ''grounded'')" "\<not> truthy (fld item ''navigation_ids'') \<or> is_true (fld item ''used_navigation'')"
    using assms(1) unfolding validate_result_def by (auto simp: exn_elims Let_def)
  obtain w where w: "vd_get (fld item ''scenario_id'') allowed = Some w" "py_iter w = Inr ids"
    using v(1) by (auto simp: exn_elims split: option.splits)
  then have "w = VList ids" using assms(2) [OF w(1)] by (cases w) simp_all
  moreover have "\<exists>s. py_set (fld item f) = Inr s \<and> set_le s ids" if "f \<in> set RESULT_ID_FIELDS" for f
    using v(2) that by (fastforce simp: validate_ids_def exn_elims)
  ultimately show ?thesis using w v(3-7) by (force simp: backed_def list_all_iff)
qed

lemma score_results_parts:
  assumes "score_results log2 fsum now contract dataset qualification tasks results binding = Inr report"
  obtains allowed where "allowed_ids (elements (fld tasks ''tasks'')) = Inr allowed"
    "list_all (backed allowed) (elements (fld results ''results''))"
    "score_product log2 fsum now contract dataset qualification (fld tasks ''mode'') (elements (fld results ''results'')) binding = Inr report"
proof -
  obtain task_items result_items allowed where p: "is_list (fld tasks ''tasks'')" "is_list (fld results ''results'')"
    "py_iter (fld tasks ''tasks'') = Inr task_items" "py_iter (fld results ''results'') = Inr result_items"
    "allowed_ids task_items = Inr allowed" "\<forall>item \<in> set result_items. validate_result allowed item = Inr ()"
    "score_product log2 fsum now contract dataset qualification (fld tasks ''mode'') result_items binding = Inr report"
    using assms unfolding score_results_def by (auto simp: exn_elims Let_def)
  have e: "elements (fld tasks ''tasks'') = task_items" "elements (fld results ''results'') = result_items"
    using p(1-4) by (cases "fld tasks ''tasks''"; cases "fld results ''results''"; simp add: elements_def)+
  show thesis
    by (rule that [of allowed]) (use p e validate_result_backed allowed_ids_lists [OF p(5)] in \<open>simp_all add: list_all_iff\<close>)
qed

section \<open>A concrete report\<close>

definition sample_query :: val where
  "sample_query = VDict [(''expected_ids'', VList [VStr ''rent'']), (''forbidden_ids'', VList [VStr ''gym'']),
     (''answer_facts'', VList [VStr ''due on the 5th''])]"

definition sample_dataset :: val where
  "sample_dataset = VDict [(''scenarios'', VList [VDict [(''truth'',
     VDict [(''id'', VStr ''s1''), (''task_class'', VStr ''recall''), (''query'', sample_query)])]])]"

definition sample_product_contract :: val where
  "sample_product_contract = VDict [(''suite_version'', VStr ''1.0.0''),
     (''reports'', VDict [(''product'', VDict [(''schema'', VStr ''product/v1''), (''required'', VList [VStr ''categories''])])]),
     (''evidence_layers'', VDict [(''product'', VDict [(''output_schema'', VStr ''product/v1''), (''version'', VStr ''2''),
        (''categories'', VList [VStr ''recall'']), (''full_scenarios'', VInt 1)])])]"

definition sample_answer :: "bool \<Rightarrow> val" where
  "sample_answer budget = VDict [(''scenario_id'', VStr ''s1''), (''returned_ids'', VList [VStr ''rent'', VStr ''lease'']),
     (''direct_ids'', VList [VStr ''rent'']), (''relation_ids'', VList [VStr ''rent'']), (''navigation_ids'', VList []),
     (''answer_facts'', VList [VStr ''due on the 5th'']), (''grounded'', VBool True), (''used_navigation'', VBool False),
     (''latency_ms'', VInt 1), (''semantic_ms'', VInt 1), (''agent_query_ms'', VInt 1), (''end_to_end_ms'', VInt 1), (''peak_mib'', VInt 1),
     (''within_latency_budget'', VBool budget), (''within_resource_budget'', VBool True)]"

definition sample_tasks :: val where
  "sample_tasks = VDict [(''schema'', VStr ''ownward.product-tasks/v1''), (''dataset_version'', VStr ''2''), (''mode'', VStr ''full''),
     (''tasks'', VList [VDict [(''scenario_id'', VStr ''s1''), (''information'',
        VList [VDict [(''node_id'', VStr ''rent'')], VDict [(''node_id'', VStr ''lease'')], VDict [(''node_id'', VStr ''gym'')]])]])]"

definition sample_results :: "bool \<Rightarrow> val" where
  "sample_results budget = VDict [(''schema'', VStr ''ownward.product-results/v1''), (''dataset_version'', VStr ''2''),
     (''mode'', VStr ''full''), (''results'', VList [sample_answer budget])]"

definition sample_scored_binding :: val where
  "sample_scored_binding = VDict [(''candidate'', VStr ''c''), (''binary_sha256'', VStr (replicate 64 CHR ''a'')),
     (''environment'', VDict [(''os'', VStr ''linux'')]), (''inputs'', VDict [(''tool'', VStr ''t'')])]"

definition sample_score :: scored where
  "sample_score = \<lparr>sc_category = ''recall'', sc_passed = True, sc_recall = Fin 1, sc_precision = Fin 1, sc_ndcg = Fin 1, sc_gain = Fin 1,
     sc_relation_precision = Fin 1, sc_latency = Fin 1, sc_semantic = Fin 1, sc_agent_query = Fin 1, sc_end_to_end = Fin 1, sc_peak = Fin 1,
     sc_detail = VDict [(''scenario_id'', VStr ''s1''), (''category'', VStr ''recall''), (''recall'', VFloat (Fin 1)),
       (''precision'', VFloat (Fin 1)), (''ndcg'', VFloat (Fin 1)), (''relation_gain'', VFloat (Fin 1)),
       (''relation_evidence_precision'', VFloat (Fin 1)), (''used_navigation'', VBool False), (''navigation_supported_gain'', VBool False),
       (''answer_facts_exact'', VBool True), (''grounded'', VBool True), (''passed'', VBool True)]\<rparr>"

lemma ratio_same [simp]: "0 < n \<Longrightarrow> ratio n n = Fin 1"
  by (simp add: ratio_def)

lemma sample_metrics:
  "recall_of [VStr ''rent'', VStr ''lease''] [VStr ''rent''] = Inr (Fin 1)"
  "recall_of [VStr ''rent''] [VStr ''rent''] = Inr (Fin 1)"
  "precision_of [VStr ''rent'', VStr ''lease''] [VStr ''rent''] [VStr ''gym''] = Inr (Fin 1)"
  "relation_precision_of [VStr ''rent''] [VStr ''rent''] = Fin 1"
  "ndcg_of (\<lambda>_. Fin 1) (\<lambda>_. Fin 1) [VStr ''rent'', VStr ''lease''] [VStr ''rent''] = Inr (Fin 1)"
  by (simp_all add: recall_of_def precision_of_def relation_precision_of_def ndcg_of_def hash_all_def gains_at_def vmem_def)

lemma sample_scenario_scored:
  "score_scenario (\<lambda>_. Fin 1) (\<lambda>_. Fin 1) [''recall''] (VStr ''s1'')
     (VDict [(''truth'', VDict [(''id'', VStr ''s1''), (''task_class'', VStr ''recall''), (''query'', sample_query)])])
     (sample_answer budget) = Inr sample_score"
  unfolding score_scenario_def
  by (simp add: sample_query_def sample_answer_def sample_metrics set_field_def list_field_def inf_field_def py_set_def
      vmem_def set_eq_def set_le_def is_true_def hash_key_def sample_score_def Let_def)

abbreviation sample_scenario :: val where
  "sample_scenario \<equiv> VDict [(''truth'', VDict [(''id'', VStr ''s1''), (''task_class'', VStr ''recall''), (''query'', sample_query)])]"

lemma sample_selection:
  "wanted_ids (VStr ''full'') VNone [sample_scenario] = Inr [VStr ''s1'']"
  "select_scenarios [VStr ''s1''] [sample_scenario] = Inr [(VStr ''s1'', sample_scenario)]"
  "results_by_id [sample_answer budget] = Inr [(VStr ''s1'', sample_answer budget)]"
  by (simp_all add: wanted_ids_def select_scenarios_def results_by_id_def scenario_id_def hash_key_def vmem_def sample_answer_def)

lemma sample_judged:
  "judged sample_dataset VNone (VStr ''full'') [sample_answer budget] = [(sample_query, sample_answer budget)]"
  "list_all plain_case [(sample_query, sample_answer budget)]"
proof -
  have d: "py_iter (fld sample_dataset ''scenarios'') = Inr [sample_scenario]" by (simp add: sample_dataset_def)
  show "judged sample_dataset VNone (VStr ''full'') [sample_answer budget] = [(sample_query, sample_answer budget)]"
    by (simp add: judged_def selected_of_def d sample_selection vd_get_def)
  show "list_all plain_case [(sample_query, sample_answer budget)]"
    by (simp add: plain_case_def plain_texts_def text_items_def sample_query_def sample_answer_def)
qed

lemma sample_scores:
  "score_selected (\<lambda>_. Fin 1) (\<lambda>_. Fin 1) [''recall''] [(VStr ''s1'', sample_scenario)] [(VStr ''s1'', sample_answer budget)] =
     Inr [sample_score]"
  by (simp add: score_selected_def vd_get_def sample_scenario_scored)

definition sample_entry :: "string \<times> val" where
  "sample_entry = (''recall'', VDict [(''scenarios'', VInt 1), (''passed'', VBool True), (''recall'', VFloat (Fin 1)),
     (''precision'', VFloat (Fin 1)), (''ndcg'', VFloat (Fin 1))])"

lemma sample_category: "category_entry [sample_score] ''recall'' = Inr sample_entry"
  by (simp add: category_entry_def sample_entry_def tally_of_def new_tally_def add_scored_def sample_score_def)

abbreviation sample_layer :: val where
  "sample_layer \<equiv> fld (fld sample_product_contract ''evidence_layers'') ''product''"

lemma sample_report:
  "\<exists>report. product_report ''now'' sample_product_contract sample_layer (VStr ''full'') sample_scored_binding [sample_entry] [sample_score]
       budget = Inr report \<and> validate_layer_report sample_product_contract ''product'' report [] = Inr ()"
proof -
  have g: "gain_passed [sample_score]"
    by (simp add: gain_passed_def or_else_def sample_score_def fl_max_def fl_min_def)
  have h: "is_sha256_text (replicate 64 CHR ''a'')" by code_simp
  show ?thesis
    by (simp add: product_report_def g sample_product_contract_def sample_scored_binding_def sample_entry_def sample_score_def
        fl_max_def fl_min_def validate_layer_report_def validate_report_def mapping_of_def ensure_mapping_def validate_product_def
        validate_track_def sum_scenarios_def in_set_def set_eq_def set_le_def py_set_def vmem_def h is_true_def Let_def
        del: replicate.simps)
qed

lemma sample_answered: "answered (sample_query, sample_answer budget)" "gained (sample_query, sample_answer budget)"
  "on_target (sample_query, sample_answer budget)" "in_budget (sample_answer budget) = budget"
proof -
  have t: "text_items sample_query ''expected_ids'' = [''rent'']" "text_items sample_query ''forbidden_ids'' = [''gym'']"
    "text_items sample_query ''answer_facts'' = [''due on the 5th'']"
    "text_items (sample_answer budget) ''returned_ids'' = [''rent'', ''lease'']"
    "text_items (sample_answer budget) ''relation_ids'' = [''rent'']"
    "text_items (sample_answer budget) ''answer_facts'' = [''due on the 5th'']"
    by (simp_all add: text_items_def sample_query_def sample_answer_def)
  have b: "is_true (fld (sample_answer budget) ''grounded'')" "in_budget (sample_answer budget) = budget"
    by (simp_all add: in_budget_def sample_answer_def is_true_def)
  show "answered (sample_query, sample_answer budget)" by (simp add: answered_def t b)
  show "gained (sample_query, sample_answer budget)" by (simp add: gained_def t)
  show "on_target (sample_query, sample_answer budget)" by (simp add: on_target_def t)
  show "in_budget (sample_answer budget) = budget" by (rule b)
qed

lemma sample_results_valid:
  "allowed_ids (elements (fld sample_tasks ''tasks'')) = Inr [(VStr ''s1'', VList [VStr ''rent'', VStr ''lease'', VStr ''gym''])]"
  "validate_result [(VStr ''s1'', VList [VStr ''rent'', VStr ''lease'', VStr ''gym''])] (sample_answer budget) = Inr ()"
  by (simp_all add: allowed_ids_def sample_tasks_def elements_def hash_key_def vmem_def validate_result_def sample_answer_def vd_get_def
      RESULT_ID_FIELDS_def RESULT_MEASURES_def validate_ids_def py_set_def set_le_def is_true_def nonnegative_def Let_def)

lemma sample_scored:
  "\<exists>report. score_results (\<lambda>_. Fin 1) (\<lambda>_. Fin 1) ''now'' sample_product_contract sample_dataset VNone sample_tasks
     (sample_results budget) sample_scored_binding = Inr report"
proof -
  obtain report where r: "product_report ''now'' sample_product_contract sample_layer (VStr ''full'') sample_scored_binding
      [sample_entry] [sample_score] budget = Inr report" "validate_layer_report sample_product_contract ''product'' report [] = Inr ()"
    using sample_report by blast
  have c: "vpath sample_product_contract [''evidence_layers'', ''product''] = Inr sample_layer"
    "vsub sample_layer ''categories'' = Inr (VList [VStr ''recall''])"
    by (simp_all add: sample_product_contract_def)
  have d: "vget sample_dataset ''scenarios'' = Inr (VList [sample_scenario])" by (simp add: sample_dataset_def)
  have b: "within_budgets [sample_answer budget] = Inr budget" by (simp add: sample_answer_def is_true_def)
  have s: "score_product (\<lambda>_. Fin 1) (\<lambda>_. Fin 1) ''now'' sample_product_contract sample_dataset VNone (VStr ''full'')
     [sample_answer budget] sample_scored_binding = Inr report"
    unfolding score_product_def c d
    by (simp add: in_set_def sample_selection sample_scores sample_category b r c distinct_first_def set_eq_def set_le_def vmem_def
        del: vpath.simps within_budgets.simps)
  have i: "vget (sample_answer budget) ''scenario_id'' = Inr (VStr ''s1'')" by (simp add: sample_answer_def)
  have "score_results (\<lambda>_. Fin 1) (\<lambda>_. Fin 1) ''now'' sample_product_contract sample_dataset VNone sample_tasks
     (sample_results budget) sample_scored_binding = Inr report"
    using sample_results_valid s
    by (simp add: score_results_def sample_tasks_def sample_results_def elements_def i hash_key_def set_eq_def set_le_def vmem_def)
  then show ?thesis by blast
qed

end
