(* ===== verification/Spec2Isabelle.thy ===== *)
theory Spec2Isabelle
  imports Tool_Calls Use_Runs Guarded_Host Sample_Generation Retrieval_Setup Frontier Sample_Reports Lifecycle_Board Scoring_Facts
begin

text \<open>
  \<^bold>\<open>Ownward: information use by an agent, and the acceptance evidence around it.\<close>

  Ownward keeps a person's information and answers tool calls about it. The Python code verified here stands
  between an agent and those tool calls, and between the reports of the acceptance suite and the decision that
  they still hold.

  \<^bold>\<open>Parts and how they interact.\<close>

  \<^item> \<open>integrations/python/ownward_information_use.py\<close> is the portable part. A \<open>UseSession\<close> (theory
    \<open>Use_Session\<close>) owns one task across interruptions: it passes the agent's tool calls to a host, keeps their
    results in a bounded trace, writes and reads checkpoints, and before old material is used again it asks the
    host which of it is unchanged (\<open>_recheck\<close>, over \<open>check_materials\<close> of theory \<open>Reuse\<close>). Prompts, seeded lookup
    and result are built by the functions of theory \<open>Delivery\<close>. An \<open>EvidenceToolSession\<close> (theory
    \<open>Tool_Session\<close>) is a host around a host: it shows the agent short references and offers a grouped read.
  \<^item> \<open>ActiveRetrievalSession\<close> of \<open>benchmarks/longmemeval_s/run.py\<close> (theory \<open>Retrieval_Host\<close>) is the innermost host: it
    admits only observed identifiers and enforces the budgets of calls, reads and characters. Its construction, with the tools
    it offers, is theory \<open>Retrieval_Setup\<close>.
  \<^item> The acceptance suite \<open>benchmarks/acceptance/suite\<close> decides which reports count for a candidate:
    \<open>report_relationships.py\<close> and \<open>state_relationships.py\<close> (theory \<open>Relationships\<close>), \<open>evidence_identity.py\<close>
    (\<open>Evidence_Identity\<close>, \<open>Evidence_Binding\<close>), \<open>contract.py\<close> (\<open>Contract\<close>), \<open>evidence.py\<close> (\<open>Evidence\<close>),
    \<open>binding.py\<close> (\<open>Binding\<close>), \<open>report_semantics.py\<close> and \<open>summary_reporting.py\<close> (\<open>Report_Semantics\<close>),
    \<open>lifecycle.py\<close> (\<open>Lifecycle\<close>), \<open>frontier.py\<close> (\<open>Frontier\<close>). \<open>Product_Scoring\<close> has the score of product results,
    \<open>score_product\<close> of \<open>evidence.py\<close> and \<open>score_results\<close> of \<open>product_scoring.py\<close>.

  \<^bold>\<open>How the code is modelled.\<close> \<open>Prelude\<close>, \<open>Py_Text\<close>, \<open>Files\<close> and \<open>Sha256\<close> are the Python substrate: dynamically
  typed values (\<open>val\<close>; a dictionary is an association list in insertion order, a text its UTF-8 bytes, a float an
  exact rational rounded to a double), exceptions as values of a sum, \<open>json\<close>, \<open>str\<close> and \<open>repr\<close>, a file system, the
  digest. \<open>State_Exn\<close> has statements that change a state and may raise; what was changed before an exception stays
  changed. An object is a record of its attributes (\<open>use_session\<close>, \<open>tool_session\<close>, \<open>active\<close>), a method a statement over
  it, an object behind it an attribute of it. A host is a record of operations over a state of any type (\<open>host\<close>), so
  the sessions can be stacked in any order. What an agent does inside \<open>invoke\<close> is a tree (\<open>agent\<close>): tool calls through
  the session, notes, work on the host, and in the end a result or an exception; the trees are arbitrary, so a theorem
  about all agents is about all behaviours of a model in its tool loop.

  \<^bold>\<open>What the lemmas show.\<close>

  \<^item> \<open>Reuse_Facts\<close>, \<open>Keyed_Store\<close>, \<open>Use_Recheck\<close>: a check answers for every material whatever the host does; after a
    recheck only confirmed reads survive, and the pending checks are decided by the last answer for each source (as
    facts of the interface \<open>keyed_store\<close>, interpreted on the dictionaries of the program).
  \<^item> \<open>Use_Facts\<close>, \<open>Use_Runs\<close>, \<open>Delivery_Facts\<close>, \<open>Json_Roundtrip\<close>: what each operation of a \<open>UseSession\<close> does on every branch, what
    an agent cannot change, checkpoints, whole runs, the composed result, the cost of the session's own calls, and that
    \<open>json.loads\<close> inverts \<open>json.dumps\<close>.
  \<^item> \<open>Tool_References\<close>, \<open>Tool_Calls\<close>: the reference tables stay inverse and never forget (rule induction over the steps of the
    session), the grouped read is the separate reads, the tools on offer follow the capacity of the host.
  \<^item> \<open>Host_Laws\<close> is the interface between a session and its host: a preorder the host's operations keep. It is carried
    through the sessions, so that a law of \<open>ActiveRetrievalSession\<close> (\<open>Retrieval_Facts\<close>) becomes a law of whole runs.
    \<open>Guarded_Host\<close> has the concrete hosts and products of the witnesses.
  \<^item> \<open>Generations\<close>: the generations of bindings on disk. Staging only adds files (the relation \<open>grows\<close>), so a failed
    activation leaves the active binding as it was, and a successful one makes the staged binding the active one.
    \<open>Sample_Candidate\<close>, \<open>Sample_Generation\<close> and \<open>Sample_Reports\<close> have the concrete bindings, states, reports and file systems of the
    witnesses.
  \<^item> \<open>Retrieval_Setup\<close>: which tool listings end, and that the limits on offer are admitted. \<open>Frontier\<close>: which metrics decide a
    comparison, and that a NaN decides nothing.
  \<^item> \<open>Rounding\<close>, \<open>Scoring_Facts\<close>: a ratio of counts rounds to 0 or 1 only when it is 0 or 1, so the verdict of a scored report is
    a statement about sets of identifiers.
  \<^item> \<open>Binding_Facts\<close>, \<open>Binding_Build\<close>, \<open>Lifecycle_Invariants\<close>, \<open>Lifecycle_Promotion\<close>: what an accepted binding and an accepted state
    are, and which operations of the lifecycle keep the state accepted. \<open>Lifecycle_Board\<close> has the abstract specification of the
    lifecycle, a board of accepted reports with three kinds of steps, and the simulation of the lifecycle by it.

  \<^bold>\<open>Bounds.\<close> The loops recurse over lists; the batches of a check and the walk over the component
  graph have termination proofs (\<open>check_from\<close>, \<open>batches\<close>, \<open>visit\<close>). The listing of the product's tools is a
  \<open>partial_function\<close>, since the product decides whether it ends. Only the parser of JSON has fuel, the
  length of the text, which no nesting exceeds. The retained material is bounded by \<open>max_bytes\<close>, 8 MiB, as in the code.

  \<^bold>\<open>Limits of the model.\<close> File contents are UTF-8; the file system, git, the clock, process ids, the product behind a tool call,
  the host and the agent are parameters, and so are \<open>math.log2\<close> and the sum of floats in the ranking metric \<open>ndcg\<close>, which no
  verdict reads. Exception texts of validators are short English renderings; texts that become data
  (\<open>str(error)\<close> in a tool result) are Python's own. Keys of dictionaries are texts, except in the dictionary of pending checks, whose
  keys are values. Recursion limits and the limit on digits of integers are left out, a float has no negative zero, and the lock
  of \<open>ActiveRetrievalSession\<close> is one thread. Values are not shared, which no operation modelled here can observe: the sessions
  copy what they store. The round trips are stated for values without floats and with distinct keys (\<open>json_ok\<close>).

  \<^bold>\<open>Not modelled.\<close> \<open>create\<close> and \<open>rebind_scope\<close> of \<open>binding.py\<close> (they walk
  the checkout and start processes), the self check of \<open>frontier.py\<close>, \<open>validate_suite_inputs\<close>, the product adapter, the drivers that run the suite, the experiment
  modules \<open>kernel_iteration_*\<close>, the benchmark's orchestration, and the Go product.
\<close>

section \<open>A resumed task\<close>

text \<open>C1. When a resumed session is rechecked, the new trace is a part of the old reads, in their order, and
  every read in it was confirmed just now: the host answered the check of its batch with an entry that
  names the read's own source reference and says \<open>unchanged\<close>.\<close>

theorem recheck_only_confirmed:
  assumes "us_needs_check s" and "recheck H s = (s', Inr ())"
  shows "\<exists>reads es. trace_reads (us_trace s) = Inr reads \<and> us_trace s' = VList es \<and> subseq es reads \<and>
    (\<forall>e \<in> set es. \<exists>c. confirmed_by (host_call H) (map material reads) (material e) c \<and> fld c ''status'' = VStr ''unchanged'')"
proof (rule recheck_eq_Inr [OF assms(2,1)])
  fix reads checked h cs d
  assume r: "trace_reads (us_trace s) = Inr reads"
    and c: "check_materials (map material reads) (host_call H) (us_host s) = (h, Inr checked)"
    and s': "s' = s\<lparr>us_host := h, us_trace := VList (kept_reads reads checked), us_pending := VList (map snd d),
      us_notes := (if length (kept_reads reads checked) \<noteq> length reads \<or> reads = [] then VStr [] else us_notes s),
      us_needs_check := False\<rparr>"
  have t: "us_trace s' = VList (kept_reads reads checked)" by (simp add: s')
  show ?thesis using r t kept_reads_subseq kept_confirmed [OF c] by blast
qed

theorem recheck_only_confirmed_witness:
  "\<exists>s' es. recheck (guarded_host 6 ''unchanged'') resumed = (s', Inr ()) \<and> us_trace s' = VList es \<and> es = [read_entry] \<and>
    (\<forall>e \<in> set es. \<exists>reads c. confirmed_by (host_call (guarded_host 6 ''unchanged'')) (map material reads) (material e) c)"
proof -
  let ?r = "recheck (guarded_host 6 ''unchanged'') resumed"
  have 1: "snd ?r = Inr ()" by code_simp
  have 2: "us_trace (fst ?r) = VList [read_entry]" by code_simp
  have r: "?r = (fst ?r, Inr ())" using 1 by (metis prod.collapse)
  have n: "us_needs_check resumed" by (simp add: resumed_def)
  from recheck_only_confirmed [OF n r] obtain reads es where "us_trace (fst ?r) = VList es"
    and "\<forall>e \<in> set es. \<exists>c. confirmed_by (host_call (guarded_host 6 ''unchanged'')) (map material reads) (material e) c \<and> fld c ''status'' = VStr ''unchanged''"
    by blast
  with 2 r show ?thesis by (intro exI [of _ "fst ?r"] exI [of _ es]) auto
qed

text \<open>C2. On a trace whose reads all have a result with a text reference, and with pending checks that have one,
  the recheck completes whatever the host answers, and the pending checks afterwards are, seen as a map from
  source references, the old ones updated by the answers in order: an \<open>unchanged\<close> source is released,
  any other answer is pending.\<close>

theorem recheck_pending:
  assumes "us_needs_check s" and "trace_ok (us_trace s)" and "pending_ok (us_pending s)"
  shows "\<exists>s' reads h checked. recheck H s = (s', Inr ()) \<and> trace_reads (us_trace s) = Inr reads \<and>
    check_materials (map material reads) (host_call H) (us_host s) = (h, Inr checked) \<and>
    pend_view (us_pending s') = settled (map check_event checked) (pend_view (us_pending s))"
proof -
  obtain ps where p: "us_pending s = VList ps" "list_all has_basis ps"
    using assms(3) by (auto simp: pending_ok_def is_list_iff)
  from recheck_total [OF assms, of H] obtain h reads checked where r: "trace_reads (us_trace s) = Inr reads"
    and c: "check_materials (map material reads) (host_call H) (us_host s) = (h, Inr checked)"
    and rep: "list_all2 reported (map material reads) checked"
    and run: "recheck H s = (s\<lparr>us_host := h, us_trace := VList (kept_reads reads checked),
      us_pending := VList (map snd (pend_settle (map check_event checked) (pend_settle (map start_event (as_list (us_pending s))) []))),
      us_notes := (if length (kept_reads reads checked) \<noteq> length reads \<or> reads = [] then VStr [] else us_notes s),
      us_needs_check := False\<rparr>, Inr ())" by blast
  have "list_all read_ok reads" using assms(2) r by (simp add: trace_ok_def)
  then have "list_all check_ok checked" by (rule checks_ok [OF _ rep])
  from pending_view [OF p(2) this] show ?thesis using r c run p(1) by (intro exI conjI) (assumption | simp)+
qed

theorem recheck_pending_witness:
  "\<exists>s' reads h checked. recheck (guarded_host 6 ''changed'') resumed = (s', Inr ()) \<and> trace_reads (us_trace resumed) = Inr reads \<and>
    check_materials (map material reads) (host_call (guarded_host 6 ''changed'')) (us_host resumed) = (h, Inr checked) \<and>
    pend_view (us_pending s') = settled (map check_event checked) (pend_view (us_pending resumed))"
proof (rule recheck_pending)
  show "us_needs_check resumed" by (simp add: resumed_def)
  show "trace_ok (us_trace resumed)" by code_simp
  show "pending_ok (us_pending resumed)" by code_simp
qed



section \<open>Hand-over and tool calls\<close>



text \<open>C5. A checkpoint of another task, of another context or of another format is refused, and neither the session
  nor its host is touched.\<close>

theorem foreign_checkpoint_refused:
  assumes "copy_value state = Inr (VDict d)"
    and "fld (VDict d) ''schema'' \<noteq> VStr USE_SCHEMA \<or> fld (VDict d) ''task'' \<noteq> VStr (us_task s) \<or>
         \<not> py_eq (fld (VDict d) ''context'') (VDict (us_context s))"
  shows "use_restore H state s = (s, Inl (Exn ValueError ''Handoff does not belong to this task and context''))"
  by (rule use_restore_foreign [OF assms(1)]) (use assms(2) in \<open>auto simp: belongs_def\<close>)

theorem foreign_checkpoint_refused_witness:
  "use_restore (guarded_host 6 ''unchanged'') (VDict [(''task'', VStr ''Another task'')]) resumed =
    (resumed, Inl (Exn ValueError ''Handoff does not belong to this task and context''))"
proof (rule foreign_checkpoint_refused)
  let ?v = "VDict [(''task'', VStr ''Another task'')]"
  have "length (json_dumps ?v) = 24" by code_simp
  then have "fits ?v" by (simp add: fits_def max_bytes_def)
  then show "copy_value ?v = Inr ?v" by (intro copy_value_ok) simp
qed simp

text \<open>C6. A tool call that the host fails is passed on to the caller; the session has started, knows that work of unknown
  extent happened, and keeps its trace.\<close>

theorem failed_call_marks_unknown:
  assumes "host_call H name arguments (us_host s) = (h, Inl e)"
  shows "use_call H name arguments s = (s\<lparr>us_started := VBool True, us_host := h, us_unknown := VBool True\<rparr>, Inl e)"
  by (rule use_call_host_fails [OF assms])

theorem failed_call_marks_unknown_witness:
  "use_call (guarded_host 0 ''unchanged'') ''ownward_read'' (VDict []) resumed =
    (resumed\<lparr>us_started := VBool True, us_host := [], us_unknown := VBool True\<rparr>, Inl (Exn ValueError ''Budget exhausted''))"
  by (rule failed_call_marks_unknown) (simp add: guarded_host_def test_call_def resumed_def)



text \<open>C8. Whatever an agent does in an invocation (tool calls, notes, work of its own on the host), it cannot change the
  task, its context, the prepared needs, the pending checks or the demand for a check; it can only add to the trace,
  within the bound, and cannot take back that the task has started or that work was lost.\<close>

theorem agent_confined:
  assumes "run_agent H a s = (s', r)"
  shows "use_ext s s'"
  by (rule keepsD [OF keeps_run_agent assms])

theorem agent_confined_witness:
  "use_ext resumed (fst (run_agent (guarded_host 6 ''unchanged'') (Call ''ownward_search'' (VDict []) (\<lambda>r. Note (VStr ''seen'') (Return r))) resumed))"
  by (rule agent_confined) (rule prod.collapse [symmetric])

text \<open>C9. The usage that goes into the agent's input holds numbers and dictionaries of numbers only: no text of the host's
  report, such as an old tool result, comes back that way.\<close>

theorem usage_only_counters:
  assumes "usage H s = (s', Inr u)"
  shows "counters u"
  using assms usage_counters by (auto simp: usage_def st_bnd_eq_Inr st_ret_eq_Inr)

theorem usage_only_counters_witness:
  "\<exists>u. usage (guarded_host 6 ''unchanged'') resumed = (resumed, Inr u) \<and> counters u \<and> fld u ''tool_calls'' = VInt 0"
proof -
  let ?u = "VDict [(''tokens'', VInt 0), (''limit'', VInt 6), (''limits'', VDict []), (''usage'', VDict []), (''tool_calls'', VInt 0)]"
  have u: "usage_of (VDict [(''calls'', VList []), (''tokens'', VInt 0), (''limit'', VInt 6)]) = Inr ?u" by code_simp
  have "usage (guarded_host 6 ''unchanged'') resumed = (resumed, Inr ?u)"
    by (simp add: usage_def st_bnd_def on_part_def st_read_def st_ret_def guarded_host_def test_report_def resumed_def u)
  from usage_only_counters [OF this] this show ?thesis by (intro exI [of _ ?u]) simp
qed

section \<open>Runs\<close>

text \<open>C10. Once a task has started and its needs are prepared, the deep path is the quick path: the same run, with no second
  preparation and no second seeding.\<close>

theorem deep_continues_as_quick:
  assumes "truthy (us_started s)" and "us_frame s \<noteq> VNone"
  shows "use_run H invoke ''deep'' s = use_run H invoke ''quick'' s"
proof -
  have "(case recheck H s of (s1, Inl e) \<Rightarrow> (s1, Inl e) | (s1, Inr u) \<Rightarrow> prepare_frame H invoke ''deep'' s1) =
      (case recheck H s of (s1, Inl e) \<Rightarrow> (s1, Inl e) | (s1, Inr u) \<Rightarrow> prepare_frame H invoke ''quick'' s1)"
  proof (cases "recheck H s")
    case (Pair s1 r)
    then have "us_frame s1 \<noteq> VNone" using recheck_frame [OF Pair] assms(2) by simp
    then show ?thesis by (simp add: Pair prepare_frame_done split: sum.split)
  qed
  then have "st_bnd (recheck H) (\<lambda>_. prepare_frame H invoke ''deep'') s = st_bnd (recheck H) (\<lambda>_. prepare_frame H invoke ''quick'') s"
    by (simp add: st_bnd_def)
  then have "st_bnd (st_bnd (recheck H) (\<lambda>_. prepare_frame H invoke ''deep'')) (\<lambda>_. deliver H invoke) s =
      st_bnd (st_bnd (recheck H) (\<lambda>_. prepare_frame H invoke ''quick'')) (\<lambda>_. deliver H invoke) s"
    by (simp add: st_bnd_def [of "st_bnd _ _"])
  then show ?thesis using use_run_started [OF assms(1)] by (simp add: st_bnd_assoc)
qed

theorem deep_continues_as_quick_witness:
  "use_run (guarded_host 6 ''unchanged'') answering ''deep'' resumed = use_run (guarded_host 6 ''unchanged'') answering ''quick'' resumed"
  by (rule deep_continues_as_quick) (simp_all add: resumed_def)

text \<open>C11. A run that gets past the recheck and the preparation leaves the task started, also when its first search fails;
  so no later run seeds again.\<close>

theorem run_seeds_once:
  assumes "path \<in> {''quick'', ''deep''}" and "recheck H s = (s1, Inr ())" and "prepare_frame H invoke path s1 = (s2, Inr ())"
    and "use_run H invoke path s = (s', r)" and "path' \<in> {''quick'', ''deep''}"
  shows "use_run H invoke path' s' = st_bnd (recheck H) (\<lambda>_. st_bnd (prepare_frame H invoke path') (\<lambda>_. deliver H invoke)) s'"
  by (rule use_run_started [OF use_run_marks_started [OF assms(1-4)] assms(5)])

theorem run_seeds_once_witness:
  "\<exists>s' r. use_run (guarded_host 0 ''unchanged'') answering ''deep'' (resumed\<lparr>us_started := VBool False, us_needs_check := False\<rparr>) = (s', r) \<and>
    use_run (guarded_host 0 ''unchanged'') answering ''deep'' s' =
      st_bnd (recheck (guarded_host 0 ''unchanged'')) (\<lambda>_. st_bnd (prepare_frame (guarded_host 0 ''unchanged'') answering ''deep'') (\<lambda>_.
        deliver (guarded_host 0 ''unchanged'') answering)) s'"
proof -
  let ?s = "resumed\<lparr>us_started := VBool False, us_needs_check := False\<rparr>"
  obtain s' r where run: "use_run (guarded_host 0 ''unchanged'') answering ''deep'' ?s = (s', r)" by fastforce
  have "recheck (guarded_host 0 ''unchanged'') ?s = (?s, Inr ())" by (simp add: recheck_def)
  moreover have "prepare_frame (guarded_host 0 ''unchanged'') answering ''deep'' ?s = (?s, Inr ())"
    by (simp add: prepare_frame_def resumed_def)
  ultimately show ?thesis using run run_seeds_once [OF _ _ _ run, of ?s ?s "''deep''"] by blast
qed



section \<open>Short references and grouped reads\<close>

text \<open>C13. In every state an \<open>EvidenceToolSession\<close> can reach the two reference tables are inverse to each other, give each
  identifier one reference, and number the references from 1 without gaps.\<close>

theorem references_bijective:
  assumes "new_tool_session H read_limit h = (h', Inr s0)" and "(tool_step H)\<^sup>*\<^sup>* s0 s"
  shows "refs_wf (ts_forward s, ts_reverse s) \<and>
    (\<forall>x a. map_of (ts_forward s) x = Some a \<longleftrightarrow> map_of (ts_reverse s) a = Some x)"
  using reached_tables [OF assms] refs_wf_inverse by fastforce

theorem references_bijective_witness:
  "\<exists>s0 s. new_tool_session (guarded_host 6 ''unchanged'') (VInt 3) [] = ([], Inr s0) \<and>
    tool_call (guarded_host 6 ''unchanged'') ''ownward_search'' (VDict []) s0 = (s, snd (tool_call (guarded_host 6 ''unchanged'') ''ownward_search'' (VDict []) s0)) \<and>
    refs_wf (ts_forward s, ts_reverse s)"
proof -
  let ?H = "guarded_host 6 ''unchanged''"
  obtain h' s0 where n: "new_tool_session ?H (VInt 3) [] = (h', Inr s0)" and h: "h' = []"
    by (simp add: new_tool_session_def refresh_def guarded_host_def st_bnd_def st_read_def st_upd_def on_part_def
        test_tools_def available_tools_def tool_offered_def is_evidence_read_def)
  obtain s r where c: "tool_call ?H ''ownward_search'' (VDict []) s0 = (s, r)" by fastforce
  then have "(tool_step ?H)\<^sup>*\<^sup>* s0 s" by (auto intro: step_call)
  from references_bijective [OF n this] n h c show ?thesis by auto
qed

text \<open>C14. What the session shows the agent decodes to what the host sent: encoding a value and decoding the result, with the
  tables of that moment or any later ones, gives the value back.\<close>

theorem shown_value_decodes:
  assumes "refs_wf t" and "transform True field v t = (t', w)" and "refs_wf u" and "extends t' u"
  shows "transform False field w u = (u, v)"
  by (rule reversesD(3) [OF transform_reverses assms])

theorem shown_value_decodes_witness:
  "\<exists>t' w. transform True None (VDict [(''results'', VList [VDict [(''id'', VStr ''e1''), (''source_id'', VStr ''s1'')]])]) ([], []) = (t', w) \<and>
    transform False None w t' = (t', VDict [(''results'', VList [VDict [(''id'', VStr ''e1''), (''source_id'', VStr ''s1'')]])])"
proof -
  let ?v = "VDict [(''results'', VList [VDict [(''id'', VStr ''e1''), (''source_id'', VStr ''s1'')]])]"
  obtain t' w where e: "transform True None ?v ([], []) = (t', w)" by (rule prod.exhaust)
  have "refs_wf t'" by (rule transform_wf [OF refs_wf_empty e])
  from shown_value_decodes [OF refs_wf_empty e this extends_refl] e show ?thesis by (intro exI conjI)
qed

text \<open>C15. The grouped read is the separate reads: an accepted list of references gives the state and, in order and one for
  each reference, the results and errors that separate reads would give.\<close>

theorem grouped_read_is_separate_reads:
  assumes "read_many_ok (ts_limit s) arguments" and "one_by_one H (refs_of (fld arguments ''ids'')) s = (s', rs)"
  shows "tool_call H READ_MANY arguments s = (s', Inr (VDict [(''results'', VList (map2 outcome (refs_of (fld arguments ''ids'')) rs))])) \<and>
    length rs = length (refs_of (fld arguments ''ids''))"
  using read_many_eq [OF assms(1), of H] one_by_one_length [OF assms(2)] assms(2) by simp

theorem grouped_read_is_separate_reads_witness:
  "\<exists>s' rs. tool_call (active_host null_product) READ_MANY (VDict [(''ids'', VList [VStr ''a'', VStr ''b''])]) (us_host active_task) =
      (s', Inr (VDict [(''results'', VList (map2 outcome [VStr ''a'', VStr ''b''] rs))])) \<and> length rs = 2"
proof -
  let ?a = "VDict [(''ids'', VList [VStr ''a'', VStr ''b''])]"
  have ok: "read_many_ok (ts_limit (us_host active_task)) ?a" by code_simp
  obtain s' rs where "one_by_one (active_host null_product) (refs_of (fld ?a ''ids'')) (us_host active_task) = (s', rs)" by fastforce
  from grouped_read_is_separate_reads [OF ok this] show ?thesis by auto
qed



section \<open>Checking old material\<close>

text \<open>C17. A check of materials answers for every material, in order and under the reference asked for, whatever the host does:
  when it fails, returns no results, too few, or ones about another source, the material counts as \<open>unverifiable\<close>.\<close>

theorem check_answers_all:
  assumes "list_all is_dict materials"
  shows "\<exists>s' rs. check_materials materials call s = (s', Inr rs) \<and> list_all2 reported materials rs"
  by (rule check_materials_total [OF assms])

theorem check_answers_all_witness:
  "\<exists>h rs. check_materials [VDict [(''basis'', VStr ''b1'')], VDict []] (test_call 0 ''unchanged'') [] = (h, Inr rs) \<and>
    list_all2 reported [VDict [(''basis'', VStr ''b1'')], VDict []] rs \<and> rs = [unverifiable (VStr ''b1''), unverifiable (VStr '''')]"
proof -
  let ?ms = "[VDict [(''basis'', VStr ''b1'')], VDict []]"
  have 1: "snd (check_materials ?ms (test_call 0 ''unchanged'') []) = Inr [unverifiable (VStr ''b1''), unverifiable (VStr '''')]"
    by code_simp
  have "list_all is_dict ?ms" by simp
  from check_answers_all [OF this, of "test_call 0 ''unchanged''" "[]"] show ?thesis using 1 by auto
qed

text \<open>C18. A state other than \<open>unverifiable\<close> is never made up: the host gave it, in its answer to the check of the batch the
  material belongs to, at the place of the material, and under the material's own reference.\<close>

theorem check_provenance:
  assumes "check_materials materials call s = (s', Inr rs)"
  shows "list_all2 (\<lambda>m r. r = unverifiable (basis_of m) \<or> confirmed_by call materials m r) materials rs"
  by (rule check_materials_confirmed [OF assms])

theorem check_provenance_witness:
  "\<exists>h rs. check_materials [VDict [(''basis'', VStr ''b1'')]] (test_call 6 ''changed'') [] = (h, Inr rs) \<and>
    rs = [VDict [(''basis'', VStr ''b1''), (''status'', VStr ''changed'')]] \<and>
    list_all2 (\<lambda>m r. r = unverifiable (basis_of m) \<or> confirmed_by (test_call 6 ''changed'') [VDict [(''basis'', VStr ''b1'')]] m r)
      [VDict [(''basis'', VStr ''b1'')]] rs"
proof -
  let ?r = "check_materials [VDict [(''basis'', VStr ''b1'')]] (test_call 6 ''changed'') []"
  let ?rs = "[VDict [(''basis'', VStr ''b1''), (''status'', VStr ''changed'')]]"
  have "snd ?r = Inr ?rs" by code_simp
  then have "?r = (fst ?r, Inr ?rs)" by (metis prod.collapse)
  from check_provenance [OF this] this show ?thesis by blast
qed

section \<open>The result\<close>

text \<open>C19. The result is composed when and only when there is a usable answer and every conditional result has a condition and a
  result: then it is the answer followed by the conditions in order, beside the whole response.\<close>

theorem finish_composes:
  "finish response = Inr y \<longleftrightarrow>
     (\<exists>a rs ps. fld response ''answer'' = VStr a \<and> py_strip a \<noteq> [] \<and> has response ''conditional_results'' \<and>
        py_iter (fld response ''conditional_results'') = Inr rs \<and> list_all2 condition_parts rs ps \<and>
        y = VDict [(''answer'', VStr (a @ concat (map condition_text ps))), (''used_information_use'', VBool True),
                   (''scoped_results'', response), (''basis'', VDict [])])"
  by (rule finish_eq)

section \<open>The budget\<close>

text \<open>C20. The session's own calls are few: the seeded lookup of a task costs at most four recorded calls of the guarded session below
  both sessions, and a check of materials at most one for every 64 materials or part of 64.\<close>

theorem own_calls_bounded:
  "length (ac_calls (ts_host (us_host (fst (initial_context q (use_call (tool_host (active_host P))) s))))) \<le>
     length (ac_calls (ts_host (us_host s))) + 4 \<and>
   length (ac_calls (ts_host (fst (check_materials materials (tool_call (active_host P)) t)))) \<le>
     length (ac_calls (ts_host t)) + (length materials + 63) div 64"
  using use_tool_cost.initial_context_cost [unfolded costs_def, rule_format] tool_cost.check_materials_cost [unfolded costs_def, rule_format]
  by (rule conjI)



text \<open>C22. A call that the session does not admit (a tool outside the list, an identifier it has not shown, arguments outside the
  limits, no call or no read left) never reaches the product.\<close>

theorem refused_call_stops:
  assumes "\<not> admitted s name (call_arguments raw)" and "active_call P name raw s = (s', r)"
  shows "ac_client s' = ac_client s"
  by (rule not_admitted_client [OF assms])

theorem refused_call_stops_witness:
  "ac_client (fst (active_call null_product ''ownward_evidence_read'' (VDict [(''id'', VStr ''guessed'')]) fresh_active)) = 0"
proof -
  have "\<not> admitted fresh_active ''ownward_evidence_read'' (call_arguments (VDict [(''id'', VStr ''guessed'')]))" by code_simp
  from refused_call_stops [OF this prod.collapse [symmetric], of null_product] show ?thesis by (simp add: fresh_active_def)
qed




text \<open>C25. What the session offers it admits: the limit of a search in the schema given to the agent starts at 1 and ends within the
  settings, and every value in between is admitted, now and in any later state. A search without a limit is another matter: the schema
  promises the smaller default, the session assumes 10 and refuses when the settings allow fewer.\<close>

theorem published_limits:
  assumes "new_active P settings c = Some (c', Inr s)" and "named_tools P" and "spec \<in> set (ac_dynamic_tools s)"
    and "fld spec ''name'' = VStr ''ownward_search''" and "offered_limit spec \<noteq> VNone"
    and "ac_settings t = ac_settings s" and "ac_allowed_tools t = ac_allowed_tools s" and "nonblank q"
  shows "\<exists>m M. fld (offered_limit spec) ''minimum'' = VInt 1 \<and> fld (offered_limit spec) ''maximum'' = VInt m \<and>
    fld (offered_limit spec) ''default'' = VInt (min 10 m) \<and> setting t ''search_limit_per_call'' = Inr M \<and> m \<le> M \<and>
    (\<forall>L. 1 \<le> L \<and> L \<le> m \<longrightarrow> validate_arguments t ''ownward_search'' (VDict [(''query'', q), (''limit'', VInt L)]) = Inr ()) \<and>
    (validate_arguments t ''ownward_search'' (VDict [(''query'', q)]) = Inr () \<longleftrightarrow> 10 \<le> M)"
proof -
  have "map_of LIMITS ''ownward_search'' = Some (''search_limit_per_call'', 10)" by (simp add: LIMITS_def)
  from new_active_limits [OF assms(1-5) this] obtain M p where M: "setting s ''search_limit_per_call'' = Inr M"
    and a: "''ownward_search'' \<in> set (ac_allowed_tools s)"
    and f: "fld (offered_limit spec) ''minimum'' = VInt 1" "fld (offered_limit spec) ''maximum'' = VInt (min M p)"
      "fld (offered_limit spec) ''default'' = VInt (min 10 (min M p))" by blast
  have "setting t ''search_limit_per_call'' = Inr M" using M assms(6) by (simp add: setting_def)
  then show ?thesis using f search_limits [of t M q] a assms(7,8) by auto
qed

theorem published_limits_witness:
  "\<exists>m M. fld (offered_limit search_spec) ''maximum'' = VInt m \<and> fld (offered_limit search_spec) ''default'' = VInt (min 10 m) \<and> M = 5 \<and> m \<le> M \<and>
     validate_arguments (started_active search_settings [''ownward_search''] [search_spec] (VStr ''Rules'') (0::nat)) ''ownward_search''
       (VDict [(''query'', VStr ''q'')]) \<noteq> Inr ()"
proof -
  let ?s = "started_active search_settings [''ownward_search''] [search_spec] (VStr ''Rules'') (0::nat)"
  have q: "nonblank (VStr ''q'')" by code_simp
  have sp: "search_spec \<in> set (ac_dynamic_tools ?s)" by (simp add: started_active_def)
  have n: "fld search_spec ''name'' = VStr ''ownward_search''" by (simp add: search_spec_def)
  have l: "offered_limit search_spec \<noteq> VNone" by (simp add: search_spec_def offered_limit_def)
  have "setting ?s ''search_limit_per_call'' = Inr 5" by (simp add: setting_def started_active_def search_settings_def)
  with published_limits [OF search_client_built search_client_named sp n l refl refl q] show ?thesis by auto
qed

section \<open>Identities of the acceptance suite\<close>

text \<open>C26. The walk over the component graph ends on every graph, and accepts a graph exactly when each node is well formed, depends
  on nodes of the graph under their current identities, and no dependency cycle exists.\<close>

theorem component_graph_decided:
  assumes "distinct (keys v)"
  shows "validate_component_graph v = Inr () \<longleftrightarrow>
     is_dict v \<and> each (validate_node (items v)) (items v) = Inr () \<and> acyclic (dep_rel (items v))"
  by (rule validate_component_graph_iff [OF assms])

theorem component_graph_decided_witness:
  "acyclic (dep_rel (items (component_graph sample_ids))) \<and> distinct (keys (component_graph sample_ids))"
proof -
  have d: "distinct (keys (component_graph sample_ids))" by (simp add: keys_component_graph distinct_graph_roles)
  have "validate_component_graph (component_graph sample_ids) = Inr ()"
    by (rule component_graph_valid) (simp add: is_sha256_iff)
  with component_graph_decided [OF d] d show ?thesis by blast
qed

text \<open>C27. The identity of the acceptance tools reads the report-producing files only: two manifests of one scope that list the same
  of these files have the same identity, whatever they say of lifecycle files and in whatever order.\<close>

theorem tool_identity_of_producing_files:
  assumes "tool_identity m = Inr t" and "tool_identity m' = Inr t'" and "fld m ''scope'' = fld m' ''scope''"
    and "mset (producing (as_list (fld m ''files''))) = mset (producing (as_list (fld m' ''files'')))"
  shows "t = t'"
proof -
  obtain scope files where m: "fld m ''scope'' = VStr scope" "fld m ''files'' = VList files" "distinct (map (fst \<circ> entry_of) files)"
    "t = canonical_sha256 (tool_projection (VStr scope) (producing files))" using assms(1) tool_identity_iff by metis
  obtain scope' files' where m': "fld m' ''scope'' = VStr scope'" "fld m' ''files'' = VList files'"
    "t' = canonical_sha256 (tool_projection (VStr scope') (producing files'))" using assms(2) tool_identity_iff by metis
  show ?thesis using tool_projection_perm [OF _ m(3), of files'] assms(3,4) m m' by simp
qed

theorem tool_identity_of_producing_files_witness:
  "\<exists>t. tool_identity (sample_tools sample_sha) = Inr t \<and> tool_identity (sample_tools (replicate 64 (CHR ''b''))) = Inr t"
proof -
  have h: "is_hex 64 (replicate 64 (CHR ''b''))" by (simp add: is_hex_def hex_digits_def)
  obtain t where t: "tool_identity (sample_tools sample_sha) = Inr t" using sample_tools_identity(1) [of sample_sha] by auto
  obtain t' where t': "tool_identity (sample_tools (replicate 64 (CHR ''b''))) = Inr t'" using sample_tools_identity(1) [OF h] by auto
  have "t = t'"
    by (rule tool_identity_of_producing_files [OF t t']) (simp_all add: sample_tools_identity(2) h, simp add: sample_tools_def)
  with t t' show ?thesis by blast
qed

text \<open>C28. The builder of bindings accepts every well-formed candidate, and what it builds is accepted by the validator.\<close>

theorem built_binding_accepted:
  assumes "\<And>n. n \<in> set (map fst GRAPH_DEPENDENCIES) \<Longrightarrow> is_sha256 (fld (VDict idents) n)"
    and "is_hex 40 g" and "validate_lifecycle lifecycle = Inr ()" and "validate_reporting reporting = Inr ()"
    and "scopes \<noteq> []" and "\<forall>e \<in> set scopes. scope_input_ok idents manifests e"
    and "rt = VNone \<or> rt = fld (VDict idents) ''kernel-generation''"
  shows "\<exists>b. build_current_binding (VStr g) (VStr ''1.0.0'') (VDict scopes) (component_graph idents) manifests lifecycle reporting
        [(''source_git'', VStr g)] rt = Inr b \<and> validate_binding b = Inr ()"
  using build_current_binding_ok [OF assms] by (metis (no_types, lifting))

theorem built_binding_accepted_witness:
  "\<exists>b. build_current_binding (VStr sample_git) (VStr ''1.0.0'') (VDict [(''core'', sample_input)]) (component_graph sample_ids)
     (VDict [(''core-tools.json'', sample_tools sample_sha)]) sample_lifecycle sample_reporting [(''source_git'', VStr sample_git)] VNone = Inr b \<and>
     validate_binding b = Inr ()"
proof (rule built_binding_accepted)
  show "is_sha256 (fld (VDict sample_ids) n)" if "n \<in> set (map fst GRAPH_DEPENDENCIES)" for n using that by (simp add: is_sha256_iff)
  have b: "''binary'' \<in> set (map fst GRAPH_DEPENDENCIES)" by (simp add: GRAPH_DEPENDENCIES_def)
  have "scope_fields_ok sample_ids (''core'', sample_input)"
    using sample_id [OF b] by (simp add: scope_fields_ok_def sample_input_def keyset_is_def keys_def vvalues_def REPORT_BINDING_FIELDS_def is_sha256_iff SCOPE_COMPONENTS_def)
  then show "\<forall>e \<in> set [(''core'', sample_input)]. scope_input_ok sample_ids (VDict [(''core-tools.json'', sample_tools sample_sha)]) e"
    using sample_tools_identity(1) [of sample_sha] by (simp add: scope_input_ok_def)
qed (simp_all add: sample_lifecycle_ok sample_reporting_ok)

section \<open>The acceptance state\<close>



text \<open>C30. Invalidating evidence leaves an accepted state, without a checkpoint the invalidation reaches, and with the other checkpoints
  as they were.\<close>

theorem invalidation_keeps_accepted:
  assumes "invalidate contract state mode = Inr (state', removed)"
  shows "validate_state contract state' = Inr () \<and>
    (\<forall>m. fld (fld state' ''checkpoints'') m = (if m \<in> set (tbl MODE_INVALIDATION mode) then VNone else fld (fld state ''checkpoints'') m))"
proof -
  obtain affected where v: "validate_state contract state = Inr ()" and a: "map_of MODE_INVALIDATION mode = Some affected"
    and r: "removed = filter (has (fld state ''checkpoints'')) affected"
    and s': "state' = (let s1 = fold drop_checkpoint removed state in
                  if mode \<in> set BASELINE_AGGREGATES \<and> fld s1 ''baseline'' \<noteq> VNone then retire_baseline s1 else s1)"
    using assms unfolding invalidate_eq_Inr by blast
  have "is_dict state" using v by (simp add: validate_state_iff)
  then have "fld state' ''checkpoints'' = fold vdel removed (fld state ''checkpoints'')"
    unfolding s' Let_def by (simp add: drops_checkpoints)
  then show ?thesis using invalidate_valid [OF assms] a r fldd_no_has [of "fld state ''checkpoints''"] by (auto simp: vdels_fld tbl_def)
qed

theorem invalidation_keeps_accepted_witness:
  "\<exists>state'. invalidate sample_contract (promoted_state sample_git) ''core'' = Inr (state', [''core'']) \<and>
     validate_state sample_contract state' = Inr () \<and> fld state' ''baseline'' = VNone \<and> fld (fld state' ''checkpoints'') ''core'' = VNone"
proof -
  obtain state' where i: "invalidate sample_contract (promoted_state sample_git) ''core'' = Inr (state', [''core''])" "fld state' ''baseline'' = VNone"
    using promoted_invalidated by blast
  from invalidation_keeps_accepted [OF i(1)] i show ?thesis by (auto simp: tbl_def MODE_INVALIDATION_def)
qed

text \<open>C31. Rebinding to another candidate leaves an accepted state, provided that scope identities of different dependencies differ, an
  active baseline that stays belongs to the same candidate, and a summary that stays was made by the same summary code. It
  leaves a state that nothing accepts when an active baseline is kept, because no scope it rests on changed, while the
  audited source that the baseline is tied to did: a rebuilt candidate with the same dependencies and another commit.\<close>

theorem rebinding_decided:
  assumes "rebind contract state b = Inr (state', removed)" and "wf_val (fld state ''binding'')" and "wf_val b"
    and "scope_collision_free (fld state ''binding'') b"
  shows "(rebind_safe state b \<longrightarrow> validate_state contract state' = Inr ()) \<and>
    (fld state ''baseline'' \<noteq> VNone \<and> set (changed_scopes (fld state ''binding'') b) \<inter> {''frontier'', ''core'', ''product''} = {} \<and>
     audit_git (fld state ''binding'') \<noteq> audit_git b \<longrightarrow> validate_state contract state' \<noteq> Inr ())"
  using rebind_valid [OF assms] rebind_stale_baseline [OF assms(1)] by blast

theorem rebinding_decided_witness:
  "(\<exists>state'. rebind sample_contract (promoted_state sample_git) (sample_binding sample_git (tl ALL_SCOPES)) = Inr (state', [''frontier'']) \<and>
     validate_state sample_contract state' = Inr ()) \<and>
   (\<exists>state'. rebind sample_contract (promoted_state sample_git) (sample_binding other_git ALL_SCOPES) = Inr (state', []) \<and>
     validate_state sample_contract (promoted_state sample_git) = Inr () \<and> validate_state sample_contract state' \<noteq> Inr ())"
proof
  let ?s = "promoted_state sample_git" and ?b = "sample_binding sample_git (tl ALL_SCOPES)"
  obtain state' where e: "rebind sample_contract ?s ?b = Inr (state', [''frontier''])" using promoted_narrowed by blast
  have "rebind_safe ?s ?b" unfolding rebind_safe_def Let_def promoted_changes by (simp add: promoted_checkpoints)
  then show "\<exists>state'. rebind sample_contract ?s ?b = Inr (state', [''frontier'']) \<and> validate_state sample_contract state' = Inr ()"
    using rebinding_decided [OF e] e by (simp add: promoted_binding all_scopes_ok(2) core_scopes_ok(2) sample_collision_free)
next
  let ?s = "promoted_state sample_git" and ?b = "sample_binding other_git ALL_SCOPES"
  obtain state' where e: "rebind sample_contract ?s ?b = Inr (state', [])" using promoted_rebuilt by blast
  have "fld ?s ''baseline'' \<noteq> VNone" by (simp add: promoted_state_def sample_state_def sample_baseline_def)
  then have "validate_state sample_contract state' \<noteq> Inr ()"
    using rebinding_decided [OF e] by (simp add: promoted_binding all_scopes_ok(2) sample_collision_free promoted_changes(2) [unfolded promoted_binding] sample_gits)
  then show "\<exists>state'. rebind sample_contract ?s ?b = Inr (state', []) \<and>
     validate_state sample_contract ?s = Inr () \<and> validate_state sample_contract state' \<noteq> Inr ()"
    using e promoted_state_ok [OF sample_hex(2)] by blast
qed

text \<open>C32. Promotion makes the reports of the current checkpoints of core, frontier and qualification the active baseline and keeps the
  old baseline at the end of the history. The state it leaves is accepted when the candidate has no runtime identity of its own; with
  one, the candidate named in the baseline is no commit, and no operation accepts the state any more.\<close>

theorem promotion_decided:
  assumes "promote_baseline fs now contract state = (state', Inr ())" and "validate_state contract state = Inr ()"
    and "wf_val (fld state ''binding'')"
  shows "(validate_state contract state' = Inr () \<longleftrightarrow> \<not> split_runtime (fld state ''binding'')) \<and>
    (\<forall>(mode, field) \<in> set BASELINE_FIELDS.
       fld (fld state' ''baseline'') field = fld (fld (fld state ''checkpoints'') mode) ''report_sha256'') \<and>
    fld (fld state' ''baseline'') ''candidate'' = VStr (run_identity (fld state ''binding'')) \<and>
    (\<exists>old. fld state ''baseline_history'' = VList old \<and>
       fld state' ''baseline_history'' = VList (if fld state ''baseline'' = VNone then old else old @ [fld state ''baseline'']))"
proof -
  have "fld state ''schema'' = VStr STATE_SCHEMA" using assms(2) by (simp add: validate_state_iff)
  then have "validate_state contract state' = Inr () \<longleftrightarrow> \<not> split_runtime (fld state ''binding'')"
    using promote_valid [OF assms(2,1,3)] promote_split_runtime_invalid [OF assms(1)] by blast
  then show ?thesis using promote_fields(3-5) [OF assms(2,1)] by auto
qed

theorem promotion_decided_witness:
  "\<exists>plain split. promote_baseline (report_store (sample_binding sample_git ALL_SCOPES)) ''now'' suite_contract
       (stored_state (sample_binding sample_git ALL_SCOPES) BASELINE_MODES) = (plain, Inr ()) \<and> validate_state suite_contract plain = Inr () \<and>
     promote_baseline (report_store (run_binding (VStr sample_sha) sample_git ALL_SCOPES)) ''now'' suite_contract
       (stored_state (run_binding (VStr sample_sha) sample_git ALL_SCOPES) BASELINE_MODES) = (split, Inr ()) \<and>
     validate_state suite_contract split \<noteq> Inr ()"
proof -
  have m: "set BASELINE_MODES \<subseteq> set FORMAL_MODES" by (simp add: BASELINE_MODES_def FORMAL_MODES_def)
  have "\<exists>state'. promote_baseline (report_store (run_binding rt sample_git ALL_SCOPES)) ''now'' suite_contract
        (stored_state (run_binding rt sample_git ALL_SCOPES) BASELINE_MODES) = (state', Inr ()) \<and>
      (validate_state suite_contract state' = Inr () \<longleftrightarrow> rt = VNone)" if rt: "rt \<in> {VNone, VStr sample_sha}" for rt
  proof -
    obtain state' where p: "promote_baseline (report_store (run_binding rt sample_git ALL_SCOPES)) ''now'' suite_contract
        (stored_state (run_binding rt sample_git ALL_SCOPES) BASELINE_MODES) = (state', Inr ())"
      using stored_promotion [OF sample_hex(2) rt m order_refl] by blast
    show ?thesis
      using p promotion_decided [OF p stored_state_ok [OF sample_hex(2) rt m]] stored_binding_ok(2) [OF sample_hex(2) rt] by simp
  qed
  from this [of VNone] this [of "VStr sample_sha"] show ?thesis by auto
qed

text \<open>C33. Recording a report either finds it recorded already and leaves the state, or puts its digest in the checkpoint of its mode and leaves the
  others. The state is then accepted exactly when no active baseline names another report of that mode: \<open>record\<close> replaces
  the checkpoint without retiring the baseline.\<close>

theorem recording_decided:
  assumes "record_report fs repository now contract state mode report digest elapsed report_path selection = Inr (state', kind)"
    and "wf_val (fld state ''binding'')"
  shows "kind = ''reused'' \<and> state' = state \<or>
    kind = ''recorded'' \<and>
    (\<forall>m. fld (fld (fld state' ''checkpoints'') m) ''report_sha256'' =
       (if m = mode then VStr digest else fld (fld (fld state ''checkpoints'') m) ''report_sha256'')) \<and>
    (validate_state contract state' = Inr () \<longleftrightarrow> record_safe state mode digest)"
proof (cases "kind = ''recorded''")
  case True
  have "validate_state contract state = Inr ()" using record_report_eq_Inr(1) [OF assms(1)] by (auto simp: can_start_def bnd_eq_Inr)
  then have d: "is_dict state" "is_dict (fld state ''checkpoints'')" by (auto simp: validate_state_iff)
  obtain c where c: "state' = put_checkpoint mode c state" "fld c ''report_sha256'' = VStr digest"
    using record_report_eq_Inr(6) [OF assms(1)] True by (auto split: if_splits)
  have "validate_state contract state' = Inr () \<longleftrightarrow> record_safe state mode digest"
    using record_valid [OF assms] record_replaces_baseline_report [OF assms(1) [unfolded True]] by (auto simp: record_safe_def)
  then show ?thesis using True c d put_checkpoint_fields(2) [OF d(1)] by simp
next
  case False
  then show ?thesis using record_report_eq_Inr(6) [OF assms(1)] by (auto split: if_splits)
qed

theorem recording_decided_witness:
  "\<exists>state'. record_report (report_store (sample_binding sample_git ALL_SCOPES)) checkout ''now'' suite_contract
       (stored_state (sample_binding sample_git ALL_SCOPES) []) ''core'' (stored_report (sample_binding sample_git ALL_SCOPES) ''core'')
       (stored_digest (sample_binding sample_git ALL_SCOPES) ''core'') (Fin 10) (path_str (stored_path ''core'')) VNone = Inr (state', ''recorded'') \<and>
     validate_state suite_contract state' = Inr ()"
proof -
  let ?b = "sample_binding sample_git ALL_SCOPES"
  obtain state' where r: "record_report (report_store ?b) checkout ''now'' suite_contract (stored_state ?b []) ''core'' (stored_report ?b ''core'')
       (stored_digest ?b ''core'') (Fin 10) (path_str (stored_path ''core'')) VNone = Inr (state', ''recorded'')"
    using stored_recording [OF sample_hex(2), of VNone "[]"] by auto
  from recording_decided [OF r] r show ?thesis by (simp add: all_scopes_ok(2) record_safe_def)
qed

text \<open>C34. The summary that \<open>summarize\<close> writes has passed and names the audited commit; the reception of reports accepts it for the same state
  exactly when the candidate has no runtime identity of its own.\<close>

theorem summary_decided:
  assumes "summarize fs repository now contract state = Inr report"
  shows "fld report ''candidate'' = VStr (audit_git (fld state ''binding'')) \<and>
    (validate_report_for_mode contract state ''summarize'' report = Inr () \<longleftrightarrow> \<not> split_runtime (fld state ''binding''))"
proof
  obtain schema version active where
    "report = summary_of schema version active (fld state ''checkpoints'') (audit_git (fld state ''binding'')) now"
    by (rule summarize_report [OF assms])
  then show "fld report ''candidate'' = VStr (audit_git (fld state ''binding''))" by (simp add: summary_of_def)
qed (rule summary_received [OF assms])

theorem summary_decided_witness:
  "\<exists>plain split. summarize (report_store (sample_binding sample_git ALL_SCOPES)) checkout ''now'' suite_contract
       (stored_state (sample_binding sample_git ALL_SCOPES) FORMAL_MODES) = Inr plain \<and>
     validate_report_for_mode suite_contract (stored_state (sample_binding sample_git ALL_SCOPES) FORMAL_MODES) ''summarize'' plain = Inr () \<and>
     summarize (report_store (run_binding (VStr sample_sha) sample_git ALL_SCOPES)) checkout ''now'' suite_contract
       (stored_state (run_binding (VStr sample_sha) sample_git ALL_SCOPES) FORMAL_MODES) = Inr split \<and>
     validate_report_for_mode suite_contract (stored_state (run_binding (VStr sample_sha) sample_git ALL_SCOPES) FORMAL_MODES) ''summarize'' split \<noteq> Inr ()"
proof -
  have a: "set SUMMARY_AGGREGATES \<subseteq> set FORMAL_MODES" by (simp add: SUMMARY_AGGREGATES_def FORMAL_MODES_def)
  have "\<exists>report. summarize (report_store (run_binding rt sample_git ALL_SCOPES)) checkout ''now'' suite_contract
        (stored_state (run_binding rt sample_git ALL_SCOPES) FORMAL_MODES) = Inr report \<and>
      (validate_report_for_mode suite_contract (stored_state (run_binding rt sample_git ALL_SCOPES) FORMAL_MODES) ''summarize'' report = Inr ()
         \<longleftrightarrow> rt = VNone)" if rt: "rt \<in> {VNone, VStr sample_sha}" for rt
  proof -
    obtain report where r: "summarize (report_store (run_binding rt sample_git ALL_SCOPES)) checkout ''now'' suite_contract
        (stored_state (run_binding rt sample_git ALL_SCOPES) FORMAL_MODES) = Inr report"
      using stored_summary [OF sample_hex(2) rt order_refl a] by blast
    from summary_decided [OF r] r show ?thesis by simp
  qed
  from this [of VNone] this [of "VStr sample_sha"] show ?thesis by auto
qed

text \<open>C35. The lifecycle refines the board of accepted reports: every recording, invalidation, rebinding and promotion, whatever it
  answers, admits one report whose prerequisites are on the board, withdraws whole groups of dependent reports, or leaves the board.\<close>

theorem lifecycle_refines_board:
  assumes "lifecycle_step contract state state'"
  shows "board_step (board_of state) (board_of state')"
  using lifecycle_simulated [OF assms] .

theorem lifecycle_refines_board_witness:
  "\<exists>state'. lifecycle_step sample_contract (promoted_state sample_git) state' \<and> board_step (board_of (promoted_state sample_git)) (board_of state') \<and>
     ''core'' \<in> dom (board_of (promoted_state sample_git)) \<and> ''core'' \<notin> dom (board_of state')"
proof -
  obtain state' where i: "invalidate sample_contract (promoted_state sample_git) ''core'' = Inr (state', [''core''])"
    and c: "fld state' ''checkpoints'' = vdel ''core'' (fld (promoted_state sample_git) ''checkpoints'')"
    using promoted_invalidated by blast
  have step: "lifecycle_step sample_contract (promoted_state sample_git) state'" by (rule lifecycle_step.invalidated [OF i])
  from lifecycle_refines_board [OF step] step show ?thesis
    using promoted_checkpoints by (auto simp: board_of_dom c)
qed

text \<open>C36. A summary never outlives what it summarises: from any state in which a summary has its core, product and community reports beside
  it, as in a new state, every sequence of recordings, invalidations, rebindings and promotions leads to such a state.\<close>

theorem summary_supported:
  assumes "rtranclp (lifecycle_step contract) state state'" and "supported (board_of state)"
  shows "has (fld state' ''checkpoints'') ''summarize'' \<longrightarrow> (\<forall>m \<in> set SUMMARY_AGGREGATES. has (fld state' ''checkpoints'') m)"
  using lifecycle_supported [OF assms] by (auto simp: supported_def board_of_dom [symmetric])

theorem summary_supported_witness:
  "\<exists>state'. rtranclp (lifecycle_step sample_contract) summarized_state state' \<and>
     has (fld summarized_state ''checkpoints'') ''summarize'' \<and> \<not> has (fld state' ''checkpoints'') ''full'' \<and>
     \<not> has (fld state' ''checkpoints'') ''summarize''"
proof -
  obtain state' where i: "invalidate sample_contract summarized_state ''full'' = Inr (state', [''full'', ''summarize''])"
    and c: "\<not> has (fld state' ''checkpoints'') ''full''"
    using summarized_invalidated by blast
  have sup: "supported (board_of summarized_state)"
    by (auto simp: supported_def board_of_dom summarized_checkpoints SUMMARY_AGGREGATES_def)
  have "rtranclp (lifecycle_step sample_contract) summarized_state state'" using lifecycle_step.invalidated [OF i] by blast
  from this summary_supported [OF this sup] c show ?thesis
    using summarized_checkpoints by (auto simp: SUMMARY_AGGREGATES_def)
qed

section \<open>Generations on disk\<close>

text \<open>C37. The active binding is an atomic register over the files: after \<open>activate_generation\<close> returns, the loader accepts the pointer and
  the generation and reads a binding equal to the activated one; whatever made it raise, a loader reads afterwards, at
  every place, what it read before.\<close>

theorem activation_atomic:
  assumes "activate_generation stamp out binding manifests raw fs = (fs', r)" and "tree fs" and "fresh_stamp fs out stamp"
    and "plain_names manifests" and "fs_resolve fs out = out"
    and "fs_resolve fs (generation_dir out (generation_name binding manifests)) = generation_dir out (generation_name binding manifests)"
  shows "(r = Inr () \<longrightarrow> (\<exists>b. load_active_binding fs' out = Inr b \<and> py_eq b binding)) \<and>
    (r \<noteq> Inr () \<longrightarrow> (\<forall>p b. fs_dir fs (fs_resolve fs p) \<and> load_active_binding fs p = Inr b \<longrightarrow> load_active_binding fs' p = Inr b))"
proof (cases r)
  case (Inl e)
  then show ?thesis using grows_load_active failed_activation_grows [OF assms(1) [unfolded Inl] assms(2-4)] by auto
next
  case (Inr u)
  then show ?thesis using activation_makes_active [OF _ assms(2-6)] assms(1) by auto
qed

theorem activation_atomic_witness:
  "(\<exists>fs' b. activate_generation ''1'' sample_out generation_binding generation_manifests (\<lambda>_. None) (generation_store None) = (fs', Inr ()) \<and>
     load_active_binding fs' sample_out = Inr b \<and> py_eq b generation_binding) \<and>
   (\<exists>fs' e. activate_generation ''1'' sample_out (VDict []) (VDict []) (\<lambda>_. None) active_store = (fs', Inl e) \<and>
     load_active_binding fs' sample_out = Inr generation_binding)"
proof
  obtain fs' where r: "activate_generation ''1'' sample_out generation_binding generation_manifests (\<lambda>_. None) (generation_store None) = (fs', Inr ())"
    using store_activated by blast
  from activation_atomic [OF r store_tree store_fresh store_plain_names] r
  show "\<exists>fs' b. activate_generation ''1'' sample_out generation_binding generation_manifests (\<lambda>_. None) (generation_store None) = (fs', Inr ()) \<and>
     load_active_binding fs' sample_out = Inr b \<and> py_eq b generation_binding" by auto
next
  have s: "tree active_store" "fresh_stamp active_store sample_out ''1''" by (simp_all add: active_store_def store_tree store_fresh)
  have n: "plain_names (VDict [])" by (simp add: plain_names_def)
  obtain fs' e where r: "activate_generation ''1'' sample_out (VDict []) (VDict []) (\<lambda>_. None) active_store = (fs', Inl e)"
    using empty_activation_fails by blast
  have "fs_dir active_store (fs_resolve active_store sample_out)" by (simp add: active_store_def store_dirs sample_out_def)
  then show "\<exists>fs' e. activate_generation ''1'' sample_out (VDict []) (VDict []) (\<lambda>_. None) active_store = (fs', Inl e) \<and>
     load_active_binding fs' sample_out = Inr generation_binding"
    using activation_atomic [OF r s n] r active_store_loads by (auto simp: active_store_def generation_store_def)
qed

section \<open>Comparing observations of the core\<close>



text \<open>C39. A measurement that is not a number hides a regression: when every protected metric of the candidate has the value NaN, which
  the validation of the observation admits, the candidate is never rejected for a regression.\<close>

theorem frontier_ignores_nan:
  assumes "frontier_compare now contract baseline candidate calibration = Inr report" and "baseline \<noteq> VNone"
    and "\<And>m. m \<in> set (metrics_of candidate) \<Longrightarrow> truthy (fld m ''protected'') \<Longrightarrow> fld m ''value'' = VFloat NaN"
  shows "fld report ''decision'' \<noteq> VStr ''rejected_regression''"
proof -
  have "\<not> regressed (metrics_of baseline) m" if "m \<in> set (metrics_of candidate)" for m
    using nan_not_regressed compare_gain [OF assms(1,2) that] assms(3) [OF that] by (auto simp: regressed_def)
  then have "filter (regressed (metrics_of baseline)) (metrics_of candidate) = []" by (simp add: filter_empty_conv)
  then show ?thesis using report_fields(1) [OF compare_run(1) [OF assms(1,2)]] by (auto simp: decide_def)
qed

theorem frontier_ignores_nan_witness:
  "\<exists>report. frontier_compare ''now'' frontier_contract
       (sample_observation ''b'' [sample_metric ''recall'' (Fin 1) False, sample_metric ''guard'' (Fin 1) True])
       (sample_observation ''c'' [sample_metric ''recall'' (Fin 2) False, sample_metric ''guard'' NaN True]) VNone = Inr report \<and>
     fld report ''decision'' = VStr ''eligible_for_qualification'' \<and> fld report ''decision'' \<noteq> VStr ''rejected_regression''"
proof -
  let ?b = "sample_observation ''b'' [sample_metric ''recall'' (Fin 1) False, sample_metric ''guard'' (Fin 1) True]"
  let ?c = "sample_observation ''c'' [sample_metric ''recall'' (Fin 2) False, sample_metric ''guard'' NaN True]"
  obtain report where r: "frontier_compare ''now'' frontier_contract ?b ?c VNone = Inr report"
    and d: "fld report ''decision'' = VStr ''eligible_for_qualification''"
    using sample_frontier_run(1) by blast
  have "?b \<noteq> VNone" by (simp add: sample_observation_def)
  from frontier_ignores_nan [OF r this] have "fld report ''decision'' \<noteq> VStr ''rejected_regression''"
    using d by simp
  then show ?thesis using r d by blast
qed

section \<open>The scoring of product results\<close>



end
